(* ===== verification/Prelude.thy ===== *)
theory Prelude
  imports Main "HOL-Library.Word"
begin

text \<open>
  What the components share: the machine integers of the sources as words of their width, shifts
  under their Rust names, bounds of masked fields and of words read as naturals, and the fold of a
  step that may panic. The locale \<open>total_step\<close> is the contract under which such a loop does not: an
  invariant that every step on an acceptable item keeps.
\<close>

unbundle bit_operations_syntax

type_synonym u8 = "8 word"
type_synonym u16 = "16 word"
type_synonym u32 = "32 word"
type_synonym u64 = "64 word"
type_synonym i64 = "64 word"

abbreviation shl :: "'a::len word \<Rightarrow> nat \<Rightarrow> 'a word" where
  "shl x n \<equiv> push_bit n x"

abbreviation shr :: "'a::len word \<Rightarrow> nat \<Rightarrow> 'a word" where
  "shr x n \<equiv> drop_bit n x"

lemma and_mask_cases:
  fixes x :: u32
  shows "(x AND 1) \<in> {0, 1}" and "(x AND 3) \<in> {0, 1, 2, 3}" and "(x AND 7) \<in> {0, 1, 2, 3, 4, 5, 6, 7}"
proof -
  have "unat (x AND 1) < 2" "unat (x AND 3) < 4" "unat (x AND 7) < 8"
    using word_and_le1 [of x 1] word_and_le1 [of x 3] word_and_le1 [of x 7] by (simp_all add: word_le_nat_alt)
  then have "unat (x AND 1) \<in> {0, 1}" "unat (x AND 3) \<in> {0, 1, 2, 3}" "unat (x AND 7) \<in> {0, 1, 2, 3, 4, 5, 6, 7}" by auto
  then show "(x AND 1) \<in> {0, 1}" "(x AND 3) \<in> {0, 1, 2, 3}" "(x AND 7) \<in> {0, 1, 2, 3, 4, 5, 6, 7}"
   by (auto simp: word_unat_eq_iff)
qed

lemma unat_and_less: "unat k < n \<Longrightarrow> unat (x AND k) < n"
  for x k :: "'a::len word"
  using word_and_le1 [of x k] by (simp add: word_le_nat_alt ac_simps)

lemma unat_lt: "unat w < 2 ^ LENGTH('a)" for w :: "'a::len word"
  by (rule unsigned_less)

lemma unat_bounds: "unat (p :: u64) < 2 ^ 64" "unat (w :: u32) < 2 ^ 32" "unat (c :: u16) < 2 ^ 16"
  using unat_lt [of p] unat_lt [of w] unat_lt [of c] by simp_all

section \<open>Loops that may panic\<close>

fun fold_opt :: "('s \<Rightarrow> 'i \<Rightarrow> 's option) \<Rightarrow> 's \<Rightarrow> 'i list \<Rightarrow> 's option" where
  "fold_opt step s [] = Some s"
| "fold_opt step s (i # is) = (case step s i of None \<Rightarrow> None | Some s' \<Rightarrow> fold_opt step s' is)"

lemma fold_opt_append:
  "fold_opt f s (xs @ ys) = (case fold_opt f s xs of None \<Rightarrow> None | Some s' \<Rightarrow> fold_opt f s' ys)"
  by (induction xs arbitrary: s) (simp_all split: option.split)

locale total_step =
  fixes step :: "'s \<Rightarrow> 'i \<Rightarrow> 's option" and inv :: "'s \<Rightarrow> bool" and ok :: "'i \<Rightarrow> bool"
  assumes step_total: "inv s \<Longrightarrow> ok i \<Longrightarrow> \<exists>s'. step s i = Some s' \<and> inv s'"
begin

lemma fold_total: "inv s \<Longrightarrow> list_all ok is \<Longrightarrow> \<exists>s'. fold_opt step s is = Some s' \<and> inv s'"
proof (induction "is" arbitrary: s)
  case (Cons i "is")
  then obtain s' where "step s i = Some s'" "inv s'" using step_total [of s i] by auto
  with Cons show ?case by simp
qed simp

end

end
