(* ===== verification/Or_Linear.thy ===== *)
theory Or_Linear
  imports Prelude
begin

text \<open>
  Bit rearrangements. Expanding a compressed instruction moves bits of the parcel to other
  positions and adds constant bits, with shifts, masks, ORs and Verilog concatenations. Every
  such function commutes with OR, so it is determined by its values on the single bits, and the
  list of its values on a block of parcels is generated from the values of its lowest parcel and
  of the single bits. The locale states that contract; the intro rules in \<open>or_linear_intros\<close>
  discharge it for the operators the two expanders use.
\<close>

named_theorems or_linear_intros

locale or_linear =
  fixes F :: "'a::len word \<Rightarrow> 'b::len word"
  assumes or_hom: "F (x OR y) = F x OR F y"

text \<open>All the words obtained from \<open>a\<close> by setting any of the bits \<open>ps\<close>, the last one fastest.\<close>

fun spread :: "'a::len word list \<Rightarrow> 'a word \<Rightarrow> 'a word list" where
  "spread [] a = [a]"
| "spread (p # ps) a = spread ps a @ spread ps (a OR p)"

context or_linear
begin

lemma map_spread: "map F (spread ps a) = spread (map F ps) (F a)"
  by (induction ps arbitrary: a) (simp_all add: or_hom)

end

lemma take_bit_Suc_or:
  "take_bit (Suc n) (x :: 'a::len word) = take_bit n x OR (if bit x n then 2 ^ n else 0)"
  by (rule bit_eqI) (auto simp: bit_simps less_Suc_eq)

locale or_linear_pair = F: or_linear F + G: or_linear G
  for F G :: "'a::len word \<Rightarrow> 'b::len word"
begin

lemma agree_on_bits:
  assumes zero: "F 0 = G 0" and bits: "\<And>i. i < n \<Longrightarrow> F (2 ^ i) = G (2 ^ i)"
  shows "F (take_bit n x) = G (take_bit n x)"
  using bits
proof (induction n)
  case 0
  then show ?case by (simp add: zero)
next
  case (Suc n)
  then have "F (take_bit n x) = G (take_bit n x)" and "F (2 ^ n) = G (2 ^ n)"
    by simp_all
  then show ?case
    by (simp add: take_bit_Suc_or F.or_hom G.or_hom zero)
qed

lemma agree_on_zero:
  assumes zero: "F 0 = 0" "G 0 = 0" and bits: "\<And>i. i < n \<Longrightarrow> F (2 ^ i) = 0 \<longleftrightarrow> G (2 ^ i) = 0"
  shows "F (take_bit n x) = 0 \<longleftrightarrow> G (take_bit n x) = 0"
  using bits
proof (induction n)
  case 0
  then show ?case by (simp add: zero)
next
  case (Suc n)
  then have "F (take_bit n x) = 0 \<longleftrightarrow> G (take_bit n x) = 0" and "F (2 ^ n) = 0 \<longleftrightarrow> G (2 ^ n) = 0"
    by simp_all
  then show ?case
    by (simp add: take_bit_Suc_or F.or_hom G.or_hom zero or_eq_0_iff)
qed

end

text \<open>The same for functions of a 16-bit parcel, as rules that leave sixteen evaluations.\<close>

definition pow16 :: "u16 list" where
  "pow16 = map (\<lambda>i. 2 ^ i) [0..<16]"

lemma pow16_eq:
  "pow16 = [1, 2, 4, 8, 0x10, 0x20, 0x40, 0x80, 0x100, 0x200, 0x400, 0x800, 0x1000, 0x2000,
            0x4000, 0x8000]"
  by (simp add: pow16_def upt_conv_Cons)

lemma list_all_pow16: "list_all P pow16 \<longleftrightarrow> (\<forall>i < 16. P (2 ^ i))"
  by (auto simp: pow16_def list_all_iff)

lemma take_16_u16: "take_bit 16 (c :: u16) = c"
  by (rule take_bit_word_eq_self) simp

lemma or_linear_ext:
  fixes F G :: "u16 \<Rightarrow> 'b::len word"
  assumes "or_linear F" "or_linear G" "F 0 = G 0" "list_all (\<lambda>p. F p = G p) pow16"
  shows "F = G"
proof
  fix c
  have pair: "or_linear_pair F G" using assms(1,2) by (simp add: or_linear_pair_def)
  have bits: "F (2 ^ i) = G (2 ^ i)" if "i < 16" for i
    using that assms(4) by (simp add: list_all_pow16)
  have "F (take_bit 16 c) = G (take_bit 16 c)"
    by (rule or_linear_pair.agree_on_bits [OF pair assms(3) bits])
  then show "F c = G c" by (simp only: take_16_u16)
qed

lemma or_linear_zero_iff:
  fixes F G :: "u16 \<Rightarrow> 'b::len word"
  assumes "or_linear F" "or_linear G" "F 0 = 0" "G 0 = 0"
    "list_all (\<lambda>p. F p = 0 \<longleftrightarrow> G p = 0) pow16"
  shows "(\<lambda>c. F c = 0) = (\<lambda>c. G c = 0)"
proof
  fix c
  have pair: "or_linear_pair F G" using assms(1,2) by (simp add: or_linear_pair_def)
  have bits: "F (2 ^ i) = 0 \<longleftrightarrow> G (2 ^ i) = 0" if "i < 16" for i
    using that assms(5) by (simp add: list_all_pow16)
  have "F (take_bit 16 c) = 0 \<longleftrightarrow> G (take_bit 16 c) = 0"
    by (rule or_linear_pair.agree_on_zero [OF pair assms(3,4) bits])
  then show "(F c = 0) = (G c = 0)" by (simp only: take_16_u16)
qed

lemma or_linear_id [or_linear_intros]: "or_linear (\<lambda>x. x)"
  by unfold_locales simp

lemma or_linear_const [or_linear_intros]: "or_linear (\<lambda>x. k)"
  by unfold_locales simp

lemma or_linear_compose: "or_linear f \<Longrightarrow> or_linear g \<Longrightarrow> or_linear (\<lambda>x. f (g x))"
  by (simp add: or_linear_def)

lemma or_linear_or [or_linear_intros]:
  "or_linear f \<Longrightarrow> or_linear g \<Longrightarrow> or_linear (\<lambda>x. f x OR g x)"
  by (simp add: or_linear_def or.assoc or.left_commute)

lemma or_linear_and [or_linear_intros]: "or_linear f \<Longrightarrow> or_linear (\<lambda>x. f x AND k)"
  by (simp add: or_linear_def bit.conj_disj_distrib2)

lemma or_linear_shl [or_linear_intros]: "or_linear f \<Longrightarrow> or_linear (\<lambda>x. shl (f x) n)"
  by (simp add: or_linear_def push_bit_or)

lemma or_linear_shr [or_linear_intros]: "or_linear f \<Longrightarrow> or_linear (\<lambda>x. shr (f x) n)"
  by (simp add: or_linear_def drop_bit_or)

lemma or_linear_take_bit [or_linear_intros]: "or_linear f \<Longrightarrow> or_linear (\<lambda>x. take_bit n (f x))"
  by (simp add: or_linear_def take_bit_or)

lemma or_linear_ucast [or_linear_intros]: "or_linear f \<Longrightarrow> or_linear (\<lambda>x. ucast (f x))"
  by (simp add: or_linear_def unsigned_or_eq)

lemma or_linear_scast [or_linear_intros]: "or_linear f \<Longrightarrow> or_linear (\<lambda>x. scast (f x))"
  by (simp add: or_linear_def signed_or_eq)

text \<open>A word whose bit \<open>n\<close> decides: the sign extensions of both expanders.\<close>

lemma and_pow2: "x AND 2 ^ n = (if bit x n then 2 ^ n else 0)"
  for x :: "'a::len word"
  by (rule bit_eqI) (auto simp: bit_simps)

lemma and_0x1000: "(x AND 0x1000 = 0x1000) \<longleftrightarrow> bit x 12"
  for x :: u32
  using and_pow2 [of x 12] by simp

lemma or_linear_if_bit [or_linear_intros]:
  "or_linear f \<Longrightarrow> or_linear (\<lambda>x. if bit (f x) n then k else 0)"
  by (auto simp: or_linear_def bit_or_iff)

lemma or_linear_if_0x1000 [or_linear_intros]:
  fixes f :: "'a::len word \<Rightarrow> u32"
  shows "or_linear f \<Longrightarrow> or_linear (\<lambda>x. if f x AND 0x1000 = 0x1000 then k else 0)"
  by (simp add: and_0x1000 or_linear_if_bit)

text \<open>Adding 8 to a 3-bit register field sets its bit 3.\<close>

lemma and7_add8: "(x AND 7) + 8 = (x AND 7) OR 8"
  for x :: u32
  by (rule disjunctive_add_eq_or) (simp add: and.assoc)

lemma or_linear_and7_add8 [or_linear_intros]:
  fixes f :: "'a::len word \<Rightarrow> u32"
  shows "or_linear f \<Longrightarrow> or_linear (\<lambda>x. (f x AND 7) + 8)"
  by (simp add: and7_add8 or_linear_intros)

end
