(* ===== verification/RVC.thy ===== *)
theory RVC
  imports Or_Linear
begin

text \<open>
  The reference expander of tools/rvc.rs: \<open>uncompress\<close> turns a 16-bit compressed parcel into the
  32-bit instruction it stands for, 0 for a reserved encoding. One definition per arm of the
  function's nested matches, named after the instruction the arm's comment names, then the
  matches themselves. A value is Rust's \<open>u32\<close>, so shifts drop what leaves the word. The arms
  marked \<open>unreachable!()\<close> panic: \<open>None\<close> in the model.
\<close>

section \<open>Quadrant 0\<close>

definition addi4spn_nzuimm :: "u32 \<Rightarrow> u32" where
  "addi4spn_nzuimm insn16 =
     (shr insn16 7 AND 0x30) OR (shr insn16 1 AND 0x3c0) OR (shr insn16 4 AND 4)
       OR (shr insn16 2 AND 8)"

definition c_addi4spn :: "u32 \<Rightarrow> u32" where
  "c_addi4spn insn16 =
     (let rd = shr insn16 2 AND 7; nzuimm = addi4spn_nzuimm insn16
      in if nzuimm = 0 then 0
         else shl nzuimm 20 OR shl 2 15 OR shl (rd + 8) 7 OR 0x13)"

definition c_fld :: "u32 \<Rightarrow> u32" where
  "c_fld insn16 =
     (let rd = shr insn16 2 AND 7; rs1 = shr insn16 7 AND 7;
          offset = (shr insn16 7 AND 0x38) OR (shl insn16 1 AND 0xc0)
      in shl offset 20 OR shl (rs1 + 8) 15 OR shl 3 12 OR shl (rd + 8) 7 OR 7)"

definition c_lw :: "u32 \<Rightarrow> u32" where
  "c_lw insn16 =
     (let rs1 = shr insn16 7 AND 7; rd = shr insn16 2 AND 7;
          offset = (shr insn16 7 AND 0x38) OR (shr insn16 4 AND 4) OR (shl insn16 1 AND 0x40)
      in shl offset 20 OR shl (rs1 + 8) 15 OR shl 2 12 OR shl (rd + 8) 7 OR 3)"

definition c_ld :: "u32 \<Rightarrow> u32" where
  "c_ld insn16 =
     (let rs1 = shr insn16 7 AND 7; rd = shr insn16 2 AND 7;
          offset = (shr insn16 7 AND 0x38) OR (shl insn16 1 AND 0xc0)
      in shl offset 20 OR shl (rs1 + 8) 15 OR shl 3 12 OR shl (rd + 8) 7 OR 3)"

definition c_fsd :: "u32 \<Rightarrow> u32" where
  "c_fsd insn16 =
     (let rs1 = shr insn16 7 AND 7; rs2 = shr insn16 2 AND 7;
          offset = (shr insn16 7 AND 0x38) OR (shl insn16 1 AND 0xc0);
          imm11_5 = shr offset 5 AND 0x7f; imm4_0 = offset AND 0x1f
      in shl imm11_5 25 OR shl (rs2 + 8) 20 OR shl (rs1 + 8) 15 OR shl 3 12
           OR shl imm4_0 7 OR 0x27)"

definition c_sw :: "u32 \<Rightarrow> u32" where
  "c_sw insn16 =
     (let rs1 = shr insn16 7 AND 7; rs2 = shr insn16 2 AND 7;
          offset = (shr insn16 7 AND 0x38) OR (shl insn16 1 AND 0x40) OR (shr insn16 4 AND 4);
          imm11_5 = shr offset 5 AND 0x7f; imm4_0 = offset AND 0x1f
      in shl imm11_5 25 OR shl (rs2 + 8) 20 OR shl (rs1 + 8) 15 OR shl 2 12
           OR shl imm4_0 7 OR 0x23)"

definition c_sd :: "u32 \<Rightarrow> u32" where
  "c_sd insn16 =
     (let rs1 = shr insn16 7 AND 7; rs2 = shr insn16 2 AND 7;
          offset = (shr insn16 7 AND 0x38) OR (shl insn16 1 AND 0xc0);
          imm11_5 = shr offset 5 AND 0x7f; imm4_0 = offset AND 0x1f
      in shl imm11_5 25 OR shl (rs2 + 8) 20 OR shl (rs1 + 8) 15 OR shl 3 12
           OR shl imm4_0 7 OR 0x23)"

definition uncompress_q0 :: "u32 \<Rightarrow> u32 \<Rightarrow> u32 option" where
  "uncompress_q0 insn16 funct3 =
    (if funct3 = 0 then Some (c_addi4spn insn16)
     else if funct3 = 1 then Some (c_fld insn16)
     else if funct3 = 2 then Some (c_lw insn16)
     else if funct3 = 3 then Some (c_ld insn16)
     else if funct3 = 4 then Some 0
     else if funct3 = 5 then Some (c_fsd insn16)
     else if funct3 = 6 then Some (c_sw insn16)
     else if funct3 = 7 then Some (c_sd insn16)
     else None)"

section \<open>Quadrant 1\<close>

text \<open>The sign-extended 6-bit immediate that C.ADDI, C.ADDIW, C.LI and C.ANDI each compute.\<close>

definition ci_imm :: "u32 \<Rightarrow> u32" where
  "ci_imm insn16 =
     (if insn16 AND 0x1000 = 0x1000 then 0xffffffc0 else 0)
       OR (shr insn16 7 AND 0x20) OR (shr insn16 2 AND 0x1f)"

definition c_addi :: "u32 \<Rightarrow> u32" where
  "c_addi insn16 =
     (let r = shr insn16 7 AND 0x1f; imm = ci_imm insn16
      in shl imm 20 OR shl r 15 OR shl r 7 OR 0x13)"

definition c_addiw :: "u32 \<Rightarrow> u32" where
  "c_addiw insn16 =
     (let r = shr insn16 7 AND 0x1f; imm = ci_imm insn16
      in if r = 0 then 0 else shl imm 20 OR shl r 15 OR shl r 7 OR 0x1b)"

definition c_li :: "u32 \<Rightarrow> u32" where
  "c_li insn16 =
     (let r = shr insn16 7 AND 0x1f; imm = ci_imm insn16
      in shl imm 20 OR shl r 7 OR 0x13)"

definition addi16sp_imm :: "u32 \<Rightarrow> u32" where
  "addi16sp_imm insn16 =
     (if insn16 AND 0x1000 = 0x1000 then 0xfffffc00 else 0)
       OR (shr insn16 3 AND 0x200) OR (shr insn16 2 AND 0x10) OR (shl insn16 1 AND 0x40)
       OR (shl insn16 4 AND 0x180) OR (shl insn16 3 AND 0x20)"

definition lui_nzimm :: "u32 \<Rightarrow> u32" where
  "lui_nzimm insn16 =
     (if insn16 AND 0x1000 = 0x1000 then 0xfffc0000 else 0)
       OR (shl insn16 5 AND 0x20000) OR (shl insn16 10 AND 0x1f000)"

definition c_lui_addi16sp :: "u32 \<Rightarrow> u32" where
  "c_lui_addi16sp insn16 =
     (let rd = shr insn16 7 AND 0x1f
      in if rd = 2 then
           (let imm = addi16sp_imm insn16
            in if imm = 0 then 0 else shl imm 20 OR shl rd 15 OR shl rd 7 OR 0x13)
         else
           (let nzimm = lui_nzimm insn16
            in if nzimm = 0 then 0 else nzimm OR shl rd 7 OR 0x37))"

text \<open>The shift amount of C.SRLI, C.SRAI and C.SLLI.\<close>

definition c_shamt :: "u32 \<Rightarrow> u32" where
  "c_shamt insn16 = (shr insn16 7 AND 0x20) OR (shr insn16 2 AND 0x1f)"

definition c_srli :: "u32 \<Rightarrow> u32" where
  "c_srli insn16 =
     (let shamt = c_shamt insn16; rs1 = shr insn16 7 AND 7
      in shl shamt 20 OR shl (rs1 + 8) 15 OR shl 5 12 OR shl (rs1 + 8) 7 OR 0x13)"

definition c_srai :: "u32 \<Rightarrow> u32" where
  "c_srai insn16 =
     (let shamt = c_shamt insn16; rs1 = shr insn16 7 AND 7
      in shl 0x20 25 OR shl shamt 20 OR shl (rs1 + 8) 15 OR shl 5 12
           OR shl (rs1 + 8) 7 OR 0x13)"

definition c_andi :: "u32 \<Rightarrow> u32" where
  "c_andi insn16 =
     (let r = shr insn16 7 AND 7; imm = ci_imm insn16
      in shl imm 20 OR shl (r + 8) 15 OR shl 7 12 OR shl (r + 8) 7 OR 0x13)"

definition c_sub :: "u32 \<Rightarrow> u32" where
  "c_sub insn16 =
     (let rs1 = shr insn16 7 AND 7; rs2 = shr insn16 2 AND 7
      in shl 0x20 25 OR shl (rs2 + 8) 20 OR shl (rs1 + 8) 15 OR shl (rs1 + 8) 7 OR 0x33)"

definition c_xor :: "u32 \<Rightarrow> u32" where
  "c_xor insn16 =
     (let rs1 = shr insn16 7 AND 7; rs2 = shr insn16 2 AND 7
      in shl (rs2 + 8) 20 OR shl (rs1 + 8) 15 OR shl 4 12 OR shl (rs1 + 8) 7 OR 0x33)"

definition c_or :: "u32 \<Rightarrow> u32" where
  "c_or insn16 =
     (let rs1 = shr insn16 7 AND 7; rs2 = shr insn16 2 AND 7
      in shl (rs2 + 8) 20 OR shl (rs1 + 8) 15 OR shl 6 12 OR shl (rs1 + 8) 7 OR 0x33)"

definition c_and :: "u32 \<Rightarrow> u32" where
  "c_and insn16 =
     (let rs1 = shr insn16 7 AND 7; rs2 = shr insn16 2 AND 7
      in shl (rs2 + 8) 20 OR shl (rs1 + 8) 15 OR shl 7 12 OR shl (rs1 + 8) 7 OR 0x33)"

definition c_subw :: "u32 \<Rightarrow> u32" where
  "c_subw insn16 =
     (let rs1 = shr insn16 7 AND 7; rs2 = shr insn16 2 AND 7
      in shl 0x20 25 OR shl (rs2 + 8) 20 OR shl (rs1 + 8) 15 OR shl (rs1 + 8) 7 OR 0x3b)"

definition c_addw :: "u32 \<Rightarrow> u32" where
  "c_addw insn16 =
     (let rs1 = shr insn16 7 AND 7; rs2 = shr insn16 2 AND 7
      in shl (rs2 + 8) 20 OR shl (rs1 + 8) 15 OR shl (rs1 + 8) 7 OR 0x3b)"

definition uncompress_alu :: "u32 \<Rightarrow> u32 option" where
  "uncompress_alu insn16 =
    (let funct2 = shr insn16 10 AND 3
     in if funct2 = 0 then Some (c_srli insn16)
        else if funct2 = 1 then Some (c_srai insn16)
        else if funct2 = 2 then Some (c_andi insn16)
        else if funct2 = 3 then
          (let funct1 = shr insn16 12 AND 1; funct2_2 = shr insn16 5 AND 3
           in if funct1 = 0 then
                (if funct2_2 = 0 then Some (c_sub insn16)
                 else if funct2_2 = 1 then Some (c_xor insn16)
                 else if funct2_2 = 2 then Some (c_or insn16)
                 else if funct2_2 = 3 then Some (c_and insn16)
                 else None)
              else if funct1 = 1 then
                (if funct2_2 = 0 then Some (c_subw insn16)
                 else if funct2_2 = 1 then Some (c_addw insn16)
                 else if funct2_2 = 2 \<or> funct2_2 = 3 then Some 0
                 else None)
              else None)
        else None)"

definition cj_offset :: "u32 \<Rightarrow> u32" where
  "cj_offset insn16 =
     (if insn16 AND 0x1000 = 0x1000 then 0xfffff000 else 0)
       OR (shr insn16 1 AND 0x800) OR (shr insn16 7 AND 0x10) OR (shr insn16 1 AND 0x300)
       OR (shl insn16 2 AND 0x400) OR (shr insn16 1 AND 0x40) OR (shl insn16 1 AND 0x80)
       OR (shr insn16 2 AND 0xe) OR (shl insn16 3 AND 0x20)"

definition c_j :: "u32 \<Rightarrow> u32" where
  "c_j insn16 =
     (let offset = cj_offset insn16;
          imm = (shr offset 1 AND 0x80000) OR (shl offset 8 AND 0x7fe00)
            OR (shr offset 3 AND 0x100) OR (shr offset 12 AND 0xff)
      in shl imm 12 OR 0x6f)"

text \<open>The sign-extended branch offset that C.BEQZ and C.BNEZ each compute.\<close>

definition cb_offset :: "u32 \<Rightarrow> u32" where
  "cb_offset insn16 =
     (if insn16 AND 0x1000 = 0x1000 then 0xfffffe00 else 0)
       OR (shr insn16 4 AND 0x100) OR (shr insn16 7 AND 0x18) OR (shl insn16 1 AND 0xc0)
       OR (shr insn16 2 AND 6) OR (shl insn16 3 AND 0x20)"

definition c_beqz :: "u32 \<Rightarrow> u32" where
  "c_beqz insn16 =
     (let r = shr insn16 7 AND 7; offset = cb_offset insn16;
          imm2 = (shr offset 6 AND 0x40) OR (shr offset 5 AND 0x3f);
          imm1 = (offset AND 0x1e) OR (shr offset 11 AND 1)
      in shl imm2 25 OR shl (r + 8) 15 OR shl imm1 7 OR 0x63)"

definition c_bnez :: "u32 \<Rightarrow> u32" where
  "c_bnez insn16 =
     (let r = shr insn16 7 AND 7; offset = cb_offset insn16;
          imm2 = (shr offset 6 AND 0x40) OR (shr offset 5 AND 0x3f);
          imm1 = (offset AND 0x1e) OR (shr offset 11 AND 1)
      in shl imm2 25 OR shl (r + 8) 15 OR shl 1 12 OR shl imm1 7 OR 0x63)"

definition uncompress_q1 :: "u32 \<Rightarrow> u32 \<Rightarrow> u32 option" where
  "uncompress_q1 insn16 funct3 =
    (if funct3 = 0 then Some (c_addi insn16)
     else if funct3 = 1 then Some (c_addiw insn16)
     else if funct3 = 2 then Some (c_li insn16)
     else if funct3 = 3 then Some (c_lui_addi16sp insn16)
     else if funct3 = 4 then uncompress_alu insn16
     else if funct3 = 5 then Some (c_j insn16)
     else if funct3 = 6 then Some (c_beqz insn16)
     else if funct3 = 7 then Some (c_bnez insn16)
     else None)"

section \<open>Quadrant 2\<close>

definition c_slli :: "u32 \<Rightarrow> u32" where
  "c_slli insn16 =
     (let r = shr insn16 7 AND 0x1f; shamt = c_shamt insn16
      in shl shamt 20 OR shl r 15 OR shl 1 12 OR shl r 7 OR 0x13)"

definition c_fldsp :: "u32 \<Rightarrow> u32" where
  "c_fldsp insn16 =
     (let rd = shr insn16 7 AND 0x1f;
          offset = (shr insn16 7 AND 0x20) OR (shr insn16 2 AND 0x18) OR (shl insn16 4 AND 0x1c0)
      in shl offset 20 OR shl 2 15 OR shl 3 12 OR shl rd 7 OR 7)"

definition c_lwsp :: "u32 \<Rightarrow> u32" where
  "c_lwsp insn16 =
     (let r = shr insn16 7 AND 0x1f;
          offset = (shr insn16 7 AND 0x20) OR (shr insn16 2 AND 0x1c) OR (shl insn16 4 AND 0xc0)
      in if r = 0 then 0
         else shl offset 20 OR shl 2 15 OR shl 2 12 OR shl r 7 OR 3)"

definition c_ldsp :: "u32 \<Rightarrow> u32" where
  "c_ldsp insn16 =
     (let rd = shr insn16 7 AND 0x1f;
          offset = (shr insn16 7 AND 0x20) OR (shr insn16 2 AND 0x18) OR (shl insn16 4 AND 0x1c0)
      in if rd = 0 then 0
         else shl offset 20 OR shl 2 15 OR shl 3 12 OR shl rd 7 OR 3)"

definition uncompress_jr_mv_add :: "u32 \<Rightarrow> u32 option" where
  "uncompress_jr_mv_add insn16 =
     (let funct1 = shr insn16 12 AND 1; rs1 = shr insn16 7 AND 0x1f; rs2 = shr insn16 2 AND 0x1f
      in if funct1 = 0 then
           (if rs1 = 0 \<and> rs2 = 0 then Some 0
            else if rs2 = 0 then Some (shl rs1 15 OR 0x67)
            else Some (shl rs2 20 OR shl rs1 7 OR 0x33))
         else if funct1 = 1 then
           (if rs1 = 0 \<and> rs2 = 0 then Some 0x00100073
            else if rs1 \<noteq> 0 \<and> rs2 = 0 then Some (shl rs1 15 OR shl 1 7 OR 0x67)
            else Some (shl rs2 20 OR shl rs1 15 OR shl rs1 7 OR 0x33))
         else None)"

definition c_fsdsp :: "u32 \<Rightarrow> u32" where
  "c_fsdsp insn16 =
     (let rs2 = shr insn16 2 AND 0x1f;
          offset = (shr insn16 7 AND 0x38) OR (shr insn16 1 AND 0x1c0);
          imm11_5 = shr offset 5 AND 0x3f; imm4_0 = offset AND 0x1f
      in shl imm11_5 25 OR shl rs2 20 OR shl 2 15 OR shl 3 12 OR shl imm4_0 7 OR 0x27)"

definition c_swsp :: "u32 \<Rightarrow> u32" where
  "c_swsp insn16 =
     (let rs2 = shr insn16 2 AND 0x1f;
          offset = (shr insn16 7 AND 0x3c) OR (shr insn16 1 AND 0xc0);
          imm11_5 = shr offset 5 AND 0x3f; imm4_0 = offset AND 0x1f
      in shl imm11_5 25 OR shl rs2 20 OR shl 2 15 OR shl 2 12 OR shl imm4_0 7 OR 0x23)"

definition c_sdsp :: "u32 \<Rightarrow> u32" where
  "c_sdsp insn16 =
     (let rs2 = shr insn16 2 AND 0x1f;
          offset = (shr insn16 7 AND 0x38) OR (shr insn16 1 AND 0x1c0);
          imm11_5 = shr offset 5 AND 0x3f; imm4_0 = offset AND 0x1f
      in shl imm11_5 25 OR shl rs2 20 OR shl 2 15 OR shl 3 12 OR shl imm4_0 7 OR 0x23)"

definition uncompress_q2 :: "u32 \<Rightarrow> u32 \<Rightarrow> u32 option" where
  "uncompress_q2 insn16 funct3 =
    (if funct3 = 0 then Some (c_slli insn16)
     else if funct3 = 1 then Some (c_fldsp insn16)
     else if funct3 = 2 then Some (c_lwsp insn16)
     else if funct3 = 3 then Some (c_ldsp insn16)
     else if funct3 = 4 then uncompress_jr_mv_add insn16
     else if funct3 = 5 then Some (c_fsdsp insn16)
     else if funct3 = 6 then Some (c_swsp insn16)
     else if funct3 = 7 then Some (c_sdsp insn16)
     else None)"

section \<open>The expander\<close>

definition uncompress :: "u32 \<Rightarrow> u32 option" where
  "uncompress insn16 =
    (let funct3 = shr insn16 13 AND 7
     in if insn16 AND 3 = 0 then uncompress_q0 insn16 funct3
        else if insn16 AND 3 = 1 then uncompress_q1 insn16 funct3
        else if insn16 AND 3 = 2 then uncompress_q2 insn16 funct3
        else None)"

lemmas uncompress_arm_defs =
  c_addi4spn_def c_fld_def c_lw_def c_ld_def c_fsd_def c_sw_def c_sd_def
  c_addi_def c_addiw_def c_li_def c_lui_addi16sp_def c_srli_def c_srai_def c_andi_def
  c_sub_def c_xor_def c_or_def c_and_def c_subw_def c_addw_def c_j_def c_beqz_def c_bnez_def
  c_slli_def c_fldsp_def c_lwsp_def c_ldsp_def c_fsdsp_def c_swsp_def c_sdsp_def
  addi4spn_nzuimm_def ci_imm_def addi16sp_imm_def lui_nzimm_def c_shamt_def cj_offset_def
  cb_offset_def

lemmas uncompress_match_defs =
  uncompress_def uncompress_q0_def uncompress_q1_def uncompress_q2_def uncompress_alu_def
  uncompress_jr_mv_add_def

end
