(* ===== verification/RVC_Expand.thy ===== *)
theory RVC_Expand
  imports RVC
begin

text \<open>
  The core's own expander, the combinational module of src/src/rvc_expand.v. Verilog vectors are
  words read at the widths the module gives them: \<open>vbits x h l\<close> is the part select \<open>x[h:l]\<close>,
  \<open>vcat\<close> the concatenation of parts with their widths, leftmost first, and \<open>vrep n b\<close> the
  replication \<open>{n{b}}\<close> of one bit.
\<close>

definition vbits :: "'a::len word \<Rightarrow> nat \<Rightarrow> nat \<Rightarrow> u32" where
  "vbits x h l = shr (ucast x) l AND mask (Suc h - l)"

fun vcat_from :: "u32 \<Rightarrow> (nat \<times> u32) list \<Rightarrow> u32" where
  "vcat_from acc [] = acc"
| "vcat_from acc ((w, v) # ps) = vcat_from (shl acc w OR (v AND mask w)) ps"

definition vcat :: "(nat \<times> u32) list \<Rightarrow> u32" where
  "vcat ps = vcat_from 0 ps"

definition vrep :: "nat \<Rightarrow> u32 \<Rightarrow> u32" where
  "vrep n b = (if bit b 0 then mask n else 0)"

abbreviation (input) OPIMM :: u32 where "OPIMM \<equiv> 0x13"
abbreviation (input) OP :: u32 where "OP \<equiv> 0x33"
abbreviation (input) OPIMM32 :: u32 where "OPIMM32 \<equiv> 0x1b"
abbreviation (input) OP32 :: u32 where "OP32 \<equiv> 0x3b"
abbreviation (input) LOAD :: u32 where "LOAD \<equiv> 0x03"
abbreviation (input) STORE :: u32 where "STORE \<equiv> 0x23"
abbreviation (input) LOADFP :: u32 where "LOADFP \<equiv> 0x07"
abbreviation (input) STOREFP :: u32 where "STOREFP \<equiv> 0x27"
abbreviation (input) LUI :: u32 where "LUI \<equiv> 0x37"
abbreviation (input) JAL :: u32 where "JAL \<equiv> 0x6f"
abbreviation (input) JALR :: u32 where "JALR \<equiv> 0x67"
abbreviation (input) BRANCH :: u32 where "BRANCH \<equiv> 0x63"

definition Itype :: "u32 \<Rightarrow> u32 \<Rightarrow> u32 \<Rightarrow> u32 \<Rightarrow> u32 \<Rightarrow> u32" where
  "Itype imm rs1 f3 rd op = vcat [(12, vbits imm 11 0), (5, rs1), (3, f3), (5, rd), (7, op)]"

definition Stype :: "u32 \<Rightarrow> u32 \<Rightarrow> u32 \<Rightarrow> u32 \<Rightarrow> u32 \<Rightarrow> u32" where
  "Stype imm rs2 rs1 f3 op =
     vcat [(7, vbits imm 11 5), (5, rs2), (5, rs1), (3, f3), (5, vbits imm 4 0), (7, op)]"

definition Btype :: "u32 \<Rightarrow> u32 \<Rightarrow> u32 \<Rightarrow> u32 \<Rightarrow> u32 \<Rightarrow> u32" where
  "Btype imm rs2 rs1 f3 op =
     vcat [(1, vbits imm 12 12), (6, vbits imm 10 5), (5, rs2), (5, rs1), (3, f3),
           (4, vbits imm 4 1), (1, vbits imm 11 11), (7, op)]"

definition Utype :: "u32 \<Rightarrow> u32 \<Rightarrow> u32 \<Rightarrow> u32" where
  "Utype imm rd op = vcat [(20, vbits imm 31 12), (5, rd), (7, op)]"

definition Jtype :: "u32 \<Rightarrow> u32 \<Rightarrow> u32 \<Rightarrow> u32" where
  "Jtype imm rd op =
     vcat [(1, vbits imm 20 20), (10, vbits imm 10 1), (1, vbits imm 11 11),
           (8, vbits imm 19 12), (5, rd), (7, op)]"

definition Rtype :: "u32 \<Rightarrow> u32 \<Rightarrow> u32 \<Rightarrow> u32 \<Rightarrow> u32 \<Rightarrow> u32 \<Rightarrow> u32" where
  "Rtype f7 rs2 rs1 f3 rd op = vcat [(7, f7), (5, rs2), (5, rs1), (3, f3), (5, rd), (7, op)]"

text \<open>Register fields of the parcel.\<close>

definition p_rd :: "u16 \<Rightarrow> u32" where "p_rd c = vbits c 11 7"
definition p_rs2 :: "u16 \<Rightarrow> u32" where "p_rs2 c = vbits c 6 2"
definition rs1p :: "u16 \<Rightarrow> u32" where "rs1p c = vcat [(2, 1), (3, vbits c 9 7)]"
definition rdsp :: "u16 \<Rightarrow> u32" where "rdsp c = vcat [(2, 1), (3, vbits c 4 2)]"

text \<open>Immediates, zero- or sign-extended to 32 bits.\<close>

definition i_ciw :: "u16 \<Rightarrow> u32" where
  "i_ciw c = vcat [(22, 0), (4, vbits c 10 7), (2, vbits c 12 11), (1, vbits c 5 5),
                   (1, vbits c 6 6), (2, 0)]"

definition i_clw :: "u16 \<Rightarrow> u32" where
  "i_clw c = vcat [(25, 0), (1, vbits c 5 5), (3, vbits c 12 10), (1, vbits c 6 6), (2, 0)]"

definition i_cld :: "u16 \<Rightarrow> u32" where
  "i_cld c = vcat [(24, 0), (2, vbits c 6 5), (3, vbits c 12 10), (3, 0)]"

definition i_ci :: "u16 \<Rightarrow> u32" where
  "i_ci c = vcat [(27, vrep 27 (vbits c 12 12)), (5, vbits c 6 2)]"

definition i_lui :: "u16 \<Rightarrow> u32" where
  "i_lui c = vcat [(14, vrep 14 (vbits c 12 12)), (1, vbits c 12 12), (5, vbits c 6 2), (12, 0)]"

definition i_a16 :: "u16 \<Rightarrow> u32" where
  "i_a16 c = vcat [(22, vrep 22 (vbits c 12 12)), (1, vbits c 12 12), (2, vbits c 4 3),
                   (1, vbits c 5 5), (1, vbits c 2 2), (1, vbits c 6 6), (4, 0)]"

definition i_shl :: "u16 \<Rightarrow> u32" where
  "i_shl c = vcat [(26, 0), (1, vbits c 12 12), (5, vbits c 6 2)]"

definition i_sra :: "u16 \<Rightarrow> u32" where
  "i_sra c = vcat [(20, 0), (6, 16), (1, vbits c 12 12), (5, vbits c 6 2)]"

definition i_cj :: "u16 \<Rightarrow> u32" where
  "i_cj c = vcat [(20, vrep 20 (vbits c 12 12)), (1, vbits c 12 12), (1, vbits c 8 8),
                  (2, vbits c 10 9), (1, vbits c 6 6), (1, vbits c 7 7), (1, vbits c 2 2),
                  (1, vbits c 11 11), (3, vbits c 5 3), (1, 0)]"

definition i_cb :: "u16 \<Rightarrow> u32" where
  "i_cb c = vcat [(23, vrep 23 (vbits c 12 12)), (1, vbits c 12 12), (2, vbits c 6 5),
                  (1, vbits c 2 2), (2, vbits c 11 10), (2, vbits c 4 3), (1, 0)]"

definition i_lwsp :: "u16 \<Rightarrow> u32" where
  "i_lwsp c = vcat [(24, 0), (2, vbits c 3 2), (1, vbits c 12 12), (3, vbits c 6 4), (2, 0)]"

definition i_ldsp :: "u16 \<Rightarrow> u32" where
  "i_ldsp c = vcat [(23, 0), (3, vbits c 4 2), (1, vbits c 12 12), (2, vbits c 6 5), (3, 0)]"

definition i_swsp :: "u16 \<Rightarrow> u32" where
  "i_swsp c = vcat [(24, 0), (2, vbits c 8 7), (4, vbits c 12 9), (2, 0)]"

definition i_sdsp :: "u16 \<Rightarrow> u32" where
  "i_sdsp c = vcat [(23, 0), (3, vbits c 9 7), (3, vbits c 12 10), (3, 0)]"

text \<open>The three quadrants of the \<open>always\<close> block; \<open>insn\<close> defaults to 0.\<close>

definition expand_q0 :: "u16 \<Rightarrow> u32" where
  "expand_q0 c =
     (let f3 = vbits c 15 13
      in if f3 = 0 then
           (if vbits c 12 5 \<noteq> 0 then Itype (i_ciw c) 2 0 (rdsp c) OPIMM else 0)
         else if f3 = 1 then Itype (i_cld c) (rs1p c) 3 (rdsp c) LOADFP
         else if f3 = 2 then Itype (i_clw c) (rs1p c) 2 (rdsp c) LOAD
         else if f3 = 3 then Itype (i_cld c) (rs1p c) 3 (rdsp c) LOAD
         else if f3 = 5 then Stype (i_cld c) (rdsp c) (rs1p c) 3 STOREFP
         else if f3 = 6 then Stype (i_clw c) (rdsp c) (rs1p c) 2 STORE
         else if f3 = 7 then Stype (i_cld c) (rdsp c) (rs1p c) 3 STORE
         else 0)"

definition expand_alu :: "u16 \<Rightarrow> u32" where
  "expand_alu c =
     (if vbits c 11 10 = 0 then Itype (i_shl c) (rs1p c) 5 (rs1p c) OPIMM
      else if vbits c 11 10 = 1 then Itype (i_sra c) (rs1p c) 5 (rs1p c) OPIMM
      else if vbits c 11 10 = 2 then Itype (i_ci c) (rs1p c) 7 (rs1p c) OPIMM
      else
        (let k = vcat [(1, vbits c 12 12), (2, vbits c 6 5)]
         in if k = 0 then Rtype 0x20 (rdsp c) (rs1p c) 0 (rs1p c) OP
            else if k = 1 then Rtype 0 (rdsp c) (rs1p c) 4 (rs1p c) OP
            else if k = 2 then Rtype 0 (rdsp c) (rs1p c) 6 (rs1p c) OP
            else if k = 3 then Rtype 0 (rdsp c) (rs1p c) 7 (rs1p c) OP
            else if k = 4 then Rtype 0x20 (rdsp c) (rs1p c) 0 (rs1p c) OP32
            else if k = 5 then Rtype 0 (rdsp c) (rs1p c) 0 (rs1p c) OP32
            else 0))"

definition expand_q1 :: "u16 \<Rightarrow> u32" where
  "expand_q1 c =
     (let f3 = vbits c 15 13
      in if f3 = 0 then Itype (i_ci c) (p_rd c) 0 (p_rd c) OPIMM
         else if f3 = 1 then
           (if p_rd c \<noteq> 0 then Itype (i_ci c) (p_rd c) 0 (p_rd c) OPIMM32 else 0)
         else if f3 = 2 then Itype (i_ci c) 0 0 (p_rd c) OPIMM
         else if f3 = 3 then
           (if p_rd c = 2 then
              (if vcat [(1, vbits c 12 12), (5, vbits c 6 2)] \<noteq> 0
               then Itype (i_a16 c) 2 0 2 OPIMM else 0)
            else
              (if vcat [(1, vbits c 12 12), (5, vbits c 6 2)] \<noteq> 0
               then Utype (i_lui c) (p_rd c) LUI else 0))
         else if f3 = 4 then expand_alu c
         else if f3 = 5 then Jtype (i_cj c) 0 JAL
         else if f3 = 6 then Btype (i_cb c) 0 (rs1p c) 0 BRANCH
         else Btype (i_cb c) 0 (rs1p c) 1 BRANCH)"

definition expand_q2 :: "u16 \<Rightarrow> u32" where
  "expand_q2 c =
     (let f3 = vbits c 15 13
      in if f3 = 0 then Itype (i_shl c) (p_rd c) 1 (p_rd c) OPIMM
         else if f3 = 1 then Itype (i_ldsp c) 2 3 (p_rd c) LOADFP
         else if f3 = 2 then (if p_rd c \<noteq> 0 then Itype (i_lwsp c) 2 2 (p_rd c) LOAD else 0)
         else if f3 = 3 then (if p_rd c \<noteq> 0 then Itype (i_ldsp c) 2 3 (p_rd c) LOAD else 0)
         else if f3 = 4 then
           (if vbits c 12 12 = 0 then
              (if p_rs2 c = 0 then
                 (if p_rd c \<noteq> 0 then Itype 0 (p_rd c) 0 0 JALR else 0)
               else Rtype 0 (p_rs2 c) 0 0 (p_rd c) OP)
            else
              (if p_rs2 c = 0 then
                 (if p_rd c = 0 then 0x00100073 else Itype 0 (p_rd c) 0 1 JALR)
               else Rtype 0 (p_rs2 c) (p_rd c) 0 (p_rd c) OP))
         else if f3 = 5 then Stype (i_sdsp c) (p_rs2 c) 2 3 STOREFP
         else if f3 = 6 then Stype (i_swsp c) (p_rs2 c) 2 2 STORE
         else Stype (i_sdsp c) (p_rs2 c) 2 3 STORE)"

definition rvc_expand :: "u16 \<Rightarrow> u32" where
  "rvc_expand c =
     (if vbits c 1 0 = 0 then expand_q0 c
      else if vbits c 1 0 = 1 then expand_q1 c
      else if vbits c 1 0 = 2 then expand_q2 c
      else 0)"

lemmas vdefs = vcat_def vbits_def vrep_def
lemmas format_defs = Itype_def Stype_def Btype_def Utype_def Jtype_def Rtype_def
lemmas field_defs = p_rd_def p_rs2_def rs1p_def rdsp_def
lemmas imm_defs =
  i_ciw_def i_clw_def i_cld_def i_ci_def i_lui_def i_a16_def i_shl_def i_sra_def i_cj_def
  i_cb_def i_lwsp_def i_ldsp_def i_swsp_def i_sdsp_def

end
