(* ===== verification/RVC_Agree.thy ===== *)
theory RVC_Agree
  imports RVC_Expand
begin

text \<open>
  The reference expander of tools/rvc.rs and the core's expander of src/src/rvc_expand.v compute
  the same instruction from every parcel. Each arm that only moves bits is an instance of
  \<open>or_linear\<close>, on both sides, so two arms are compared by evaluating them on the sixteen single
  bits; the arms with a reserved case are compared on their linear parts and on the condition.
\<close>

section \<open>Both expanders' bit rearrangements are OR-linear\<close>

lemma vbits_lin [or_linear_intros]: "or_linear f \<Longrightarrow> or_linear (\<lambda>x. vbits (f x) h l)"
  unfolding vbits_def by (intro or_linear_intros)

lemma vrep_lin [or_linear_intros]: "or_linear f \<Longrightarrow> or_linear (\<lambda>x. vrep n (f x))"
  unfolding vrep_def by (intro or_linear_intros)

lemma Itype_lin [or_linear_intros]:
  "or_linear imm \<Longrightarrow> or_linear rs1 \<Longrightarrow> or_linear rd \<Longrightarrow>
    or_linear (\<lambda>c. Itype (imm c) (rs1 c) f3 (rd c) op)"
  unfolding Itype_def vcat_def vcat_from.simps by (intro or_linear_intros)

lemma Stype_lin [or_linear_intros]:
  "or_linear imm \<Longrightarrow> or_linear rs2 \<Longrightarrow> or_linear rs1 \<Longrightarrow>
    or_linear (\<lambda>c. Stype (imm c) (rs2 c) (rs1 c) f3 op)"
  unfolding Stype_def vcat_def vcat_from.simps by (intro or_linear_intros)

lemma Btype_lin [or_linear_intros]:
  "or_linear imm \<Longrightarrow> or_linear rs2 \<Longrightarrow> or_linear rs1 \<Longrightarrow>
    or_linear (\<lambda>c. Btype (imm c) (rs2 c) (rs1 c) f3 op)"
  unfolding Btype_def vcat_def vcat_from.simps by (intro or_linear_intros)

lemma Utype_lin [or_linear_intros]:
  "or_linear imm \<Longrightarrow> or_linear rd \<Longrightarrow>
    or_linear (\<lambda>c. Utype (imm c) (rd c) op)"
  unfolding Utype_def vcat_def vcat_from.simps by (intro or_linear_intros)

lemma Jtype_lin [or_linear_intros]:
  "or_linear imm \<Longrightarrow> or_linear rd \<Longrightarrow>
    or_linear (\<lambda>c. Jtype (imm c) (rd c) op)"
  unfolding Jtype_def vcat_def vcat_from.simps by (intro or_linear_intros)

lemma Rtype_lin [or_linear_intros]:
  "or_linear rs2 \<Longrightarrow> or_linear rs1 \<Longrightarrow> or_linear rd \<Longrightarrow>
    or_linear (\<lambda>c. Rtype f7 (rs2 c) (rs1 c) f3 (rd c) op)"
  unfolding Rtype_def vcat_def vcat_from.simps by (intro or_linear_intros)

interpretation p_rd: or_linear p_rd
  unfolding p_rd_def vcat_def vcat_from.simps by (intro or_linear_intros)

interpretation p_rs2: or_linear p_rs2
  unfolding p_rs2_def vcat_def vcat_from.simps by (intro or_linear_intros)

interpretation rs1p: or_linear rs1p
  unfolding rs1p_def vcat_def vcat_from.simps by (intro or_linear_intros)

interpretation rdsp: or_linear rdsp
  unfolding rdsp_def vcat_def vcat_from.simps by (intro or_linear_intros)

interpretation i_ciw: or_linear i_ciw
  unfolding i_ciw_def vcat_def vcat_from.simps by (intro or_linear_intros)

interpretation i_clw: or_linear i_clw
  unfolding i_clw_def vcat_def vcat_from.simps by (intro or_linear_intros)

interpretation i_cld: or_linear i_cld
  unfolding i_cld_def vcat_def vcat_from.simps by (intro or_linear_intros)

interpretation i_ci: or_linear i_ci
  unfolding i_ci_def vcat_def vcat_from.simps by (intro or_linear_intros)

interpretation i_lui: or_linear i_lui
  unfolding i_lui_def vcat_def vcat_from.simps by (intro or_linear_intros)

interpretation i_a16: or_linear i_a16
  unfolding i_a16_def vcat_def vcat_from.simps by (intro or_linear_intros)

interpretation i_shl: or_linear i_shl
  unfolding i_shl_def vcat_def vcat_from.simps by (intro or_linear_intros)

interpretation i_sra: or_linear i_sra
  unfolding i_sra_def vcat_def vcat_from.simps by (intro or_linear_intros)

interpretation i_cj: or_linear i_cj
  unfolding i_cj_def vcat_def vcat_from.simps by (intro or_linear_intros)

interpretation i_cb: or_linear i_cb
  unfolding i_cb_def vcat_def vcat_from.simps by (intro or_linear_intros)

interpretation i_lwsp: or_linear i_lwsp
  unfolding i_lwsp_def vcat_def vcat_from.simps by (intro or_linear_intros)

interpretation i_ldsp: or_linear i_ldsp
  unfolding i_ldsp_def vcat_def vcat_from.simps by (intro or_linear_intros)

interpretation i_swsp: or_linear i_swsp
  unfolding i_swsp_def vcat_def vcat_from.simps by (intro or_linear_intros)

interpretation i_sdsp: or_linear i_sdsp
  unfolding i_sdsp_def vcat_def vcat_from.simps by (intro or_linear_intros)

lemmas field_lin [or_linear_intros] =
  p_rd.or_linear_axioms [THEN or_linear_compose]
  p_rs2.or_linear_axioms [THEN or_linear_compose]
  rs1p.or_linear_axioms [THEN or_linear_compose]
  rdsp.or_linear_axioms [THEN or_linear_compose]
  i_ciw.or_linear_axioms [THEN or_linear_compose]
  i_clw.or_linear_axioms [THEN or_linear_compose]
  i_cld.or_linear_axioms [THEN or_linear_compose]
  i_ci.or_linear_axioms [THEN or_linear_compose]
  i_lui.or_linear_axioms [THEN or_linear_compose]
  i_a16.or_linear_axioms [THEN or_linear_compose]
  i_shl.or_linear_axioms [THEN or_linear_compose]
  i_sra.or_linear_axioms [THEN or_linear_compose]
  i_cj.or_linear_axioms [THEN or_linear_compose]
  i_cb.or_linear_axioms [THEN or_linear_compose]
  i_lwsp.or_linear_axioms [THEN or_linear_compose]
  i_ldsp.or_linear_axioms [THEN or_linear_compose]
  i_swsp.or_linear_axioms [THEN or_linear_compose]
  i_sdsp.or_linear_axioms [THEN or_linear_compose]

interpretation addi4spn_nzuimm: or_linear addi4spn_nzuimm
  unfolding addi4spn_nzuimm_def by (intro or_linear_intros)

interpretation ci_imm: or_linear ci_imm
  unfolding ci_imm_def by (intro or_linear_intros)

interpretation addi16sp_imm: or_linear addi16sp_imm
  unfolding addi16sp_imm_def by (intro or_linear_intros)

interpretation lui_nzimm: or_linear lui_nzimm
  unfolding lui_nzimm_def by (intro or_linear_intros)

interpretation c_shamt: or_linear c_shamt
  unfolding c_shamt_def by (intro or_linear_intros)

interpretation cj_offset: or_linear cj_offset
  unfolding cj_offset_def by (intro or_linear_intros)

interpretation cb_offset: or_linear cb_offset
  unfolding cb_offset_def by (intro or_linear_intros)

lemmas part_lin [or_linear_intros] =
  addi4spn_nzuimm.or_linear_axioms [THEN or_linear_compose]
  ci_imm.or_linear_axioms [THEN or_linear_compose]
  addi16sp_imm.or_linear_axioms [THEN or_linear_compose]
  lui_nzimm.or_linear_axioms [THEN or_linear_compose]
  c_shamt.or_linear_axioms [THEN or_linear_compose]
  cj_offset.or_linear_axioms [THEN or_linear_compose]
  cb_offset.or_linear_axioms [THEN or_linear_compose]

interpretation c_fld: or_linear c_fld
  unfolding c_fld_def Let_def by (intro or_linear_intros)

interpretation c_lw: or_linear c_lw
  unfolding c_lw_def Let_def by (intro or_linear_intros)

interpretation c_ld: or_linear c_ld
  unfolding c_ld_def Let_def by (intro or_linear_intros)

interpretation c_fsd: or_linear c_fsd
  unfolding c_fsd_def Let_def by (intro or_linear_intros)

interpretation c_sw: or_linear c_sw
  unfolding c_sw_def Let_def by (intro or_linear_intros)

interpretation c_sd: or_linear c_sd
  unfolding c_sd_def Let_def by (intro or_linear_intros)

interpretation c_addi: or_linear c_addi
  unfolding c_addi_def Let_def by (intro or_linear_intros)

interpretation c_li: or_linear c_li
  unfolding c_li_def Let_def by (intro or_linear_intros)

interpretation c_srli: or_linear c_srli
  unfolding c_srli_def Let_def by (intro or_linear_intros)

interpretation c_srai: or_linear c_srai
  unfolding c_srai_def Let_def by (intro or_linear_intros)

interpretation c_andi: or_linear c_andi
  unfolding c_andi_def Let_def by (intro or_linear_intros)

interpretation c_sub: or_linear c_sub
  unfolding c_sub_def Let_def by (intro or_linear_intros)

interpretation c_xor: or_linear c_xor
  unfolding c_xor_def Let_def by (intro or_linear_intros)

interpretation c_or: or_linear c_or
  unfolding c_or_def Let_def by (intro or_linear_intros)

interpretation c_and: or_linear c_and
  unfolding c_and_def Let_def by (intro or_linear_intros)

interpretation c_subw: or_linear c_subw
  unfolding c_subw_def Let_def by (intro or_linear_intros)

interpretation c_addw: or_linear c_addw
  unfolding c_addw_def Let_def by (intro or_linear_intros)

interpretation c_j: or_linear c_j
  unfolding c_j_def Let_def by (intro or_linear_intros)

interpretation c_beqz: or_linear c_beqz
  unfolding c_beqz_def Let_def by (intro or_linear_intros)

interpretation c_bnez: or_linear c_bnez
  unfolding c_bnez_def Let_def by (intro or_linear_intros)

interpretation c_slli: or_linear c_slli
  unfolding c_slli_def Let_def by (intro or_linear_intros)

interpretation c_fldsp: or_linear c_fldsp
  unfolding c_fldsp_def Let_def by (intro or_linear_intros)

interpretation c_fsdsp: or_linear c_fsdsp
  unfolding c_fsdsp_def Let_def by (intro or_linear_intros)

interpretation c_swsp: or_linear c_swsp
  unfolding c_swsp_def Let_def by (intro or_linear_intros)

interpretation c_sdsp: or_linear c_sdsp
  unfolding c_sdsp_def Let_def by (intro or_linear_intros)

lemmas arm_lin [or_linear_intros] =
  c_fld.or_linear_axioms [THEN or_linear_compose]
  c_lw.or_linear_axioms [THEN or_linear_compose]
  c_ld.or_linear_axioms [THEN or_linear_compose]
  c_fsd.or_linear_axioms [THEN or_linear_compose]
  c_sw.or_linear_axioms [THEN or_linear_compose]
  c_sd.or_linear_axioms [THEN or_linear_compose]
  c_addi.or_linear_axioms [THEN or_linear_compose]
  c_li.or_linear_axioms [THEN or_linear_compose]
  c_srli.or_linear_axioms [THEN or_linear_compose]
  c_srai.or_linear_axioms [THEN or_linear_compose]
  c_andi.or_linear_axioms [THEN or_linear_compose]
  c_sub.or_linear_axioms [THEN or_linear_compose]
  c_xor.or_linear_axioms [THEN or_linear_compose]
  c_or.or_linear_axioms [THEN or_linear_compose]
  c_and.or_linear_axioms [THEN or_linear_compose]
  c_subw.or_linear_axioms [THEN or_linear_compose]
  c_addw.or_linear_axioms [THEN or_linear_compose]
  c_j.or_linear_axioms [THEN or_linear_compose]
  c_beqz.or_linear_axioms [THEN or_linear_compose]
  c_bnez.or_linear_axioms [THEN or_linear_compose]
  c_slli.or_linear_axioms [THEN or_linear_compose]
  c_fldsp.or_linear_axioms [THEN or_linear_compose]
  c_fsdsp.or_linear_axioms [THEN or_linear_compose]
  c_swsp.or_linear_axioms [THEN or_linear_compose]
  c_sdsp.or_linear_axioms [THEN or_linear_compose]

section \<open>The arms agree\<close>

lemmas expand_eval =
  pow16_eq vdefs format_defs field_defs imm_defs uncompress_arm_defs mask_eq_exp_minus_1

lemma q0_arms:
  "(\<lambda>c. c_fld (ucast c)) = (\<lambda>c. Itype (i_cld c) (rs1p c) 3 (rdsp c) LOADFP)"
  "(\<lambda>c. c_lw (ucast c)) = (\<lambda>c. Itype (i_clw c) (rs1p c) 2 (rdsp c) LOAD)"
  "(\<lambda>c. c_ld (ucast c)) = (\<lambda>c. Itype (i_cld c) (rs1p c) 3 (rdsp c) LOAD)"
  "(\<lambda>c. c_fsd (ucast c)) = (\<lambda>c. Stype (i_cld c) (rdsp c) (rs1p c) 3 STOREFP)"
  "(\<lambda>c. c_sw (ucast c)) = (\<lambda>c. Stype (i_clw c) (rdsp c) (rs1p c) 2 STORE)"
  "(\<lambda>c. c_sd (ucast c)) = (\<lambda>c. Stype (i_cld c) (rdsp c) (rs1p c) 3 STORE)"
  by (rule or_linear_ext; (intro or_linear_intros)?; simp add: expand_eval)+

lemma q1_arms:
  "(\<lambda>c. c_addi (ucast c)) = (\<lambda>c. Itype (i_ci c) (p_rd c) 0 (p_rd c) OPIMM)"
  "(\<lambda>c. c_li (ucast c)) = (\<lambda>c. Itype (i_ci c) 0 0 (p_rd c) OPIMM)"
  "(\<lambda>c. c_j (ucast c)) = (\<lambda>c. Jtype (i_cj c) 0 JAL)"
  "(\<lambda>c. c_beqz (ucast c)) = (\<lambda>c. Btype (i_cb c) 0 (rs1p c) 0 BRANCH)"
  "(\<lambda>c. c_bnez (ucast c)) = (\<lambda>c. Btype (i_cb c) 0 (rs1p c) 1 BRANCH)"
  by (rule or_linear_ext; (intro or_linear_intros)?; simp add: expand_eval)+

lemma alu_arms:
  "(\<lambda>c. c_srli (ucast c)) = (\<lambda>c. Itype (i_shl c) (rs1p c) 5 (rs1p c) OPIMM)"
  "(\<lambda>c. c_srai (ucast c)) = (\<lambda>c. Itype (i_sra c) (rs1p c) 5 (rs1p c) OPIMM)"
  "(\<lambda>c. c_andi (ucast c)) = (\<lambda>c. Itype (i_ci c) (rs1p c) 7 (rs1p c) OPIMM)"
  "(\<lambda>c. c_sub (ucast c)) = (\<lambda>c. Rtype 0x20 (rdsp c) (rs1p c) 0 (rs1p c) OP)"
  "(\<lambda>c. c_xor (ucast c)) = (\<lambda>c. Rtype 0 (rdsp c) (rs1p c) 4 (rs1p c) OP)"
  "(\<lambda>c. c_or (ucast c)) = (\<lambda>c. Rtype 0 (rdsp c) (rs1p c) 6 (rs1p c) OP)"
  "(\<lambda>c. c_and (ucast c)) = (\<lambda>c. Rtype 0 (rdsp c) (rs1p c) 7 (rs1p c) OP)"
  "(\<lambda>c. c_subw (ucast c)) = (\<lambda>c. Rtype 0x20 (rdsp c) (rs1p c) 0 (rs1p c) OP32)"
  "(\<lambda>c. c_addw (ucast c)) = (\<lambda>c. Rtype 0 (rdsp c) (rs1p c) 0 (rs1p c) OP32)"
  by (rule or_linear_ext; (intro or_linear_intros)?; simp add: expand_eval)+

lemma q2_arms:
  "(\<lambda>c. c_slli (ucast c)) = (\<lambda>c. Itype (i_shl c) (p_rd c) 1 (p_rd c) OPIMM)"
  "(\<lambda>c. c_fldsp (ucast c)) = (\<lambda>c. Itype (i_ldsp c) 2 3 (p_rd c) LOADFP)"
  "(\<lambda>c. c_fsdsp (ucast c)) = (\<lambda>c. Stype (i_sdsp c) (p_rs2 c) 2 3 STOREFP)"
  "(\<lambda>c. c_swsp (ucast c)) = (\<lambda>c. Stype (i_swsp c) (p_rs2 c) 2 2 STORE)"
  "(\<lambda>c. c_sdsp (ucast c)) = (\<lambda>c. Stype (i_sdsp c) (p_rs2 c) 2 3 STORE)"
  by (rule or_linear_ext; (intro or_linear_intros)?; simp add: expand_eval)+

section \<open>Fields and conditions agree\<close>

lemma field_agree:
  "(\<lambda>c. ucast c AND 3) = (\<lambda>c::u16. vbits c 1 0)"
  "(\<lambda>c. shr (ucast c) 13 AND 7) = (\<lambda>c::u16. vbits c 15 13)"
  "(\<lambda>c. shr (ucast c) 7 AND 0x1f) = p_rd"
  "(\<lambda>c. shr (ucast c) 2 AND 0x1f) = p_rs2"
  "(\<lambda>c. shr (ucast c) 10 AND 3) = (\<lambda>c::u16. vbits c 11 10)"
  "(\<lambda>c. shr (ucast c) 12 AND 1) = (\<lambda>c::u16. vbits c 12 12)"
  "(\<lambda>c. shr (ucast c) 5 AND 3) = (\<lambda>c::u16. vbits c 6 5)"
  by (rule or_linear_ext; (intro or_linear_intros)?; simp add: expand_eval)+

lemma reserved_agree:
  "(\<lambda>c. addi4spn_nzuimm (ucast c) = 0) = (\<lambda>c::u16. vbits c 12 5 = 0)"
  "(\<lambda>c. addi16sp_imm (ucast c) = 0) = (\<lambda>c::u16. vcat [(1, vbits c 12 12), (5, vbits c 6 2)] = 0)"
  "(\<lambda>c. lui_nzimm (ucast c) = 0) = (\<lambda>c::u16. vcat [(1, vbits c 12 12), (5, vbits c 6 2)] = 0)"
  unfolding vcat_def vcat_from.simps
  by (rule or_linear_zero_iff; (intro or_linear_intros)?; simp add: expand_eval)+


lemmas field_eq = field_agree [THEN fun_cong]

lemmas arm_eq = q0_arms [THEN fun_cong] q1_arms [THEN fun_cong] alu_arms [THEN fun_cong]
  q2_arms [THEN fun_cong]

section \<open>Arms with a reserved case\<close>

lemma reserved_lin:
  "(\<lambda>c::u16. shl (addi4spn_nzuimm (ucast c)) 20 OR shl 2 15
      OR shl ((shr (ucast c) 2 AND 7) + 8) 7 OR 0x13) = (\<lambda>c. Itype (i_ciw c) 2 0 (rdsp c) OPIMM)"
  "(\<lambda>c::u16. shl (ci_imm (ucast c)) 20 OR shl (p_rd c) 15 OR shl (p_rd c) 7 OR 0x1b)
    = (\<lambda>c. Itype (i_ci c) (p_rd c) 0 (p_rd c) OPIMM32)"
  "(\<lambda>c::u16. lui_nzimm (ucast c) OR shl (p_rd c) 7 OR 0x37) = (\<lambda>c. Utype (i_lui c) (p_rd c) LUI)"
  "(\<lambda>c::u16. shl ((shr (ucast c) 7 AND 0x20) OR (shr (ucast c) 2 AND 0x1c)
      OR (shl (ucast c) 4 AND 0xc0)) 20 OR shl 2 15 OR shl 2 12 OR shl (p_rd c) 7 OR 3)
    = (\<lambda>c. Itype (i_lwsp c) 2 2 (p_rd c) LOAD)"
  "(\<lambda>c::u16. shl ((shr (ucast c) 7 AND 0x20) OR (shr (ucast c) 2 AND 0x18)
      OR (shl (ucast c) 4 AND 0x1c0)) 20 OR shl 2 15 OR shl 3 12 OR shl (p_rd c) 7 OR 3)
    = (\<lambda>c. Itype (i_ldsp c) 2 3 (p_rd c) LOAD)"
  "(\<lambda>c. shl (p_rd c) 15 OR 0x67) = (\<lambda>c. Itype 0 (p_rd c) 0 0 JALR)"
  "(\<lambda>c. shl (p_rs2 c) 20 OR shl (p_rd c) 7 OR 0x33) = (\<lambda>c. Rtype 0 (p_rs2 c) 0 0 (p_rd c) OP)"
  "(\<lambda>c. shl (p_rd c) 15 OR shl 1 7 OR 0x67) = (\<lambda>c. Itype 0 (p_rd c) 0 1 JALR)"
  "(\<lambda>c. shl (p_rs2 c) 20 OR shl (p_rd c) 15 OR shl (p_rd c) 7 OR 0x33)
    = (\<lambda>c. Rtype 0 (p_rs2 c) (p_rd c) 0 (p_rd c) OP)"
  "(\<lambda>c::u16. shl (addi16sp_imm (ucast c)) 20 OR shl 2 15 OR shl 2 7 OR 0x13)
    = (\<lambda>c. Itype (i_a16 c) 2 0 2 OPIMM)"
  by (rule or_linear_ext; (intro or_linear_intros)?; simp add: expand_eval)+

text \<open>The last one is used from right to left: the register field is the constant 2 there.\<close>

lemmas reserved_eq = reserved_lin(1-9) [THEN fun_cong] reserved_lin(10) [THEN fun_cong, symmetric]
  reserved_agree [THEN fun_cong] field_eq

lemma addi4spn_arm:
  "c_addi4spn (ucast c) = (if vbits c 12 5 \<noteq> 0 then Itype (i_ciw c) 2 0 (rdsp c) OPIMM else 0)" for c :: u16
  unfolding c_addi4spn_def Let_def reserved_eq by simp

lemma addiw_arm:
  "c_addiw (ucast c) = (if p_rd c \<noteq> 0 then Itype (i_ci c) (p_rd c) 0 (p_rd c) OPIMM32 else 0)"
  unfolding c_addiw_def Let_def reserved_eq by simp

lemma lui_arm: "c_lui_addi16sp (ucast c) =
      (if p_rd c = 2 then
              (if vcat [(1, vbits c 12 12), (5, vbits c 6 2)] \<noteq> 0
               then Itype (i_a16 c) 2 0 2 OPIMM else 0)
            else
              (if vcat [(1, vbits c 12 12), (5, vbits c 6 2)] \<noteq> 0
               then Utype (i_lui c) (p_rd c) LUI else 0))"
  unfolding c_lui_addi16sp_def Let_def reserved_eq
  by simp

lemma lwsp_arm:
  "c_lwsp (ucast c) = (if p_rd c \<noteq> 0 then Itype (i_lwsp c) 2 2 (p_rd c) LOAD else 0)"
  unfolding c_lwsp_def Let_def reserved_eq by simp

lemma ldsp_arm:
  "c_ldsp (ucast c) = (if p_rd c \<noteq> 0 then Itype (i_ldsp c) 2 3 (p_rd c) LOAD else 0)"
  unfolding c_ldsp_def Let_def reserved_eq by simp


lemma vbits_range:
  "vbits (c::u16) 1 0 \<in> {0, 1, 2, 3}" "vbits c 15 13 \<in> {0, 1, 2, 3, 4, 5, 6, 7}"
  "vbits c 11 10 \<in> {0, 1, 2, 3}" "vbits c 12 12 \<in> {0, 1}" "vbits c 6 5 \<in> {0, 1, 2, 3}"
  using and_mask_cases(2) [of "ucast c"] and_mask_cases(3) [of "shr (ucast c) 13"]
    and_mask_cases(2) [of "shr (ucast c) 10"] and_mask_cases(1) [of "shr (ucast c) 12"]
    and_mask_cases(2) [of "shr (ucast c) 5"]
  unfolding field_eq by blast+

lemma alu_arm: "uncompress_alu (ucast c) = Some (expand_alu c)"
  using vbits_range(3,4,5) [of c]
  unfolding uncompress_alu_def expand_alu_def Let_def field_eq arm_eq
  by (elim insertE emptyE) (simp_all add: vcat_def mask_eq_exp_minus_1)

lemma jr_arm:
  "uncompress_jr_mv_add (ucast c) =
     Some (if vbits c 12 12 = 0 then
              (if p_rs2 c = 0 then
                 (if p_rd c \<noteq> 0 then Itype 0 (p_rd c) 0 0 JALR else 0)
               else Rtype 0 (p_rs2 c) 0 0 (p_rd c) OP)
            else
              (if p_rs2 c = 0 then
                 (if p_rd c = 0 then 0x00100073 else Itype 0 (p_rd c) 0 1 JALR)
               else Rtype 0 (p_rs2 c) (p_rd c) 0 (p_rd c) OP))"
  using vbits_range(4) [of c]
  unfolding uncompress_jr_mv_add_def Let_def reserved_eq
  by auto

lemma q0_agree: "uncompress_q0 (ucast c) (vbits c 15 13) = Some (expand_q0 c)"
  using vbits_range(2) [of c]
  unfolding uncompress_q0_def expand_q0_def Let_def arm_eq addi4spn_arm by auto

lemma q1_agree: "uncompress_q1 (ucast c) (vbits c 15 13) = Some (expand_q1 c)"
  using vbits_range(2) [of c]
  unfolding uncompress_q1_def expand_q1_def Let_def arm_eq addiw_arm lui_arm alu_arm by auto

lemma q2_agree: "uncompress_q2 (ucast c) (vbits c 15 13) = Some (expand_q2 c)"
  using vbits_range(2) [of c]
  unfolding uncompress_q2_def expand_q2_def Let_def arm_eq lwsp_arm ldsp_arm jr_arm by auto

section \<open>The expanders agree\<close>

lemma uncompress_eq_expand:
  "uncompress (ucast c) = (if vbits c 1 0 = 3 then None else Some (rvc_expand c))"
  using vbits_range(1) [of c]
  unfolding uncompress_def rvc_expand_def Let_def field_eq q0_agree q1_agree q2_agree by auto

end
