(* ===== verification/Rust_Str.thy ===== *)
theory Rust_Str
  imports Prelude "HOL-Library.Sublist"
begin

text \<open>
  What the tools use of Rust's strings: formatting of integers and padding (\<open>format!\<close>), parsing
  of integers (\<open>from_str_radix\<close>, \<open>parse\<close>) and splitting. A string is a list of characters, one
  HOL character each: the streams the tools read and write are ASCII.
\<close>

section \<open>Formatting\<close>

definition digit :: "nat \<Rightarrow> char" where
  "digit n = ''0123456789abcdef'' ! n"

text \<open>The digits of a number, at least one; \<open>b\<close> is 10 or 16.\<close>

function radix :: "nat \<Rightarrow> nat \<Rightarrow> string" where
  "radix b n = (if n < b \<or> b < 2 then [digit n] else radix b (n div b) @ [digit (n mod b)])"
  by pat_completeness auto
termination
  by (relation "measure snd") auto

declare radix.simps [simp del]

abbreviation dec :: "nat \<Rightarrow> string" where "dec n \<equiv> radix 10 n"
abbreviation hex :: "nat \<Rightarrow> string" where "hex n \<equiv> radix 16 n"

definition dec_int :: "int \<Rightarrow> string" where
  "dec_int i = (if i < 0 then CHR ''-'' # dec (nat (- i)) else dec (nat i))"

text \<open>\<open>{:<w}\<close>, \<open>{:>w}\<close> and the zero-padded \<open>{:0wx}\<close>.\<close>

definition pad_right :: "nat \<Rightarrow> string \<Rightarrow> string" where
  "pad_right w s = s @ replicate (w - length s) CHR '' ''"

definition pad_left :: "nat \<Rightarrow> string \<Rightarrow> string" where
  "pad_left w s = replicate (w - length s) CHR '' '' @ s"

definition hex_pad0 :: "nat \<Rightarrow> nat \<Rightarrow> string" where
  "hex_pad0 w n = (let s = hex n in replicate (w - length s) CHR ''0'' @ s)"

section \<open>Parsing\<close>

definition digit_val :: "char \<Rightarrow> nat option" where
  "digit_val c =
     (let k = of_char c :: nat
      in if 48 \<le> k \<and> k \<le> 57 then Some (k - 48)
         else if 97 \<le> k \<and> k \<le> 122 then Some (k - 87)
         else if 65 \<le> k \<and> k \<le> 90 then Some (k - 55)
         else None)"

fun digits_val :: "nat \<Rightarrow> string \<Rightarrow> nat \<Rightarrow> nat option" where
  "digits_val b [] acc = Some acc"
| "digits_val b (c # cs) acc =
     (case digit_val c of
        Some d \<Rightarrow> (if d < b then digits_val b cs (acc * b + d) else None)
      | None \<Rightarrow> None)"

text \<open>
  \<open>from_str_radix\<close> of an unsigned type of \<open>bits\<close> bits; \<open>None\<close> is the error. One leading \<open>+\<close> is
  accepted; an empty string, a lone sign, a bad digit and an overflow are errors. Overflow is
  detected digit by digit, which for a growing value is the same as at the end.
\<close>

definition from_str_radix :: "nat \<Rightarrow> nat \<Rightarrow> string \<Rightarrow> nat option" where
  "from_str_radix b bits s =
     (let ds = (if s \<noteq> [] \<and> hd s = CHR ''+'' then tl s else s)
      in if ds = [] then None
         else case digits_val b ds 0 of
             Some n \<Rightarrow> (if n < 2 ^ bits then Some n else None)
           | None \<Rightarrow> None)"

section \<open>Splitting\<close>

definition is_ws :: "char \<Rightarrow> bool" where
  "is_ws c = (let k = of_char c :: nat in (9 \<le> k \<and> k \<le> 13) \<or> k = 32)"

definition trim :: "string \<Rightarrow> string" where
  "trim s = rev (dropWhile is_ws (rev (dropWhile is_ws s)))"

definition trim_end :: "string \<Rightarrow> string" where
  "trim_end s = rev (dropWhile is_ws (rev s))"

text \<open>\<open>split(c)\<close>: the parts between the separators, always at least one.\<close>

fun split_char :: "char \<Rightarrow> string \<Rightarrow> string list" where
  "split_char c [] = [[]]"
| "split_char c (x # xs) =
     (if x = c then [] # split_char c xs
      else case split_char c xs of
          [] \<Rightarrow> [[x]]
        | p # ps \<Rightarrow> (x # p) # ps)"

fun strip_prefix :: "string \<Rightarrow> string \<Rightarrow> string option" where
  "strip_prefix [] s = Some s"
| "strip_prefix (p # ps) [] = None"
| "strip_prefix (p # ps) (x # xs) = (if p = x then strip_prefix ps xs else None)"

definition strip_suffix :: "string \<Rightarrow> string \<Rightarrow> string option" where
  "strip_suffix p s = map_option rev (strip_prefix (rev p) (rev s))"

text \<open>\<open>split_once(pat)\<close>: before and after the first occurrence of the pattern.\<close>

fun split_once :: "string \<Rightarrow> string \<Rightarrow> (string \<times> string) option" where
  "split_once pat [] = (if pat = [] then Some ([], []) else None)"
| "split_once pat (x # xs) =
     (case strip_prefix pat (x # xs) of
        Some rest \<Rightarrow> Some ([], rest)
      | None \<Rightarrow> map_option (\<lambda>(a, b). (x # a, b)) (split_once pat xs))"

text \<open>\<open>split_whitespace\<close>: the maximal runs of other characters.\<close>

function split_whitespace :: "string \<Rightarrow> string list" where
  "split_whitespace s =
     (case dropWhile is_ws s of
        [] \<Rightarrow> []
      | x # xs \<Rightarrow> (x # takeWhile (\<lambda>c. \<not> is_ws c) xs) # split_whitespace (dropWhile (\<lambda>c. \<not> is_ws c) xs))"
  by pat_completeness auto
termination
proof (relation "measure length")
  fix s :: string and x xs
  assume "dropWhile is_ws s = x # xs"
  then have "length (x # xs) \<le> length s" by (metis length_dropWhile_le)
  moreover have "length (dropWhile (\<lambda>c. \<not> is_ws c) xs) \<le> length xs" by (rule length_dropWhile_le)
  ultimately show "(dropWhile (\<lambda>c. \<not> is_ws c) xs, s) \<in> measure length" by simp
qed simp

declare split_whitespace.simps [simp del]

text \<open>\<open>starts_with\<close> and \<open>contains\<close> of a string pattern.\<close>

definition starts_with :: "string \<Rightarrow> string \<Rightarrow> bool" where
  "starts_with p s = (strip_prefix p s \<noteq> None)"

fun contains :: "string \<Rightarrow> string \<Rightarrow> bool" where
  "contains p [] = (p = [])"
| "contains p (x # xs) = (starts_with p (x # xs) \<or> contains p xs)"

text \<open>
  \<open>lines\<close> of a string or of a reader: the parts between line feeds, less a carriage return before
  the line feed; an empty part after the last line feed is no line.
\<close>

definition strip_cr :: "string \<Rightarrow> string" where
  "strip_cr s = (case strip_suffix [CHR 0x0D] s of Some t \<Rightarrow> t | None \<Rightarrow> s)"

fun lines_from :: "string list \<Rightarrow> string list" where
  "lines_from [] = []"
| "lines_from [s] = (if s = [] then [] else [s])"
| "lines_from (s # t # ss) = strip_cr s # lines_from (t # ss)"

definition lines :: "string \<Rightarrow> string list" where
  "lines s = lines_from (split_char CHR 0x0A s)"

text \<open>What a sequence of \<open>println!\<close> writes.\<close>

definition unlines :: "string list \<Rightarrow> string" where
  "unlines ls = concat (map (\<lambda>l. l @ [CHR 0x0A]) ls)"

fun join :: "string \<Rightarrow> string list \<Rightarrow> string" where
  "join sep [] = []"
| "join sep [s] = s"
| "join sep (s # t # ss) = s @ sep @ join sep (t # ss)"

section \<open>Numbers print and parse back\<close>

definition hex_digits :: string where "hex_digits = ''0123456789abcdef''"

lemma digit_all: "list_all (\<lambda>n. digit n \<in> set hex_digits \<and> digit_val (digit n) = Some n) [0..<16]"
  by code_simp

lemma digit_in: "n < 16 \<Longrightarrow> digit n \<in> set hex_digits"
  and digit_val_digit: "n < 16 \<Longrightarrow> digit_val (digit n) = Some n"
  using digit_all by (simp_all add: list_all_iff)

lemma digits_val_append:
  "digits_val b (s @ t) acc = (case digits_val b s acc of Some n \<Rightarrow> digits_val b t n | None \<Rightarrow> None)"
  by (induction s arbitrary: acc) (simp_all split: option.split)

lemma digits_val_radix:
  "2 \<le> b \<Longrightarrow> b \<le> 16 \<Longrightarrow> digits_val b (radix b n) 0 = Some n"
proof (induction b n rule: radix.induct)
  case (1 b n)
  show ?case
  proof (cases "n < b")
    case True
    with "1.prems" show ?thesis by (subst radix.simps) (simp add: digit_val_digit)
  next
    case False
    with "1.IH" "1.prems" have "digits_val b (radix b (n div b)) 0 = Some (n div b)" by simp
    moreover have "n mod b < b" "n mod b < 16" using "1.prems" by (simp_all add: less_le_trans [of _ b])
    ultimately show ?thesis using False "1.prems"
      by (subst radix.simps) (simp add: digits_val_append digit_val_digit)
  qed
qed

lemma radix_inj: "2 \<le> b \<Longrightarrow> b \<le> 16 \<Longrightarrow> radix b m = radix b n \<longleftrightarrow> m = n"
  by (metis digits_val_radix option.inject)

lemma radix_not_Nil [simp]: "radix b n \<noteq> []"
  by (subst radix.simps) simp

lemma set_radix: "2 \<le> b \<Longrightarrow> b \<le> 16 \<Longrightarrow> set (radix b n) \<subseteq> set hex_digits"
proof (induction b n rule: radix.induct)
  case (1 b n)
  have "n mod b < 16" using "1.prems" by (simp add: less_le_trans [of _ b])
  with 1 show ?case by (subst radix.simps) (auto intro: digit_in)
qed

lemma hd_radix: "2 \<le> b \<Longrightarrow> b \<le> 16 \<Longrightarrow> hd (radix b n) \<in> set hex_digits"
  using set_radix [of b n] hd_in_set [OF radix_not_Nil] by blast

lemma from_str_radix_radix:
  assumes "2 \<le> b" "b \<le> 16" "n < 2 ^ bits"
  shows "from_str_radix b bits (radix b n) = Some n"
proof -
  have "hd (radix b n) \<noteq> CHR ''+''"
    using hd_radix [OF assms(1,2), of n] by (auto simp: hex_digits_def)
  then show ?thesis
    using assms by (simp add: from_str_radix_def Let_def digits_val_radix)
qed

lemma digits_val_zeros: "0 < b \<Longrightarrow> digits_val b (replicate k CHR ''0'' @ s) 0 = digits_val b s 0"
  by (induction k) (simp_all add: digit_val_def)

lemma from_str_radix_hex_pad0:
  assumes "n < 2 ^ bits"
  shows "from_str_radix 16 bits (hex_pad0 w n) = Some n"
proof (cases "w \<le> length (hex n)")
  case True
  with assms show ?thesis by (simp add: hex_pad0_def from_str_radix_radix)
next
  case False
  then obtain k where "w - length (hex n) = Suc k" by (metis diff_is_0_eq not0_implies_Suc)
  with assms show ?thesis
    by (simp add: hex_pad0_def from_str_radix_def digit_val_def digits_val_zeros digits_val_radix)
qed

lemma length_radix_le: "2 \<le> b \<Longrightarrow> n < b ^ Suc k \<Longrightarrow> length (radix b n) \<le> Suc k"
proof (induction k arbitrary: n)
  case 0
  then show ?case by (subst radix.simps) simp
next
  case (Suc k)
  show ?case
  proof (cases "n < b")
    case True
    then show ?thesis by (subst radix.simps) simp
  next
    case False
    have "n div b < b ^ Suc k" using Suc.prems
      by (simp add: less_mult_imp_div_less mult.commute)
    with Suc.IH Suc.prems have "length (radix b (n div b)) \<le> Suc k" by simp
    with False show ?thesis by (subst radix.simps) simp
  qed
qed

section \<open>Printable text\<close>

definition printable :: "string \<Rightarrow> bool" where
  "printable s = list_all (\<lambda>c. 32 \<le> (of_char c :: nat) \<and> (of_char c :: nat) \<le> 126) s"

named_theorems printable_simps

lemma printable_append [printable_simps]: "printable (s @ t) = (printable s \<and> printable t)"
  by (simp add: printable_def)

lemma printable_Cons [printable_simps]:
  "printable (c # s) = ((32 \<le> (of_char c :: nat) \<and> (of_char c :: nat) \<le> 126) \<and> printable s)"
  by (simp add: printable_def)

lemma printable_Nil [printable_simps]: "printable []"
  by (simp add: printable_def)

lemma printable_replicate: "printable [c] \<Longrightarrow> printable (replicate k c)"
  by (simp add: printable_def list_all_iff)

lemma printable_mono: "set s \<subseteq> set t \<Longrightarrow> printable t \<Longrightarrow> printable s"
  by (auto simp: printable_def list_all_iff)

lemma printable_radix [printable_simps]: "2 \<le> b \<Longrightarrow> b \<le> 16 \<Longrightarrow> printable (radix b n)"
  by (rule printable_mono [OF set_radix]) (simp_all add: hex_digits_def printable_def)

lemma printable_dec_int [printable_simps]: "printable (dec_int i)"
  by (simp add: dec_int_def printable_simps)

lemma printable_hex_pad0 [printable_simps]: "printable (hex_pad0 w n)"
  by (simp add: hex_pad0_def Let_def printable_simps printable_replicate)

lemma printable_pad [printable_simps]:
  "printable (pad_right w s) = printable s" "printable (pad_left w s) = printable s"
  by (simp_all add: pad_right_def pad_left_def printable_simps printable_replicate)

lemma length_radix_ge: "2 \<le> b \<Longrightarrow> b ^ k \<le> n \<Longrightarrow> Suc k \<le> length (radix b n)"
proof (induction k arbitrary: n)
  case 0
  then show ?case by (simp add: Suc_le_eq)
next
  case (Suc k)
  then have "b \<le> n" by (metis le_trans nat_mult_le_cancel1 power_Suc one_le_power
     mult.right_neutral mult_le_mono2 Suc_1 Suc_le_lessD Suc_leD)
  moreover have "b ^ k \<le> n div b" using Suc.prems by (simp add: less_eq_div_iff_mult_less_eq mult.commute)
  ultimately show ?case using Suc by (subst radix.simps) simp
qed

lemma split_char_not_Nil [simp]: "split_char c s \<noteq> []"
  by (induction s) (auto split: list.split)

section \<open>Splitting what was joined\<close>

lemma split_char_one: "c \<notin> set s \<Longrightarrow> split_char c s = [s]"
  by (induction s) auto

lemma split_char_append: "c \<notin> set s \<Longrightarrow> split_char c (s @ c # t) = s # split_char c t"
  by (induction s) auto

lemma split_char_join:
  "fs \<noteq> [] \<Longrightarrow> (\<And>f. f \<in> set fs \<Longrightarrow> c \<notin> set f) \<Longrightarrow> split_char c (join [c] fs) = fs"
proof (induction "[c]" fs rule: join.induct)
  case (3 s t ss)
  then have "split_char c (join [c] (t # ss)) = t # ss" "c \<notin> set s" by simp_all
  then show ?case using split_char_append [of c s "join [c] (t # ss)"] by simp
qed (simp_all add: split_char_one)

lemma split_unlines: "(\<And>l. l \<in> set ls \<Longrightarrow> CHR 0x0A \<notin> set l) \<Longrightarrow> split_char CHR 0x0A (unlines ls) = ls @ [[]]"
  by (induction ls) (simp_all add: unlines_def split_char_append)

lemma lines_from_snoc: "lines_from (ls @ [[]]) = map strip_cr ls"
  by (induction ls rule: lines_from.induct) simp_all

lemma strip_suffix_snoc: "strip_suffix [c] (s @ [d]) = (if c = d then Some s else None)"
  by (simp add: strip_suffix_def)

lemma strip_cr_id: "s = [] \<or> last s \<noteq> CHR 0x0D \<Longrightarrow> strip_cr s = s"
  by (cases s rule: rev_cases) (simp_all add: strip_cr_def strip_suffix_snoc, simp add: strip_suffix_def)

lemma lines_unlines:
  assumes "\<And>l. l \<in> set ls \<Longrightarrow> CHR 0x0A \<notin> set l \<and> CHR 0x0D \<notin> set l"
  shows "lines (unlines ls) = ls"
proof -
  have "strip_cr l = l" if "l \<in> set ls" for l
    using assms [OF that] by (intro strip_cr_id) (metis last_in_set)
  then have "map strip_cr ls = ls" by (simp add: map_idI)
  then show ?thesis using assms by (simp add: lines_def split_unlines lines_from_snoc)
qed

section \<open>Searching and trimming\<close>

lemma strip_prefix_iff: "strip_prefix p s = Some t \<longleftrightarrow> s = p @ t"
  by (induction p s rule: strip_prefix.induct) auto

lemma contains_iff: "contains p s \<longleftrightarrow> sublist p s"
  by (induction p s rule: contains.induct)
    (auto simp: starts_with_def strip_prefix_iff sublist_Cons_right prefix_def)

lemma strip_prefix_append: "strip_prefix p (p @ t) = Some t"
  by (induction p) simp_all

lemma split_once_char: "c \<notin> set s \<Longrightarrow> split_once (c # cs) (s @ c # cs @ t) = Some (s, t)"
  by (induction s) (simp_all add: strip_prefix_append)

lemma hex_not: "c \<notin> set hex_digits \<Longrightarrow> c \<notin> set (hex n)"
  using set_radix [of 16 n] by auto

lemma trim_id: "(\<And>c. c \<in> set s \<Longrightarrow> \<not> is_ws c) \<Longrightarrow> trim s = s"
proof -
  assume *: "\<And>c. c \<in> set s \<Longrightarrow> \<not> is_ws c"
  have "dropWhile is_ws t = t" if "set t \<subseteq> set s" for t
    using that * by (cases t) auto
  then show ?thesis by (simp add: trim_def)
qed

lemma hex_digit_not_ws: "c \<in> set hex_digits \<Longrightarrow> \<not> is_ws c"
proof -
  have "list_all (\<lambda>c. \<not> is_ws c) hex_digits" by code_simp
  then show "c \<in> set hex_digits \<Longrightarrow> \<not> is_ws c" by (simp add: list_all_iff)
qed

lemma set_hex_pad0: "set (hex_pad0 w n) \<subseteq> set hex_digits"
  using set_radix [of 16 n] by (auto simp: hex_pad0_def Let_def) (simp add: hex_digits_def)

lemma trim_hex: "trim (hex n) = hex n" "trim (hex_pad0 w n) = hex_pad0 w n"
  using set_radix [of 16 n] set_hex_pad0 [of w n] hex_digit_not_ws by (auto intro!: trim_id)

lemma set_join: "set (join sep xs) \<subseteq> set sep \<union> \<Union> (set ` set xs)"
  by (induction sep xs rule: join.induct) auto

end
