(* ===== verification/Rvdisasm.thy ===== *)
theory Rvdisasm
  imports Rust_Str
begin

text \<open>
  The disassembler of tools/rvdisasm/src/lib.rs. The name tables \<open>X\<close> and \<open>F\<close>, the field and
  immediate extractors on the 32-bit instruction word, \<open>csr_name\<close>, and \<open>disasm\<close> with one
  definition per arm of its match on the major opcode. Rust's \<open>i64\<close> is a 64-bit word read as
  signed where it is printed; \<open>>>\<close> on it is the arithmetic shift. Array indices are masked fields:
  \<open>rd\<close>, \<open>rs1\<close> and \<open>rs2\<close> are below 32 and \<open>f3\<close> below 8, so no index panics.
\<close>

definition X :: "string list" where
  "X = [''zero'', ''ra'', ''sp'', ''gp'', ''tp'', ''t0'', ''t1'', ''t2'', ''s0'', ''s1'', ''a0'',
        ''a1'', ''a2'', ''a3'', ''a4'', ''a5'', ''a6'', ''a7'', ''s2'', ''s3'', ''s4'', ''s5'',
        ''s6'', ''s7'', ''s8'', ''s9'', ''s10'', ''s11'', ''t3'', ''t4'', ''t5'', ''t6'']"

definition F :: "string list" where
  "F = [''ft0'', ''ft1'', ''ft2'', ''ft3'', ''ft4'', ''ft5'', ''ft6'', ''ft7'', ''fs0'', ''fs1'',
        ''fa0'', ''fa1'', ''fa2'', ''fa3'', ''fa4'', ''fa5'', ''fa6'', ''fa7'', ''fs2'', ''fs3'',
        ''fs4'', ''fs5'', ''fs6'', ''fs7'', ''fs8'', ''fs9'', ''fs10'', ''fs11'', ''ft8'', ''ft9'',
        ''ft10'', ''ft11'']"

section \<open>Fields and immediates\<close>

definition rd :: "u32 \<Rightarrow> nat" where "rd i = unat (shr i 7 AND 0x1f)"
definition rs1 :: "u32 \<Rightarrow> nat" where "rs1 i = unat (shr i 15 AND 0x1f)"
definition rs2 :: "u32 \<Rightarrow> nat" where "rs2 i = unat (shr i 20 AND 0x1f)"
definition f3 :: "u32 \<Rightarrow> u32" where "f3 i = shr i 12 AND 7"
definition f7 :: "u32 \<Rightarrow> u32" where "f7 i = shr i 25 AND 0x7f"

definition sext :: "u32 \<Rightarrow> nat \<Rightarrow> i64" where
  "sext v bits = (let shift = 64 - bits in signed_drop_bit shift (shl (ucast v) shift))"

definition imm_i :: "u32 \<Rightarrow> i64" where
  "imm_i i = sext (shr i 20) 12"

definition imm_s :: "u32 \<Rightarrow> i64" where
  "imm_s i = sext (shl (shr i 25) 5 OR (shr i 7 AND 0x1f)) 12"

definition imm_b :: "u32 \<Rightarrow> i64" where
  "imm_b i =
     (let v = shl (shr i 31 AND 1) 12 OR shl (shr i 7 AND 1) 11 OR shl (shr i 25 AND 0x3f) 5
            OR shl (shr i 8 AND 0xf) 1
      in sext v 13)"

definition imm_u :: "u32 \<Rightarrow> i64" where
  "imm_u i = scast (i AND 0xfffff000)"

definition imm_j :: "u32 \<Rightarrow> i64" where
  "imm_j i =
     (let v = shl (shr i 31 AND 1) 20 OR shl (shr i 12 AND 0xff) 12 OR shl (shr i 20 AND 1) 11
            OR shl (shr i 21 AND 0x3ff) 1
      in sext v 21)"

section \<open>Control and status registers\<close>

definition csr_names :: "(u32 \<times> string) list" where
  "csr_names =
    [(0x001, ''fflags''), (0x002, ''frm''), (0x003, ''fcsr''), (0x100, ''sstatus''),
     (0x104, ''sie''), (0x105, ''stvec''), (0x106, ''scounteren''), (0x10a, ''senvcfg''),
     (0x140, ''sscratch''), (0x141, ''sepc''), (0x142, ''scause''), (0x143, ''stval''),
     (0x144, ''sip''), (0x14d, ''stimecmp''), (0x180, ''satp''), (0x300, ''mstatus''),
     (0x301, ''misa''), (0x302, ''medeleg''), (0x303, ''mideleg''), (0x304, ''mie''),
     (0x305, ''mtvec''), (0x306, ''mcounteren''), (0x30a, ''menvcfg''), (0x340, ''mscratch''),
     (0x341, ''mepc''), (0x342, ''mcause''), (0x343, ''mtval''), (0x344, ''mip''),
     (0xc00, ''cycle''), (0xc01, ''time''), (0xc02, ''instret''), (0xf11, ''mvendorid''),
     (0xf12, ''marchid''), (0xf13, ''mimpid''), (0xf14, ''mhartid'')]"

definition csr_name :: "u32 \<Rightarrow> string" where
  "csr_name c = (case map_of csr_names c of Some n \<Rightarrow> n | None \<Rightarrow> ''0x'' @ hex (unat c))"

section \<open>The arms of the disassembler\<close>

text \<open>The formats the arms share: \<open>{:<7} {},{},{}\<close>, \<open>{:<7} {},{}({})\<close> and the raw fallback.\<close>

definition fmt3 :: "string \<Rightarrow> string \<Rightarrow> string \<Rightarrow> string \<Rightarrow> string" where
  "fmt3 m x y z = pad_right 7 m @ '' '' @ x @ '','' @ y @ '','' @ z"

definition fmt2 :: "string \<Rightarrow> string \<Rightarrow> string \<Rightarrow> string" where
  "fmt2 m x y = pad_right 7 m @ '' '' @ x @ '','' @ y"

definition fmt_mem :: "string \<Rightarrow> string \<Rightarrow> i64 \<Rightarrow> string \<Rightarrow> string" where
  "fmt_mem m r im base = pad_right 7 m @ '' '' @ r @ '','' @ dec_int (sint im) @ ''('' @ base @ '')''"

definition raw_insn :: "u32 \<Rightarrow> string" where
  "raw_insn insn = ''.insn   0x'' @ hex_pad0 8 (unat insn)"

definition tgt :: "u64 \<Rightarrow> i64 \<Rightarrow> string" where
  "tgt pc imm = hex (unat (pc + imm))"

definition dis_u :: "string \<Rightarrow> u32 \<Rightarrow> string" where
  "dis_u m insn =
     fmt2 m (X ! rd insn) (''0x'' @ hex (unat (signed_drop_bit 12 (imm_u insn) AND 0xfffff)))"

definition dis_jal :: "u32 \<Rightarrow> u64 \<Rightarrow> string" where
  "dis_jal insn pc =
     (let d = rd insn
      in if d = 0 then ''j       '' @ tgt pc (imm_j insn)
         else if d = 1 then ''jal     '' @ tgt pc (imm_j insn)
         else ''jal     '' @ X ! d @ '','' @ tgt pc (imm_j insn))"

definition dis_jalr :: "u32 \<Rightarrow> string" where
  "dis_jalr insn =
     (let d = rd insn; a = rs1 insn; im = imm_i insn
      in if d = 0 \<and> a = 1 \<and> im = 0 then ''ret''
         else if d = 0 \<and> im = 0 then ''jr      '' @ X ! a
         else if d = 0 then fmt_mem ''jalr'' (X ! d) im (X ! a)
         else fmt_mem ''jalr'' (X ! d) im (X ! a))"

definition dis_branch :: "u32 \<Rightarrow> u64 \<Rightarrow> string" where
  "dis_branch insn pc =
     (let a = rs1 insn; b = rs2 insn;
          m = [''beq'', ''bne'', ''?'', ''?'', ''blt'', ''bge'', ''bltu'', ''bgeu''] ! unat (f3 insn);
          t = tgt pc (imm_b insn)
      in if b = 0 \<and> (f3 insn = 0 \<or> f3 insn = 1)
         then fmt2 (if f3 insn = 0 then ''beqz'' else ''bnez'') (X ! a) t
         else fmt3 m (X ! a) (X ! b) t)"

definition dis_load :: "u32 \<Rightarrow> string" where
  "dis_load insn =
     (let m = [''lb'', ''lh'', ''lw'', ''ld'', ''lbu'', ''lhu'', ''lwu'', ''?''] ! unat (f3 insn)
      in fmt_mem m (X ! rd insn) (imm_i insn) (X ! rs1 insn))"

definition dis_store :: "u32 \<Rightarrow> string" where
  "dis_store insn =
     (let m = [''sb'', ''sh'', ''sw'', ''sd'', ''?'', ''?'', ''?'', ''?''] ! unat (f3 insn)
      in fmt_mem m (X ! rs2 insn) (imm_s insn) (X ! rs1 insn))"

definition dis_op_imm :: "u32 \<Rightarrow> string" where
  "dis_op_imm insn =
     (let d = rd insn; a = rs1 insn; im = imm_i insn; f = f3 insn;
          shamt = dec (unat (shr insn 20 AND 0x3f))
      in if f = 0 \<and> d = 0 \<and> a = 0 \<and> im = 0 then ''nop''
         else if f = 0 \<and> im = 0 then fmt2 ''mv'' (X ! d) (X ! a)
         else if f = 0 \<and> a = 0 then fmt2 ''li'' (X ! d) (dec_int (sint im))
         else if f = 0 then fmt3 ''addi'' (X ! d) (X ! a) (dec_int (sint im))
         else if f = 1 then fmt3 ''slli'' (X ! d) (X ! a) shamt
         else if f = 2 then fmt3 ''slti'' (X ! d) (X ! a) (dec_int (sint im))
         else if f = 3 then fmt3 ''sltiu'' (X ! d) (X ! a) (dec_int (sint im))
         else if f = 4 \<and> im = - 1 then fmt2 ''not'' (X ! d) (X ! a)
         else if f = 4 then fmt3 ''xori'' (X ! d) (X ! a) (dec_int (sint im))
         else if f = 5 \<and> f7 insn AND 0x20 \<noteq> 0 then fmt3 ''srai'' (X ! d) (X ! a) shamt
         else if f = 5 then fmt3 ''srli'' (X ! d) (X ! a) shamt
         else if f = 6 then fmt3 ''ori'' (X ! d) (X ! a) (dec_int (sint im))
         else fmt3 ''andi'' (X ! d) (X ! a) (dec_int (sint im)))"

definition dis_op_imm_32 :: "u32 \<Rightarrow> string" where
  "dis_op_imm_32 insn =
     (let d = rd insn; a = rs1 insn; im = imm_i insn; f = f3 insn;
          shamt = dec (unat (shr insn 20 AND 0x1f))
      in if f = 0 \<and> a = 0 then fmt2 ''li'' (X ! d) (dec_int (sint im)) @ ''  # sext.w''
         else if f = 0 then fmt3 ''addiw'' (X ! d) (X ! a) (dec_int (sint im))
         else if f = 1 then fmt3 ''slliw'' (X ! d) (X ! a) shamt
         else if f = 5 \<and> f7 insn AND 0x20 \<noteq> 0 then fmt3 ''sraiw'' (X ! d) (X ! a) shamt
         else fmt3 ''srliw'' (X ! d) (X ! a) shamt)"

definition dis_op :: "u32 \<Rightarrow> string" where
  "dis_op insn =
     (let d = rd insn; a = rs1 insn; b = rs2 insn; f = f3 insn
      in if f7 insn = 1 then
           (let m = [''mul'', ''mulh'', ''mulhsu'', ''mulhu'', ''div'', ''divu'', ''rem'', ''remu'']
                    ! unat f
            in fmt3 m (X ! d) (X ! a) (X ! b))
         else
           (let alt = (f7 insn AND 0x20 \<noteq> 0);
                m = (if f = 0 then (if alt then ''sub'' else ''add'')
                     else if f = 1 then ''sll''
                     else if f = 2 then ''slt''
                     else if f = 3 then ''sltu''
                     else if f = 4 then ''xor''
                     else if f = 5 then (if alt then ''sra'' else ''srl'')
                     else if f = 6 then ''or''
                     else ''and'')
            in if f = 0 \<and> alt \<and> a = 0 then fmt2 ''neg'' (X ! d) (X ! b)
               else fmt3 m (X ! d) (X ! a) (X ! b)))"

definition dis_op_32 :: "u32 \<Rightarrow> string" where
  "dis_op_32 insn =
     (let d = rd insn; a = rs1 insn; b = rs2 insn; f = f3 insn
      in if f7 insn = 1 then
           (let m = [''mulw'', ''?'', ''?'', ''?'', ''divw'', ''divuw'', ''remw'', ''remuw''] ! unat f
            in fmt3 m (X ! d) (X ! a) (X ! b))
         else
           (let alt = (f7 insn AND 0x20 \<noteq> 0);
                m = (if f = 0 then (if alt then ''subw'' else ''addw'')
                     else if f = 1 then ''sllw''
                     else if f = 5 then (if alt then ''sraw'' else ''srlw'')
                     else ''?'')
            in fmt3 m (X ! d) (X ! a) (X ! b)))"

definition dis_misc_mem :: "u32 \<Rightarrow> string" where
  "dis_misc_mem insn = (if f3 insn = 1 then ''fence.i'' else ''fence'')"

definition dis_system :: "u32 \<Rightarrow> string" where
  "dis_system insn =
     (let d = rd insn; a = rs1 insn; b = rs2 insn; f = f3 insn; csr = csr_name (shr insn 20)
      in if f = 0 then
           (if insn = 0x00000073 then ''ecall''
            else if insn = 0x00100073 then ''ebreak''
            else if insn = 0x30200073 then ''mret''
            else if insn = 0x10200073 then ''sret''
            else if insn = 0x10500073 then ''wfi''
            else if f7 insn = 0x09 then ''sfence.vma '' @ X ! a @ '','' @ X ! b
            else raw_insn insn)
         else if f = 1 \<and> d = 0 then fmt2 ''csrw'' csr (X ! a)
         else if f = 1 then fmt3 ''csrrw'' (X ! d) csr (X ! a)
         else if f = 2 \<and> a = 0 then fmt2 ''csrr'' (X ! d) csr
         else if f = 2 then fmt3 ''csrrs'' (X ! d) csr (X ! a)
         else if f = 3 then fmt3 ''csrrc'' (X ! d) csr (X ! a)
         else if f = 5 \<and> d = 0 then fmt2 ''csrwi'' csr (dec a)
         else if f = 5 then fmt3 ''csrrwi'' (X ! d) csr (dec a)
         else if f = 6 then fmt3 ''csrrsi'' (X ! d) csr (dec a)
         else if f = 7 then fmt3 ''csrrci'' (X ! d) csr (dec a)
         else raw_insn insn)"

definition dis_amo :: "u32 \<Rightarrow> string" where
  "dis_amo insn =
     (let d = rd insn; a = rs1 insn; b = rs2 insn;
          w = (if f3 insn = 3 then ''d'' else ''w'');
          k = shr (f7 insn) 2;
          m = (if k = 0x00 then ''amoadd''
               else if k = 0x01 then ''amoswap''
               else if k = 0x02 then ''lr''
               else if k = 0x03 then ''sc''
               else if k = 0x04 then ''amoxor''
               else if k = 0x08 then ''amoor''
               else if k = 0x0c then ''amoand''
               else if k = 0x10 then ''amomin''
               else if k = 0x14 then ''amomax''
               else if k = 0x18 then ''amominu''
               else if k = 0x1c then ''amomaxu''
               else ''amo?'')
      in if k = 0x02 then m @ ''.'' @ w @ ''  '' @ X ! d @ '',('' @ X ! a @ '')''
         else m @ ''.'' @ w @ ''  '' @ X ! d @ '','' @ X ! b @ '',('' @ X ! a @ '')'')"

definition dis_load_fp :: "u32 \<Rightarrow> string" where
  "dis_load_fp insn =
     fmt_mem (if f3 insn = 3 then ''fld'' else ''flw'') (F ! rd insn) (imm_i insn) (X ! rs1 insn)"

definition dis_store_fp :: "u32 \<Rightarrow> string" where
  "dis_store_fp insn =
     fmt_mem (if f3 insn = 3 then ''fsd'' else ''fsw'') (F ! rs2 insn) (imm_s insn) (X ! rs1 insn)"

definition disasm :: "u32 \<Rightarrow> u64 \<Rightarrow> string" where
  "disasm insn pc =
     (let op = insn AND 0x7f
      in if op = 0x37 then dis_u ''lui'' insn
         else if op = 0x17 then dis_u ''auipc'' insn
         else if op = 0x6f then dis_jal insn pc
         else if op = 0x67 then dis_jalr insn
         else if op = 0x63 then dis_branch insn pc
         else if op = 0x03 then dis_load insn
         else if op = 0x23 then dis_store insn
         else if op = 0x13 then dis_op_imm insn
         else if op = 0x1b then dis_op_imm_32 insn
         else if op = 0x33 then dis_op insn
         else if op = 0x3b then dis_op_32 insn
         else if op = 0x0f then dis_misc_mem insn
         else if op = 0x73 then dis_system insn
         else if op = 0x2f then dis_amo insn
         else if op = 0x07 then dis_load_fp insn
         else if op = 0x27 then dis_store_fp insn
         else raw_insn insn)"

lemmas dis_defs =
  dis_u_def dis_jal_def dis_jalr_def dis_branch_def dis_load_def dis_store_def dis_op_imm_def
  dis_op_imm_32_def dis_op_def dis_op_32_def dis_misc_mem_def dis_system_def dis_amo_def
  dis_load_fp_def dis_store_fp_def

section \<open>Fields stay in range\<close>

lemma field_bounds [simp]:
  "rd i < 32" "rs1 i < 32" "rs2 i < 32" "unat (f3 i) < 8" "unat (f7 i) < 128"
  by (simp_all add: rd_def rs1_def rs2_def f3_def f7_def unat_and_less)

lemma length_X [simp]: "length X = 32" and length_F [simp]: "length F = 32"
  by (simp_all add: X_def F_def)

lemma sext_eq:
  assumes "n < 64"
  shows "sext v (Suc n) = signed_take_bit n (ucast v)"
proof (rule bit_word_eqI)
  fix k :: nat
  assume "k < LENGTH(64)"
  with assms show "bit (sext v (Suc n)) k = bit (signed_take_bit n (ucast v) :: i64) k"
    by (cases "k \<le> n") (auto simp: sext_def Let_def bit_simps not_le min_def)
qed

lemma sint_sext: "n < 63 \<Longrightarrow> sint (sext v (Suc n)) = signed_take_bit n (uint v)"
proof (rule bit_eqI)
  fix k
  assume "n < 63"
  then show "bit (sint (sext v (Suc n))) k = bit (signed_take_bit n (uint v)) k"
    by (cases "k \<le> n") (auto simp: sext_eq bit_simps not_le min_def)
qed

section \<open>The text is printable\<close>

lemma printable_X: "i < 32 \<Longrightarrow> printable (X ! i)" and printable_F: "i < 32 \<Longrightarrow> printable (F ! i)"
proof -
  have "list_all printable X" "list_all printable F"
    by (simp_all add: X_def F_def printable_def)
  then show "i < 32 \<Longrightarrow> printable (X ! i)" "i < 32 \<Longrightarrow> printable (F ! i)"
    by (auto simp: list_all_length)
qed

lemma printable_csr: "printable (csr_name c)"
proof -
  have "list_all (\<lambda>p. printable (snd p)) csr_names"
    by (simp add: csr_names_def printable_def)
  then have "printable n" if "map_of csr_names c = Some n" for n
    using map_of_SomeD [OF that] by (auto simp: list_all_iff)
  then show ?thesis by (auto simp: csr_name_def printable_simps split: option.split)
qed

lemma printable_fmt:
  "printable (fmt3 m x y z) = (printable m \<and> printable x \<and> printable y \<and> printable z)"
  "printable (fmt2 m x y) = (printable m \<and> printable x \<and> printable y)"
  "printable (fmt_mem m x im z) = (printable m \<and> printable x \<and> printable z)"
  "printable (raw_insn i)" "printable (tgt pc im)"
  by (auto simp: fmt3_def fmt2_def fmt_mem_def raw_insn_def tgt_def printable_simps)

lemma printable_nth8: "list_all printable xs \<Longrightarrow> length xs = 8 \<Longrightarrow> printable (xs ! unat (f3 i))"
  by (simp add: list_all_length)

lemmas printable_dis = printable_fmt printable_X printable_F printable_csr printable_simps printable_nth8

lemma printable_arms:
  "printable m \<Longrightarrow> printable (dis_u m i)" "printable (dis_jal i pc)" "printable (dis_jalr i)"
  "printable (dis_branch i pc)" "printable (dis_load i)" "printable (dis_store i)"
  "printable (dis_op_imm i)" "printable (dis_op_imm_32 i)" "printable (dis_op i)"
  "printable (dis_op_32 i)" "printable (dis_misc_mem i)" "printable (dis_system i)" "printable (dis_amo i)"
  "printable (dis_load_fp i)" "printable (dis_store_fp i)"
  unfolding dis_defs Let_def by (simp_all add: printable_dis del: nth.simps)

lemma printable_disasm: "printable (disasm i pc)"
  by (simp add: disasm_def Let_def printable_arms printable_fmt printable_simps)

section \<open>CSR names\<close>

lemma csr_names_distinct: "distinct (map fst csr_names)" "distinct (map snd csr_names)"
  by (simp_all add: csr_names_def)

lemma csr_names_hd: "list_all (\<lambda>p. snd p \<noteq> [] \<and> hd (snd p) \<noteq> CHR ''0'') csr_names"
  by (simp add: csr_names_def)

lemma map_of_inj_snd:
  assumes "distinct (map snd xs)" "map_of xs a = Some v" "map_of xs b = Some v"
  shows "a = b"
proof -
  from assms(2,3) have "(a, v) \<in> set xs" "(b, v) \<in> set xs" by (simp_all add: map_of_SomeD)
  with assms(1) show ?thesis by (metis distinct_map inj_onD prod.inject snd_conv)
qed

lemma inj_csr_name: "inj csr_name"
proof (rule injI)
  fix a b
  assume eq: "csr_name a = csr_name b"
  have named: "hd n \<noteq> CHR ''0''" if "map_of csr_names c = Some n" for c n
    using csr_names_hd map_of_SomeD [OF that] by (auto simp: list_all_iff)
  show "a = b"
  proof (cases "map_of csr_names a"; cases "map_of csr_names b")
    fix m n
    assume "map_of csr_names a = Some m" "map_of csr_names b = Some n"
    with eq show ?thesis using map_of_inj_snd [OF csr_names_distinct(2)] by (simp add: csr_name_def)
  next
    assume "map_of csr_names a = None" "map_of csr_names b = None"
    with eq show ?thesis by (simp add: csr_name_def radix_inj word_unat_eq_iff)
  qed (use eq named [of a] named [of b] in \<open>auto simp: csr_name_def\<close>)
qed

section \<open>Immediates\<close>

lemma sext_range:
  assumes "n < 63"
  shows "- (2 ^ n) \<le> sint (sext v (Suc n))" "sint (sext v (Suc n)) < 2 ^ n"
  using assms by (simp_all add: sint_sext signed_take_bit_int_greater_eq_minus_exp signed_take_bit_int_less_exp)

lemma even_uint: "even (uint v) = even v"
  for v :: "'a::len word"
  by (metis bit_0 bit_uint_iff len_gt_0)

lemma even_sint_sext: "n < 63 \<Longrightarrow> even v \<Longrightarrow> even (sint (sext v (Suc n)))"
  by (simp add: sint_sext even_signed_take_bit_iff even_uint)

lemma imm_ranges:
  "- 2048 \<le> sint (imm_i i) \<and> sint (imm_i i) < 2048"
  "- 2048 \<le> sint (imm_s i) \<and> sint (imm_s i) < 2048"
  "- 4096 \<le> sint (imm_b i) \<and> sint (imm_b i) < 4096 \<and> even (sint (imm_b i))"
  "- 1048576 \<le> sint (imm_j i) \<and> sint (imm_j i) < 1048576 \<and> even (sint (imm_j i))"
  unfolding imm_i_def imm_s_def imm_b_def imm_j_def Let_def
  using sext_range [of 11] sext_range [of 12] even_sint_sext [of 12]
    sext_range [of 20] even_sint_sext [of 20]
  by (simp_all add: even_or_iff even_and_iff)

lemma sint_scast_32: "sint (scast (x :: u32) :: u64) = sint x"
proof -
  have "- (2 ^ 63) \<le> sint x" "sint x < 2 ^ 63"
    using sint_ge [of x] sint_lt [of x] by simp_all
  then show ?thesis by (simp add: signed_scast_eq signed_take_bit_int_eq_self)
qed

lemma imm_u_range:
  "- 2147483648 \<le> sint (imm_u i) \<and> sint (imm_u i) < 2147483648 \<and> 4096 dvd sint (imm_u i)"
proof -
  have "take_bit 12 (sint (i AND shl (mask 20) 12)) = 0"
    by (rule bit_eqI) (auto simp: bit_simps)
  then have "2 ^ 12 dvd sint (i AND shl (mask 20) 12)"
    by (simp only: take_bit_eq_0_iff)
  then have "4096 dvd sint (i AND 0xfffff000)"
    by (simp add: mask_eq_exp_minus_1)
  then show ?thesis
    using sint_ge [of "i AND 0xfffff000"] sint_lt [of "i AND 0xfffff000"]
    by (simp add: imm_u_def sint_scast_32)
qed

lemma raw_insn_0: "raw_insn 0 = ''.insn   0x00000000''"
  by code_simp

lemma disasm_0: "disasm 0 pc = ''.insn   0x00000000''"
  by (simp add: disasm_def raw_insn_0)

section \<open>Properties of the disassembler\<close>

text \<open>
  C25: whatever the word and the address, the disassembly is one line of printable ASCII text: no
  control character, tab or escape reaches the terminal.
\<close>
theorem disasm_printable: "printable (disasm insn pc)"
  by (rule printable_disasm)

text \<open>
  C26: two different control and status registers never print alike.
\<close>
theorem csr_names_differ: "csr_name a = csr_name b \<longleftrightarrow> a = b"
  using inj_csr_name by (auto dest: injD)

text \<open>
  C23: the immediates stay in the ranges of their formats: 12 bits for loads, stores and arithmetic,
  even offsets of 13 and 21 bits for branches and jumps, and multiples of 4096 in 32 bits for the
  upper immediate.
\<close>
theorem immediate_ranges:
  "sint (imm_i i) \<in> {- 2048 ..< 2048} \<and> sint (imm_s i) \<in> {- 2048 ..< 2048}
   \<and> sint (imm_b i) \<in> {- 4096 ..< 4096} \<and> even (sint (imm_b i))
   \<and> sint (imm_j i) \<in> {- (2 ^ 20) ..< 2 ^ 20} \<and> even (sint (imm_j i))
   \<and> sint (imm_u i) \<in> {- (2 ^ 31) ..< 2 ^ 31} \<and> 4096 dvd sint (imm_u i)"
  using imm_ranges [of i] imm_u_range [of i] by simp

definition known_opcodes :: "u32 list" where
  "known_opcodes =
    [0x37, 0x17, 0x6f, 0x67, 0x63, 0x03, 0x23, 0x13, 0x1b, 0x33, 0x3b, 0x0f, 0x73, 0x2f, 0x07, 0x27]"

text \<open>
  C24: a word whose opcode the disassembler does not know prints as a raw word that can be read back:
  the digits after the prefix parse as the word itself.
\<close>
theorem raw_word_reads_back:
  assumes "insn AND 0x7f \<notin> set known_opcodes"
  shows "\<exists>digits. disasm insn pc = ''.insn   0x'' @ digits
    \<and> from_str_radix 16 32 digits = Some (unat insn)"
proof -
  have "disasm insn pc = ''.insn   0x'' @ hex_pad0 8 (unat insn)"
    using assms by (simp add: disasm_def known_opcodes_def raw_insn_def Let_def)
  moreover have "from_str_radix 16 32 (hex_pad0 8 (unat insn)) = Some (unat insn)"
    using unat_bounds(2) [of insn] by (simp add: from_str_radix_hex_pad0)
  ultimately show ?thesis by blast
qed

theorem raw_word_reads_back_witness:
  "\<exists>digits. disasm 0x02a5f553 0 = ''.insn   0x'' @ digits
    \<and> from_str_radix 16 32 digits = Some 0x02a5f553"
  using raw_word_reads_back [of "0x02a5f553" 0] by (simp add: known_opcodes_def)

end
