(* ===== verification/RV_Formats.thy ===== *)
theory RV_Formats
  imports RVC_Expand Rvdisasm
begin

text \<open>
  The instruction formats of the core's expander against the field extractors of the
  disassembler: what \<open>rd\<close>, \<open>rs1\<close>, \<open>rs2\<close>, \<open>f3\<close>, \<open>f7\<close> and the immediate decoders read out of a word
  that \<open>Itype\<close>, \<open>Stype\<close>, \<open>Btype\<close>, \<open>Utype\<close>, \<open>Jtype\<close> or \<open>Rtype\<close> put together.
\<close>

fun vwidth :: "(nat \<times> u32) list \<Rightarrow> nat" where
  "vwidth [] = 0"
| "vwidth ((w, v) # ps) = w + vwidth ps"

lemma vcat_from_append: "vcat_from acc (ps @ qs) = vcat_from (vcat_from acc ps) qs"
  by (induction acc ps rule: vcat_from.induct) simp_all

lemma shr_vcat_from:
  "k + vwidth qs \<le> 32 \<Longrightarrow> shr (vcat_from acc qs) (vwidth qs) AND mask k = acc AND mask k"
proof (induction acc qs arbitrary: k rule: vcat_from.induct)
  case (2 acc w v ps)
  let ?a = "shl acc w OR (v AND mask w)"
  have "shr (vcat_from ?a ps) (vwidth ps) AND mask (k + w) = ?a AND mask (k + w)"
    using 2 by (simp add: algebra_simps)
  then have "shr (shr (vcat_from ?a ps) (vwidth ps) AND mask (k + w)) w = shr (?a AND mask (k + w)) w"
    by simp
  moreover have "shr (?a AND mask (k + w)) w = acc AND mask k"
    using "2.prems" by (intro bit_eqI) (auto simp: bit_simps)
  moreover have "shr (shr x (vwidth ps) AND mask (k + w)) w = shr x (vwidth ((w, v) # ps)) AND mask k"
    for x :: u32
  proof (rule bit_eqI)
    fix n
    show "bit (shr (shr x (vwidth ps) AND mask (k + w)) w) n = bit (shr x (vwidth ((w, v) # ps)) AND mask k) n"
      using "2.prems" by (auto simp: bit_simps ac_simps)
  qed
  ultimately show ?case by simp
qed simp

lemma vcat_field:
  "w + vwidth qs \<le> 32 \<Longrightarrow> shr (vcat (ps @ (w, v) # qs)) (vwidth qs) AND mask w = v AND mask w"
  unfolding vcat_def vcat_from_append
  by (simp add: shr_vcat_from) (intro bit_eqI, auto simp: bit_simps)

lemma vcat_nth:
  assumes "k < length xs" "vwidth (drop k xs) \<le> 32" "n = vwidth (drop (Suc k) xs)"
    "m = mask (fst (xs ! k))" "v = snd (xs ! k)"
  shows "shr (vcat xs) n AND m = v AND m"
proof -
  have xs: "xs = take k xs @ (fst (xs ! k), v) # drop (Suc k) xs"
    using assms(1,5) by (simp add: id_take_nth_drop [symmetric])
  moreover have "fst (xs ! k) + vwidth (drop (Suc k) xs) \<le> 32"
    using assms(1,2) by (simp add: Cons_nth_drop_Suc [symmetric] split_beta) (metis prod.collapse vwidth.simps(2))
  ultimately show ?thesis
    unfolding assms(3,4) by (metis vcat_field)
qed

lemma vcat_nth_low:
  assumes "xs \<noteq> []" "fst (last xs) \<le> 32" "m = mask (fst (last xs))" "v = snd (last xs)"
  shows "vcat xs AND m = v AND m"
  using vcat_nth [of "length xs - 1" xs 0 m v] assms
  by (cases xs rule: rev_cases) (auto simp: split_beta nth_append)

lemma vbits_and: "m = mask (Suc h - l) \<Longrightarrow> vbits x h l AND m = vbits x h l"
  by (simp add: vbits_def and.assoc)

lemma vcat_vbits:
  assumes "k < length xs" "vwidth (drop k xs) \<le> 32" "n = vwidth (drop (Suc k) xs)"
    "m = mask (fst (xs ! k))" "vbits x h l = snd (xs ! k)" "fst (xs ! k) = Suc h - l"
  shows "shr (vcat xs) n AND m = vbits x h l"
  using vcat_nth [OF assms(1-5)] vbits_and [of m h l x] assms(4,6) by simp

lemmas vcat_nths = vcat_nth [where k = 0] vcat_nth [where k = 1] vcat_nth [where k = 2]
  vcat_nth [where k = 3] vcat_nth [where k = 4] vcat_nth [where k = 5] vcat_nth [where k = 6]
  vcat_vbits [where k = 0] vcat_vbits [where k = 1] vcat_vbits [where k = 2]
  vcat_vbits [where k = 3] vcat_vbits [where k = 4] vcat_vbits [where k = 5] vcat_vbits [where k = 6]

lemma Itype_fields:
  "shr (Itype imm a f d op) 20 AND 0xfff = vbits imm 11 0"
  "shr (Itype imm a f d op) 15 AND 0x1f = a AND 0x1f"
  "shr (Itype imm a f d op) 12 AND 7 = f AND 7"
  "shr (Itype imm a f d op) 7 AND 0x1f = d AND 0x1f"
  "Itype imm a f d op AND 0x7f = op AND 0x7f"
  unfolding Itype_def
  by (rule vcat_nths vcat_nth_low; simp add: mask_eq_exp_minus_1; fail)+


lemma Stype_fields:
  "shr (Stype imm b a f op) 25 AND 0x7f = vbits imm 11 5"
  "shr (Stype imm b a f op) 20 AND 0x1f = b AND 0x1f"
  "shr (Stype imm b a f op) 15 AND 0x1f = a AND 0x1f"
  "shr (Stype imm b a f op) 12 AND 7 = f AND 7"
  "shr (Stype imm b a f op) 7 AND 0x1f = vbits imm 4 0"
  "Stype imm b a f op AND 0x7f = op AND 0x7f"
  unfolding Stype_def
  by (rule vcat_nths vcat_nth_low; simp add: mask_eq_exp_minus_1; fail)+

lemma Btype_fields:
  "shr (Btype imm b a f op) 31 AND 1 = vbits imm 12 12"
  "shr (Btype imm b a f op) 25 AND 0x3f = vbits imm 10 5"
  "shr (Btype imm b a f op) 20 AND 0x1f = b AND 0x1f"
  "shr (Btype imm b a f op) 15 AND 0x1f = a AND 0x1f"
  "shr (Btype imm b a f op) 12 AND 7 = f AND 7"
  "shr (Btype imm b a f op) 8 AND 0xf = vbits imm 4 1"
  "shr (Btype imm b a f op) 7 AND 1 = vbits imm 11 11"
  "Btype imm b a f op AND 0x7f = op AND 0x7f"
  unfolding Btype_def
  by (rule vcat_nths vcat_nth_low; simp add: mask_eq_exp_minus_1; fail)+

lemma Utype_fields:
  "shr (Utype imm d op) 12 AND 0xfffff = vbits imm 31 12"
  "shr (Utype imm d op) 7 AND 0x1f = d AND 0x1f"
  "Utype imm d op AND 0x7f = op AND 0x7f"
  unfolding Utype_def
  by (rule vcat_nths vcat_nth_low; simp add: mask_eq_exp_minus_1; fail)+

lemma Jtype_fields:
  "shr (Jtype imm d op) 31 AND 1 = vbits imm 20 20"
  "shr (Jtype imm d op) 21 AND 0x3ff = vbits imm 10 1"
  "shr (Jtype imm d op) 20 AND 1 = vbits imm 11 11"
  "shr (Jtype imm d op) 12 AND 0xff = vbits imm 19 12"
  "shr (Jtype imm d op) 7 AND 0x1f = d AND 0x1f"
  "Jtype imm d op AND 0x7f = op AND 0x7f"
  unfolding Jtype_def
  by (rule vcat_nths vcat_nth_low; simp add: mask_eq_exp_minus_1; fail)+

lemma Rtype_fields:
  "shr (Rtype g b a f d op) 25 AND 0x7f = g AND 0x7f"
  "shr (Rtype g b a f d op) 20 AND 0x1f = b AND 0x1f"
  "shr (Rtype g b a f d op) 15 AND 0x1f = a AND 0x1f"
  "shr (Rtype g b a f d op) 12 AND 7 = f AND 7"
  "shr (Rtype g b a f d op) 7 AND 0x1f = d AND 0x1f"
  "Rtype g b a f d op AND 0x7f = op AND 0x7f"
  unfolding Rtype_def
  by (rule vcat_nths vcat_nth_low; simp add: mask_eq_exp_minus_1; fail)+

lemma sext_cong: "(v AND mask (Suc n) = w AND mask (Suc n)) \<Longrightarrow> n < 64 \<Longrightarrow> sext v (Suc n) = sext w (Suc n)"
proof (simp only: sext_eq)
  assume *: "v AND mask (Suc n) = w AND mask (Suc n)"
  have "bit v k = bit w k" if "k \<le> n" for k
    using arg_cong [OF *, where f = "\<lambda>x. bit x k"] that
    by (auto simp: bit_simps dest: bit_imp_le_length)
  then show "signed_take_bit n (ucast v :: i64) = signed_take_bit n (ucast w)"
    by (intro bit_word_eqI) (auto simp: bit_simps)
qed

lemma imm_i_Itype: "imm_i (Itype imm a f d op) = sext imm 12"
  using sext_cong [of "shr (Itype imm a f d op) 20" 11 imm]
  by (simp add: imm_i_def mask_eq_exp_minus_1 Itype_fields vbits_def)

lemma shr_25: "shr x 25 = shr x 25 AND 0x7f"
  for x :: u32
proof -
  have "shr x 25 = shr x 25 AND mask 7"
    by (rule bit_word_eqI) (auto simp: bit_simps dest: bit_imp_le_length)
  then show ?thesis by (simp add: mask_eq_exp_minus_1)
qed

text \<open>The parts of an immediate, each put back at its place, are masks of it.\<close>

lemma shl_vbits: "shl (vbits x h l) l = x AND shl (mask (Suc h - l)) l"
  for x :: u32
  by (rule bit_word_eqI) (auto simp: vbits_def bit_simps)

lemma vbits_0: "vbits x h 0 = x AND mask (Suc h)"
  for x :: u32
  by (simp add: vbits_def)

lemmas imm_parts = shl_vbits vbits_0 bit.conj_disj_distrib [symmetric]

lemma imm_s_Stype: "imm_s (Stype imm b a f op) = sext imm 12"
proof -
  have "imm_s (Stype imm b a f op) = sext (shl (vbits imm 11 5) 5 OR vbits imm 4 0) 12"
    unfolding imm_s_def by (subst shr_25) (simp only: Stype_fields)
  then show ?thesis using sext_cong [of "shl (vbits imm 11 5) 5 OR vbits imm 4 0" 11 imm]
    by (simp add: imm_parts mask_eq_exp_minus_1 and.assoc)
qed

lemma imm_b_Btype: "imm_b (Btype imm b a f op) = sext (imm AND 0x1ffe) 13"
  unfolding imm_b_def Btype_fields Let_def imm_parts
  by (simp add: mask_eq_exp_minus_1)

lemma imm_j_Jtype: "imm_j (Jtype imm d op) = sext (imm AND 0x1ffffe) 21"
  unfolding imm_j_def Jtype_fields Let_def imm_parts
  by (simp add: mask_eq_exp_minus_1)

lemma imm_u_Utype: "imm_u (Utype imm d op) = scast (imm AND 0xfffff000)"
proof -
  have "x AND shl (mask 20) 12 = shl (shr x 12 AND mask 20) 12" for x :: u32
    by (rule bit_word_eqI) (auto simp: bit_simps)
  then have *: "x AND 0xfffff000 = shl (shr x 12 AND 0xfffff) 12" for x :: u32
    by (simp add: mask_eq_exp_minus_1)
  have "Utype imm d op AND 0xfffff000 = imm AND 0xfffff000"
    unfolding * [of "Utype imm d op"] Utype_fields shl_vbits by (simp add: mask_eq_exp_minus_1)
  then show ?thesis by (simp only: imm_u_def)
qed


lemmas decode_simps =
  rd_def rs1_def rs2_def f3_def f7_def Itype_fields Stype_fields Btype_fields Utype_fields
  Jtype_fields Rtype_fields imm_i_Itype imm_s_Stype imm_b_Btype imm_j_Jtype imm_u_Utype

text \<open>Shift amounts and the funct7 field of an I-type word.\<close>

lemma Itype_shamt: "shr (Itype imm a f d op) 20 AND 0x3f = imm AND 0x3f"
proof -
  have "(shr (Itype imm a f d op) 20 AND 0xfff) AND 0x3f = (imm AND 0xfff) AND 0x3f"
    by (simp only: Itype_fields vbits_0) (simp add: mask_eq_exp_minus_1)
  then show ?thesis by (simp add: and.assoc)
qed

lemma Itype_f7: "f7 (Itype imm a f d op) = shr imm 5 AND 0x7f"
proof -
  have "f7 (Itype imm a f d op) = shr (shr (Itype imm a f d op) 20 AND 0xfff) 5"
    by (simp add: f7_def drop_bit_and)
  then show ?thesis by (simp only: Itype_fields vbits_0) (simp add: mask_eq_exp_minus_1 drop_bit_and)
qed

lemma Itype_bit30: "shr (Itype i a f d op) 25 AND 0x20 = shr i 5 AND 0x20"
proof -
  have "f7 (Itype i a f d op) AND 0x20 = (shr i 5 AND 0x7f) AND 0x20" by (simp only: Itype_f7)
  then show ?thesis by (simp add: f7_def and.assoc)
qed

lemma sext_0: "sext 0 n = 0"
  by (simp add: sext_def Let_def)

lemma lui_field: "signed_drop_bit 12 (scast (i AND 0xfffff000 :: u32) :: u64) AND 0xfffff = ucast (shr i 12)"
proof -
  have "signed_drop_bit 12 (scast (i AND shl (mask 20) 12 :: u32) :: u64) AND mask 20 = ucast (shr i 12)"
  proof (rule bit_word_eqI)
    fix n :: nat
    have "n < 20" if "bit i (12 + n)" using bit_imp_le_length [OF that] by simp
    then show "bit (signed_drop_bit 12 (scast (i AND shl (mask 20) 12 :: u32) :: u64) AND mask 20) n
        = bit (ucast (shr i 12) :: u64) n"
      by (cases "n = 19") (auto simp: bit_simps min_def)
  qed
  then show ?thesis by (simp add: mask_eq_exp_minus_1)
qed

lemma unat_ucast_32_64: "unat (ucast (x :: u32) :: u64) = unat x"
proof -
  have "unat x < 2 ^ 64" using unsigned_less [of x] by (rule less_le_trans) simp
  then show ?thesis by (simp add: unsigned_ucast_eq take_bit_nat_eq_self)
qed

section \<open>The formats and the decoders are inverse\<close>

lemma sint_sext_id: "- (2 ^ n) \<le> k \<Longrightarrow> k < 2 ^ n \<Longrightarrow> n < 32 \<Longrightarrow> sint (sext (word_of_int k) (Suc n)) = k"
  by (simp add: sint_sext unsigned_of_int signed_take_bit_take_bit signed_take_bit_int_eq_self)

lemma sext_even:
  assumes "even k" "n < 31"
  shows "sext (word_of_int k AND shl (mask n) 1) (Suc n) = sext (word_of_int k) (Suc n)"
proof (rule sext_cong)
  have k: "\<not> bit (word_of_int k :: u32) 0" using assms(1) by (simp only: bit_word_of_int_iff) (simp add: bit_0)
  have "1 \<le> i" if "bit (word_of_int k :: u32) i" for i using k that by (cases i) auto
  then show "(word_of_int k AND shl (mask n) 1) AND mask (Suc n) = (word_of_int k :: u32) AND mask (Suc n)"
    by (intro bit_word_eqI) (simp only: bit_and_iff bit_push_bit_iff bit_mask_iff, force)
qed (use assms in simp)

lemma word_and_high:
  assumes "4096 dvd k"
  shows "word_of_int k AND 0xfffff000 = (word_of_int k :: u32)"
proof -
  have k: "take_bit 12 k = 0" using assms by (simp add: take_bit_eq_0_iff)
  have "12 \<le> n" if "bit k n" for n
    using arg_cong [OF k, where f = "\<lambda>x. bit x n"] that by (simp add: bit_take_bit_iff)
  then have "word_of_int k AND shl (mask 20) 12 = (word_of_int k :: u32)"
    by (intro bit_word_eqI) (auto simp: bit_simps not_le)
  then show ?thesis by (simp add: mask_eq_exp_minus_1)
qed

text \<open>
  C20: the formats of the core's expander and the disassembler's decoders are inverse: an immediate in
  the range of its format, put into a word, is read back as the same integer, for every other
  field.
\<close>
theorem immediates_read_back:
  assumes "k \<in> {- 2048 ..< 2048}" "br \<in> {- 4096 ..< 4096}" "even br" "j \<in> {- (2 ^ 20) ..< 2 ^ 20}" "even j"
    and "u \<in> {- (2 ^ 31) ..< 2 ^ 31}" "4096 dvd u"
  shows "sint (imm_i (Itype (word_of_int k) a f d op)) = k
    \<and> sint (imm_s (Stype (word_of_int k) b a f op)) = k
    \<and> sint (imm_b (Btype (word_of_int br) b a f op)) = br
    \<and> sint (imm_j (Jtype (word_of_int j) d op)) = j
    \<and> sint (imm_u (Utype (word_of_int u) d op)) = u"
proof -
  have "sint (sext (word_of_int k) 12) = k" using assms(1) sint_sext_id [of 11 k] by simp
  moreover have "sint (sext (word_of_int br AND 0x1ffe) 13) = br"
    using assms(2,3) sint_sext_id [of 12 br] sext_even [of br 12] by (simp add: mask_eq_exp_minus_1)
  moreover have "sint (sext (word_of_int j AND 0x1ffffe) 21) = j"
    using assms(4,5) sint_sext_id [of 20 j] sext_even [of j 20] by (simp add: mask_eq_exp_minus_1)
  moreover have "sint (word_of_int u :: u32) = u"
    using assms(6) by (simp add: signed_of_int signed_take_bit_int_eq_self)
  ultimately show ?thesis
    using assms(7) by (simp add: imm_i_Itype imm_s_Stype imm_b_Btype imm_j_Jtype imm_u_Utype
        word_and_high sint_scast_32)
qed

theorem immediates_read_back_witness:
  "sint (imm_i (Itype (word_of_int (- 1)) 1 0 1 0x13)) = - 1
    \<and> sint (imm_b (Btype (word_of_int (- 4096)) 2 1 0 0x63)) = - 4096
    \<and> sint (imm_u (Utype (word_of_int 4096) 1 0x37)) = 4096"
  using immediates_read_back [of "- 1" "- 4096" 0 4096 1 0 1 "0x13" 2]
    immediates_read_back [of "- 1" "- 4096" 0 4096 1 0 1 "0x37" 2]
    immediates_read_back [of "- 1" "- 4096" 0 4096 1 0 1 "0x63" 2] by auto

end
