(* ===== verification/RV_Asm.thy ===== *)
theory RV_Asm
  imports RV_Formats
begin

text \<open>
  The instructions of RV64IMA with Zicsr, Zifencei, the privileged returns and the floating-point
  loads and stores, as data: their encoding into words, built with the formats of the core's
  expander, and the text this tool has for them. The disassembler prints the text of an
  instruction for its encoding. Registers, shift amounts, upper immediates and CSR numbers are
  words of their field's width; offsets and immediates are integers in the range of their format.
\<close>

type_synonym regno = "5 word"

datatype branch_op = BEQ | BNE | BLT | BGE | BLTU | BGEU
datatype load_op = LB | LH | LW | LD | LBU | LHU | LWU
datatype store_op = SB | SH | SW | SD
datatype imm_op = ADDI | SLTI | SLTIU | XORI | ORI | ANDI
datatype shift_op = SLL | SRL | SRA
datatype alu_op = Add | Sub | Sll | Slt | Sltu | Xor | Srl | Sra | Or | And
  | Mul | Mulh | Mulhsu | Mulhu | Div | Divu | Rem | Remu
datatype alu32_op = Addw | Subw | Sllw | Srlw | Sraw | Mulw | Divw | Divuw | Remw | Remuw
datatype amo_op = Amoadd | Amoswap | Lr | Sc | Amoxor | Amoor | Amoand | Amomin | Amomax | Amominu | Amomaxu
datatype csr_op = CSRRW | CSRRS | CSRRC

datatype insn =
    Lui regno "20 word"
  | Auipc regno "20 word"
  | Jal regno int
  | Jalr regno regno int
  | Branch branch_op regno regno int
  | Load load_op regno regno int
  | Store store_op regno regno int
  | Op_imm imm_op regno regno int
  | Shift shift_op regno regno "6 word"
  | Addiw regno regno int
  | Shift32 shift_op regno regno "5 word"
  | Op alu_op regno regno regno
  | Op32 alu32_op regno regno regno
  | Fence "12 word"
  | Fence_i
  | Ecall
  | Ebreak
  | Mret
  | Sret
  | Wfi
  | Sfence_vma regno regno
  | Csr csr_op regno "12 word" regno
  | Csri csr_op regno "12 word" regno
  | Amo amo_op bool bool bool regno regno regno
  | Load_fp bool regno regno int
  | Store_fp bool regno regno int

section \<open>Encoding\<close>

fun branch_f3 :: "branch_op \<Rightarrow> u32" where
  "branch_f3 BEQ = 0" | "branch_f3 BNE = 1" | "branch_f3 BLT = 4" | "branch_f3 BGE = 5"
| "branch_f3 BLTU = 6" | "branch_f3 BGEU = 7"

fun load_f3 :: "load_op \<Rightarrow> u32" where
  "load_f3 LB = 0" | "load_f3 LH = 1" | "load_f3 LW = 2" | "load_f3 LD = 3"
| "load_f3 LBU = 4" | "load_f3 LHU = 5" | "load_f3 LWU = 6"

fun store_f3 :: "store_op \<Rightarrow> u32" where
  "store_f3 SB = 0" | "store_f3 SH = 1" | "store_f3 SW = 2" | "store_f3 SD = 3"

fun imm_f3 :: "imm_op \<Rightarrow> u32" where
  "imm_f3 ADDI = 0" | "imm_f3 SLTI = 2" | "imm_f3 SLTIU = 3" | "imm_f3 XORI = 4"
| "imm_f3 ORI = 6" | "imm_f3 ANDI = 7"

text \<open>The funct3 and, above the shift amount, the bits of the immediate.\<close>

fun shift_code :: "shift_op \<Rightarrow> u32 \<times> u32" where
  "shift_code SLL = (1, 0)" | "shift_code SRL = (5, 0)" | "shift_code SRA = (5, 0x400)"

text \<open>The funct7 and funct3 of register instructions.\<close>

fun alu_code :: "alu_op \<Rightarrow> u32 \<times> u32" where
  "alu_code Add = (0, 0)" | "alu_code Sub = (0x20, 0)" | "alu_code Sll = (0, 1)" | "alu_code Slt = (0, 2)"
| "alu_code Sltu = (0, 3)" | "alu_code Xor = (0, 4)" | "alu_code Srl = (0, 5)" | "alu_code Sra = (0x20, 5)"
| "alu_code Or = (0, 6)" | "alu_code And = (0, 7)"
| "alu_code Mul = (1, 0)" | "alu_code Mulh = (1, 1)" | "alu_code Mulhsu = (1, 2)" | "alu_code Mulhu = (1, 3)"
| "alu_code Div = (1, 4)" | "alu_code Divu = (1, 5)" | "alu_code Rem = (1, 6)" | "alu_code Remu = (1, 7)"

fun alu32_code :: "alu32_op \<Rightarrow> u32 \<times> u32" where
  "alu32_code Addw = (0, 0)" | "alu32_code Subw = (0x20, 0)" | "alu32_code Sllw = (0, 1)"
| "alu32_code Srlw = (0, 5)" | "alu32_code Sraw = (0x20, 5)"
| "alu32_code Mulw = (1, 0)" | "alu32_code Divw = (1, 4)" | "alu32_code Divuw = (1, 5)"
| "alu32_code Remw = (1, 6)" | "alu32_code Remuw = (1, 7)"

fun amo_f5 :: "amo_op \<Rightarrow> u32" where
  "amo_f5 Amoadd = 0" | "amo_f5 Amoswap = 1" | "amo_f5 Lr = 2" | "amo_f5 Sc = 3" | "amo_f5 Amoxor = 4"
| "amo_f5 Amoor = 8" | "amo_f5 Amoand = 0xc" | "amo_f5 Amomin = 0x10" | "amo_f5 Amomax = 0x14"
| "amo_f5 Amominu = 0x18" | "amo_f5 Amomaxu = 0x1c"

fun csr_f3 :: "csr_op \<Rightarrow> u32" where
  "csr_f3 CSRRW = 1" | "csr_f3 CSRRS = 2" | "csr_f3 CSRRC = 3"

definition amo_f7 :: "amo_op \<Rightarrow> bool \<Rightarrow> bool \<Rightarrow> u32" where
  "amo_f7 m aq rl = shl (amo_f5 m) 2 OR (if aq then 2 else 0) OR (if rl then 1 else 0)"

abbreviation (input) r5 :: "regno \<Rightarrow> u32" where "r5 \<equiv> ucast"

fun encode :: "insn \<Rightarrow> u32" where
  "encode (Lui d u) = Utype (shl (ucast u) 12) (r5 d) 0x37"
| "encode (Auipc d u) = Utype (shl (ucast u) 12) (r5 d) 0x17"
| "encode (Jal d off) = Jtype (word_of_int off) (r5 d) 0x6f"
| "encode (Jalr d a off) = Itype (word_of_int off) (r5 a) 0 (r5 d) 0x67"
| "encode (Branch m a b off) = Btype (word_of_int off) (r5 b) (r5 a) (branch_f3 m) 0x63"
| "encode (Load m d a off) = Itype (word_of_int off) (r5 a) (load_f3 m) (r5 d) 0x03"
| "encode (Store m b a off) = Stype (word_of_int off) (r5 b) (r5 a) (store_f3 m) 0x23"
| "encode (Op_imm m d a k) = Itype (word_of_int k) (r5 a) (imm_f3 m) (r5 d) 0x13"
| "encode (Shift m d a sh) =
     Itype (snd (shift_code m) OR ucast sh) (r5 a) (fst (shift_code m)) (r5 d) 0x13"
| "encode (Addiw d a k) = Itype (word_of_int k) (r5 a) 0 (r5 d) 0x1b"
| "encode (Shift32 m d a sh) =
     Itype (snd (shift_code m) OR ucast sh) (r5 a) (fst (shift_code m)) (r5 d) 0x1b"
| "encode (Op m d a b) = Rtype (fst (alu_code m)) (r5 b) (r5 a) (snd (alu_code m)) (r5 d) 0x33"
| "encode (Op32 m d a b) = Rtype (fst (alu32_code m)) (r5 b) (r5 a) (snd (alu32_code m)) (r5 d) 0x3b"
| "encode (Fence fm) = Itype (ucast fm) 0 0 0 0x0f"
| "encode Fence_i = Itype 0 0 1 0 0x0f"
| "encode Ecall = Itype 0 0 0 0 0x73"
| "encode Ebreak = Itype 1 0 0 0 0x73"
| "encode Mret = Itype 0x302 0 0 0 0x73"
| "encode Sret = Itype 0x102 0 0 0 0x73"
| "encode Wfi = Itype 0x105 0 0 0 0x73"
| "encode (Sfence_vma a b) = Rtype 0x09 (r5 b) (r5 a) 0 0 0x73"
| "encode (Csr m d c a) = Itype (ucast c) (r5 a) (csr_f3 m) (r5 d) 0x73"
| "encode (Csri m d c k) = Itype (ucast c) (r5 k) (csr_f3 m OR 4) (r5 d) 0x73"
| "encode (Amo m wide aq rl d a b) =
     Rtype (amo_f7 m aq rl) (r5 b) (r5 a) (if wide then 3 else 2) (r5 d) 0x2f"
| "encode (Load_fp dbl d a off) = Itype (word_of_int off) (r5 a) (if dbl then 3 else 2) (r5 d) 0x07"
| "encode (Store_fp dbl b a off) = Stype (word_of_int off) (r5 b) (r5 a) (if dbl then 3 else 2) 0x27"

text \<open>The instructions whose immediates are in the range of their format.\<close>

definition imm12 :: "int \<Rightarrow> bool" where
  "imm12 k = (k \<in> {- 2048 ..< 2048})"

fun insn_ok :: "insn \<Rightarrow> bool" where
  "insn_ok (Jal d off) = (off \<in> {- (2 ^ 20) ..< 2 ^ 20} \<and> even off)"
| "insn_ok (Jalr d a off) = imm12 off"
| "insn_ok (Branch m a b off) = (off \<in> {- 4096 ..< 4096} \<and> even off)"
| "insn_ok (Load m d a off) = imm12 off"
| "insn_ok (Store m b a off) = imm12 off"
| "insn_ok (Op_imm m d a k) = imm12 k"
| "insn_ok (Addiw d a k) = imm12 k"
| "insn_ok (Load_fp dbl d a off) = imm12 off"
| "insn_ok (Store_fp dbl b a off) = imm12 off"
| "insn_ok _ = True"

section \<open>Text\<close>

definition x_reg :: "regno \<Rightarrow> string" where "x_reg r = X ! unat r"
definition f_reg :: "regno \<Rightarrow> string" where "f_reg r = F ! unat r"

fun branch_name :: "branch_op \<Rightarrow> string" where
  "branch_name BEQ = ''beq''" | "branch_name BNE = ''bne''" | "branch_name BLT = ''blt''"
| "branch_name BGE = ''bge''" | "branch_name BLTU = ''bltu''" | "branch_name BGEU = ''bgeu''"

fun load_name :: "load_op \<Rightarrow> string" where
  "load_name LB = ''lb''" | "load_name LH = ''lh''" | "load_name LW = ''lw''" | "load_name LD = ''ld''"
| "load_name LBU = ''lbu''" | "load_name LHU = ''lhu''" | "load_name LWU = ''lwu''"

fun store_name :: "store_op \<Rightarrow> string" where
  "store_name SB = ''sb''" | "store_name SH = ''sh''" | "store_name SW = ''sw''" | "store_name SD = ''sd''"

fun imm_name :: "imm_op \<Rightarrow> string" where
  "imm_name ADDI = ''addi''" | "imm_name SLTI = ''slti''" | "imm_name SLTIU = ''sltiu''"
| "imm_name XORI = ''xori''" | "imm_name ORI = ''ori''" | "imm_name ANDI = ''andi''"

fun shift_name :: "shift_op \<Rightarrow> string" where
  "shift_name SLL = ''slli''" | "shift_name SRL = ''srli''" | "shift_name SRA = ''srai''"

fun alu_name :: "alu_op \<Rightarrow> string" where
  "alu_name Add = ''add''" | "alu_name Sub = ''sub''" | "alu_name Sll = ''sll''" | "alu_name Slt = ''slt''"
| "alu_name Sltu = ''sltu''" | "alu_name Xor = ''xor''" | "alu_name Srl = ''srl''" | "alu_name Sra = ''sra''"
| "alu_name Or = ''or''" | "alu_name And = ''and''"
| "alu_name Mul = ''mul''" | "alu_name Mulh = ''mulh''" | "alu_name Mulhsu = ''mulhsu''"
| "alu_name Mulhu = ''mulhu''" | "alu_name Div = ''div''" | "alu_name Divu = ''divu''"
| "alu_name Rem = ''rem''" | "alu_name Remu = ''remu''"

fun alu32_name :: "alu32_op \<Rightarrow> string" where
  "alu32_name Addw = ''addw''" | "alu32_name Subw = ''subw''" | "alu32_name Sllw = ''sllw''"
| "alu32_name Srlw = ''srlw''" | "alu32_name Sraw = ''sraw''" | "alu32_name Mulw = ''mulw''"
| "alu32_name Divw = ''divw''" | "alu32_name Divuw = ''divuw''" | "alu32_name Remw = ''remw''"
| "alu32_name Remuw = ''remuw''"

fun amo_name :: "amo_op \<Rightarrow> string" where
  "amo_name Amoadd = ''amoadd''" | "amo_name Amoswap = ''amoswap''" | "amo_name Lr = ''lr''"
| "amo_name Sc = ''sc''" | "amo_name Amoxor = ''amoxor''" | "amo_name Amoor = ''amoor''"
| "amo_name Amoand = ''amoand''" | "amo_name Amomin = ''amomin''" | "amo_name Amomax = ''amomax''"
| "amo_name Amominu = ''amominu''" | "amo_name Amomaxu = ''amomaxu''"

fun csr_op_name :: "csr_op \<Rightarrow> string" where
  "csr_op_name CSRRW = ''csrrw''" | "csr_op_name CSRRS = ''csrrs''" | "csr_op_name CSRRC = ''csrrc''"

definition target :: "u64 \<Rightarrow> int \<Rightarrow> string" where
  "target pc off = hex (unat (pc + word_of_int off))"

definition mem_text :: "string \<Rightarrow> string \<Rightarrow> int \<Rightarrow> regno \<Rightarrow> string" where
  "mem_text m r off a = pad_right 7 m @ '' '' @ r @ '','' @ dec_int off @ ''('' @ x_reg a @ '')''"

text \<open>
  The text of an instruction, as the tool has it: objdump's names, registers and pseudo-instructions,
  but \<open>addiw\<close> from the zero register is a \<open>li\<close> with the comment \<open># sext.w\<close>, and the ordering bits of
  an atomic instruction and the sets of a fence are left out.
\<close>

fun asm :: "insn \<Rightarrow> u64 \<Rightarrow> string" where
  "asm (Lui d u) pc = fmt2 ''lui'' (x_reg d) (''0x'' @ hex (unat u))"
| "asm (Auipc d u) pc = fmt2 ''auipc'' (x_reg d) (''0x'' @ hex (unat u))"
| "asm (Jal d off) pc =
     (if d = 0 then ''j       '' @ target pc off
      else if d = 1 then ''jal     '' @ target pc off
      else ''jal     '' @ x_reg d @ '','' @ target pc off)"
| "asm (Jalr d a off) pc =
     (if d = 0 \<and> off = 0 then (if a = 1 then ''ret'' else ''jr      '' @ x_reg a)
      else mem_text ''jalr'' (x_reg d) off a)"
| "asm (Branch m a b off) pc =
     (if b = 0 \<and> m = BEQ then fmt2 ''beqz'' (x_reg a) (target pc off)
      else if b = 0 \<and> m = BNE then fmt2 ''bnez'' (x_reg a) (target pc off)
      else fmt3 (branch_name m) (x_reg a) (x_reg b) (target pc off))"
| "asm (Load m d a off) pc = mem_text (load_name m) (x_reg d) off a"
| "asm (Store m b a off) pc = mem_text (store_name m) (x_reg b) off a"
| "asm (Op_imm m d a k) pc =
     (if m = ADDI \<and> d = 0 \<and> a = 0 \<and> k = 0 then ''nop''
      else if m = ADDI \<and> k = 0 then fmt2 ''mv'' (x_reg d) (x_reg a)
      else if m = ADDI \<and> a = 0 then fmt2 ''li'' (x_reg d) (dec_int k)
      else if m = XORI \<and> k = - 1 then fmt2 ''not'' (x_reg d) (x_reg a)
      else fmt3 (imm_name m) (x_reg d) (x_reg a) (dec_int k))"
| "asm (Shift m d a sh) pc = fmt3 (shift_name m) (x_reg d) (x_reg a) (dec (unat sh))"
| "asm (Addiw d a k) pc =
     (if a = 0 then fmt2 ''li'' (x_reg d) (dec_int k) @ ''  # sext.w''
      else fmt3 ''addiw'' (x_reg d) (x_reg a) (dec_int k))"
| "asm (Shift32 m d a sh) pc = fmt3 (shift_name m @ ''w'') (x_reg d) (x_reg a) (dec (unat sh))"
| "asm (Op m d a b) pc =
     (if m = Sub \<and> a = 0 then fmt2 ''neg'' (x_reg d) (x_reg b)
      else fmt3 (alu_name m) (x_reg d) (x_reg a) (x_reg b))"
| "asm (Op32 m d a b) pc = fmt3 (alu32_name m) (x_reg d) (x_reg a) (x_reg b)"
| "asm (Fence fm) pc = ''fence''"
| "asm Fence_i pc = ''fence.i''"
| "asm Ecall pc = ''ecall''"
| "asm Ebreak pc = ''ebreak''"
| "asm Mret pc = ''mret''"
| "asm Sret pc = ''sret''"
| "asm Wfi pc = ''wfi''"
| "asm (Sfence_vma a b) pc = ''sfence.vma '' @ x_reg a @ '','' @ x_reg b"
| "asm (Csr m d c a) pc =
     (if m = CSRRW \<and> d = 0 then fmt2 ''csrw'' (csr_name (ucast c)) (x_reg a)
      else if m = CSRRS \<and> a = 0 then fmt2 ''csrr'' (x_reg d) (csr_name (ucast c))
      else fmt3 (csr_op_name m) (x_reg d) (csr_name (ucast c)) (x_reg a))"
| "asm (Csri m d c k) pc =
     (if m = CSRRW \<and> d = 0 then fmt2 ''csrwi'' (csr_name (ucast c)) (dec (unat k))
      else fmt3 (csr_op_name m @ ''i'') (x_reg d) (csr_name (ucast c)) (dec (unat k)))"
| "asm (Amo m wide aq rl d a b) pc =
     amo_name m @ (if wide then ''.d'' else ''.w'') @ ''  '' @ x_reg d
       @ (if m = Lr then [] else '','' @ x_reg b) @ '',('' @ x_reg a @ '')''"
| "asm (Load_fp dbl d a off) pc = mem_text (if dbl then ''fld'' else ''flw'') (f_reg d) off a"
| "asm (Store_fp dbl b a off) pc = mem_text (if dbl then ''fsd'' else ''fsw'') (f_reg b) off a"

section \<open>Fields\<close>

lemma ucast_and_mask: "ucast (r :: 'a::len word) AND mask LENGTH('a) = (ucast r :: u32)"
  by (rule bit_word_eqI) (auto simp: bit_simps dest: bit_imp_le_length)

lemma ucast_fields [simp]:
  "ucast (r :: regno) AND (0x1f :: u32) = ucast r" "ucast (sh :: 6 word) AND (0x3f :: u32) = ucast sh"
  "ucast (c :: 12 word) AND (0xfff :: u32) = ucast c"
  using ucast_and_mask [of r] ucast_and_mask [of sh] ucast_and_mask [of c]
  by (simp_all add: mask_eq_exp_minus_1)

lemma unat_ucast_up: "LENGTH('a) \<le> LENGTH('b) \<Longrightarrow> unat (ucast (r :: 'a::len word) :: 'b::len word) = unat r"
  by (simp add: unsigned_ucast_eq take_bit_nat_eq_self_iff) (meson less_le_trans one_le_numeral power_increasing unat_lt)

lemma unat_ucast_fields [simp]:
  "unat (ucast (r :: regno) :: u32) = unat r" "unat (ucast (sh :: 6 word) :: u32) = unat sh"
  by (simp_all add: unat_ucast_up)

lemma unat_regno: "unat (r :: regno) = 0 \<longleftrightarrow> r = 0" "unat r = Suc 0 \<longleftrightarrow> r = 1"
  by (simp_all add: word_unat_eq_iff)

lemma imm12_text [simp]:
  assumes "imm12 k"
  shows "sint (sext (word_of_int k) 12) = k" "sext (word_of_int k) 12 = 0 \<longleftrightarrow> k = 0"
    "sext (word_of_int k) 12 = - 1 \<longleftrightarrow> k = - 1"
proof -
  show *: "sint (sext (word_of_int k) 12) = k"
    using assms sint_sext_id [of 11 k] by (simp add: imm12_def)
  show "sext (word_of_int k) 12 = 0 \<longleftrightarrow> k = 0" "sext (word_of_int k) 12 = - 1 \<longleftrightarrow> k = - 1"
    using * by (auto simp: signed_word_eqI)
qed

lemma sext_id: "- (2 ^ n) \<le> k \<Longrightarrow> k < 2 ^ n \<Longrightarrow> n < 32 \<Longrightarrow> sext (word_of_int k) (Suc n) = word_of_int k"
  using arg_cong [OF sint_sext_id, of n k "word_of_int :: int \<Rightarrow> i64"] by simp

lemma sext_target [simp]:
  "off \<in> {- (2 ^ 20) ..< 2 ^ 20} \<Longrightarrow> even off \<Longrightarrow> sext (word_of_int off AND 0x1ffffe) 21 = word_of_int off"
  "off \<in> {- 4096 ..< 4096} \<Longrightarrow> even off \<Longrightarrow> sext (word_of_int off AND 0x1ffe) 13 = word_of_int off"
  using sext_even [of off 20] sext_id [of 20 off] sext_even [of off 12] sext_id [of 12 off]
  by (simp_all add: mask_eq_exp_minus_1)

lemma upper_field: "unat (signed_drop_bit 12 (scast (shl (ucast (u :: 20 word)) 12 AND 0xfffff000 :: u32) :: u64)
    AND 0xfffff) = unat u"
proof -
  have "shr (shl (ucast u :: u32) 12) 12 = ucast u"
    by (rule bit_word_eqI) (auto simp: bit_simps dest: bit_imp_le_length)
  then show ?thesis by (simp only: lui_field unat_ucast_32_64) (simp add: unat_ucast_up)
qed

lemma Itype_imm: "shr (Itype (ucast (c :: 12 word)) a f d op) 20 = ucast c"
proof -
  have "shr x 20 = shr x 20 AND mask 12" for x :: u32
    by (rule bit_word_eqI) (auto simp: bit_simps dest: bit_imp_le_length)
  then have "shr (Itype (ucast c) a f d op) 20 = shr (Itype (ucast c) a f d op) 20 AND 0xfff"
    by (simp add: mask_eq_exp_minus_1)
  then show ?thesis unfolding Itype_fields(1) vbits_0 by (simp add: mask_eq_exp_minus_1)
qed

lemma Itype_shamt5: "shr (Itype imm a f d op) 20 AND 0x1f = imm AND 0x1f"
proof -
  have "(shr (Itype imm a f d op) 20 AND 0x3f) AND 0x1f = (imm AND 0x3f) AND 0x1f"
    by (simp only: Itype_shamt)
  then show ?thesis by (simp add: and.assoc)
qed

lemma shamt_bit30:
  "shr (ucast (sh :: 6 word) :: u32) 5 AND 0x20 = 0" "shr (ucast (sh5 :: 5 word) :: u32) 5 AND 0x20 = 0"
proof -
  have "shr (ucast sh AND 0x3f :: u32) 5 AND 0x20 = 0" "shr (ucast sh5 AND 0x1f :: u32) 5 AND 0x20 = 0"
    by (simp_all only: drop_bit_and and.assoc) simp_all
  then show "shr (ucast sh :: u32) 5 AND 0x20 = 0" "shr (ucast sh5 :: u32) 5 AND 0x20 = 0" by simp_all
qed

section \<open>The disassembler prints every instruction\<close>

lemmas asm_defs = disasm_def dis_defs decode_simps x_reg_def f_reg_def target_def tgt_def fmt_mem_def
  mem_text_def unat_regno upper_field Itype_imm sext_0 Let_def

lemma asm_jumps:
  "disasm (encode (Lui d u)) pc = asm (Lui d u) pc"
  "disasm (encode (Auipc d u)) pc = asm (Auipc d u) pc"
  "insn_ok (Jal d off) \<Longrightarrow> disasm (encode (Jal d off)) pc = asm (Jal d off) pc"
  "insn_ok (Jalr d a off) \<Longrightarrow> disasm (encode (Jalr d a off)) pc = asm (Jalr d a off) pc"
  by (simp_all add: asm_defs)

lemma asm_branch: "insn_ok (Branch m a b off) \<Longrightarrow> disasm (encode (Branch m a b off)) pc = asm (Branch m a b off) pc"
  by (cases m; simp add: asm_defs)

lemma asm_mem:
  "insn_ok (Load l d a off) \<Longrightarrow> disasm (encode (Load l d a off)) pc = asm (Load l d a off) pc"
  "insn_ok (Store s b a off) \<Longrightarrow> disasm (encode (Store s b a off)) pc = asm (Store s b a off) pc"
  "insn_ok (Load_fp dbl d a off) \<Longrightarrow> disasm (encode (Load_fp dbl d a off)) pc = asm (Load_fp dbl d a off) pc"
  "insn_ok (Store_fp dbl b a off) \<Longrightarrow> disasm (encode (Store_fp dbl b a off)) pc = asm (Store_fp dbl b a off) pc"
  subgoal by (cases l; simp add: asm_defs)
  subgoal by (cases s; simp add: asm_defs)
  by (simp_all add: asm_defs)

lemma asm_imm:
  "insn_ok (Op_imm m d a k) \<Longrightarrow> disasm (encode (Op_imm m d a k)) pc = asm (Op_imm m d a k) pc"
  "insn_ok (Addiw d a k) \<Longrightarrow> disasm (encode (Addiw d a k)) pc = asm (Addiw d a k) pc"
  by (cases m; simp add: asm_defs) (simp add: asm_defs)

lemmas shift_defs = Itype_shamt Itype_shamt5 Itype_bit30 shamt_bit30 bit.conj_disj_distrib
  bit.conj_disj_distrib2 and.assoc

lemma asm_shift:
  "disasm (encode (Shift m d a sh)) pc = asm (Shift m d a sh) pc"
  "disasm (encode (Shift32 m d a sh5)) pc = asm (Shift32 m d a sh5) pc"
  by (cases m; simp add: asm_defs shift_defs)+

lemma asm_op: "disasm (encode (Op m d a b)) pc = asm (Op m d a b) pc"
  by (cases m; simp add: asm_defs)

lemma asm_op32: "disasm (encode (Op32 m d a b)) pc = asm (Op32 m d a b) pc"
  by (cases m; simp add: asm_defs)

lemma asm_csr:
  "disasm (encode (Csr m d c a)) pc = asm (Csr m d c a) pc"
  "disasm (encode (Csri m d c a)) pc = asm (Csri m d c a) pc"
  by (cases m; simp add: asm_defs)+

lemma asm_amo: "disasm (encode (Amo m w aq rl d a b)) pc = asm (Amo m w aq rl d a b) pc"
  by (cases m; cases aq; cases rl; simp add: asm_defs amo_f7_def)

lemma asm_system:
  "disasm (encode (Fence fm)) pc = asm (Fence fm) pc" "disasm (encode Fence_i) pc = asm Fence_i pc"
  "disasm (encode Ecall) pc = asm Ecall pc" "disasm (encode Ebreak) pc = asm Ebreak pc"
  "disasm (encode Mret) pc = asm Mret pc" "disasm (encode Sret) pc = asm Sret pc"
  "disasm (encode Wfi) pc = asm Wfi pc"
  by (simp add: asm_defs, simp add: asm_defs) code_simp+

lemma asm_sfence: "disasm (encode (Sfence_vma a b)) pc = asm (Sfence_vma a b) pc"
proof -
  let ?w = "encode (Sfence_vma a b)"
  have f: "f7 ?w = 9" by (simp add: asm_defs)
  have "?w \<noteq> k" if "f7 k \<noteq> 9" for k using f that by metis
  then have "?w \<noteq> 0x73" "?w \<noteq> 0x00100073" "?w \<noteq> 0x30200073" "?w \<noteq> 0x10200073" "?w \<noteq> 0x10500073"
    by (simp_all add: f7_def del: encode.simps)
  then show ?thesis by (simp add: asm_defs)
qed

lemma disasm_encode: "insn_ok i \<Longrightarrow> disasm (encode i) pc = asm i pc"
  by (cases i)
    (simp_all only: asm_jumps asm_branch asm_mem asm_imm asm_shift asm_op asm_op32 asm_csr asm_amo
      asm_system asm_sfence)

text \<open>
  C5: the disassembler prints every instruction of RV64IMA, Zicsr and Zifencei, the privileged
  returns, and the single and double floating-point loads and stores, with its name, its registers,
  its immediate and its target, or as the pseudo-instruction the tool has for it; an \<open>addiw\<close> from the
  zero register is a \<open>li\<close> marked \<open># sext.w\<close>, and ordering bits and fence sets are not shown.
\<close>
theorem disasm_prints_insn:
  assumes "insn_ok i"
  shows "disasm (encode i) pc = asm i pc"
  using assms by (rule disasm_encode)

theorem disasm_prints_insn_witness: "disasm (encode (Branch BLT 10 11 (- 8))) 0x30 = ''blt     a0,a1,28''"
proof -
  have "asm (Branch BLT 10 11 (- 8)) 0x30 = ''blt     a0,a1,28''" by code_simp
  with disasm_prints_insn [of "Branch BLT 10 11 (- 8)" "0x30"] show ?thesis by simp
qed

text \<open>
  C34: a word of the floating-point load opcode that is neither \<open>flw\<close> nor \<open>fld\<close>, as the vector and
  half-precision loads are, is not printed as a raw word: its text is that of an \<open>flw\<close> instruction
  with another encoding.
\<close>
theorem load_fp_misprint:
  assumes "w AND 0x7f = 0x07" "f3 w \<noteq> 2" "f3 w \<noteq> 3"
  shows "\<exists>d a off. insn_ok (Load_fp False d a off) \<and> encode (Load_fp False d a off) \<noteq> w
    \<and> disasm w pc = asm (Load_fp False d a off) pc"
proof -
  let ?d = "word_of_nat (rd w) :: regno" and ?a = "word_of_nat (rs1 w) :: regno" and ?k = "sint (imm_i w)"
  have "unat ?d = rd w" "unat ?a = rs1 w"
    using field_bounds(1,2) [of w] by (simp_all add: unsigned_of_nat take_bit_nat_eq_self)
  then have "disasm w pc = asm (Load_fp False ?d ?a ?k) pc"
    using assms(1,3) by (simp add: disasm_def dis_load_fp_def fmt_mem_def mem_text_def x_reg_def f_reg_def)
  moreover have "f3 (encode (Load_fp False ?d ?a ?k)) = 2" by (simp add: f3_def Itype_fields)
  then have "encode (Load_fp False ?d ?a ?k) \<noteq> w" using assms(2) by metis
  moreover have "insn_ok (Load_fp False ?d ?a ?k)" using imm_ranges(1) [of w] by (simp add: imm12_def)
  ultimately show ?thesis by blast
qed

theorem load_fp_misprint_witness:
  "\<exists>d a off. encode (Load_fp False d a off) \<noteq> 0x02050007
    \<and> disasm 0x02050007 0 = asm (Load_fp False d a off) 0"
proof -
  have "(0x02050007 :: u32) AND 0x7f = 0x07" "f3 0x02050007 \<noteq> 2" "f3 0x02050007 \<noteq> 3" by (simp_all add: f3_def)
  from load_fp_misprint [OF this] show ?thesis by blast
qed

end
