(* ===== verification/RVC_Insn.thy ===== *)
theory RVC_Insn
  imports RVC_Agree RV_Asm
begin

text \<open>
  The compressed extension as the instruction set defines it: \<open>rvc_insn\<close> gives the instruction a
  parcel stands for, with the bits of its immediates at the places the formats list, and nothing
  for the parcels that are reserved or are not compressed. The core's expander computes the
  encoding of that instruction.
\<close>

section \<open>The compressed extension\<close>

text \<open>An immediate put together from bits of the parcel: pairs of the parcel's bit and the immediate's.\<close>

fun gather :: "(nat \<times> nat) list \<Rightarrow> u16 \<Rightarrow> u32" where
  "gather [] c = 0"
| "gather ((s, d) # ps) c = (if bit c s then shl 1 d else 0) OR gather ps c"

definition sign_from :: "nat \<Rightarrow> (nat \<times> nat) list" where
  "sign_from d = map (\<lambda>k. (12, k)) [d..<32]"

definition u_addi4spn :: "u16 \<Rightarrow> u32" where
  "u_addi4spn = gather [(12, 5), (11, 4), (10, 9), (9, 8), (8, 7), (7, 6), (6, 2), (5, 3)]"
definition u_lw :: "u16 \<Rightarrow> u32" where
  "u_lw = gather [(12, 5), (11, 4), (10, 3), (6, 2), (5, 6)]"
definition u_ld :: "u16 \<Rightarrow> u32" where
  "u_ld = gather [(12, 5), (11, 4), (10, 3), (6, 7), (5, 6)]"
definition s_imm6 :: "u16 \<Rightarrow> u32" where
  "s_imm6 = gather (sign_from 5 @ [(6, 4), (5, 3), (4, 2), (3, 1), (2, 0)])"
definition s_addi16sp :: "u16 \<Rightarrow> u32" where
  "s_addi16sp = gather (sign_from 9 @ [(6, 4), (5, 6), (4, 8), (3, 7), (2, 5)])"
definition s_lui :: "u16 \<Rightarrow> u32" where
  "s_lui = gather (sign_from 5 @ [(6, 4), (5, 3), (4, 2), (3, 1), (2, 0)])"
definition u_shamt :: "u16 \<Rightarrow> u32" where
  "u_shamt = gather [(12, 5), (6, 4), (5, 3), (4, 2), (3, 1), (2, 0)]"
definition s_jump :: "u16 \<Rightarrow> u32" where
  "s_jump = gather (sign_from 11 @ [(11, 4), (10, 9), (9, 8), (8, 10), (7, 6), (6, 7), (5, 3), (4, 2),
     (3, 1), (2, 5)])"
definition s_branch :: "u16 \<Rightarrow> u32" where
  "s_branch = gather (sign_from 8 @ [(11, 4), (10, 3), (6, 7), (5, 6), (4, 2), (3, 1), (2, 5)])"
definition u_lwsp :: "u16 \<Rightarrow> u32" where
  "u_lwsp = gather [(12, 5), (6, 4), (5, 3), (4, 2), (3, 7), (2, 6)]"
definition u_ldsp :: "u16 \<Rightarrow> u32" where
  "u_ldsp = gather [(12, 5), (6, 4), (5, 3), (4, 8), (3, 7), (2, 6)]"
definition u_swsp :: "u16 \<Rightarrow> u32" where
  "u_swsp = gather [(12, 5), (11, 4), (10, 3), (9, 2), (8, 7), (7, 6)]"
definition u_sdsp :: "u16 \<Rightarrow> u32" where
  "u_sdsp = gather [(12, 5), (11, 4), (10, 3), (9, 8), (8, 7), (7, 6)]"

text \<open>Five-bit registers, and three-bit ones, which stand for \<open>x8\<close> to \<open>x15\<close>.\<close>

definition xr :: "u16 \<Rightarrow> nat \<Rightarrow> regno" where
  "xr c l = ucast (vbits c (l + 4) l)"
definition cr :: "u16 \<Rightarrow> nat \<Rightarrow> regno" where
  "cr c l = 8 OR ucast (vbits c (l + 2) l)"

definition rvc_insn_q0 :: "u16 \<Rightarrow> insn option" where
  "rvc_insn_q0 c =
     (let k = vbits c 15 13; d = cr c 2; a = cr c 7
      in if k = 0 then
           (if u_addi4spn c = 0 then None else Some (Op_imm ADDI d 2 (sint (u_addi4spn c))))
         else if k = 1 then Some (Load_fp True d a (sint (u_ld c)))
         else if k = 2 then Some (Load LW d a (sint (u_lw c)))
         else if k = 3 then Some (Load LD d a (sint (u_ld c)))
         else if k = 5 then Some (Store_fp True d a (sint (u_ld c)))
         else if k = 6 then Some (Store SW d a (sint (u_lw c)))
         else if k = 7 then Some (Store SD d a (sint (u_ld c)))
         else None)"

definition rvc_insn_alu :: "u16 \<Rightarrow> insn option" where
  "rvc_insn_alu c =
     (let m = vbits c 11 10; wide = vbits c 12 12 = 0; k = vbits c 6 5; d = cr c 7; b = cr c 2
      in if m = 0 then Some (Shift SRL d d (ucast (u_shamt c)))
         else if m = 1 then Some (Shift SRA d d (ucast (u_shamt c)))
         else if m = 2 then Some (Op_imm ANDI d d (sint (s_imm6 c)))
         else if wide then
           Some (Op (if k = 0 then Sub else if k = 1 then Xor else if k = 2 then Or else And) d d b)
         else if k = 0 then Some (Op32 Subw d d b)
         else if k = 1 then Some (Op32 Addw d d b)
         else None)"

definition rvc_insn_q1 :: "u16 \<Rightarrow> insn option" where
  "rvc_insn_q1 c =
     (let k = vbits c 15 13; d = xr c 7
      in if k = 0 then Some (Op_imm ADDI d d (sint (s_imm6 c)))
         else if k = 1 then (if d = 0 then None else Some (Addiw d d (sint (s_imm6 c))))
         else if k = 2 then Some (Op_imm ADDI d 0 (sint (s_imm6 c)))
         else if k = 3 then
           (if s_lui c = 0 then None
            else if d = 2 then Some (Op_imm ADDI 2 2 (sint (s_addi16sp c)))
            else Some (Lui d (ucast (s_lui c))))
         else if k = 4 then rvc_insn_alu c
         else if k = 5 then Some (Jal 0 (sint (s_jump c)))
         else if k = 6 then Some (Branch BEQ (cr c 7) 0 (sint (s_branch c)))
         else Some (Branch BNE (cr c 7) 0 (sint (s_branch c))))"

definition rvc_insn_q2 :: "u16 \<Rightarrow> insn option" where
  "rvc_insn_q2 c =
     (let k = vbits c 15 13; d = xr c 7; b = xr c 2
      in if k = 0 then Some (Shift SLL d d (ucast (u_shamt c)))
         else if k = 1 then Some (Load_fp True d 2 (sint (u_ldsp c)))
         else if k = 2 then (if d = 0 then None else Some (Load LW d 2 (sint (u_lwsp c))))
         else if k = 3 then (if d = 0 then None else Some (Load LD d 2 (sint (u_ldsp c))))
         else if k = 4 then
           (if vbits c 12 12 = 0 then
              (if b \<noteq> 0 then Some (Op Add d 0 b)
               else if d = 0 then None else Some (Jalr 0 d 0))
            else
              (if b \<noteq> 0 then Some (Op Add d d b)
               else if d = 0 then Some Ebreak else Some (Jalr 1 d 0)))
         else if k = 5 then Some (Store_fp True b 2 (sint (u_sdsp c)))
         else if k = 6 then Some (Store SW b 2 (sint (u_swsp c)))
         else Some (Store SD b 2 (sint (u_sdsp c))))"

definition rvc_insn :: "u16 \<Rightarrow> insn option" where
  "rvc_insn c =
     (if vbits c 1 0 = 0 then rvc_insn_q0 c
      else if vbits c 1 0 = 1 then rvc_insn_q1 c
      else if vbits c 1 0 = 2 then rvc_insn_q2 c
      else None)"

section \<open>Fields and immediates agree\<close>

lemma or_linear_gather [or_linear_intros]: "or_linear (gather ps)"
  by (induction ps) (auto simp: or_linear_def bit_or_iff or.assoc or.left_commute)

lemmas spec_imm_defs = u_addi4spn_def u_lw_def u_ld_def s_imm6_def s_addi16sp_def s_lui_def
  u_shamt_def s_jump_def s_branch_def u_lwsp_def u_ldsp_def u_swsp_def u_sdsp_def

lemma reg_spec:
  "(\<lambda>c. ucast (xr c 7)) = p_rd" "(\<lambda>c. ucast (xr c 2)) = p_rs2"
  "(\<lambda>c. ucast (cr c 7)) = rs1p" "(\<lambda>c. ucast (cr c 2)) = rdsp"
  unfolding xr_def cr_def
  by (rule or_linear_ext; (intro or_linear_intros)?; simp add: expand_eval)+

lemma imm_spec:
  "i_ciw = u_addi4spn" "i_clw = u_lw" "i_cld = u_ld" "i_ci = s_imm6" "i_a16 = s_addi16sp" "i_shl = u_shamt"
  "i_cj = s_jump" "i_cb = s_branch" "i_lwsp = u_lwsp" "i_ldsp = u_ldsp" "i_swsp = u_swsp" "i_sdsp = u_sdsp"
  unfolding spec_imm_defs sign_from_def
  by (rule or_linear_ext; (intro or_linear_intros)?; simp add: expand_eval upt_rec)+


lemma shamt_spec:
  "(\<lambda>c. ucast (ucast (u_shamt c) :: 6 word)) = u_shamt" "i_sra = (\<lambda>c. 0x400 OR u_shamt c)"
  "i_lui = (\<lambda>c. shl (ucast (ucast (s_lui c) :: 20 word)) 12)"
  unfolding spec_imm_defs sign_from_def
  by (rule or_linear_ext; (intro or_linear_intros)?; simp add: expand_eval upt_rec)+

lemma zero_spec:
  "(\<lambda>c. u_addi4spn c = 0) = (\<lambda>c::u16. vbits c 12 5 = 0)"
  "(\<lambda>c. s_lui c = 0) = (\<lambda>c::u16. vcat [(1, vbits c 12 12), (5, vbits c 6 2)] = 0)"
  unfolding vcat_def vcat_from.simps spec_imm_defs sign_from_def
  by (rule or_linear_zero_iff; (intro or_linear_intros)?; simp add: expand_eval upt_rec)+

lemmas spec_simps = reg_spec [THEN fun_cong] imm_spec shamt_spec(1) [THEN fun_cong] shamt_spec(2,3)
  zero_spec [THEN fun_cong]

lemma reg_eq:
  "xr c 7 = 0 \<longleftrightarrow> p_rd c = 0" "xr c 7 = 2 \<longleftrightarrow> p_rd c = 2" "xr c 2 = 0 \<longleftrightarrow> p_rs2 c = 0"
proof -
  have inj: "r = k \<longleftrightarrow> ucast r = (ucast k :: u32)" for r k :: regno
    by (metis unat_ucast_fields(1) word_unat_eq_iff)
  show "xr c 7 = 0 \<longleftrightarrow> p_rd c = 0" "xr c 7 = 2 \<longleftrightarrow> p_rd c = 2" "xr c 2 = 0 \<longleftrightarrow> p_rs2 c = 0"
    by (simp_all add: inj reg_spec [THEN fun_cong])
qed

section \<open>The expander computes the encoding\<close>

definition encoding :: "insn option \<Rightarrow> u32" where
  "encoding x = (case x of None \<Rightarrow> 0 | Some i \<Rightarrow> encode i)"

lemma encode_ebreak: "encode Ebreak = 0x00100073"
  by code_simp

lemmas insn_simps = encoding_def spec_simps reg_eq Let_def

lemma insn_q0: "encoding (rvc_insn_q0 c) = expand_q0 c"
  using vbits_range(2) [of c] unfolding rvc_insn_q0_def expand_q0_def
  by (elim insertE emptyE; simp add: insn_simps)

lemma insn_alu: "encoding (rvc_insn_alu c) = expand_alu c"
  using vbits_range(3,4,5) [of c] unfolding rvc_insn_alu_def expand_alu_def
  by (elim insertE emptyE; simp add: insn_simps vcat_def mask_eq_exp_minus_1)

lemma insn_q1: "encoding (rvc_insn_q1 c) = expand_q1 c"
  using vbits_range(2) [of c] insn_alu [of c] unfolding rvc_insn_q1_def expand_q1_def
  by (elim insertE emptyE; simp add: insn_simps)

lemma insn_q2: "encoding (rvc_insn_q2 c) = expand_q2 c"
  using vbits_range(2) [of c] unfolding rvc_insn_q2_def expand_q2_def
  by (elim insertE emptyE; simp add: insn_simps encode_ebreak del: encode.simps(17))

lemma rvc_expand_insn: "rvc_expand c = encoding (rvc_insn c)"
  by (simp add: rvc_insn_def rvc_expand_def insn_q0 insn_q1 insn_q2) (simp add: encoding_def)

section \<open>The instruction exists\<close>

lemma or_linear_sext [or_linear_intros]: "or_linear f \<Longrightarrow> or_linear (\<lambda>x. sext (f x) n)"
  unfolding or_linear_def sext_def Let_def
  by (auto intro!: bit_word_eqI simp: bit_simps unsigned_or_eq)

lemma imm_fits:
  "(\<lambda>c. sext (i_ci c) 12) = (\<lambda>c. scast (i_ci c))"
  "(\<lambda>c. sext (i_ciw c) 12) = (\<lambda>c. scast (i_ciw c))"
  "(\<lambda>c. sext (i_clw c) 12) = (\<lambda>c. scast (i_clw c))"
  "(\<lambda>c. sext (i_cj c AND 0x1ffffe) 21) = (\<lambda>c. scast (i_cj c))"
  "(\<lambda>c. sext (i_cb c AND 0x1ffe) 13) = (\<lambda>c. scast (i_cb c))"
  by (rule or_linear_ext; (intro or_linear_intros)?; simp add: expand_eval sext_def)+

lemma imm_fits_all:
  "(\<lambda>c. sext (i_cld c) 12) = (\<lambda>c. scast (i_cld c))"
  "(\<lambda>c. sext (i_a16 c) 12) = (\<lambda>c. scast (i_a16 c))"
  "(\<lambda>c. sext (i_lwsp c) 12) = (\<lambda>c. scast (i_lwsp c))"
  "(\<lambda>c. sext (i_ldsp c) 12) = (\<lambda>c. scast (i_ldsp c))"
  "(\<lambda>c. sext (i_swsp c) 12) = (\<lambda>c. scast (i_swsp c))"
  "(\<lambda>c. sext (i_sdsp c) 12) = (\<lambda>c. scast (i_sdsp c))"
  by (rule or_linear_ext; (intro or_linear_intros)?; simp add: expand_eval sext_def)+

lemma imm12_fits:
  assumes "sext k 12 = scast k"
  shows "imm12 (sint k)"
  using sext_range [of 11 k] sint_scast_32 [of k] assms by (simp add: imm12_def)

lemma imm12_spec:
  "imm12 (sint (u_addi4spn c))" "imm12 (sint (u_lw c))" "imm12 (sint (u_ld c))" "imm12 (sint (s_imm6 c))"
  "imm12 (sint (s_addi16sp c))" "imm12 (sint (u_lwsp c))" "imm12 (sint (u_ldsp c))"
  "imm12 (sint (u_swsp c))" "imm12 (sint (u_sdsp c))"
  using imm_fits(1-3) [THEN fun_cong, of c] imm_fits_all [THEN fun_cong, of c]
  by (simp_all add: imm12_fits imm_spec)

lemma offset_spec:
  "sint (s_jump c) \<in> {- (2 ^ 20) ..< 2 ^ 20} \<and> even (sint (s_jump c))"
  "sint (s_branch c) \<in> {- 4096 ..< 4096} \<and> even (sint (s_branch c))"
  using imm_fits(4,5) [THEN fun_cong, of c] sint_scast_32 [of "s_jump c"] sint_scast_32 [of "s_branch c"]
    sext_range [of 20 "s_jump c AND 0x1ffffe"] sext_range [of 12 "s_branch c AND 0x1ffe"]
    even_sint_sext [of 20 "s_jump c AND 0x1ffffe"] even_sint_sext [of 12 "s_branch c AND 0x1ffe"]
  by (simp_all add: imm_spec even_and_iff)

lemma rvc_insn_ok: "rvc_insn c = Some i \<Longrightarrow> insn_ok i"
  using imm12_spec [of c] offset_spec [of c]
  by (auto simp: rvc_insn_def rvc_insn_q0_def rvc_insn_q1_def rvc_insn_q2_def rvc_insn_alu_def Let_def
      imm12_def [of 0] split: if_splits)

end
