(* ===== verification/RVC_Block.thy ===== *)
theory RVC_Block
  imports RVC_Agree
begin

text \<open>
  The expansion table in blocks of 1024 entries. A block holds the expansions of the parcels that
  share their upper six bits, so it lies in one major opcode (bits 15 to 13) of each quadrant.
\<close>

definition low_bits :: "u16 list" where
  "low_bits = [0x200, 0x100, 0x80, 0x40, 0x20, 0x10, 8, 4]"

abbreviation parcels :: "u16 \<Rightarrow> u16 list" where
  "parcels hi \<equiv> spread low_bits hi"

definition table_block :: "u16 \<Rightarrow> u32 list" where
  "table_block hi =
     concat (map (\<lambda>c. [rvc_expand c, rvc_expand (c OR 1), rvc_expand (c OR 2), 0]) (parcels hi))"

fun interleave :: "'a list \<Rightarrow> 'a list \<Rightarrow> 'a list \<Rightarrow> 'a \<Rightarrow> 'a list" where
  "interleave (x # xs) (y # ys) (z # zs) d = x # y # z # d # interleave xs ys zs d"
| "interleave _ _ _ _ = []"

lemma interleave_map:
  "interleave (map f cs) (map g cs) (map h cs) d = concat (map (\<lambda>c. [f c, g c, h c, d]) cs)"
  by (induction cs) simp_all

lemma spread_and:
  assumes "c \<in> set (spread ps a)" "\<And>p. p \<in> set ps \<Longrightarrow> p AND m = 0"
  shows "c AND m = a AND m"
  using assms
proof (induction ps arbitrary: a)
  case (Cons p ps)
  moreover have "(a OR p) AND m = a AND m"
    using Cons.prems(2) by (simp add: bit.conj_disj_distrib2)
  ultimately show ?case by auto
qed simp

text \<open>The parcels of a block agree with its base in bits 15 to 10, 1 and 0.\<close>

lemma parcels_and: "c \<in> set (parcels hi) \<Longrightarrow> c AND 0xfc03 = hi AND 0xfc03"
  by (erule spread_and) (auto simp: low_bits_def)

lemma vbits_upper:
  "(\<lambda>c::u16. vbits c 15 13) = (\<lambda>c. vbits (c AND 0xfc03) 15 13)"
  "(\<lambda>c::u16. vbits c 12 12) = (\<lambda>c. vbits (c AND 0xfc03) 12 12)"
  "(\<lambda>c::u16. vbits c 11 10) = (\<lambda>c. vbits (c AND 0xfc03) 11 10)"
  "(\<lambda>c::u16. vbits c 1 0) = (\<lambda>c. vbits (c AND 0xfc03) 1 0)"
  "(\<lambda>c::u16. vbits (c OR 1) 15 13) = (\<lambda>c. vbits c 15 13)"
  "(\<lambda>c::u16. vbits (c OR 1) 12 12) = (\<lambda>c. vbits c 12 12)"
  "(\<lambda>c::u16. vbits (c OR 1) 11 10) = (\<lambda>c. vbits c 11 10)"
  "(\<lambda>c::u16. vbits (c OR 2) 15 13) = (\<lambda>c. vbits c 15 13)"
  "(\<lambda>c::u16. vbits (c OR 2) 12 12) = (\<lambda>c. vbits c 12 12)"
  by (rule or_linear_ext; (intro or_linear_intros)?; simp add: expand_eval)+

lemma parcels_upper:
  assumes "c \<in> set (parcels hi)"
  shows "vbits c 15 13 = vbits hi 15 13" "vbits c 12 12 = vbits hi 12 12"
    "vbits c 11 10 = vbits hi 11 10" "vbits c 1 0 = vbits hi 1 0"
  using parcels_and [OF assms] vbits_upper(1-4) [THEN fun_cong] by metis+

lemmas parcel_eq = parcels_upper vbits_upper(5-9) [THEN fun_cong]


section \<open>Generating a block\<close>

text \<open>The values of a bit rearrangement on a block, from its values on nine words.\<close>

definition gen :: "(u16 \<Rightarrow> u32) \<Rightarrow> u16 \<Rightarrow> u32 list" where
  "gen F hi = spread (map F low_bits) (F hi)"

lemma map_parcels: "or_linear F \<Longrightarrow> map F (parcels hi) = gen F hi"
  unfolding gen_def by (rule or_linear.map_spread)

definition keep_nz :: "u32 \<Rightarrow> u32 \<Rightarrow> u32" where
  "keep_nz r v = (if r \<noteq> 0 then v else 0)"

lemma map_parcels_nz:
  assumes "map A (parcels hi) = X" "map F (parcels hi) = Y"
  shows "map (\<lambda>c. if A c \<noteq> 0 then F c else 0) (parcels hi) = map2 keep_nz X Y"
  by (simp add: assms [symmetric] zip_map_map zip_same_conv_map keep_nz_def)

fun map3 :: "('a \<Rightarrow> 'b \<Rightarrow> 'c \<Rightarrow> 'd) \<Rightarrow> 'a list \<Rightarrow> 'b list \<Rightarrow> 'c list \<Rightarrow> 'd list" where
  "map3 f (x # xs) (y # ys) (z # zs) = f x y z # map3 f xs ys zs"
| "map3 f _ _ _ = []"

definition sel :: "u32 \<Rightarrow> u32 \<Rightarrow> u32 \<Rightarrow> u32 \<Rightarrow> u32" where
  "sel k r x y = (if r = k then x else y)"

lemma map_parcels_sel:
  assumes "map A (parcels hi) = X" "map F (parcels hi) = Y" "map G (parcels hi) = Z"
  shows "map (\<lambda>c. if A c = k then F c else G c) (parcels hi) = map3 (sel k) X Y Z"
proof -
  have "map (\<lambda>c. if A c = k then F c else G c) cs = map3 (sel k) (map A cs) (map F cs) (map G cs)"
    for cs by (induction cs) (simp_all add: sel_def)
  with assms show ?thesis by simp
qed

lemma vbits_or: "vbits (x OR y) h l = vbits x h l OR vbits y h l"
  by (rule or_linear.or_hom) (intro or_linear_intros)

lemma table_block_parts:
  assumes "vbits hi 1 0 = 0"
  shows "table_block hi = interleave (map expand_q0 (parcels hi))
    (map (\<lambda>c. expand_q1 (c OR 1)) (parcels hi)) (map (\<lambda>c. expand_q2 (c OR 2)) (parcels hi)) 0"
proof -
  have "rvc_expand c = expand_q0 c \<and> rvc_expand (c OR 1) = expand_q1 (c OR 1)
      \<and> rvc_expand (c OR 2) = expand_q2 (c OR 2)" if "c \<in> set (parcels hi)" for c
  proof -
    have "vbits c 1 0 = 0" using parcels_upper(4) [OF that] assms by simp
    moreover have "vbits (1::u16) 1 0 = 1" "vbits (2::u16) 1 0 = 2" by code_simp+
    ultimately show ?thesis by (simp add: rvc_expand_def vbits_or)
  qed
  then show ?thesis
    unfolding table_block_def interleave_map by (intro arg_cong [where f = concat] map_cong) auto
qed

lemma block_rule:
  assumes "vbits hi 1 0 = 0"
    and "map f (parcels hi) = F" "map g (parcels hi) = G" "map h (parcels hi) = H"
    and "\<And>c. c \<in> set (parcels hi) \<Longrightarrow> expand_q0 c = f c"
    and "\<And>c. c \<in> set (parcels hi) \<Longrightarrow> expand_q1 (c OR 1) = g c"
    and "\<And>c. c \<in> set (parcels hi) \<Longrightarrow> expand_q2 (c OR 2) = h c"
  shows "table_block hi = interleave F G H 0"
  using assms(5-7) by (simp add: table_block_parts [OF assms(1)] assms(2-4) [symmetric] cong: map_cong)

text \<open>No field of quadrants 1 and 2 reads the two quadrant bits.\<close>

lemma cond_lin [or_linear_intros]: "or_linear (\<lambda>c::u16. vcat [(1, vbits c 12 12), (5, vbits c 6 2)])"
  unfolding vcat_def vcat_from.simps by (intro or_linear_intros)

lemma quadrant_ignored:
  "(\<lambda>c. i_ci (c OR 1)) = i_ci"
  "(\<lambda>c. p_rd (c OR 1)) = p_rd"
  "(\<lambda>c. i_a16 (c OR 1)) = i_a16"
  "(\<lambda>c. i_lui (c OR 1)) = i_lui"
  "(\<lambda>c. rs1p (c OR 1)) = rs1p"
  "(\<lambda>c. rdsp (c OR 1)) = rdsp"
  "(\<lambda>c. i_shl (c OR 1)) = i_shl"
  "(\<lambda>c. i_sra (c OR 1)) = i_sra"
  "(\<lambda>c. i_cj (c OR 1)) = i_cj"
  "(\<lambda>c. i_cb (c OR 1)) = i_cb"
  "(\<lambda>c. i_shl (c OR 2)) = i_shl"
  "(\<lambda>c. i_ldsp (c OR 2)) = i_ldsp"
  "(\<lambda>c. i_lwsp (c OR 2)) = i_lwsp"
  "(\<lambda>c. p_rd (c OR 2)) = p_rd"
  "(\<lambda>c. p_rs2 (c OR 2)) = p_rs2"
  "(\<lambda>c. i_sdsp (c OR 2)) = i_sdsp"
  "(\<lambda>c. i_swsp (c OR 2)) = i_swsp"
  "(\<lambda>c::u16. vbits (c OR 1) 6 2) = (\<lambda>c. vbits c 6 2)"
  "(\<lambda>c::u16. vbits (c OR 1) 6 5) = (\<lambda>c. vbits c 6 5)"
  by (rule or_linear_ext; (intro or_linear_intros)?; simp add: expand_eval)+

lemmas block_intros = map_parcels map_parcels_nz map_parcels_sel

lemmas block_defs =
  expand_q0_def expand_q1_def expand_q2_def expand_alu_def parcel_eq
  quadrant_ignored [THEN fun_cong]

section \<open>The blocks of each major opcode\<close>

lemma block_0:
  assumes "vbits hi 1 0 = 0" "vbits hi 15 13 = 0"
  shows "table_block hi = interleave
    (map2 keep_nz (gen (\<lambda>c. vbits c 12 5) hi)
      (gen (\<lambda>c. Itype (i_ciw c) 2 0 (rdsp c) OPIMM) hi))
    (gen (\<lambda>c. Itype (i_ci c) (p_rd c) 0 (p_rd c) OPIMM) hi)
    (gen (\<lambda>c. Itype (i_shl c) (p_rd c) 1 (p_rd c) OPIMM) hi) 0"
  by (rule block_rule [OF assms(1)], (rule block_intros | (intro or_linear_intros)[1])+)
    (use assms in \<open>simp_all add: block_defs\<close>)

lemma block_1:
  assumes "vbits hi 1 0 = 0" "vbits hi 15 13 = 1"
  shows "table_block hi = interleave
    (gen (\<lambda>c. Itype (i_cld c) (rs1p c) 3 (rdsp c) LOADFP) hi)
    (map2 keep_nz (gen (\<lambda>c. p_rd c) hi)
      (gen (\<lambda>c. Itype (i_ci c) (p_rd c) 0 (p_rd c) OPIMM32) hi))
    (gen (\<lambda>c. Itype (i_ldsp c) 2 3 (p_rd c) LOADFP) hi) 0"
  by (rule block_rule [OF assms(1)], (rule block_intros | (intro or_linear_intros)[1])+)
    (use assms in \<open>simp_all add: block_defs\<close>)

lemma block_2:
  assumes "vbits hi 1 0 = 0" "vbits hi 15 13 = 2"
  shows "table_block hi = interleave
    (gen (\<lambda>c. Itype (i_clw c) (rs1p c) 2 (rdsp c) LOAD) hi)
    (gen (\<lambda>c. Itype (i_ci c) 0 0 (p_rd c) OPIMM) hi)
    (map2 keep_nz (gen (\<lambda>c. p_rd c) hi)
      (gen (\<lambda>c. Itype (i_lwsp c) 2 2 (p_rd c) LOAD) hi)) 0"
  by (rule block_rule [OF assms(1)], (rule block_intros | (intro or_linear_intros)[1])+)
    (use assms in \<open>simp_all add: block_defs\<close>)

lemma block_5:
  assumes "vbits hi 1 0 = 0" "vbits hi 15 13 = 5"
  shows "table_block hi = interleave
    (gen (\<lambda>c. Stype (i_cld c) (rdsp c) (rs1p c) 3 STOREFP) hi)
    (gen (\<lambda>c. Jtype (i_cj c) 0 JAL) hi)
    (gen (\<lambda>c. Stype (i_sdsp c) (p_rs2 c) 2 3 STOREFP) hi) 0"
  by (rule block_rule [OF assms(1)], (rule block_intros | (intro or_linear_intros)[1])+)
    (use assms in \<open>simp_all add: block_defs\<close>)

lemma block_6:
  assumes "vbits hi 1 0 = 0" "vbits hi 15 13 = 6"
  shows "table_block hi = interleave
    (gen (\<lambda>c. Stype (i_clw c) (rdsp c) (rs1p c) 2 STORE) hi)
    (gen (\<lambda>c. Btype (i_cb c) 0 (rs1p c) 0 BRANCH) hi)
    (gen (\<lambda>c. Stype (i_swsp c) (p_rs2 c) 2 2 STORE) hi) 0"
  by (rule block_rule [OF assms(1)], (rule block_intros | (intro or_linear_intros)[1])+)
    (use assms in \<open>simp_all add: block_defs\<close>)

lemma block_7:
  assumes "vbits hi 1 0 = 0" "vbits hi 15 13 = 7"
  shows "table_block hi = interleave
    (gen (\<lambda>c. Stype (i_cld c) (rdsp c) (rs1p c) 3 STORE) hi)
    (gen (\<lambda>c. Btype (i_cb c) 0 (rs1p c) 1 BRANCH) hi)
    (gen (\<lambda>c. Stype (i_sdsp c) (p_rs2 c) 2 3 STORE) hi) 0"
  by (rule block_rule [OF assms(1)], (rule block_intros | (intro or_linear_intros)[1])+)
    (use assms in \<open>simp_all add: block_defs\<close>)

lemma block_3:
  assumes "vbits hi 1 0 = 0" "vbits hi 15 13 = 3"
  shows "table_block hi = interleave
    (gen (\<lambda>c. Itype (i_cld c) (rs1p c) 3 (rdsp c) LOAD) hi)
    (map3 (sel 2) (gen p_rd hi)
      (map2 keep_nz (gen (\<lambda>c. vcat [(1, vbits c 12 12), (5, vbits c 6 2)]) hi)
        (gen (\<lambda>c. Itype (i_a16 c) 2 0 2 OPIMM) hi))
      (map2 keep_nz (gen (\<lambda>c. vcat [(1, vbits c 12 12), (5, vbits c 6 2)]) hi)
        (gen (\<lambda>c. Utype (i_lui c) (p_rd c) LUI) hi)))
    (map2 keep_nz (gen (\<lambda>c. p_rd c) hi) (gen (\<lambda>c. Itype (i_ldsp c) 2 3 (p_rd c) LOAD) hi)) 0"
  by (rule block_rule [OF assms(1)], (rule block_intros | (intro or_linear_intros)[1])+)
    (use assms in \<open>simp_all add: block_defs\<close>)

text \<open>In major opcode 4 the block's base also selects among the arms of quadrants 1 and 2.\<close>

lemma block_4:
  assumes "vbits hi 1 0 = 0" "vbits hi 15 13 = 4"
    and "map g (parcels hi) = G" "map h (parcels hi) = H"
    and "\<And>c. c \<in> set (parcels hi) \<Longrightarrow> expand_alu (c OR 1) = g c"
    and "\<And>c. c \<in> set (parcels hi) \<Longrightarrow> expand_q2 (c OR 2) = h c"
  shows "table_block hi = interleave (gen (\<lambda>c. 0) hi) G H 0"
  by (rule block_rule [OF assms(1) map_parcels [OF or_linear_const] assms(3,4)])
    (use assms in \<open>simp_all add: block_defs(1,2) parcel_eq\<close>)

lemma expand_alu_rtype:
  assumes "vbits c 11 10 = 3"
  shows "expand_alu c =
    (if vbits c 12 12 = 0 then
       (if vbits c 6 5 = 0 then Rtype 0x20 (rdsp c) (rs1p c) 0 (rs1p c) OP
        else if vbits c 6 5 = 1 then Rtype 0 (rdsp c) (rs1p c) 4 (rs1p c) OP
        else if vbits c 6 5 = 2 then Rtype 0 (rdsp c) (rs1p c) 6 (rs1p c) OP
        else Rtype 0 (rdsp c) (rs1p c) 7 (rs1p c) OP)
     else
       (if vbits c 6 5 = 0 then Rtype 0x20 (rdsp c) (rs1p c) 0 (rs1p c) OP32
        else if vbits c 6 5 = 1 then Rtype 0 (rdsp c) (rs1p c) 0 (rs1p c) OP32
        else 0))"
  using assms vbits_range(4,5) [of c]
  by (elim insertE emptyE) (simp_all add: expand_alu_def vcat_def mask_eq_exp_minus_1)

lemma block_4_00:
  assumes "vbits hi 1 0 = 0" "vbits hi 15 13 = 4" "vbits hi 12 12 = 0" "vbits hi 11 10 = 0"
  shows "table_block hi = interleave (gen (\<lambda>c. 0) hi)
    (gen (\<lambda>c. Itype (i_shl c) (rs1p c) 5 (rs1p c) OPIMM) hi)
    (map3 (sel 0) (gen p_rs2 hi)
      (map2 keep_nz (gen p_rd hi) (gen (\<lambda>c. Itype 0 (p_rd c) 0 0 JALR) hi))
      (gen (\<lambda>c. Rtype 0 (p_rs2 c) 0 0 (p_rd c) OP) hi)) 0"
  by (rule block_4 [OF assms(1,2)], (rule block_intros | (intro or_linear_intros)[1])+)
    (use assms in \<open>simp_all add: block_defs\<close>)

lemma block_4_01:
  assumes "vbits hi 1 0 = 0" "vbits hi 15 13 = 4" "vbits hi 12 12 = 0" "vbits hi 11 10 = 1"
  shows "table_block hi = interleave (gen (\<lambda>c. 0) hi)
    (gen (\<lambda>c. Itype (i_sra c) (rs1p c) 5 (rs1p c) OPIMM) hi)
    (map3 (sel 0) (gen p_rs2 hi)
      (map2 keep_nz (gen p_rd hi) (gen (\<lambda>c. Itype 0 (p_rd c) 0 0 JALR) hi))
      (gen (\<lambda>c. Rtype 0 (p_rs2 c) 0 0 (p_rd c) OP) hi)) 0"
  by (rule block_4 [OF assms(1,2)], (rule block_intros | (intro or_linear_intros)[1])+)
    (use assms in \<open>simp_all add: block_defs\<close>)

lemma block_4_02:
  assumes "vbits hi 1 0 = 0" "vbits hi 15 13 = 4" "vbits hi 12 12 = 0" "vbits hi 11 10 = 2"
  shows "table_block hi = interleave (gen (\<lambda>c. 0) hi)
    (gen (\<lambda>c. Itype (i_ci c) (rs1p c) 7 (rs1p c) OPIMM) hi)
    (map3 (sel 0) (gen p_rs2 hi)
      (map2 keep_nz (gen p_rd hi) (gen (\<lambda>c. Itype 0 (p_rd c) 0 0 JALR) hi))
      (gen (\<lambda>c. Rtype 0 (p_rs2 c) 0 0 (p_rd c) OP) hi)) 0"
  by (rule block_4 [OF assms(1,2)], (rule block_intros | (intro or_linear_intros)[1])+)
    (use assms in \<open>simp_all add: block_defs\<close>)

lemma block_4_03:
  assumes "vbits hi 1 0 = 0" "vbits hi 15 13 = 4" "vbits hi 12 12 = 0" "vbits hi 11 10 = 3"
  shows "table_block hi = interleave (gen (\<lambda>c. 0) hi)
    (map3 (sel 0) (gen (\<lambda>c. vbits c 6 5) hi)
      (gen (\<lambda>c. Rtype 0x20 (rdsp c) (rs1p c) 0 (rs1p c) OP) hi)
      (map3 (sel 1) (gen (\<lambda>c. vbits c 6 5) hi)
        (gen (\<lambda>c. Rtype 0 (rdsp c) (rs1p c) 4 (rs1p c) OP) hi)
        (map3 (sel 2) (gen (\<lambda>c. vbits c 6 5) hi)
          (gen (\<lambda>c. Rtype 0 (rdsp c) (rs1p c) 6 (rs1p c) OP) hi)
          (gen (\<lambda>c. Rtype 0 (rdsp c) (rs1p c) 7 (rs1p c) OP) hi))))
    (map3 (sel 0) (gen p_rs2 hi)
      (map2 keep_nz (gen p_rd hi) (gen (\<lambda>c. Itype 0 (p_rd c) 0 0 JALR) hi))
      (gen (\<lambda>c. Rtype 0 (p_rs2 c) 0 0 (p_rd c) OP) hi)) 0"
  by (rule block_4 [OF assms(1,2)], (rule block_intros | (intro or_linear_intros)[1])+)
    (use assms in \<open>simp_all add: expand_q2_def expand_alu_rtype parcel_eq quadrant_ignored [THEN fun_cong]\<close>)

lemma block_4_10:
  assumes "vbits hi 1 0 = 0" "vbits hi 15 13 = 4" "vbits hi 12 12 = 1" "vbits hi 11 10 = 0"
  shows "table_block hi = interleave (gen (\<lambda>c. 0) hi)
    (gen (\<lambda>c. Itype (i_shl c) (rs1p c) 5 (rs1p c) OPIMM) hi)
    (map3 (sel 0) (gen p_rs2 hi)
      (map3 (sel 0) (gen p_rd hi) (gen (\<lambda>c. 0x00100073) hi)
        (gen (\<lambda>c. Itype 0 (p_rd c) 0 1 JALR) hi))
      (gen (\<lambda>c. Rtype 0 (p_rs2 c) (p_rd c) 0 (p_rd c) OP) hi)) 0"
  by (rule block_4 [OF assms(1,2)], (rule block_intros | (intro or_linear_intros)[1])+)
    (use assms in \<open>simp_all add: block_defs\<close>)

lemma block_4_11:
  assumes "vbits hi 1 0 = 0" "vbits hi 15 13 = 4" "vbits hi 12 12 = 1" "vbits hi 11 10 = 1"
  shows "table_block hi = interleave (gen (\<lambda>c. 0) hi)
    (gen (\<lambda>c. Itype (i_sra c) (rs1p c) 5 (rs1p c) OPIMM) hi)
    (map3 (sel 0) (gen p_rs2 hi)
      (map3 (sel 0) (gen p_rd hi) (gen (\<lambda>c. 0x00100073) hi)
        (gen (\<lambda>c. Itype 0 (p_rd c) 0 1 JALR) hi))
      (gen (\<lambda>c. Rtype 0 (p_rs2 c) (p_rd c) 0 (p_rd c) OP) hi)) 0"
  by (rule block_4 [OF assms(1,2)], (rule block_intros | (intro or_linear_intros)[1])+)
    (use assms in \<open>simp_all add: block_defs\<close>)

lemma block_4_12:
  assumes "vbits hi 1 0 = 0" "vbits hi 15 13 = 4" "vbits hi 12 12 = 1" "vbits hi 11 10 = 2"
  shows "table_block hi = interleave (gen (\<lambda>c. 0) hi)
    (gen (\<lambda>c. Itype (i_ci c) (rs1p c) 7 (rs1p c) OPIMM) hi)
    (map3 (sel 0) (gen p_rs2 hi)
      (map3 (sel 0) (gen p_rd hi) (gen (\<lambda>c. 0x00100073) hi)
        (gen (\<lambda>c. Itype 0 (p_rd c) 0 1 JALR) hi))
      (gen (\<lambda>c. Rtype 0 (p_rs2 c) (p_rd c) 0 (p_rd c) OP) hi)) 0"
  by (rule block_4 [OF assms(1,2)], (rule block_intros | (intro or_linear_intros)[1])+)
    (use assms in \<open>simp_all add: block_defs\<close>)

lemma block_4_13:
  assumes "vbits hi 1 0 = 0" "vbits hi 15 13 = 4" "vbits hi 12 12 = 1" "vbits hi 11 10 = 3"
  shows "table_block hi = interleave (gen (\<lambda>c. 0) hi)
    (map3 (sel 0) (gen (\<lambda>c. vbits c 6 5) hi)
      (gen (\<lambda>c. Rtype 0x20 (rdsp c) (rs1p c) 0 (rs1p c) OP32) hi)
      (map3 (sel 1) (gen (\<lambda>c. vbits c 6 5) hi)
        (gen (\<lambda>c. Rtype 0 (rdsp c) (rs1p c) 0 (rs1p c) OP32) hi)
        (gen (\<lambda>c. 0) hi)))
    (map3 (sel 0) (gen p_rs2 hi)
      (map3 (sel 0) (gen p_rd hi) (gen (\<lambda>c. 0x00100073) hi)
        (gen (\<lambda>c. Itype 0 (p_rd c) 0 1 JALR) hi))
      (gen (\<lambda>c. Rtype 0 (p_rs2 c) (p_rd c) 0 (p_rd c) OP) hi)) 0"
  by (rule block_4 [OF assms(1,2)], (rule block_intros | (intro or_linear_intros)[1])+)
    (use assms in \<open>simp_all add: expand_q2_def expand_alu_rtype parcel_eq quadrant_ignored [THEN fun_cong]\<close>)

section \<open>Evaluating a block\<close>

lemma word_or_num: "(numeral m :: 'a::len word) OR numeral n = numeral (or_num m n)"
  by (simp only: word_no_log_defs numeral_or_num of_int_numeral)

lemmas gen_unfold = gen_def low_bits_def list.map
lemmas fill_eval = word_or_num keep_nz_def sel_def

end
