(* ===== verification/RVC_Table.thy ===== *)
theory RVC_Table
  imports RVC_Table_0 RVC_Table_1 RVC_Table_2 RVC_Table_3 RVC_Table_4 RVC_Table_5 RVC_Table_6
    RVC_Table_7 Rust_Str
begin

text \<open>
  The expansion table \<open>RVC64_EXPANDED\<close> of tools/rvc.rs, indexed by the parcel, and the exhaustive
  test the file runs over it.
\<close>

definition RVC64_EXPANDED :: "u32 list" where
  "RVC64_EXPANDED = concat [
    RVC64_EXPANDED_00, RVC64_EXPANDED_01, RVC64_EXPANDED_02, RVC64_EXPANDED_03,
    RVC64_EXPANDED_04, RVC64_EXPANDED_05, RVC64_EXPANDED_06, RVC64_EXPANDED_07,
    RVC64_EXPANDED_08, RVC64_EXPANDED_09, RVC64_EXPANDED_10, RVC64_EXPANDED_11,
    RVC64_EXPANDED_12, RVC64_EXPANDED_13, RVC64_EXPANDED_14, RVC64_EXPANDED_15,
    RVC64_EXPANDED_16, RVC64_EXPANDED_17, RVC64_EXPANDED_18, RVC64_EXPANDED_19,
    RVC64_EXPANDED_20, RVC64_EXPANDED_21, RVC64_EXPANDED_22, RVC64_EXPANDED_23,
    RVC64_EXPANDED_24, RVC64_EXPANDED_25, RVC64_EXPANDED_26, RVC64_EXPANDED_27,
    RVC64_EXPANDED_28, RVC64_EXPANDED_29, RVC64_EXPANDED_30, RVC64_EXPANDED_31,
    RVC64_EXPANDED_32, RVC64_EXPANDED_33, RVC64_EXPANDED_34, RVC64_EXPANDED_35,
    RVC64_EXPANDED_36, RVC64_EXPANDED_37, RVC64_EXPANDED_38, RVC64_EXPANDED_39,
    RVC64_EXPANDED_40, RVC64_EXPANDED_41, RVC64_EXPANDED_42, RVC64_EXPANDED_43,
    RVC64_EXPANDED_44, RVC64_EXPANDED_45, RVC64_EXPANDED_46, RVC64_EXPANDED_47,
    RVC64_EXPANDED_48, RVC64_EXPANDED_49, RVC64_EXPANDED_50, RVC64_EXPANDED_51,
    RVC64_EXPANDED_52, RVC64_EXPANDED_53, RVC64_EXPANDED_54, RVC64_EXPANDED_55,
    RVC64_EXPANDED_56, RVC64_EXPANDED_57, RVC64_EXPANDED_58, RVC64_EXPANDED_59,
    RVC64_EXPANDED_60, RVC64_EXPANDED_61, RVC64_EXPANDED_62, RVC64_EXPANDED_63]"

text \<open>
  \<open>test_uncompress\<close>: the loop compares every entry with \<open>uncompress\<close>, leaving out the parcels that
  are not compressed; it prints three lines for an entry that differs and counts it, and the test
  asserts that the count is 0. \<open>None\<close> is a panic: of \<open>uncompress\<close>, of the table's index, or of the
  assertion. A test that passes returns what it printed. The function and the table it compares are
  arguments, so that it can be said what the test does with others.
\<close>

definition long_line :: "u32 \<Rightarrow> string" where
  "long_line x = CHR 0x09 # ''.long 0x'' @ hex_pad0 8 (unat x) @ [CHR 0x0A]"

definition test_entry ::
  "(u32 \<Rightarrow> u32 option) \<Rightarrow> u32 list \<Rightarrow> nat \<Rightarrow> string \<times> nat \<Rightarrow> (string \<times> nat) option" where
  "test_entry unc table insn16 s =
     (case s of (out, fails) \<Rightarrow>
        if insn16 mod 4 = 3 then Some (out, fails)
        else case unc (word_of_nat insn16) of
            None \<Rightarrow> None
          | Some uncompressed \<Rightarrow>
              (if insn16 < length table
               then (let expanded = table ! insn16
                     in if uncompressed \<noteq> expanded
                        then Some (out @ long_line (word_of_nat insn16) @ long_line uncompressed
                                     @ long_line expanded, fails + 1)
                        else Some (out, fails))
               else None))"

fun test_loop ::
  "(u32 \<Rightarrow> u32 option) \<Rightarrow> u32 list \<Rightarrow> nat list \<Rightarrow> string \<times> nat \<Rightarrow> (string \<times> nat) option" where
  "test_loop unc table [] s = Some s"
| "test_loop unc table (i # is) s =
     (case test_entry unc table i s of None \<Rightarrow> None | Some s' \<Rightarrow> test_loop unc table is s')"

definition test_with :: "(u32 \<Rightarrow> u32 option) \<Rightarrow> u32 list \<Rightarrow> string option" where
  "test_with unc table =
     (case test_loop unc table [0..<0x10000] ([], 0) of
        None \<Rightarrow> None
      | Some (out, fails) \<Rightarrow> (if fails = 0 then Some out else None))"

definition test_uncompress :: "string option" where
  "test_uncompress = test_with uncompress RVC64_EXPANDED"

section \<open>The table is the list of the core's expansions\<close>

lemma spread_or: "spread ps a = map (\<lambda>x. a OR x) (spread ps 0)"
proof (induction ps arbitrary: a)
  case (Cons p ps)
  have "spread ps (a OR p) = map ((OR) a) (spread ps p)"
    using Cons.IH [of "a OR p"] Cons.IH [of p] by (simp add: or.assoc)
  then show ?case using Cons.IH [of a] by (simp add: or.commute)
qed simp

lemma parcels_0: "parcels 0 = map (\<lambda>i. word_of_nat (4 * i)) [0..<256]"
  by (simp add: low_bits_def upt_rec_numeral upt_conv_Cons)

lemma length_parcels: "length (parcels hi) = 256"
  by (subst spread_or) (simp add: parcels_0)

lemma word_of_nat_mult_add:
  assumes "j < 2 ^ n"
  shows "word_of_nat (2 ^ n * k + j) = word_of_nat (2 ^ n * k) OR word_of_nat j"
proof -
  from assms have "take_bit n j = j" by (simp add: take_bit_eq_mod)
  moreover have "2 ^ n * k = push_bit n k" by (simp add: push_bit_eq_mult mult.commute)
  ultimately have "2 ^ n * k AND j = 0"
    by (simp add: bit_eq_iff bit_simps) (metis bit_take_bit_iff not_less)
  then have "2 ^ n * k + j = 2 ^ n * k OR j" by (rule disjunctive_add_eq_or)
  then show ?thesis by (simp only: of_nat_or_eq)
qed

lemma nth_concat_uniform:
  assumes "\<And>xs. xs \<in> set xss \<Longrightarrow> length xs = n" "k < length xss" "j < n"
  shows "concat xss ! (n * k + j) = xss ! k ! j"
  using assms
proof (induction xss arbitrary: k)
  case (Cons xs xss)
  show ?case
  proof (cases k)
    case 0
    with Cons.prems show ?thesis by (simp add: nth_append)
  next
    case (Suc k')
    with Cons.prems have "concat xss ! (n * k' + j) = xss ! k' ! j"
      by (intro Cons.IH) simp_all
    with Suc Cons.prems show ?thesis by (simp add: nth_append add.assoc)
  qed
qed simp

lemma nth_parcels: "i < 256 \<Longrightarrow> parcels hi ! i = hi OR word_of_nat (4 * i)"
  by (subst spread_or) (simp add: parcels_0)

lemma table_block_nth:
  assumes "j < 1024"
  shows "table_block (word_of_nat (1024 * k)) ! j =
    (if j mod 4 = 3 then 0 else rvc_expand (word_of_nat (1024 * k + j)))"
proof -
  define i q where "i = j div 4" and "q = j mod 4"
  with assms have j: "j = 4 * i + q" and i: "i < 256" and q: "q < 4" by simp_all
  let ?c = "parcels (word_of_nat (1024 * k)) ! i"
  have "word_of_nat (1024 * k + j) = (word_of_nat (1024 * k) OR word_of_nat j :: u16)"
    using word_of_nat_mult_add [of j 10 k] assms by simp
  moreover have "word_of_nat j = (word_of_nat (4 * i) OR word_of_nat q :: u16)"
    using word_of_nat_mult_add [of q 2 i] q by (simp add: j)
  ultimately have c: "?c OR word_of_nat q = word_of_nat (1024 * k + j)"
    using i by (simp only: nth_parcels or.assoc)
  have "table_block (word_of_nat (1024 * k)) ! j =
      [rvc_expand ?c, rvc_expand (?c OR 1), rvc_expand (?c OR 2), 0] ! q"
    unfolding table_block_def j using i q by (subst nth_concat_uniform) (auto simp: length_parcels)
  also have "\<dots> = (if q = 3 then 0 else rvc_expand (?c OR word_of_nat q))"
    using q by (auto simp: less_Suc_eq numeral_eq_Suc)
  finally show ?thesis by (simp only: c) (simp add: q_def)
qed

lemmas table_blocks =
  RVC64_EXPANDED_00_block RVC64_EXPANDED_01_block RVC64_EXPANDED_02_block RVC64_EXPANDED_03_block
  RVC64_EXPANDED_04_block RVC64_EXPANDED_05_block RVC64_EXPANDED_06_block RVC64_EXPANDED_07_block
  RVC64_EXPANDED_08_block RVC64_EXPANDED_09_block RVC64_EXPANDED_10_block RVC64_EXPANDED_11_block
  RVC64_EXPANDED_12_block RVC64_EXPANDED_13_block RVC64_EXPANDED_14_block RVC64_EXPANDED_15_block
  RVC64_EXPANDED_16_block RVC64_EXPANDED_17_block RVC64_EXPANDED_18_block RVC64_EXPANDED_19_block
  RVC64_EXPANDED_20_block RVC64_EXPANDED_21_block RVC64_EXPANDED_22_block RVC64_EXPANDED_23_block
  RVC64_EXPANDED_24_block RVC64_EXPANDED_25_block RVC64_EXPANDED_26_block RVC64_EXPANDED_27_block
  RVC64_EXPANDED_28_block RVC64_EXPANDED_29_block RVC64_EXPANDED_30_block RVC64_EXPANDED_31_block
  RVC64_EXPANDED_32_block RVC64_EXPANDED_33_block RVC64_EXPANDED_34_block RVC64_EXPANDED_35_block
  RVC64_EXPANDED_36_block RVC64_EXPANDED_37_block RVC64_EXPANDED_38_block RVC64_EXPANDED_39_block
  RVC64_EXPANDED_40_block RVC64_EXPANDED_41_block RVC64_EXPANDED_42_block RVC64_EXPANDED_43_block
  RVC64_EXPANDED_44_block RVC64_EXPANDED_45_block RVC64_EXPANDED_46_block RVC64_EXPANDED_47_block
  RVC64_EXPANDED_48_block RVC64_EXPANDED_49_block RVC64_EXPANDED_50_block RVC64_EXPANDED_51_block
  RVC64_EXPANDED_52_block RVC64_EXPANDED_53_block RVC64_EXPANDED_54_block RVC64_EXPANDED_55_block
  RVC64_EXPANDED_56_block RVC64_EXPANDED_57_block RVC64_EXPANDED_58_block RVC64_EXPANDED_59_block
  RVC64_EXPANDED_60_block RVC64_EXPANDED_61_block RVC64_EXPANDED_62_block RVC64_EXPANDED_63_block

lemma RVC64_EXPANDED_blocks:
  "RVC64_EXPANDED = concat (map (\<lambda>k. table_block (word_of_nat (1024 * k))) [0..<64])"
  unfolding RVC64_EXPANDED_def table_blocks by (simp add: upt_rec_numeral upt_conv_Cons)

lemma length_table_block: "length (table_block hi) = 1024"
  by (simp add: table_block_def length_concat comp_def sum_list_triv length_parcels)

lemma length_RVC64_EXPANDED: "length RVC64_EXPANDED = 0x10000"
  by (simp add: RVC64_EXPANDED_blocks length_concat comp_def length_table_block sum_list_triv)

lemma RVC64_EXPANDED_nth:
  assumes "n < 0x10000"
  shows "RVC64_EXPANDED ! n = (if n mod 4 = 3 then 0 else rvc_expand (word_of_nat n))"
proof -
  define k j where "k = n div 1024" and "j = n mod 1024"
  with assms have n: "n = 1024 * k + j" and k: "k < 64" and j: "j < 1024" by simp_all
  have "RVC64_EXPANDED ! n = table_block (word_of_nat (1024 * k)) ! j"
    unfolding RVC64_EXPANDED_blocks n using k j
    by (subst nth_concat_uniform) (auto simp: length_table_block)
  moreover have "n mod 4 = j mod 4" by (simp add: n mod_add_eq [symmetric])
  ultimately show ?thesis by (simp only: table_block_nth [OF j] n)
qed

lemma ucast_word_of_nat: "n < 0x10000 \<Longrightarrow> (ucast (word_of_nat n :: u16) :: u32) = word_of_nat n"
  by (simp add: unsigned_of_nat take_bit_nat_eq_self)

lemma vbits_quadrant: "n < 0x10000 \<Longrightarrow> (vbits (word_of_nat n :: u16) 1 0 = 3) = (n mod 4 = 3)"
proof -
  assume n: "n < 0x10000"
  have "vbits (word_of_nat n :: u16) 1 0 = (word_of_nat n :: u32) AND mask 2"
    using n by (simp add: vbits_def ucast_word_of_nat numeral_2_eq_2)
  also have "\<dots> = word_of_nat (n mod 4)"
    by (simp only: take_bit_eq_mask [symmetric] take_bit_of_nat) (simp add: take_bit_eq_mod)
  finally have *: "vbits (word_of_nat n :: u16) 1 0 = word_of_nat (n mod 4)" .
  have "(word_of_nat (n mod 4) = (3 :: u32)) = (n mod 4 = 3)"
  proof -
    have "n mod 4 = 0 \<or> n mod 4 = 1 \<or> n mod 4 = 2 \<or> n mod 4 = 3" by presburger
    then show ?thesis by (elim disjE) simp_all
  qed
  with * show ?thesis by simp
qed

lemma uncompress_table:
  assumes "n < 0x10000"
  shows "uncompress (word_of_nat n) = (if n mod 4 = 3 then None else Some (RVC64_EXPANDED ! n))"
  using uncompress_eq_expand [of "word_of_nat n"] assms
  by (simp add: ucast_word_of_nat vbits_quadrant RVC64_EXPANDED_nth del: One_nat_def)

section \<open>What the test finds\<close>

definition differs :: "(u32 \<Rightarrow> u32 option) \<Rightarrow> u32 list \<Rightarrow> nat \<Rightarrow> bool" where
  "differs unc table i \<longleftrightarrow> i mod 4 \<noteq> 3 \<and> unc (word_of_nat i) \<noteq> Some (table ! i)"

definition panics_at :: "(u32 \<Rightarrow> u32 option) \<Rightarrow> nat \<Rightarrow> bool" where
  "panics_at unc i \<longleftrightarrow> i mod 4 \<noteq> 3 \<and> unc (word_of_nat i) = None"

definition report :: "(u32 \<Rightarrow> u32 option) \<Rightarrow> u32 list \<Rightarrow> nat \<Rightarrow> string" where
  "report unc table i =
     long_line (word_of_nat i) @ long_line (the (unc (word_of_nat i))) @ long_line (table ! i)"

lemma test_entry_report:
  assumes "i < length table"
  shows "test_entry unc table i (out, n) =
    (if panics_at unc i then None
     else if differs unc table i then Some (out @ report unc table i, n + 1) else Some (out, n))"
  using assms by (auto simp: test_entry_def panics_at_def differs_def report_def Let_def split: option.split)

lemma test_loop_report:
  assumes "\<And>i. i \<in> set is \<Longrightarrow> i < length table"
  shows "test_loop unc table is (out, n) =
    (if \<exists>i \<in> set is. panics_at unc i then None
     else Some (out @ concat (map (report unc table) (filter (differs unc table) is)),
                n + length (filter (differs unc table) is)))"
  using assms by (induction "is" arbitrary: out n) (simp_all add: test_entry_report)

lemma test_with_passes:
  assumes "length table = 0x10000"
  shows "test_with unc table = (if \<exists>i < 0x10000. differs unc table i then None else Some [])"
proof -
  have "differs unc table i" if "panics_at unc i" for i
    using that by (simp add: panics_at_def differs_def)
  then show ?thesis
    unfolding test_with_def using assms
    by (subst test_loop_report) (auto simp: filter_empty_conv simp del: upt_conv_Cons)
qed

text \<open>
  C22: the exhaustive test decides whether a function and a table agree. With any function and any
  table of 65536 entries it passes, printing nothing, exactly when the function returns the entry
  for every parcel of the three compressed quadrants; otherwise it panics. When the function does
  not panic itself, the test first prints, for each parcel that differs and in order, the parcel,
  the function's word and the entry as three \<open>.long\<close> lines, and counts them. With \<open>uncompress\<close> and the
  table of tools/rvc.rs it passes.
\<close>
theorem test_finds_differences:
  assumes "length table = 0x10000"
    and "ds = filter (\<lambda>i. i mod 4 \<noteq> 3 \<and> unc (word_of_nat i) \<noteq> Some (table ! i)) [0..<0x10000]"
  shows "test_with unc table = (if ds = [] then Some [] else None)
    \<and> ((\<forall>i < 0x10000. i mod 4 \<noteq> 3 \<longrightarrow> unc (word_of_nat i) \<noteq> None) \<longrightarrow>
        test_loop unc table [0..<0x10000] ([], 0) =
          Some (concat (map (\<lambda>i. concat (map (\<lambda>x. CHR 0x09 # ''.long 0x'' @ hex_pad0 8 (unat (x :: u32)) @ [CHR 0x0A])
                  [word_of_nat i, the (unc (word_of_nat i)), table ! i])) ds), length ds))
    \<and> test_uncompress = Some []"
proof (intro conjI impI)
  have ds: "ds = filter (differs unc table) [0..<0x10000]"
    unfolding assms(2) by (rule filter_cong) (simp_all add: differs_def)
  then have "ds = [] \<longleftrightarrow> \<not> (\<exists>i < 0x10000. differs unc table i)"
    by (auto simp: filter_empty_conv)
  then show "test_with unc table = (if ds = [] then Some [] else None)"
    by (simp add: test_with_passes [OF assms(1)])
  assume "\<forall>i < 0x10000. i mod 4 \<noteq> 3 \<longrightarrow> unc (word_of_nat i) \<noteq> None"
  then have "\<not> (\<exists>i \<in> set [0..<0x10000]. panics_at unc i)" by (auto simp: panics_at_def)
  moreover have "report unc table = (\<lambda>i. concat (map (\<lambda>x. CHR 0x09 # ''.long 0x'' @ hex_pad0 8 (unat (x :: u32)) @ [CHR 0x0A])
                  [word_of_nat i, the (unc (word_of_nat i)), table ! i]))"
    by (rule ext) (simp add: report_def long_line_def)
  ultimately show "test_loop unc table [0..<0x10000] ([], 0) =
      Some (concat (map (\<lambda>i. concat (map (\<lambda>x. CHR 0x09 # ''.long 0x'' @ hex_pad0 8 (unat (x :: u32)) @ [CHR 0x0A])
                  [word_of_nat i, the (unc (word_of_nat i)), table ! i])) ds), length ds)"
    unfolding ds using assms(1) by (subst test_loop_report) auto
next
  have "\<not> differs uncompress RVC64_EXPANDED i" if "i < 0x10000" for i
    using uncompress_table [OF that] by (simp add: differs_def)
  then show "test_uncompress = Some []"
    by (auto simp: test_uncompress_def test_with_passes length_RVC64_EXPANDED)
qed

theorem test_finds_differences_witness:
  "test_with (\<lambda>x. Some 1) (replicate 0x10000 0) = None"
proof -
  have "0 mod 4 \<noteq> (3 :: nat) \<and> Some (1 :: u32) \<noteq> Some (replicate 0x10000 0 ! 0)" by simp
  moreover have "0 \<in> set [0..<0x10000]" by simp
  ultimately have "filter (\<lambda>i. i mod 4 \<noteq> 3 \<and> Some (1 :: u32) \<noteq> Some (replicate 0x10000 0 ! i)) [0..<0x10000] \<noteq> []"
    unfolding filter_empty_conv by blast
  with test_finds_differences [of "replicate 0x10000 0", OF length_replicate refl, of "\<lambda>x. Some 1"] show ?thesis by auto
qed

end
