(* ===== verification/RVC_Contract.thy ===== *)
theory RVC_Contract
  imports RVC_Insn RVC_Table
begin

text \<open>
  What an expander of compressed parcels promises, as a locale, and that the three expanders of
  the repository keep the promise: the core's combinational module, the table of tools/rvc.rs
  and the function \<open>uncompress\<close> the table was generated with.
\<close>

section \<open>Encodings are 32-bit instructions\<close>

lemma low2: "i AND 0x7f = op \<Longrightarrow> op AND 3 = 3 \<Longrightarrow> i AND 3 = 3"
  for i :: u32
proof -
  have "(i AND 0x7f) AND 3 = i AND 3" by (simp add: and.assoc)
  then show "i AND 0x7f = op \<Longrightarrow> op AND 3 = 3 \<Longrightarrow> i AND 3 = 3" by simp
qed

lemma format_low2:
  assumes "op AND 0x7f = op" "op AND 3 = 3"
  shows "Itype i a f d op AND 3 = 3" "Stype i b a f op AND 3 = 3" "Btype i b a f op AND 3 = 3"
    "Utype i d op AND 3 = 3" "Jtype i d op AND 3 = 3" "Rtype g b a f d op AND 3 = 3"
  by (rule low2 [OF _ assms(2)]; simp add: Itype_fields Stype_fields Btype_fields Utype_fields
      Jtype_fields Rtype_fields assms(1))+

lemma encode_low2: "encode i AND 3 = 3"
  by (cases i) (simp_all add: format_low2)

section \<open>The contract of an expander\<close>

locale rvc_expander =
  fixes expand :: "u16 \<Rightarrow> u32"
  assumes legal: "rvc_insn c = Some i \<Longrightarrow> expand c = encode i"
    and illegal: "rvc_insn c = None \<Longrightarrow> expand c = 0"
begin

lemma word: "rvc_insn c = Some i \<Longrightarrow> expand c AND 3 = 3"
  by (simp add: legal encode_low2)

lemma zero_iff: "expand c = 0 \<longleftrightarrow> rvc_insn c = None"
  using word [of c] illegal [of c] by (cases "rvc_insn c") auto

lemma never_compressed: "expand c = 0 \<or> expand c AND 3 = 3"
  using word [of c] zero_iff [of c] by (cases "rvc_insn c") auto

lemma text_of:
  "disasm (expand c) pc =
    (case rvc_insn c of None \<Rightarrow> ''.insn   0x00000000'' | Some i \<Rightarrow> asm i pc)"
  by (auto simp: illegal legal disasm_0 disasm_encode rvc_insn_ok split: option.split)

end

text \<open>Two expanders of which one keeps the contract agree when they agree pointwise.\<close>

lemma rvc_expander_cong: "rvc_expander e \<Longrightarrow> (\<And>c. f c = e c) \<Longrightarrow> rvc_expander f"
  by (simp add: rvc_expander_def)

interpretation core: rvc_expander rvc_expand
  by unfold_locales (simp_all add: rvc_expand_insn encoding_def)

section \<open>The reference expander reads sixteen bits\<close>

lemma low16_fields:
  fixes x :: u32
  shows "shr (x AND 0xffff) n AND m = shr x n AND (shr 0xffff n AND m)"
    "shl (x AND 0xffff) n AND m = shl x n AND (shl 0xffff n AND m)"
    "(x AND 0xffff) AND m = x AND (0xffff AND m)"
  by (simp_all only: drop_bit_and push_bit_and and.assoc)

lemma low16_parts:
  "addi4spn_nzuimm (x AND 0xffff) = addi4spn_nzuimm x"
  "ci_imm (x AND 0xffff) = ci_imm x"
  "addi16sp_imm (x AND 0xffff) = addi16sp_imm x"
  "lui_nzimm (x AND 0xffff) = lui_nzimm x"
  "c_shamt (x AND 0xffff) = c_shamt x"
  "cj_offset (x AND 0xffff) = cj_offset x"
  "cb_offset (x AND 0xffff) = cb_offset x"
  unfolding addi4spn_nzuimm_def ci_imm_def addi16sp_imm_def lui_nzimm_def c_shamt_def cj_offset_def cb_offset_def low16_fields by simp_all

lemma low16_arms:
  "c_addi4spn (x AND 0xffff) = c_addi4spn x"
  "c_fld (x AND 0xffff) = c_fld x"
  "c_lw (x AND 0xffff) = c_lw x"
  "c_ld (x AND 0xffff) = c_ld x"
  "c_fsd (x AND 0xffff) = c_fsd x"
  "c_sw (x AND 0xffff) = c_sw x"
  "c_sd (x AND 0xffff) = c_sd x"
  "c_addi (x AND 0xffff) = c_addi x"
  "c_addiw (x AND 0xffff) = c_addiw x"
  "c_li (x AND 0xffff) = c_li x"
  "c_lui_addi16sp (x AND 0xffff) = c_lui_addi16sp x"
  "c_srli (x AND 0xffff) = c_srli x"
  "c_srai (x AND 0xffff) = c_srai x"
  "c_andi (x AND 0xffff) = c_andi x"
  "c_sub (x AND 0xffff) = c_sub x"
  "c_xor (x AND 0xffff) = c_xor x"
  "c_or (x AND 0xffff) = c_or x"
  "c_and (x AND 0xffff) = c_and x"
  "c_subw (x AND 0xffff) = c_subw x"
  "c_addw (x AND 0xffff) = c_addw x"
  "c_j (x AND 0xffff) = c_j x"
  "c_beqz (x AND 0xffff) = c_beqz x"
  "c_bnez (x AND 0xffff) = c_bnez x"
  "c_slli (x AND 0xffff) = c_slli x"
  "c_fldsp (x AND 0xffff) = c_fldsp x"
  "c_lwsp (x AND 0xffff) = c_lwsp x"
  "c_ldsp (x AND 0xffff) = c_ldsp x"
  "c_fsdsp (x AND 0xffff) = c_fsdsp x"
  "c_swsp (x AND 0xffff) = c_swsp x"
  "c_sdsp (x AND 0xffff) = c_sdsp x"
  unfolding c_addi4spn_def c_fld_def c_lw_def c_ld_def c_fsd_def c_sw_def c_sd_def c_addi_def c_addiw_def c_li_def c_lui_addi16sp_def c_srli_def c_srai_def c_andi_def c_sub_def c_xor_def c_or_def c_and_def c_subw_def c_addw_def c_j_def c_beqz_def c_bnez_def c_slli_def c_fldsp_def c_lwsp_def c_ldsp_def c_fsdsp_def c_swsp_def c_sdsp_def low16_fields low16_parts by simp_all

lemma low16_selectors:
  fixes x :: u32
  shows "shr (x AND 0xffff) 13 AND 7 = shr x 13 AND 7" "(x AND 0xffff) AND 3 = x AND 3"
    "shr (x AND 0xffff) 10 AND 3 = shr x 10 AND 3" "shr (x AND 0xffff) 12 AND 1 = shr x 12 AND 1"
    "shr (x AND 0xffff) 5 AND 3 = shr x 5 AND 3" "shr (x AND 0xffff) 7 AND 0x1f = shr x 7 AND 0x1f"
    "shr (x AND 0xffff) 2 AND 0x1f = shr x 2 AND 0x1f"
  unfolding low16_fields by simp_all

lemma uncompress_low16: "uncompress (x AND 0xffff) = uncompress x"
  by (simp only: uncompress_match_defs low16_arms low16_selectors)

lemma and_low16: "x AND 0xffff = ucast (ucast x :: u16)"
  for x :: u32
proof -
  have "x AND mask 16 = ucast (ucast x :: u16)"
    by (rule bit_word_eqI) (auto simp: bit_simps)
  then show ?thesis by (simp add: mask_eq_exp_minus_1)
qed

lemma uncompress_u32: 
  "uncompress x = (if x AND 3 = 3 then None else Some (rvc_expand (ucast x)))"
proof -
  have "vbits (ucast x :: u16) 1 0 = x AND 3"
    unfolding field_eq(1) [symmetric] and_low16 [symmetric] by (simp add: and.assoc)
  then show ?thesis
    using uncompress_eq_expand [of "ucast x"] uncompress_low16 [of x] by (simp only: and_low16)
qed

section \<open>The table and the reference expander\<close>

lemma table_expand: "RVC64_EXPANDED ! unat c = rvc_expand c"
proof -
  have "unat c < 0x10000" using unsigned_less [of c] by simp
  then have "RVC64_EXPANDED ! unat c = (if vbits c 1 0 = 3 then 0 else rvc_expand c)"
    using vbits_quadrant [of "unat c"] by (simp add: RVC64_EXPANDED_nth del: One_nat_def)
  moreover have "rvc_expand c = 0" if "vbits c 1 0 = 3" using that by (simp add: rvc_expand_def)
  ultimately show ?thesis by simp
qed

interpretation tab: rvc_expander "\<lambda>c. RVC64_EXPANDED ! unat c"
  by (rule rvc_expander_cong [OF core.rvc_expander_axioms]) (rule table_expand)

definition uncompress_parcel :: "u16 \<Rightarrow> u32" where
  "uncompress_parcel c = (case uncompress (ucast c) of Some w \<Rightarrow> w | None \<Rightarrow> 0)"

lemma uncompress_parcel_expand: "uncompress_parcel c = rvc_expand c"
  by (simp add: uncompress_parcel_def uncompress_eq_expand rvc_expand_def)

interpretation ref: rvc_expander uncompress_parcel
  by (rule rvc_expander_cong [OF core.rvc_expander_axioms]) (rule uncompress_parcel_expand)

end
