(* ===== verification/Pipeview_Row.thy ===== *)
theory Pipeview_Row
  imports Rust_Str
begin

text \<open>
  The rows of tools/pipeview: \<open>struct Row\<close> with its methods, the glyph of a stage, the colour
  classes and the text of a line. Cycles are \<open>u64\<close>, built for release, so they wrap; a glyph is a
  byte, here a character. The field \<open>end\<close> is \<open>end_cyc\<close>.
\<close>

record row =
  label :: string
  stages :: "(u64 \<times> char) list"
  end_cyc :: "u64 option"
  flushed :: bool
  stall :: bool
  fill :: char

definition start :: "row \<Rightarrow> u64" where
  "start r = (case stages r of [] \<Rightarrow> 0 | s # ss \<Rightarrow> fst s)"

definition last_cyc :: "row \<Rightarrow> u64" where
  "last_cyc r =
     (case end_cyc r of
        Some e \<Rightarrow> e
      | None \<Rightarrow> (if stages r = [] then 0 else fst (last (stages r))))"

text \<open>The loop over the stages: the last one before the first that starts after the cycle.\<close>

fun stage_loop :: "(u64 \<times> char) list \<Rightarrow> u64 \<Rightarrow> char \<Rightarrow> char" where
  "stage_loop [] c g = g"
| "stage_loop ((sc, sg) # ss) c g = (if sc > c then g else stage_loop ss c sg)"

definition to_ascii_uppercase :: "char \<Rightarrow> char" where
  "to_ascii_uppercase g =
     (let k = of_char g :: nat in if 97 \<le> k \<and> k \<le> 122 then char_of (k - 32) else g)"

definition glyph_at :: "row \<Rightarrow> u64 \<Rightarrow> char" where
  "glyph_at r c =
     (if c < start r then CHR '' ''
      else if stall r then
        (if (case end_cyc r of None \<Rightarrow> True | Some e \<Rightarrow> c < e) then fill r else CHR '' '')
      else case end_cyc r of
          None \<Rightarrow> stage_loop (stages r) c CHR '' ''
        | Some e \<Rightarrow>
            (if c > e then CHR '' ''
             else if c = e then
               (case List.find (\<lambda>s. fst s = c) (rev (stages r)) of
                  Some (sc, g) \<Rightarrow>
                    (if \<not> flushed r \<and> g \<in> set ''abcd'' then to_ascii_uppercase g
                     else if flushed r then CHR ''x'' else CHR ''R'')
                | None \<Rightarrow> (if flushed r then CHR ''x'' else CHR ''R''))
             else stage_loop (stages r) c CHR '' ''))"

definition glyph :: "string \<Rightarrow> char" where
  "glyph stage = (case stage of [] \<Rightarrow> CHR ''?'' | b # bs \<Rightarrow> b)"

definition sgr :: "char \<Rightarrow> string" where
  "sgr g =
     (if g \<in> set ''abcdABCDMFuvlR'' then ''1''
      else if g \<in> set ''wWkymeY'' then ''33''
      else if g \<in> set ''QgrnzOILSos!'' then ''31''
      else if g \<in> set ''=xX'' then ''2''
      else if g = CHR ''?'' then ''35''
      else [])"

text \<open>The cells of a line: one glyph per column, in its colour when the row is coloured.\<close>

definition cell :: "row \<Rightarrow> bool \<Rightarrow> u64 \<Rightarrow> string" where
  "cell r colour c =
     (let g = glyph_at r c; a = (if colour \<and> \<not> stall r then sgr g else [])
      in if a = [] then [g] else CHR 0x1B # ''['' @ a @ ''m'' @ [g] @ CHR 0x1B # ''[0m'')"

definition line :: "row \<Rightarrow> nat \<Rightarrow> u64 \<Rightarrow> nat \<Rightarrow> bool \<Rightarrow> string" where
  "line r lab_w c0 ncol colour =
     (let lab = (if stall r
                 then (if fill r = CHR ''~'' then ''~~'' else ''**'') @ '' '' @ label r
                 else label r);
          lab' = take lab_w lab;
          cells = concat (map (\<lambda>k. cell r colour (c0 + word_of_nat k)) [0..<ncol])
      in pad_left 8 (dec (unat (start r))) @ '' '' @ pad_right lab_w lab' @ '' '' @ cells)"

section \<open>Which stage a cell shows\<close>

lemma stage_loop_filter:
  "sorted (map fst ss) \<Longrightarrow>
    stage_loop ss c g = (let ps = filter (\<lambda>s. fst s \<le> c) ss in if ps = [] then g else snd (last ps))"
proof (induction ss c g rule: stage_loop.induct)
  case (2 sc sg ss c g)
  show ?case
  proof (cases "sc > c")
    case True
    with "2.prems" have "filter (\<lambda>s. fst s \<le> c) ((sc, sg) # ss) = []"
      by (auto simp: filter_empty_conv not_le dest: order_less_le_trans)
    with True show ?thesis by simp
  next
    case False
    then have "sc \<le> c" "\<not> c < sc" by simp_all
    with 2 show ?thesis by (auto simp: Let_def)
  qed
qed simp

definition retire_glyph :: "row \<Rightarrow> u64 \<Rightarrow> char" where
  "retire_glyph r c =
     (case List.find (\<lambda>s. fst s = c) (rev (stages r)) of
        Some (sc, g) \<Rightarrow>
          (if \<not> flushed r \<and> g \<in> set ''abcd'' then to_ascii_uppercase g
           else if flushed r then CHR ''x'' else CHR ''R'')
      | None \<Rightarrow> (if flushed r then CHR ''x'' else CHR ''R''))"

text \<open>The cell of an instruction row, for a row whose stages are in the order of their cycles.\<close>

definition in_flight :: "row \<Rightarrow> u64 \<Rightarrow> bool" where
  "in_flight r c = (start r \<le> c \<and> (case end_cyc r of Some e \<Rightarrow> c \<le> e | None \<Rightarrow> True))"

definition stage_at :: "row \<Rightarrow> u64 \<Rightarrow> char" where
  "stage_at r c = snd (last (filter (\<lambda>s. fst s \<le> c) (stages r)))"

lemma glyph_at_insn:
  assumes "\<not> stall r" "sorted (map fst (stages r))" "stages r \<noteq> []"
  shows "glyph_at r c =
    (if \<not> in_flight r c then CHR '' ''
     else if end_cyc r = Some c then retire_glyph r c
     else stage_at r c)"
proof -
  have "filter (\<lambda>s. fst s \<le> c) (stages r) \<noteq> []" if "start r \<le> c"
    using that assms(3) by (cases "stages r") (auto simp: start_def)
  then have "stage_loop (stages r) c CHR '' '' = stage_at r c" if "start r \<le> c"
    using that assms(2) by (simp add: stage_loop_filter stage_at_def Let_def)
  then show ?thesis
    using assms(1)
    by (auto simp: glyph_at_def in_flight_def retire_glyph_def not_le not_less split: option.split)
qed

section \<open>Colours and widths\<close>

text \<open>What a terminal shows of a text with SGR escapes.\<close>

fun strip_sgr :: "bool \<Rightarrow> string \<Rightarrow> string" where
  "strip_sgr esc [] = []"
| "strip_sgr False (c # cs) = (if c = CHR 0x1B then strip_sgr True cs else c # strip_sgr False cs)"
| "strip_sgr True (c # cs) = (if c = CHR ''m'' then strip_sgr False cs else strip_sgr True cs)"

lemma strip_sgr_plain: "CHR 0x1B \<notin> set s \<Longrightarrow> strip_sgr False (s @ t) = s @ strip_sgr False t"
  by (induction s) auto

lemma sgr_codes: "sgr g \<in> {''1'', ''33'', ''31'', ''2'', ''35'', []}"
  by (simp add: sgr_def)

lemma strip_sgr_cell:
  assumes "glyph_at r c \<noteq> CHR 0x1B"
  shows "strip_sgr False (cell r colour c @ t) = glyph_at r c # strip_sgr False t"
  using assms sgr_codes [of "glyph_at r c"] by (auto simp: cell_def Let_def)

lemma strip_sgr_cells:
  assumes "\<And>c. glyph_at r c \<noteq> CHR 0x1B"
  shows "strip_sgr False (concat (map (\<lambda>k. cell r colour (f k)) ks)) = map (\<lambda>k. glyph_at r (f k)) ks"
  by (induction ks) (simp_all add: strip_sgr_cell assms)

lemma cell_plain: "cell r False c = [glyph_at r c]"
  by (simp add: cell_def)

lemma cells_plain: "concat (map (\<lambda>k. cell r False (f k)) ks) = map (\<lambda>k. glyph_at r (f k)) ks"
  by (induction ks) (simp_all add: cell_plain)

definition esc_free :: "row \<Rightarrow> bool" where
  "esc_free r = (CHR 0x1B \<notin> set (label r) \<and> CHR 0x1B \<notin> snd ` set (stages r) \<and> fill r \<noteq> CHR 0x1B)"

lemma stage_loop_mem: "stage_loop ss c g \<in> insert g (snd ` set ss)"
  by (induction ss c g rule: stage_loop.induct) auto

lemma upper_abcd: "g \<in> set ''abcd'' \<Longrightarrow> to_ascii_uppercase g \<in> set ''ABCD''"
proof -
  have "list_all (\<lambda>g. to_ascii_uppercase g \<in> set ''ABCD'') ''abcd''" by code_simp
  then show "g \<in> set ''abcd'' \<Longrightarrow> to_ascii_uppercase g \<in> set ''ABCD''" unfolding list_all_iff by blast
qed

lemma glyph_not_esc:
  assumes "esc_free r"
  shows "glyph_at r c \<noteq> CHR 0x1B"
proof -
  have "stage_loop (stages r) c CHR '' '' \<noteq> CHR 0x1B"
  proof
    assume "stage_loop (stages r) c CHR '' '' = CHR 0x1B"
    with stage_loop_mem [of "stages r" c "CHR '' ''"]
    have "CHR 0x1B \<in> insert CHR '' '' (snd ` set (stages r))" by simp
    with assms show False by (simp add: esc_free_def)
  qed
  moreover have "to_ascii_uppercase g \<noteq> CHR 0x1B" if "g \<in> set ''abcd''" for g
    using upper_abcd [OF that] by auto
  ultimately show ?thesis
    using assms by (auto simp: glyph_at_def esc_free_def split: option.split if_split)
qed

lemma ESC_not_digit: "CHR 0x1B \<notin> set (dec n)"
  using set_radix [of 10 n] by (auto simp: hex_digits_def)

lemma ESC_take: "CHR 0x1B \<notin> set s \<Longrightarrow> CHR 0x1B \<notin> set (take n s)"
  by (meson in_set_takeD)

lemma strip_sgr_line:
  assumes "esc_free r"
  shows "strip_sgr False (line r lw c0 nc colour) = line r lw c0 nc False"
proof -
  have "CHR 0x1B \<notin> set (pad_left 8 (dec (unat (start r))))"
    by (simp add: pad_left_def ESC_not_digit)
  moreover have "CHR 0x1B \<notin> set (pad_right lw (take lw s))" if "CHR 0x1B \<notin> set s" for s
    using ESC_take [OF that] by (simp add: pad_right_def)
  ultimately show ?thesis
    using assms glyph_not_esc [OF assms]
    by (auto simp: line_def Let_def strip_sgr_plain strip_sgr_cells cells_plain esc_free_def)
qed

lemma length_line:
  "length (line r lw c0 nc False) = max 8 (length (dec (unat (start r)))) + lw + nc + 2"
  by (simp add: line_def Let_def cells_plain pad_left_def pad_right_def)

lemma length_line_8:
  "unat (start r) < 10 ^ 8 \<Longrightarrow> length (line r lw c0 nc False) = lw + nc + 10"
  using length_radix_le [of 10 "unat (start r)" 7] by (simp add: length_line)

section \<open>Properties of rows and lines\<close>

definition demo_stall :: row where
  "demo_stall = \<lparr>label = ''be:dep-load'', stages = [(100, CHR ''f'')], end_cyc = Some 105,
     flushed = False, stall = True, fill = CHR ''#''\<rparr>"

definition demo_insn :: row where
  "demo_insn = demo_stall\<lparr>stall := False, stages := [(100, CHR ''f''), (102, CHR ''w'')]\<rparr>"

text \<open>
  C29: colours change no text: without its colour escapes, a coloured line is the plain line of the
  same row, for a row whose label and stages hold no escape character.
\<close>
theorem line_colours:
  assumes "esc_free r"
  shows "strip_sgr False (line r lab_w c0 ncol colour) = line r lab_w c0 ncol False"
  using assms by (rule strip_sgr_line)

theorem line_colours_witness:
  "strip_sgr False (line demo_insn 20 100 10 True) = line demo_insn 20 100 10 False"
  by (rule line_colours) (simp add: demo_insn_def demo_stall_def esc_free_def)

end
