(* ===== verification/Pipeview_Load.thy ===== *)
theory Pipeview_Load
  imports Pipeview_Row Rvdisasm
begin

text \<open>
  Reading a Kanata stream (tools/pipeview, \<open>objdump_table\<close> and \<open>load\<close>). What \<open>objdump\<close> answers for
  an ELF file and what a path reads as are arguments: \<open>Inl\<close> is the error, its text the message.
  A stream that does not decode as text or fails while it is read is an error of the path as a
  whole, since \<open>load\<close> then returns that error and nothing else. A \<open>HashMap\<close> is a map. \<open>None\<close> is a
  panic of an index.
\<close>

section \<open>Labels from objdump\<close>

type_synonym labels = "u64 \<rightharpoonup> string"
type_synonym symbol = "(u64 \<times> string) option"

definition parse_u64_hex :: "string \<Rightarrow> u64 option" where
  "parse_u64_hex s = map_option word_of_nat (from_str_radix 16 64 s)"

definition objdump_line :: "symbol \<times> labels \<Rightarrow> string \<Rightarrow> symbol \<times> labels" where
  "objdump_line st ln =
     (let (symb, t) = st in
      case strip_suffix ''>:'' ln of
        Some rest \<Rightarrow>
          (case split_once '' <'' rest of
             Some (a, s) \<Rightarrow>
               (case parse_u64_hex (trim a) of
                  Some a' \<Rightarrow> (Some (a', s), t)
                | None \<Rightarrow> (symb, t))
           | None \<Rightarrow> (symb, t))
      | None \<Rightarrow>
          (case split_once (CHR '':'' # [CHR 0x09]) ln of
             None \<Rightarrow> (symb, t)
           | Some (a, txt) \<Rightarrow>
               (case parse_u64_hex (trim a) of
                  None \<Rightarrow> (symb, t)
                | Some pc \<Rightarrow>
                    (case symb of
                       None \<Rightarrow> (symb, t)
                     | Some (base, name) \<Rightarrow>
                         (let text = join '' '' (split_whitespace (hd (split_char CHR ''#'' txt)));
                              off = pc - base;
                              at = (if off = 0 then ''<'' @ name @ ''>''
                                    else ''<'' @ name @ ''+0x'' @ hex (unat off) @ ''>'')
                          in (symb, t(pc \<mapsto> at @ '': '' @ text)))))))"

text \<open>The table, and what goes to the error stream when objdump does not start.\<close>

definition objdump_table :: "(string \<Rightarrow> string + string) \<Rightarrow> string \<Rightarrow> string \<times> labels" where
  "objdump_table objdump elf =
     (case objdump elf of
        Inl e \<Rightarrow>
          (''pipeview: objdump: '' @ e @ ''; decoding instruction words instead'' @ [CHR 0x0A], Map.empty)
      | Inr out \<Rightarrow> ([], snd (foldl objdump_line (None, Map.empty) (lines out))))"

section \<open>The stream\<close>

record load_st =
  rows :: "row list"
  by_id :: "string \<rightharpoonup> nat"
  cyc :: u64

definition new_row :: row where
  "new_row = \<lparr>label = [], stages = [], end_cyc = None, flushed = False, stall = False,
              fill = CHR '' ''\<rparr>"

definition insn_label :: "labels \<Rightarrow> string \<Rightarrow> string \<Rightarrow> string" where
  "insn_label table pc word =
     (let p = (case parse_u64_hex (trim pc) of Some p \<Rightarrow> p | None \<Rightarrow> 0);
          w = (case from_str_radix 16 32 (trim word) of Some w \<Rightarrow> word_of_nat w | None \<Rightarrow> (0 :: u32))
      in case table p of
          Some t \<Rightarrow> hex (unat p) @ '' '' @ t
        | None \<Rightarrow>
            (if w AND 3 \<noteq> 3 then hex (unat p) @ '' (rvc '' @ hex_pad0 4 (unat w) @ '')''
             else hex (unat p) @ '' '' @ join '' '' (split_whitespace (disasm w p))))"

definition set_label :: "labels \<Rightarrow> string \<Rightarrow> row \<Rightarrow> row" where
  "set_label table s r =
     (case strip_prefix ''** '' s of
        Some cause \<Rightarrow> r\<lparr>stall := True, fill := CHR ''#'', label := cause\<rparr>
      | None \<Rightarrow>
          (case strip_prefix ''~~ '' s of
             Some cause \<Rightarrow> r\<lparr>stall := True, fill := CHR ''~'', label := cause\<rparr>
           | None \<Rightarrow>
               (case split_once '': '' s of
                  Some (pc, word) \<Rightarrow> r\<lparr>label := insn_label table pc word\<rparr>
                | None \<Rightarrow> r\<lparr>label := s\<rparr>)))"

definition at_row :: "nat \<Rightarrow> (row \<Rightarrow> row) \<Rightarrow> load_st \<Rightarrow> load_st option" where
  "at_row i f st =
     (if i < length (rows st) then Some (st\<lparr>rows := (rows st)[i := f (rows st ! i)]\<rparr>) else None)"

definition load_line :: "labels \<Rightarrow> load_st \<Rightarrow> string \<Rightarrow> load_st option" where
  "load_line table st ln =
     (let f = split_char CHR 0x09 ln; n = length f
      in if f ! 0 = ''C'' \<and> n > 1 then
           (let d = (case from_str_radix 10 64 (f ! 1) of Some d \<Rightarrow> d | None \<Rightarrow> 0)
            in Some (st\<lparr>cyc := cyc st + word_of_nat d\<rparr>))
         else if f ! 0 = ''I'' \<and> n > 1 then
           Some (st\<lparr>by_id := (by_id st)(f ! 1 \<mapsto> length (rows st)), rows := rows st @ [new_row]\<rparr>)
         else if f ! 0 = ''L'' \<and> n > 3 \<and> f ! 2 = ''0'' then
           (case by_id st (f ! 1) of
              None \<Rightarrow> Some st
            | Some i \<Rightarrow> at_row i (set_label table (f ! 3)) st)
         else if f ! 0 = ''S'' \<and> n > 3 then
           (case by_id st (f ! 1) of
              None \<Rightarrow> Some st
            | Some i \<Rightarrow> at_row i (\<lambda>r. r\<lparr>stages := stages r @ [(cyc st, glyph (f ! 3))]\<rparr>) st)
         else if f ! 0 = ''R'' \<and> n > 3 then
           (case by_id st (f ! 1) of
              None \<Rightarrow> Some st
            | Some i \<Rightarrow> at_row i (\<lambda>r. r\<lparr>end_cyc := Some (cyc st), flushed := (f ! 3 = ''1'')\<rparr>) st)
         else Some st)"

fun load_lines :: "labels \<Rightarrow> load_st \<Rightarrow> string list \<Rightarrow> load_st option" where
  "load_lines table st [] = Some st"
| "load_lines table st (ln # lns) =
     (case load_line table st ln of None \<Rightarrow> None | Some st' \<Rightarrow> load_lines table st' lns)"

definition init_st :: load_st where
  "init_st = \<lparr>rows = [], by_id = Map.empty, cyc = 0\<rparr>"

text \<open>
  \<open>load\<close>: what it writes to the error stream, and the rows or the error of the path; \<open>None\<close> if a
  line panics.
\<close>

definition load ::
  "(string \<Rightarrow> string + string) \<Rightarrow> (string \<Rightarrow> string + string) \<Rightarrow> string \<Rightarrow> string option
    \<Rightarrow> (string \<times> (string + row list)) option" where
  "load objdump file path elf =
     (case (case elf of None \<Rightarrow> ([], Map.empty) | Some e \<Rightarrow> objdump_table objdump e) of
        (err, table) \<Rightarrow>
          (case file path of
             Inl e \<Rightarrow> Some (err, Inl e)
           | Inr contents \<Rightarrow>
               (case load_lines table init_st (lines contents) of
                  None \<Rightarrow> None
                | Some st \<Rightarrow> Some (err, Inr (rows st)))))"

section \<open>Every index is in range\<close>

definition ids_ok :: "load_st \<Rightarrow> bool" where
  "ids_ok st = (\<forall>i \<in> ran (by_id st). i < length (rows st))"

section \<open>The stream as commands\<close>

datatype kline =
    KCycles nat
  | KInsn string
  | KLabel string string
  | KStage string char
  | KRetire string bool
  | KSkip

definition kline_of :: "string \<Rightarrow> kline" where
  "kline_of ln =
     (let f = split_char CHR 0x09 ln; n = length f
      in if f ! 0 = ''C'' \<and> n > 1 then
           KCycles (case from_str_radix 10 64 (f ! 1) of Some d \<Rightarrow> d | None \<Rightarrow> 0)
         else if f ! 0 = ''I'' \<and> n > 1 then KInsn (f ! 1)
         else if f ! 0 = ''L'' \<and> n > 3 \<and> f ! 2 = ''0'' then KLabel (f ! 1) (f ! 3)
         else if f ! 0 = ''S'' \<and> n > 3 then KStage (f ! 1) (glyph (f ! 3))
         else if f ! 0 = ''R'' \<and> n > 3 then KRetire (f ! 1) (f ! 3 = ''1'')
         else KSkip)"

definition on_row :: "string \<Rightarrow> (row \<Rightarrow> row) \<Rightarrow> load_st \<Rightarrow> load_st option" where
  "on_row x f st = (case by_id st x of None \<Rightarrow> Some st | Some i \<Rightarrow> at_row i f st)"

fun exec :: "labels \<Rightarrow> load_st \<Rightarrow> kline \<Rightarrow> load_st option" where
  "exec t st (KCycles d) = Some (st\<lparr>cyc := cyc st + word_of_nat d\<rparr>)"
| "exec t st (KInsn x) =
     Some (st\<lparr>by_id := (by_id st)(x \<mapsto> length (rows st)), rows := rows st @ [new_row]\<rparr>)"
| "exec t st (KLabel x s) = on_row x (set_label t s) st"
| "exec t st (KStage x g) = on_row x (\<lambda>r. r\<lparr>stages := stages r @ [(cyc st, g)]\<rparr>) st"
| "exec t st (KRetire x fl) = on_row x (\<lambda>r. r\<lparr>end_cyc := Some (cyc st), flushed := fl\<rparr>) st"
| "exec t st KSkip = Some st"

lemma load_line_exec: "load_line t st ln = exec t st (kline_of ln)"
  unfolding load_line_def kline_of_def Let_def by (simp add: on_row_def)

lemma load_lines_exec: "load_lines t st lns = fold_opt (exec t) st (map kline_of lns)"
  by (induction lns arbitrary: st) (simp_all add: load_line_exec split: option.split)

lemma on_row_ids: "ids_ok st \<Longrightarrow> \<exists>st'. on_row x f st = Some st' \<and> ids_ok st'"
  by (auto simp: on_row_def at_row_def ids_ok_def ran_def split: option.split)

interpretation loader: total_step "exec t" ids_ok "\<lambda>k. True" for t
proof
  fix st k
  assume "ids_ok st"
  then show "\<exists>st'. exec t st k = Some st' \<and> ids_ok st'"
    by (cases k) (auto simp: on_row_ids, auto simp: ids_ok_def ran_def split: if_splits)
qed

lemma ids_ok_init: "ids_ok init_st"
  by (simp add: ids_ok_def init_st_def)

lemma load_lines_total: "\<exists>st. load_lines t init_st lns = Some st \<and> ids_ok st"
  unfolding load_lines_exec by (rule loader.fold_total) (simp_all add: ids_ok_init list_all_iff)

lemma length_on_row: "on_row x f st = Some st' \<Longrightarrow> length (rows st') = length (rows st)"
  by (auto simp: on_row_def at_row_def split: option.splits if_splits)

definition is_insn :: "kline \<Rightarrow> bool" where
  "is_insn k = (case k of KInsn x \<Rightarrow> True | _ \<Rightarrow> False)"

lemma length_exec: "exec t st k = Some st' \<Longrightarrow> length (rows st') = length (rows st) + (if is_insn k then 1 else 0)"
  by (cases k) (auto simp: is_insn_def dest: length_on_row)

lemma length_fold_exec:
  "fold_opt (exec t) st ks = Some st' \<Longrightarrow> length (rows st') = length (rows st) + length (filter is_insn ks)"
  by (induction ks arbitrary: st) (auto split: option.splits dest!: length_exec)

section \<open>Cycles are in order\<close>

definition advance :: "kline \<Rightarrow> nat" where
  "advance k = (case k of KCycles d \<Rightarrow> d | _ \<Rightarrow> 0)"

definition row_ok :: "u64 \<Rightarrow> row \<Rightarrow> bool" where
  "row_ok c r = (sorted (map fst (stages r)) \<and> (\<forall>s \<in> set (stages r). fst s \<le> c)
     \<and> (case end_cyc r of Some e \<Rightarrow> e \<le> c | None \<Rightarrow> True))"

definition cyc_ok :: "load_st \<Rightarrow> bool" where
  "cyc_ok st = (\<forall>r \<in> set (rows st). row_ok (cyc st) r)"

lemma row_ok_mono: "row_ok c r \<Longrightarrow> c \<le> c' \<Longrightarrow> row_ok c' r"
  by (auto simp: row_ok_def split: option.splits)

lemma on_row_ok:
  assumes "on_row x f st = Some st'" "cyc_ok st" "\<And>r. row_ok (cyc st) r \<Longrightarrow> row_ok (cyc st) (f r)"
  shows "cyc_ok st'" "cyc st' = cyc st"
  using assms
  by (auto simp: on_row_def at_row_def cyc_ok_def split: option.splits if_splits
      dest!: set_update_subset_insert [THEN subsetD])

lemma row_ok_updates:
  "row_ok c r \<Longrightarrow> row_ok c (set_label t s r)"
  "row_ok c r \<Longrightarrow> row_ok c (r\<lparr>stages := stages r @ [(c, g)]\<rparr>)"
  "row_ok c r \<Longrightarrow> row_ok c (r\<lparr>end_cyc := Some c, flushed := fl\<rparr>)"
  "row_ok c new_row"
  by (auto simp: row_ok_def set_label_def new_row_def sorted_append split: option.split)

lemma word_add_nat: "unat c + d < 2 ^ 64 \<Longrightarrow> unat (c + word_of_nat d) = unat c + d"
  for c :: u64
  by (simp add: unat_word_ariths unsigned_of_nat take_bit_nat_eq_self mod_less)

lemma exec_cyc_ok:
  assumes "exec t st k = Some st'" "cyc_ok st" "unat (cyc st) + advance k < 2 ^ 64"
  shows "cyc_ok st' \<and> unat (cyc st') = unat (cyc st) + advance k"
proof (cases k)
  case (KCycles d)
  with assms have st': "st' = st\<lparr>cyc := cyc st + word_of_nat d\<rparr>" by simp
  moreover have "unat (cyc st + word_of_nat d) = unat (cyc st) + d"
    using assms(3) KCycles by (intro word_add_nat) (simp add: advance_def)
  ultimately show ?thesis
    using assms(2) KCycles row_ok_mono [of "cyc st" _ "cyc st'"]
    by (auto simp: advance_def cyc_ok_def word_le_nat_alt)
next
  case (KInsn x)
  with assms show ?thesis by (auto simp: cyc_ok_def row_ok_updates advance_def)
next
  case (KLabel x s)
  with assms have "on_row x (set_label t s) st = Some st'" by simp
  from on_row_ok [OF this assms(2) row_ok_updates(1)] KLabel show ?thesis by (simp add: advance_def)
next
  case (KStage x g)
  with assms have "on_row x (\<lambda>r. r\<lparr>stages := stages r @ [(cyc st, g)]\<rparr>) st = Some st'" by simp
  from on_row_ok [OF this assms(2) row_ok_updates(2)] KStage show ?thesis by (simp add: advance_def)
next
  case (KRetire x fl)
  with assms have "on_row x (\<lambda>r. r\<lparr>end_cyc := Some (cyc st), flushed := fl\<rparr>) st = Some st'" by simp
  from on_row_ok [OF this assms(2) row_ok_updates(3)] KRetire show ?thesis by (simp add: advance_def)
next
  case KSkip
  with assms show ?thesis by (simp add: advance_def)
qed

lemma fold_exec_cyc_ok:
  "fold_opt (exec t) st ks = Some st' \<Longrightarrow> cyc_ok st \<Longrightarrow> unat (cyc st) + sum_list (map advance ks) < 2 ^ 64
    \<Longrightarrow> cyc_ok st' \<and> unat (cyc st') = unat (cyc st) + sum_list (map advance ks)"
proof (induction ks arbitrary: st)
  case (Cons k ks)
  then obtain s where s: "exec t st k = Some s" "fold_opt (exec t) s ks = Some st'"
    by (auto split: option.splits)
  with Cons.prems have "cyc_ok s \<and> unat (cyc s) = unat (cyc st) + advance k"
    by (intro exec_cyc_ok) auto
  with Cons.IH [OF s(2)] Cons.prems show ?case by (simp add: add.assoc)
qed simp

section \<open>A stream of commands is read back\<close>

definition plain :: "string \<Rightarrow> bool" where
  "plain s = (CHR 0x09 \<notin> set s \<and> CHR 0x0A \<notin> set s \<and> CHR 0x0D \<notin> set s)"

fun kfields :: "kline \<Rightarrow> string list" where
  "kfields (KCycles d) = [''C'', dec d]"
| "kfields (KInsn x) = [''I'', x, x, ''0'']"
| "kfields (KLabel x s) = [''L'', x, ''0'', s]"
| "kfields (KStage x g) = [''S'', x, ''0'', [g]]"
| "kfields (KRetire x fl) = [''R'', x, x, if fl then ''1'' else ''0'']"
| "kfields KSkip = [''Kanata'', ''0004'']"

definition render :: "kline \<Rightarrow> string" where
  "render k = join [CHR 0x09] (kfields k)"

fun kline_wf :: "kline \<Rightarrow> bool" where
  "kline_wf (KCycles d) = (d < 2 ^ 64)"
| "kline_wf (KInsn x) = plain x"
| "kline_wf (KLabel x s) = (plain x \<and> plain s)"
| "kline_wf (KStage x g) = (plain x \<and> plain [g])"
| "kline_wf (KRetire x fl) = plain x"
| "kline_wf KSkip = True"

lemma plain_dec: "plain (dec n)"
  using set_radix [of 10 n] by (auto simp: plain_def hex_digits_def)

lemma plain_fields: "kline_wf k \<Longrightarrow> f \<in> set (kfields k) \<Longrightarrow> plain f"
  by (cases k) (auto simp: plain_dec, auto simp: plain_def)

lemma plain_join: "plain [c] \<or> c = CHR 0x09 \<Longrightarrow> (\<And>f. f \<in> set fs \<Longrightarrow> plain f) \<Longrightarrow>
   CHR 0x0A \<notin> set (join [c] fs) \<and> CHR 0x0D \<notin> set (join [c] fs)"
  by (induction "[c]" fs rule: join.induct) (auto simp: plain_def)

lemma kfields_not_Nil: "kfields k \<noteq> []"
  by (cases k) simp_all

lemma kline_of_render:
  assumes "kline_wf k"
  shows "kline_of (render k) = k"
proof -
  have "split_char CHR 0x09 (render k) = kfields k"
    unfolding render_def using plain_fields [OF assms] kfields_not_Nil
    by (intro split_char_join) (auto simp: plain_def)
  then show ?thesis using assms
    by (cases k) (simp_all add: kline_of_def glyph_def from_str_radix_radix)
qed

lemma kline_of_stream:
  assumes "list_all kline_wf ks"
  shows "map kline_of (lines (unlines (map render ks))) = ks"
proof -
  have "CHR 0x0A \<notin> set (render k) \<and> CHR 0x0D \<notin> set (render k)" if "k \<in> set ks" for k
    unfolding render_def using assms that plain_fields by (intro plain_join) (auto simp: list_all_iff)
  then have "lines (unlines (map render ks)) = map render ks" by (intro lines_unlines) auto
  then show ?thesis using assms by (auto simp: list_all_iff kline_of_render intro!: map_idI)
qed

section \<open>Labels\<close>

lemma parse_u64_hex_hex: "parse_u64_hex (hex (unat p)) = Some p"
  using unat_bounds(1) [of p] by (simp add: parse_u64_hex_def from_str_radix_radix)

definition demo_stream :: "kline list" where
  "demo_stream =
    [KCycles 100, KInsn ''0'', KLabel ''0'' ''addi'', KStage ''0'' CHR ''f'', KCycles 2,
     KStage ''0'' CHR ''a'', KRetire ''0'' False]"

definition demo_row :: row where
  "demo_row = \<lparr>label = ''addi'', stages = [(100, CHR ''f''), (102, CHR ''a'')],
     end_cyc = Some 102, flushed = False, stall = False, fill = CHR '' ''\<rparr>"

lemma upper_a: "to_ascii_uppercase CHR ''a'' = CHR ''A''"
  by code_simp

lemma demo_loaded:
  "load_lines Map.empty init_st (map render demo_stream) =
    Some \<lparr>rows = [demo_row], by_id = [''0'' \<mapsto> 0], cyc = 102\<rparr>"
  "map kline_of (map render demo_stream) = demo_stream"
proof -
  show *: "map kline_of (map render demo_stream) = demo_stream"
    by (simp add: demo_stream_def kline_of_render plain_def)
  have "set_label Map.empty ''addi'' new_row = new_row\<lparr>label := ''addi''\<rparr>"
    by (simp add: set_label_def)
  then show "load_lines Map.empty init_st (map render demo_stream) =
    Some \<lparr>rows = [demo_row], by_id = [''0'' \<mapsto> 0], cyc = 102\<rparr>"
    unfolding load_lines_exec * 
    by (simp add: demo_stream_def init_st_def on_row_def at_row_def demo_row_def new_row_def)
qed


section \<open>Properties of the loader\<close>

text \<open>
  C10: every line of a Kanata stream is taken without a panic: whatever the lines are, all of them
  are executed, there is one row per instruction line, and the rows that the identifiers stand for
  exist.
\<close>
theorem load_never_panics:
  "\<exists>st. load_lines table init_st lns = Some st \<and> ids_ok st
     \<and> length (rows st) = length (filter (\<lambda>ln. is_insn (kline_of ln)) lns)"
proof -
  obtain st where st: "load_lines table init_st lns = Some st" "ids_ok st"
    using load_lines_total by blast
  then have "length (rows st) = length (filter is_insn (map kline_of lns))"
    by (auto simp: load_lines_exec init_st_def dest: length_fold_exec)
  with st show ?thesis by (simp add: filter_map comp_def)
qed

text \<open>
  C9: a stream written as tab-separated commands loads as the commands execute: reading the file
  gives the rows of the abstract execution, for identifiers and labels without control characters.
\<close>
theorem load_reads_stream:
  assumes "list_all kline_wf ks" "file path = Inr (unlines (map render ks))"
  shows "\<exists>st. fold_opt (exec Map.empty) init_st ks = Some st
     \<and> load obj file path None = Some ([], Inr (rows st))"
proof -
  obtain st where "fold_opt (exec Map.empty) init_st ks = Some st"
    using loader.fold_total [of init_st ks Map.empty] ids_ok_init by (auto simp: list_all_iff)
  with assms show ?thesis by (simp add: load_def load_lines_exec kline_of_stream)
qed

theorem load_reads_stream_witness:
  "\<exists>st. fold_opt (exec Map.empty) init_st demo_stream = Some st
     \<and> load (\<lambda>e. Inl []) (\<lambda>p. Inr (unlines (map render demo_stream))) ''t.kanata'' None
       = Some ([], Inr (rows st))"
  by (rule load_reads_stream) (simp_all add: demo_stream_def plain_def)

text \<open>
  C8: the cells of an instruction row. In a loaded stream whose cycle counter does not overflow, an
  instruction row with at least one stage shows a blank outside its cycles, its retire or flush mark in its last one, and
  otherwise the last stage it entered at or before that cycle.
\<close>
theorem loaded_cells:
  assumes "load_lines table init_st lns = Some st"
    and "sum_list (map (\<lambda>ln. advance (kline_of ln)) lns) < 2 ^ 64"
    and "r \<in> set (rows st)" "\<not> stall r" "stages r \<noteq> []"
  shows "glyph_at r c =
    (if \<not> in_flight r c then CHR '' ''
     else if end_cyc r = Some c then retire_glyph r c
     else stage_at r c)"
proof -
  have "cyc_ok st"
    using fold_exec_cyc_ok [of table init_st "map kline_of lns" st] assms(1,2)
    by (simp add: load_lines_exec init_st_def cyc_ok_def comp_def)
  with assms(3) have "sorted (map fst (stages r))" by (auto simp: cyc_ok_def row_ok_def)
  with assms(4,5) show ?thesis by (intro glyph_at_insn)
qed

theorem loaded_cells_witness: "glyph_at demo_row 101 = CHR ''f'' \<and> glyph_at demo_row 102 = CHR ''A''"
proof -
  have "sum_list (map (\<lambda>ln. advance (kline_of ln)) (map render demo_stream)) < 2 ^ 64"
    using demo_loaded(2) by (simp add: comp_def flip: map_map) (simp add: demo_stream_def advance_def)
  from loaded_cells [OF demo_loaded(1) this, of demo_row 101]
    loaded_cells [OF demo_loaded(1) this, of demo_row 102]
  show ?thesis
    by (simp add: demo_row_def in_flight_def start_def stage_at_def retire_glyph_def upper_a)
qed

text \<open>
  C11: in a loaded stream whose cycle counter does not overflow, every row's stages are in the order
  of their cycles and no stage and no end lies after the cycle the stream has reached.
\<close>
theorem loaded_rows_ordered:
  assumes "load_lines table init_st lns = Some st"
    and "sum_list (map (\<lambda>ln. advance (kline_of ln)) lns) < 2 ^ 64"
  shows "unat (cyc st) = sum_list (map (\<lambda>ln. advance (kline_of ln)) lns)
    \<and> list_all (row_ok (cyc st)) (rows st)"
  using fold_exec_cyc_ok [of table init_st "map kline_of lns" st] assms
  by (simp add: load_lines_exec init_st_def cyc_ok_def comp_def list_all_iff)

theorem loaded_rows_ordered_witness: "list_all (row_ok 102) [demo_row]"
proof -
  have "sum_list (map (\<lambda>ln. advance (kline_of ln)) (map render demo_stream)) < 2 ^ 64"
    using demo_loaded(2) by (simp add: comp_def flip: map_map) (simp add: demo_stream_def advance_def)
  from loaded_rows_ordered [OF demo_loaded(1) this] show ?thesis by simp
qed

lemma hd_split_char: "hd (split_char c s) = takeWhile (\<lambda>x. x \<noteq> c) s"
  by (induction s) (auto split: list.split)

lemma strip_suffix_append: "strip_suffix p (s @ p) = Some s"
  by (simp add: strip_suffix_def strip_prefix_append)

lemma strip_suffix_last: "last s \<noteq> last p \<Longrightarrow> s \<noteq> [] \<Longrightarrow> p \<noteq> [] \<Longrightarrow> strip_suffix p s = None"
  by (cases s rule: rev_cases; cases p rule: rev_cases) (auto simp: strip_suffix_def)

lemma trim_indent: "(\<And>c. c \<in> set s \<Longrightarrow> \<not> is_ws c) \<Longrightarrow> s \<noteq> [] \<Longrightarrow> trim (replicate k CHR '' '' @ s) = s"
proof -
  assume *: "\<And>c. c \<in> set s \<Longrightarrow> \<not> is_ws c" and "s \<noteq> []"
  have "is_ws CHR '' ''" by code_simp
  then have "dropWhile is_ws (replicate k CHR '' '' @ s) = s"
    using * by (induction k) (auto simp: dropWhile_eq_self_iff)
  then have "trim (replicate k CHR '' '' @ s) = trim s"
    using trim_id [OF *] by (simp add: trim_def dropWhile_eq_self_iff * \<open>s \<noteq> []\<close>)
  with trim_id [OF *] show ?thesis by simp
qed

text \<open>
  C27: the two kinds of lines of objdump's listing that matter. A symbol line makes its address and
  name current; an instruction line under a symbol is labelled with the symbol, the offset from
  it, and the text before a comment with its white space normalised.
\<close>
theorem objdump_listing:
  assumes "tx \<noteq> []" "last tx \<noteq> CHR '':''"
  shows "objdump_line (cur, t) (hex_pad0 16 (unat base) @ '' <'' @ name @ ''>:'') = (Some (base, name), t)
    \<and> objdump_line (Some (base, name), t)
        (replicate k CHR '' '' @ hex (unat pc) @ CHR '':'' # CHR 0x09 # tx) =
      (Some (base, name), t(pc \<mapsto>
         ''<'' @ name @ (if pc = base then [] else ''+0x'' @ hex (unat (pc - base))) @ ''>: ''
           @ join '' '' (split_whitespace (takeWhile (\<lambda>c. c \<noteq> CHR ''#'') tx))))"
proof (rule conjI)
  have h: "strip_suffix ''>:'' (hex_pad0 16 (unat base) @ '' <'' @ name @ ''>:'')
      = Some (hex_pad0 16 (unat base) @ '' <'' @ name)"
    using strip_suffix_append [of "''>:''" "hex_pad0 16 (unat base) @ '' <'' @ name"] by simp
  have sp: "CHR '' '' \<notin> set (hex_pad0 16 (unat base))"
    using set_hex_pad0 [of 16 "unat base"] by (auto simp: hex_digits_def)
  have "split_once '' <'' (hex_pad0 16 (unat base) @ '' <'' @ name) = Some (hex_pad0 16 (unat base), name)"
    using split_once_char [OF sp, of "''<''" name] by simp
  moreover have "parse_u64_hex (hex_pad0 16 (unat base)) = Some base"
    using unat_bounds(1) [of base] by (simp add: parse_u64_hex_def from_str_radix_hex_pad0)
  ultimately show "objdump_line (cur, t) (hex_pad0 16 (unat base) @ '' <'' @ name @ ''>:'')
      = (Some (base, name), t)"
    unfolding objdump_line_def h by (simp add: trim_hex)
  let ?ln = "replicate k CHR '' '' @ hex (unat pc) @ CHR '':'' # CHR 0x09 # tx"
  have c: "CHR '':'' \<notin> set (replicate k CHR '' '' @ hex (unat pc))"
    using hex_not [of "CHR '':''" "unat pc"] by (auto simp: hex_digits_def)
  have "last ?ln = last tx" using assms(1) by simp
  then have "strip_suffix ''>:'' ?ln = None" using assms by (intro strip_suffix_last) auto
  moreover have "split_once (CHR '':'' # [CHR 0x09]) ?ln = Some (replicate k CHR '' '' @ hex (unat pc), tx)"
    using split_once_char [OF c, of "[CHR 0x09]" tx] by simp
  moreover have "trim (replicate k CHR '' '' @ hex (unat pc)) = hex (unat pc)"
    using set_radix [of 16 "unat pc"] hex_digit_not_ws by (intro trim_indent) auto
  ultimately show "objdump_line (Some (base, name), t) ?ln =
      (Some (base, name), t(pc \<mapsto>
         ''<'' @ name @ (if pc = base then [] else ''+0x'' @ hex (unat (pc - base))) @ ''>: ''
           @ join '' '' (split_whitespace (takeWhile (\<lambda>c. c \<noteq> CHR ''#'') tx))))"
    unfolding objdump_line_def by (simp add: parse_u64_hex_hex hd_split_char Let_def)
qed

theorem objdump_listing_witness:
  "objdump_line (Some (0x80000000, ''main''), Map.empty)
      (replicate 4 CHR '' '' @ hex 0x80000004 @ CHR '':'' # CHR 0x09 # ''ret'') =
    (Some (0x80000000, ''main''), [0x80000004 \<mapsto> ''<main+0x4>: ret''])"
proof -
  have "hex 4 = ''4''" "join '' '' (split_whitespace ''ret'') = ''ret''" by code_simp+
  with objdump_listing [of "''ret''" None Map.empty "0x80000000" "''main''" 4 "0x80000004"] show ?thesis
    by simp
qed

end
