(* ===== verification/Pipetrace.thy ===== *)
theory Pipetrace
  imports Pipeview_Load
begin

text \<open>
  The testbench side of the Kanata stream: the tasks of core/tb_pipetrace.vh that write it. A row is
  opened with its label and its first code, changes its code, gets a detail line, and is closed; the
  tasks first advance the stream's clock to the current cycle. The clocked logic that decides when to call the
  tasks reads the core's state and is not modelled: a run is any sequence of calls with their
  cycles in which a row is opened once, under a label that fits the tasks' vector of 40 characters,
  and used only afterwards. Verilog's \<open>%h\<close> prints all digits of
  a vector and \<open>%0d\<close> a number without padding.
\<close>

section \<open>The tasks\<close>

record kan =
  kan_last :: u64
  kan_rid :: u64
  kan_out :: "string list"

definition tabs :: "string list \<Rightarrow> string" where
  "tabs fs = join [CHR 0x09] fs"

definition kan_put :: "string list list \<Rightarrow> kan \<Rightarrow> kan" where
  "kan_put ls k = k\<lparr>kan_out := kan_out k @ map tabs ls\<rparr>"

definition kan_tick :: "u64 \<Rightarrow> kan \<Rightarrow> kan" where
  "kan_tick c k =
     (if c \<noteq> kan_last k
      then (kan_put [[''C'', dec (unat (c - kan_last k))]] k)\<lparr>kan_last := c\<rparr>
      else k)"

definition kan_open :: "u64 \<Rightarrow> u64 \<Rightarrow> string \<Rightarrow> char \<Rightarrow> kan \<Rightarrow> kan" where
  "kan_open c n lab code k =
     kan_put [[''I'', dec (unat n), dec (unat n), ''0''],
              [''L'', dec (unat n), ''0'', lab],
              [''S'', dec (unat n), ''0'', [code]]] (kan_tick c k)"

definition kan_code :: "u64 \<Rightarrow> u64 \<Rightarrow> char \<Rightarrow> char \<Rightarrow> kan \<Rightarrow> kan" where
  "kan_code c n old code k =
     (if code \<noteq> old
      then kan_put [[''E'', dec (unat n), ''0'', [old]],
                    [''S'', dec (unat n), ''0'', [code]]] (kan_tick c k)
      else k)"

definition kan_close :: "u64 \<Rightarrow> u64 \<Rightarrow> char \<Rightarrow> bool \<Rightarrow> kan \<Rightarrow> kan" where
  "kan_close c n old flush k =
     (let k' = kan_put [[''E'', dec (unat n), ''0'', [old]],
                        [''R'', dec (unat n), dec (unat (kan_rid k)), if flush then ''1'' else ''0'']]
                 (kan_tick c k)
      in k'\<lparr>kan_rid := kan_rid k' + 1\<rparr>)"

text \<open>At dispatch the row gets a detail line with its ROB index and its sequence number.\<close>

definition kan_detail :: "u64 \<Rightarrow> nat \<Rightarrow> nat \<Rightarrow> kan \<Rightarrow> kan" where
  "kan_detail n ix sq k =
     kan_put [[''L'', dec (unat n), ''1'', ''rob '' @ dec ix @ '' seq '' @ dec sq]] k"

text \<open>The three kinds of rows and the labels they are opened with.\<close>

datatype kind = Insn_row u64 u32 | Fetch_row string | Stall_row string

fun kind_label :: "kind \<Rightarrow> string" where
  "kind_label (Insn_row pc raw) = hex_pad0 16 (unat pc) @ '': '' @ hex_pad0 8 (unat raw)"
| "kind_label (Fetch_row s) = ''~~ fetch: '' @ s"
| "kind_label (Stall_row s) = ''** '' @ s"

datatype call =
    Open_row u64 kind char | Code_row u64 char char | Detail_row u64 nat nat | Close_row u64 char bool

fun run_call :: "u64 \<times> call \<Rightarrow> kan \<Rightarrow> kan" where
  "run_call (c, Open_row n x code) k = kan_open c n (kind_label x) code k"
| "run_call (c, Code_row n old code) k = kan_code c n old code k"
| "run_call (c, Detail_row n ix sq) k = kan_detail n ix sq k"
| "run_call (c, Close_row n old flush) k = kan_close c n old flush k"

definition kan_run :: "(u64 \<times> call) list \<Rightarrow> kan" where
  "kan_run calls = fold run_call calls
     \<lparr>kan_last = 0, kan_rid = 0, kan_out = map tabs [[''Kanata'', ''0004''], [''C='', ''0'']]\<rparr>"

definition kan_file :: "(u64 \<times> call) list \<Rightarrow> string" where
  "kan_file calls = unlines (kan_out (kan_run calls))"

section \<open>Runs of the probe\<close>

definition opened :: "(u64 \<times> call) list \<Rightarrow> (u64 \<times> kind) list" where
  "opened calls = List.map_filter (\<lambda>(c, x). case x of Open_row n l g \<Rightarrow> Some (n, l) | _ \<Rightarrow> None) calls"

inductive probe :: "(u64 \<times> call) list \<Rightarrow> bool" where
  start: "probe []"
| opens: "probe cs \<Longrightarrow> n \<notin> fst ` set (opened cs) \<Longrightarrow> plain (kind_label l) \<Longrightarrow>
    length (kind_label l) \<le> 40 \<Longrightarrow> plain [g] \<Longrightarrow> probe (cs @ [(c, Open_row n l g)])"
| codes: "probe cs \<Longrightarrow> n \<in> fst ` set (opened cs) \<Longrightarrow> plain [g] \<Longrightarrow> plain [old] \<Longrightarrow>
    probe (cs @ [(c, Code_row n old g)])"
| details: "probe cs \<Longrightarrow> n \<in> fst ` set (opened cs) \<Longrightarrow> probe (cs @ [(c, Detail_row n ix sq)])"
| closes: "probe cs \<Longrightarrow> n \<in> fst ` set (opened cs) \<Longrightarrow> plain [old] \<Longrightarrow>
    probe (cs @ [(c, Close_row n old flush)])"

text \<open>What a row should be: its label, the codes it took with their cycles, and its end.\<close>

fun kind_row :: "kind \<Rightarrow> row" where
  "kind_row (Insn_row pc raw) =
     \<lparr>label = hex (unat pc) @ (if raw AND 3 \<noteq> 3 then '' (rvc '' @ hex_pad0 4 (unat raw) @ '')''
                               else '' '' @ join '' '' (split_whitespace (disasm raw pc))),
      stages = [], end_cyc = None, flushed = False, stall = False, fill = CHR '' ''\<rparr>"
| "kind_row (Fetch_row s) =
     \<lparr>label = ''fetch: '' @ s, stages = [], end_cyc = None, flushed = False, stall = True, fill = CHR ''~''\<rparr>"
| "kind_row (Stall_row s) =
     \<lparr>label = s, stages = [], end_cyc = None, flushed = False, stall = True, fill = CHR ''#''\<rparr>"

definition codes_of :: "u64 \<Rightarrow> (u64 \<times> call) list \<Rightarrow> (u64 \<times> char) list" where
  "codes_of n calls = List.map_filter (\<lambda>(c, x). case x of
       Open_row m l g \<Rightarrow> if m = n then Some (c, g) else None
     | Code_row m old g \<Rightarrow> if m = n \<and> g \<noteq> old then Some (c, g) else None
     | _ \<Rightarrow> None) calls"

definition ends_of :: "u64 \<Rightarrow> (u64 \<times> call) list \<Rightarrow> (u64 \<times> bool) list" where
  "ends_of n calls = List.map_filter (\<lambda>(c, x). case x of
       Close_row m old fl \<Rightarrow> if m = n then Some (c, fl) else None | _ \<Rightarrow> None) calls"

definition row_for :: "(u64 \<times> call) list \<Rightarrow> u64 \<times> kind \<Rightarrow> row" where
  "row_for calls p =
     (let es = ends_of (fst p) calls
      in (kind_row (snd p))\<lparr>stages := codes_of (fst p) calls,
           end_cyc := if es = [] then None else Some (fst (last es)),
           flushed := (es \<noteq> [] \<and> snd (last es))\<rparr>)"

section \<open>The lines are read back\<close>

lemma plain_hex_pad0: "plain (hex_pad0 w n)"
  using set_hex_pad0 [of w n] by (auto simp: plain_def hex_digits_def)

lemma kline_of_tabs:
  assumes "fs \<noteq> []" "list_all plain fs"
  shows "kline_of (tabs fs) = 
     (let n = length fs
      in if fs ! 0 = ''C'' \<and> n > 1 then
           KCycles (case from_str_radix 10 64 (fs ! 1) of Some d \<Rightarrow> d | None \<Rightarrow> 0)
         else if fs ! 0 = ''I'' \<and> n > 1 then KInsn (fs ! 1)
         else if fs ! 0 = ''L'' \<and> n > 3 \<and> fs ! 2 = ''0'' then KLabel (fs ! 1) (fs ! 3)
         else if fs ! 0 = ''S'' \<and> n > 3 then KStage (fs ! 1) (glyph (fs ! 3))
         else if fs ! 0 = ''R'' \<and> n > 3 then KRetire (fs ! 1) (fs ! 3 = ''1'')
         else KSkip)"
proof -
  have "split_char CHR 0x09 (tabs fs) = fs"
    unfolding tabs_def using assms by (intro split_char_join) (auto simp: plain_def list_all_iff)
  then show ?thesis by (simp add: kline_of_def)
qed

definition ticks :: "u64 \<Rightarrow> u64 \<Rightarrow> kline list" where
  "ticks c l = (if c \<noteq> l then [KCycles (unat (c - l))] else [])"

fun klines :: "u64 \<Rightarrow> u64 \<times> call \<Rightarrow> kline list" where
  "klines l (c, Open_row n x g) =
     ticks c l @ [KInsn (dec (unat n)), KLabel (dec (unat n)) (kind_label x), KStage (dec (unat n)) g]"
| "klines l (c, Code_row n old g) =
     (if g \<noteq> old then ticks c l @ [KSkip, KStage (dec (unat n)) g] else [])"
| "klines l (c, Detail_row n ix sq) = [KSkip]"
| "klines l (c, Close_row n old fl) = ticks c l @ [KSkip, KRetire (dec (unat n)) fl]"

fun call_plain :: "u64 \<times> call \<Rightarrow> bool" where
  "call_plain (c, Open_row n l g) = (plain (kind_label l) \<and> plain [g])"
| "call_plain (c, Code_row n old g) = (plain [g] \<and> plain [old])"
| "call_plain (c, Detail_row n ix sq) = True"
| "call_plain (c, Close_row n old fl) = plain [old]"

lemma plain_detail: "plain (''rob '' @ dec ix @ '' seq '' @ dec sq)"
  using plain_dec [of ix] plain_dec [of sq] by (simp add: plain_def)

lemma plain_letters: "plain ''C''" "plain ''I''" "plain ''L''" "plain ''S''" "plain ''R''" "plain ''E''" "plain ''0''" "plain ''1''"
  by (simp_all add: plain_def)

lemma tick_out:
  "kan_out (kan_tick c k) = kan_out k @ (if c \<noteq> kan_last k then [tabs [''C'', dec (unat (c - kan_last k))]] else [])"
  "kan_last (kan_tick c k) = c" "kan_rid (kan_tick c k) = kan_rid k"
  by (simp_all add: kan_tick_def kan_put_def)

lemma kline_of_tick: "kline_of (tabs [''C'', dec (unat d)]) = KCycles (unat (d :: u64))"
  using unat_bounds(1) [of d] by (simp add: kline_of_tabs plain_dec plain_letters from_str_radix_radix)

lemma run_call_klines:
  assumes "call_plain x"
  shows "map kline_of (kan_out (run_call x k)) = map kline_of (kan_out k) @ klines (kan_last k) x"
  using assms
  by (cases x rule: call_plain.cases)
    (auto simp: kan_open_def kan_code_def kan_detail_def kan_close_def kan_put_def tick_out ticks_def
      kline_of_tick kline_of_tabs plain_dec plain_letters plain_detail [simplified] glyph_def Let_def)

section \<open>The rows the loader makes\<close>

lemma map_filter_snoc: "List.map_filter f (xs @ [x]) = List.map_filter f xs @ (case f x of None \<Rightarrow> [] | Some y \<Rightarrow> [y])"
  by (simp add: map_filter_def split: option.split)

lemma opened_snoc [simp]:
  "opened [] = []" "opened (cs @ [(c, Open_row n l g)]) = opened cs @ [(n, l)]"
  "opened (cs @ [(c, Code_row n old g)]) = opened cs" "opened (cs @ [(c, Detail_row n ix sq)]) = opened cs"
  "opened (cs @ [(c, Close_row n old fl)]) = opened cs"
  by (simp_all add: opened_def map_filter_snoc)

lemma codes_snoc [simp]:
  "codes_of n [] = []"
  "codes_of n (cs @ [(c, Open_row m l g)]) = codes_of n cs @ (if m = n then [(c, g)] else [])"
  "codes_of n (cs @ [(c, Code_row m old g)]) = codes_of n cs @ (if m = n \<and> g \<noteq> old then [(c, g)] else [])"
  "codes_of n (cs @ [(c, Detail_row m ix sq)]) = codes_of n cs"
  "codes_of n (cs @ [(c, Close_row m old fl)]) = codes_of n cs"
  by (simp_all add: codes_of_def map_filter_snoc)

lemma ends_snoc [simp]:
  "ends_of n [] = []" "ends_of n (cs @ [(c, Open_row m l g)]) = ends_of n cs"
  "ends_of n (cs @ [(c, Code_row m old g)]) = ends_of n cs"
  "ends_of n (cs @ [(c, Detail_row m ix sq)]) = ends_of n cs"
  "ends_of n (cs @ [(c, Close_row m old fl)]) = ends_of n cs @ (if m = n then [(c, fl)] else [])"
  by (simp_all add: ends_of_def map_filter_snoc)

lemma probe_distinct: "probe cs \<Longrightarrow> distinct (map fst (opened cs))"
  by (induction rule: probe.induct) simp_all

lemma probe_plain: "probe cs \<Longrightarrow> list_all call_plain cs"
  by (induction rule: probe.induct) simp_all

lemma probe_unused: "probe cs \<Longrightarrow> n \<notin> fst ` set (opened cs) \<Longrightarrow> codes_of n cs = [] \<and> ends_of n cs = []"
  by (induction rule: probe.induct) auto

text \<open>What a call changes of the rows opened before it.\<close>

lemma row_for_snoc:
  "m \<noteq> n \<Longrightarrow> row_for (cs @ [(c, Open_row m l g)]) (n, l') = row_for cs (n, l')"
  "row_for (cs @ [(c, Code_row m old g)]) (n, l') = 
     (if m = n \<and> g \<noteq> old then (row_for cs (n, l'))\<lparr>stages := stages (row_for cs (n, l')) @ [(c, g)]\<rparr> else row_for cs (n, l'))"
  "row_for (cs @ [(c, Detail_row m ix sq)]) p = row_for cs p"
  "row_for (cs @ [(c, Close_row m old fl)]) (n, l') = 
     (if m = n then (row_for cs (n, l'))\<lparr>end_cyc := Some c, flushed := fl\<rparr> else row_for cs (n, l'))"
  by (simp_all add: row_for_def Let_def)

definition ids_for :: "load_st \<Rightarrow> (u64 \<times> kind) list \<Rightarrow> bool" where
  "ids_for st os = (\<forall>n i. by_id st (dec (unat n)) = Some i \<longleftrightarrow> i < length os \<and> fst (os ! i) = n)"

definition loaded_as :: "(u64 \<times> call) list \<Rightarrow> load_st \<Rightarrow> bool" where
  "loaded_as cs st = (rows st = map (row_for cs) (opened cs) \<and> ids_for st (opened cs)
     \<and> cyc st = kan_last (kan_run cs))"

lemma dec_inj: "dec (unat n) = dec (unat m) \<longleftrightarrow> n = m"
  for n m :: u64
  by (simp add: radix_inj word_unat_eq_iff)

lemma on_row_for:
  assumes "ids_for st os" "rows st = map f os" "distinct (map fst os)" "n \<in> fst ` set os"
    and "\<And>l. g (n, l) = upd (f (n, l))" "\<And>m l. m \<noteq> n \<Longrightarrow> g (m, l) = f (m, l)"
  shows "on_row (dec (unat n)) upd st = Some (st\<lparr>rows := map g os\<rparr>)"
proof -
  obtain i where i: "i < length os" "fst (os ! i) = n" using assms(4) by (auto simp: in_set_conv_nth)
  have "(map f os)[i := upd (map f os ! i)] = map g os"
  proof (rule nth_equalityI)
    fix j
    assume "j < length ((map f os)[i := upd (map f os ! i)])"
    then have j: "j < length os" by simp
    show "(map f os)[i := upd (map f os ! i)] ! j = map g os ! j"
    proof (cases "j = i")
      case True
      with i show ?thesis using assms(5) [of "snd (os ! i)"] by (cases "os ! i") simp
    next
      case False
      with i j assms(3) have "fst (os ! j) \<noteq> n"
        using nth_eq_iff_index_eq [of "map fst os" j i] by simp
      with j False show ?thesis using assms(6) [of "fst (os ! j)" "snd (os ! j)"] by simp
    qed
  qed simp
  moreover have "by_id st (dec (unat n)) = Some i" using assms(1) i by (simp add: ids_for_def)
  ultimately show ?thesis using assms(2) i by (simp add: on_row_def at_row_def)
qed

lemma exec_ticks: "fold_opt (exec t) st (ticks c (cyc st) @ ks) = fold_opt (exec t) (st\<lparr>cyc := c\<rparr>) ks"
  by (simp add: ticks_def)

lemma kan_last_tasks [simp]:
  "kan_last (kan_open c n lab g k) = c" "kan_last (kan_close c n old fl k) = c"
  "kan_last (kan_detail n ix sq k) = kan_last k"
  "kan_last (kan_code c n old g k) = (if g \<noteq> old then c else kan_last k)"
  by (simp_all add: kan_open_def kan_code_def kan_detail_def kan_close_def kan_put_def tick_out Let_def)

lemma kan_run_snoc: "kan_run (cs @ [x]) = run_call x (kan_run cs)"
  by (simp add: kan_run_def)

lemma parse_hex_pad0: "parse_u64_hex (hex_pad0 16 (unat p)) = Some p"
  using unat_bounds(1) [of p] by (simp add: parse_u64_hex_def from_str_radix_hex_pad0)

lemma hex_pad0_not: "c \<notin> set hex_digits \<Longrightarrow> c \<notin> set (hex_pad0 w n)"
  using set_hex_pad0 [of w n] by blast

lemma strip_prefix_hex_pad0:
  assumes "c \<notin> set hex_digits"
  shows "strip_prefix (c # p) (hex_pad0 w n @ s) = None"
proof -
  have "hex_pad0 w n \<noteq> []" by (simp add: hex_pad0_def Let_def)
  then obtain x xs where "hex_pad0 w n = x # xs" by (cases "hex_pad0 w n") auto
  with hex_pad0_not [OF assms, of w n] show ?thesis by auto
qed

lemma set_label_kind: "set_label Map.empty (kind_label l) new_row = kind_row l"
proof (cases l)
  case (Insn_row pc raw)
  have "strip_prefix ''** '' (kind_label l) = None" "strip_prefix ''~~ '' (kind_label l) = None"
    using strip_prefix_hex_pad0 [of _ _ 16 "unat pc"] Insn_row by (simp_all add: hex_digits_def)
  moreover have "split_once '': '' (kind_label l) = Some (hex_pad0 16 (unat pc), hex_pad0 8 (unat raw))"
    using split_once_char [of "CHR '':''" "hex_pad0 16 (unat pc)" "'' ''" "hex_pad0 8 (unat raw)"]
      hex_pad0_not [of "CHR '':''" 16 "unat pc"] Insn_row by (simp add: hex_digits_def)
  moreover have "from_str_radix 16 32 (hex_pad0 8 (unat raw)) = Some (unat raw)"
    using unat_bounds(2) [of raw] by (simp add: from_str_radix_hex_pad0)
  ultimately show ?thesis
    using Insn_row by (simp add: set_label_def insn_label_def trim_hex parse_hex_pad0 new_row_def Let_def del: kind_label.simps)
qed (simp_all add: set_label_def new_row_def)

lemma load_open:
  assumes "loaded_as cs st" "probe cs" "n \<notin> fst ` set (opened cs)"
  shows "\<exists>st'. fold_opt (exec Map.empty) st (klines (kan_last (kan_run cs)) (c, Open_row n l g)) = Some st'
    \<and> loaded_as (cs @ [(c, Open_row n l g)]) st'"
proof -
  let ?os = "opened cs" and ?cs = "cs @ [(c, Open_row n l g)]"
  let ?st' = "st\<lparr>rows := map (row_for ?cs) (?os @ [(n, l)]), by_id := (by_id st)(dec (unat n) \<mapsto> length ?os),
     cyc := c\<rparr>"
  have r: "rows st = map (row_for cs) ?os" "cyc st = kan_last (kan_run cs)"
    using assms(1) by (simp_all add: loaded_as_def)
  have "row_for ?cs (n, l) = (kind_row l)\<lparr>stages := [(c, g)]\<rparr>"
    using probe_unused [OF assms(2,3)] by (cases l) (simp_all add: row_for_def)
  moreover have "map (row_for ?cs) ?os = map (row_for cs) ?os"
    using assms(3) by (intro map_cong refl) (metis fst_conv image_eqI prod.collapse row_for_snoc(1))
  moreover have "stages (kind_row l) = []" by (cases l) simp_all
  ultimately have "fold_opt (exec Map.empty) st (klines (kan_last (kan_run cs)) (c, Open_row n l g)) = Some ?st'"
    using exec_ticks [of Map.empty st c] set_label_kind [of l]
    by (simp add: r on_row_def at_row_def nth_append list_update_append)
  moreover have "ids_for ?st' (?os @ [(n, l)])"
  proof -
    have "by_id st (dec (unat m)) = Some i \<longleftrightarrow> i < length ?os \<and> fst (?os ! i) = m" for m i
      using assms(1) by (simp add: loaded_as_def ids_for_def)
    moreover have "fst (?os ! i) \<noteq> n" if "i < length ?os" for i
      using assms(3) that by (metis image_eqI nth_mem)
    ultimately show ?thesis by (auto simp: ids_for_def dec_inj nth_append less_Suc_eq)
  qed
  ultimately show ?thesis
    by (intro exI [of _ ?st']) (simp add: loaded_as_def kan_run_snoc ids_for_def del: map_append)
qed

lemma load_code:
  assumes "loaded_as cs st" "probe cs" "n \<in> fst ` set (opened cs)"
  shows "\<exists>st'. fold_opt (exec Map.empty) st (klines (kan_last (kan_run cs)) (c, Code_row n old g)) = Some st'
    \<and> loaded_as (cs @ [(c, Code_row n old g)]) st'"
proof (cases "g = old")
  case True
  have "row_for (cs @ [(c, Code_row n old old)]) = row_for cs"
    by (rule ext) (metis prod.collapse row_for_snoc(2))
  with True assms(1) show ?thesis by (simp add: loaded_as_def kan_run_snoc)
next
  case False
  let ?cs = "cs @ [(c, Code_row n old g)]"
  have "on_row (dec (unat n)) (\<lambda>r. r\<lparr>stages := stages r @ [(c, g)]\<rparr>) (st\<lparr>cyc := c\<rparr>)
      = Some (st\<lparr>cyc := c\<rparr>\<lparr>rows := map (row_for ?cs) (opened cs)\<rparr>)"
    using assms probe_distinct [OF assms(2)] False
    by (intro on_row_for [where f = "row_for cs"]) (simp_all add: row_for_snoc loaded_as_def ids_for_def)
  then have "fold_opt (exec Map.empty) st (klines (kan_last (kan_run cs)) (c, Code_row n old g))
     = Some (st\<lparr>cyc := c\<rparr>\<lparr>rows := map (row_for ?cs) (opened cs)\<rparr>)"
    using assms(1) exec_ticks [of Map.empty st c] False by (simp add: loaded_as_def)
  then show ?thesis using assms(1) False by (simp add: loaded_as_def kan_run_snoc ids_for_def)
qed

lemma load_detail:
  assumes "loaded_as cs st"
  shows "\<exists>st'. fold_opt (exec Map.empty) st (klines (kan_last (kan_run cs)) (c, Detail_row n ix sq)) = Some st'
    \<and> loaded_as (cs @ [(c, Detail_row n ix sq)]) st'"
proof -
  have "row_for (cs @ [(c, Detail_row n ix sq)]) = row_for cs" by (rule ext) (rule row_for_snoc)
  with assms show ?thesis by (simp add: loaded_as_def kan_run_snoc)
qed

lemma load_close:
  assumes "loaded_as cs st" "probe cs" "n \<in> fst ` set (opened cs)"
  shows "\<exists>st'. fold_opt (exec Map.empty) st (klines (kan_last (kan_run cs)) (c, Close_row n old fl)) = Some st'
    \<and> loaded_as (cs @ [(c, Close_row n old fl)]) st'"
proof -
  let ?cs = "cs @ [(c, Close_row n old fl)]"
  have "on_row (dec (unat n)) (\<lambda>r. r\<lparr>end_cyc := Some c, flushed := fl\<rparr>) (st\<lparr>cyc := c\<rparr>)
      = Some (st\<lparr>cyc := c\<rparr>\<lparr>rows := map (row_for ?cs) (opened cs)\<rparr>)"
    using assms probe_distinct [OF assms(2)]
    by (intro on_row_for [where f = "row_for cs"]) (simp_all add: row_for_snoc loaded_as_def ids_for_def)
  then have "fold_opt (exec Map.empty) st (klines (kan_last (kan_run cs)) (c, Close_row n old fl))
     = Some (st\<lparr>cyc := c\<rparr>\<lparr>rows := map (row_for ?cs) (opened cs)\<rparr>)"
    using assms(1) exec_ticks [of Map.empty st c] by (simp add: loaded_as_def)
  then show ?thesis using assms(1) by (simp add: loaded_as_def kan_run_snoc ids_for_def)
qed

abbreviation (input) loads :: "(u64 \<times> call) list \<Rightarrow> load_st \<Rightarrow> bool" where
  "loads cs st \<equiv> fold_opt (exec Map.empty) init_st (map kline_of (kan_out (kan_run cs))) = Some st \<and> loaded_as cs st"

lemma load_snoc:
  assumes "loads cs st" "call_plain x"
    and "\<exists>st'. fold_opt (exec Map.empty) st (klines (kan_last (kan_run cs)) x) = Some st' \<and> loaded_as (cs @ [x]) st'"
  shows "\<exists>st'. loads (cs @ [x]) st'"
  using assms by (simp add: kan_run_snoc run_call_klines fold_opt_append)

lemma load_run: "probe cs \<Longrightarrow> \<exists>st. loads cs st"
proof (induction rule: probe.induct)
  case start
  have "kline_of (tabs [''Kanata'', ''0004'']) = KSkip" "kline_of (tabs [''C='', ''0'']) = KSkip"
    by (simp_all add: kline_of_tabs plain_def)
  then show ?case by (simp add: kan_run_def loaded_as_def ids_for_def init_st_def)
next
  case (opens cs n l g c)
  then obtain st where st: "loads cs st" by blast
  show ?case by (rule load_snoc [OF st]) (use st opens in \<open>simp_all only: load_open call_plain.simps simp_thms\<close>)
next
  case (codes cs n g old c)
  then obtain st where st: "loads cs st" by blast
  show ?case by (rule load_snoc [OF st]) (use st codes in \<open>simp_all only: load_code call_plain.simps simp_thms\<close>)
next
  case (details cs n c ix sq)
  then obtain st where st: "loads cs st" by blast
  show ?case by (rule load_snoc [OF st]) (use st in \<open>simp_all only: load_detail call_plain.simps simp_thms\<close>)
next
  case (closes cs n old c flush)
  then obtain st where st: "loads cs st" by blast
  show ?case by (rule load_snoc [OF st]) (use st closes in \<open>simp_all only: load_close call_plain.simps simp_thms\<close>)
qed

lemma tabs_plain: "list_all plain fs \<Longrightarrow> CHR 0x0A \<notin> set (tabs fs) \<and> CHR 0x0D \<notin> set (tabs fs)"
  unfolding tabs_def by (rule plain_join) (auto simp: list_all_iff)

lemma kan_lines_plain:
  "list_all call_plain cs \<Longrightarrow> l \<in> set (kan_out (kan_run cs)) \<Longrightarrow> CHR 0x0A \<notin> set l \<and> CHR 0x0D \<notin> set l"
proof (induction cs arbitrary: l rule: rev_induct)
  case Nil
  then have "l = tabs [''Kanata'', ''0004''] \<or> l = tabs [''C='', ''0'']" by (simp add: kan_run_def)
  then show ?case using tabs_plain [of "[''Kanata'', ''0004'']"] tabs_plain [of "[''C='', ''0'']"]
    by (auto simp: plain_def)
next
  case (snoc x cs)
  then have x: "call_plain x" by simp
  from snoc.prems(2) have "l \<in> set (kan_out (kan_run cs)) \<or> (\<exists>fs. l = tabs fs \<and> list_all plain fs)"
    using x unfolding kan_run_snoc
    by (cases x rule: call_plain.cases)
      (auto simp: kan_open_def kan_code_def kan_detail_def kan_close_def kan_put_def tick_out plain_dec
        plain_letters Let_def intro: exI split: if_splits; force simp: plain_dec plain_letters plain_detail [simplified])+
  with snoc tabs_plain show ?case by auto
qed

lemma load_probe:
  assumes "probe cs" "file path = Inr (kan_file cs)"
  shows "load obj file path None = Some ([], Inr (map (row_for cs) (opened cs)))"
proof -
  have "lines (kan_file cs) = kan_out (kan_run cs)"
    unfolding kan_file_def using kan_lines_plain [OF probe_plain [OF assms(1)]] by (intro lines_unlines) blast
  moreover obtain st where "fold_opt (exec Map.empty) init_st (map kline_of (kan_out (kan_run cs))) = Some st"
    "loaded_as cs st" using load_run [OF assms(1)] by blast
  ultimately show ?thesis using assms(2) by (simp add: load_def load_lines_exec loaded_as_def)
qed

text \<open>The label of an instruction row always fits.\<close>

lemma length_hex_pad0: "n < 16 ^ Suc k \<Longrightarrow> length (hex_pad0 (Suc k) n) = Suc k"
  using length_radix_le [of 16 n k] by (simp add: hex_pad0_def Let_def)

lemma insn_label_fits: "plain (kind_label (Insn_row pc raw))" "length (kind_label (Insn_row pc raw)) \<le> 40"
  using plain_hex_pad0 [of 16 "unat pc"] plain_hex_pad0 [of 8 "unat raw"]
    length_hex_pad0 [of "unat pc" 15] length_hex_pad0 [of "unat raw" 7] unat_bounds(1) [of pc] unat_bounds(2) [of raw]
  by (auto simp: plain_def)

end
