(* ===== verification/Pipeview_Stats.thy ===== *)
theory Pipeview_Stats
  imports Pipeview_Row "HOL-Library.Multiset"
begin

text \<open>
  The header of tools/pipeview (\<open>stats\<close>): the cycle span of the rows in view, the retired and
  flushed instructions, the instructions per cycle, and the cycles each fetch and stall cause
  took. The IPC is a quotient of two \<open>f64\<close>, printed with two decimals: \<open>f64_round\<close> is the nearest
  double of a quotient of naturals (ties to even), as the quotient of its numerator and
  denominator, and \<open>fmt_2\<close> its decimal with two places, ties to even.
\<close>

section \<open>Doubles\<close>

definition round_div :: "nat \<Rightarrow> nat \<Rightarrow> nat" where
  "round_div a b =
     (let q = a div b; r = a mod b
      in if 2 * r < b then q else if 2 * r > b then q + 1 else q + q mod 2)"

fun bitlen :: "nat \<Rightarrow> nat" where
  "bitlen n = (if n = 0 then 0 else Suc (bitlen (n div 2)))"

declare bitlen.simps [simp del]

text \<open>The quotient scaled to 53 significant bits, rounded, and scaled back.\<close>

definition scale_div :: "nat \<Rightarrow> nat \<Rightarrow> int \<Rightarrow> nat \<times> nat" where
  "scale_div a b t = (a * 2 ^ nat t, b * 2 ^ nat (- t))"

definition f64_round :: "nat \<times> nat \<Rightarrow> nat \<times> nat" where
  "f64_round x =
     (let (a, b) = x
      in if a = 0 then (0, 1)
         else
           (let t0 = 53 - (int (bitlen a) - int (bitlen b));
                (n0, d0) = scale_div a b t0;
                t = (if n0 div d0 \<ge> 2 ^ 53 then t0 - 1 else t0);
                (n, d) = scale_div a b t;
                q = round_div n d
            in (q * 2 ^ nat (- t), 2 ^ nat t)))"

definition f64_of_nat :: "nat \<Rightarrow> nat \<times> nat" where
  "f64_of_nat n = f64_round (n, 1)"

definition f64_div :: "nat \<times> nat \<Rightarrow> nat \<times> nat \<Rightarrow> nat \<times> nat" where
  "f64_div x y = f64_round (fst x * snd y, snd x * fst y)"

definition fmt_2 :: "nat \<times> nat \<Rightarrow> string" where
  "fmt_2 x =
     (let h = round_div (100 * fst x) (snd x)
      in dec (h div 100) @ ''.'' @ dec (h div 10 mod 10) @ dec (h mod 10))"

section \<open>The header\<close>

text \<open>Adding the cycles of a cause: to its entry, or as a new last entry.\<close>

fun add_cause :: "string \<Rightarrow> u64 \<Rightarrow> (string \<times> u64) list \<Rightarrow> (string \<times> u64) list" where
  "add_cause l n [] = [(l, n)]"
| "add_cause l n ((k, v) # cs) = (if k = l then (k, v + n) # cs else (k, v) # add_cause l n cs)"

fun causes_of :: "row list \<Rightarrow> (string \<times> u64) list \<Rightarrow> (string \<times> u64) list" where
  "causes_of [] causes = causes"
| "causes_of (r # rs) causes =
     (case end_cyc r of
        Some e \<Rightarrow>
          (if stall r then causes_of rs (add_cause (label r) (e - start r) causes)
           else causes_of rs causes)
      | None \<Rightarrow> causes_of rs causes)"

text \<open>\<open>sort_by\<close> with the larger count first, a stable sort.\<close>

definition sort_causes :: "(string \<times> u64) list \<Rightarrow> (string \<times> u64) list" where
  "sort_causes causes = sort_key (\<lambda>c. - int (unat (snd c))) causes"

definition retired :: "row list \<Rightarrow> nat" where
  "retired rs = length (filter (\<lambda>r. end_cyc r \<noteq> None \<and> \<not> flushed r) (filter (\<lambda>r. \<not> stall r) rs))"

definition flushes :: "row list \<Rightarrow> nat" where
  "flushes rs = length (filter flushed (filter (\<lambda>r. \<not> stall r) rs))"

definition lo_cyc :: "row list \<Rightarrow> u64" where
  "lo_cyc rs = Min (set (map start rs))"

definition hi_cyc :: "row list \<Rightarrow> u64" where
  "hi_cyc rs = Max (set (map last_cyc rs))"

definition stats :: "row list \<Rightarrow> string \<times> string" where
  "stats rs =
     (if rs = [] then ([], [])
      else
        (let lo = lo_cyc rs; hi = hi_cyc rs; ret = retired rs; fl = flushes rs;
             causes = sort_causes (causes_of rs []);
             n = max (hi - lo) 1;
             head = ''cycles '' @ dec (unat lo) @ ''..'' @ dec (unat hi) @ '' ('' @ dec (unat n)
               @ '')  retired '' @ dec ret
               @ ''  IPC '' @ fmt_2 (f64_div (f64_of_nat ret) (f64_of_nat (unat n)))
               @ ''  flushed '' @ dec fl;
             top = join ''  '' (map (\<lambda>(k, v). k @ '' '' @ dec (unat v)) (take 8 causes))
         in (head, top)))"

section \<open>The causes\<close>

definition ended_stalls :: "row list \<Rightarrow> row list" where
  "ended_stalls rs = filter (\<lambda>r. stall r \<and> end_cyc r \<noteq> None) rs"

definition stall_cycles :: "row \<Rightarrow> u64" where
  "stall_cycles r = the (end_cyc r) - start r"

definition cause_total :: "string \<Rightarrow> row list \<Rightarrow> u64" where
  "cause_total l rs = sum_list (map stall_cycles (filter (\<lambda>r. label r = l) (ended_stalls rs)))"

definition lookup :: "string \<Rightarrow> (string \<times> u64) list \<Rightarrow> u64" where
  "lookup l cs = (case map_of cs l of Some v \<Rightarrow> v | None \<Rightarrow> 0)"

lemma fst_add_cause: "fst ` set (add_cause l n cs) = insert l (fst ` set cs)"
  by (induction l n cs rule: add_cause.induct) auto

lemma distinct_add_cause: "distinct (map fst cs) \<Longrightarrow> distinct (map fst (add_cause l n cs))"
proof (induction l n cs rule: add_cause.induct)
  case (2 l n k v cs)
  then show ?case using fst_add_cause [of l n cs] by auto
qed simp

lemma lookup_add_cause: "lookup x (add_cause l n cs) = (if x = l then lookup x cs + n else lookup x cs)"
  by (induction l n cs rule: add_cause.induct) (auto simp: lookup_def)

lemma causes_of_fold: "causes_of rs cs = foldl (\<lambda>cs r. add_cause (label r) (stall_cycles r) cs) cs (ended_stalls rs)"
  by (induction rs cs rule: causes_of.induct) (auto simp: ended_stalls_def stall_cycles_def split: option.split)

lemma foldl_cause:
  fixes rs :: "row list"
  defines "go \<equiv> foldl (\<lambda>cs r. add_cause (label r) (stall_cycles r) cs)"
  shows "fst ` set (go cs rs) = fst ` set cs \<union> label ` set rs"
    and "distinct (map fst cs) \<Longrightarrow> distinct (map fst (go cs rs))"
    and "lookup l (go cs rs) = lookup l cs + sum_list (map stall_cycles (filter (\<lambda>r. label r = l) rs))"
  unfolding go_def
  by (induction rs arbitrary: cs) (auto simp: fst_add_cause distinct_add_cause lookup_add_cause)

lemma set_by_lookup: "distinct (map fst cs) \<Longrightarrow> set cs = (\<lambda>l. (l, lookup l cs)) ` (fst ` set cs)"
  by (force simp: lookup_def image_image intro!: image_eqI)

lemma distinct_causes: "distinct (map fst (causes_of rs []))"
  unfolding causes_of_fold by (rule foldl_cause) simp

lemma set_causes:
  "set (causes_of rs []) = (\<lambda>r. (label r, cause_total (label r) rs)) ` {r \<in> set rs. stall r \<and> end_cyc r \<noteq> None}"
proof -
  have "fst ` set (causes_of rs []) = label ` set (ended_stalls rs)"
    unfolding causes_of_fold by (simp add: foldl_cause)
  moreover have "lookup l (causes_of rs []) = cause_total l rs" for l
    unfolding causes_of_fold by (simp only: foldl_cause cause_total_def) (simp add: lookup_def)
  ultimately have "set (causes_of rs []) = (\<lambda>r. (label r, cause_total (label r) rs)) ` set (ended_stalls rs)"
    using set_by_lookup [OF distinct_causes, of rs] by (simp add: image_image)
  then show ?thesis by (simp add: ended_stalls_def)
qed

lemma sort_causes_desc: "sorted_wrt (\<lambda>a b. snd a \<ge> snd b) (sort_causes cs)"
proof -
  have "sorted (map (\<lambda>c. - int (unat (snd c))) (sort_causes cs))"
    unfolding sort_causes_def by (rule sorted_sort_key)
  then show ?thesis by (simp add: sorted_wrt_map word_le_def)
qed

lemma set_sort_causes: "set (sort_causes cs) = set cs"
  and distinct_sort_causes: "distinct (map fst (sort_causes cs)) = distinct (map fst cs)"
proof -
  show "set (sort_causes cs) = set cs" by (simp add: sort_causes_def)
  have "mset (map fst (sort_causes cs)) = mset (map fst cs)" by (simp add: sort_causes_def)
  then show "distinct (map fst (sort_causes cs)) = distinct (map fst cs)" by (rule mset_eq_imp_distinct_iff)
qed

section \<open>Properties of the header\<close>

text \<open>
  C18: the causes the header counts. Every cause of an ended fetch or stall row is counted once, with
  the sum of the cycles of all its rows, and nothing else is; larger counts come first. The second
  line of the header of a non-empty view is the first eight of them with their counts.
\<close>
theorem causes_correct:
  fixes rs :: "row list"
  defines "cs \<equiv> sort_causes (causes_of rs [])"
  shows "set cs = (\<lambda>r. (label r, cause_total (label r) rs)) ` {r \<in> set rs. stall r \<and> end_cyc r \<noteq> None}
    \<and> distinct (map fst cs) \<and> sorted_wrt (\<lambda>a b. snd a \<ge> snd b) cs
    \<and> snd (stats rs) = join ''  '' (map (\<lambda>(k, v). k @ '' '' @ dec (unat v)) (take 8 cs))"
proof -
  have "snd (stats rs) = join ''  '' (map (\<lambda>(k, v). k @ '' '' @ dec (unat v)) (take 8 cs))"
    by (simp add: stats_def cs_def Let_def sort_causes_def)
  then show ?thesis unfolding cs_def
    by (simp add: set_sort_causes set_causes distinct_sort_causes distinct_causes sort_causes_desc)
qed

lemma card_word_interval: "a \<le> b \<Longrightarrow> card {a..<b} = unat (b - a)"
  for a b :: u64
proof -
  assume "a \<le> b"
  have "bij_betw unat {a..<b} {unat a..<unat b}"
  proof (rule bij_betwI')
    fix y
    assume y: "y \<in> {unat a..<unat b}"
    then have "y < 2 ^ 64" using unat_bounds(1) [of b] by simp
    then have "unat (word_of_nat y :: u64) = y" by (simp add: unsigned_of_nat take_bit_nat_eq_self)
    with y show "\<exists>x \<in> {a..<b}. y = unat x"
      by (intro bexI [of _ "word_of_nat y"]) (simp_all add: word_le_nat_alt word_less_nat_alt)
  qed (simp_all add: word_le_nat_alt word_less_nat_alt word_unat_eq_iff)
  then have "card {a..<b} = unat b - unat a" by (simp add: bij_betw_same_card)
  with \<open>a \<le> b\<close> show ?thesis by (simp add: unat_sub)
qed

text \<open>The cells a row fills.\<close>

definition filled :: "row \<Rightarrow> u64 set" where
  "filled r = {c. glyph_at r c \<noteq> CHR '' ''}"

lemma card_filled:
  assumes "stall r" "end_cyc r = Some e" "start r \<le> e" "fill r \<noteq> CHR '' ''"
  shows "card (filled r) = unat (stall_cycles r)"
proof -
  have "filled r = {start r..<e}" using assms by (auto simp: filled_def glyph_at_def)
  with assms show ?thesis by (simp add: card_word_interval stall_cycles_def)
qed

lemma sum_word: "sum_list (map f xs) = word_of_nat (sum_list (map (\<lambda>x. unat (f x)) xs))"
  by (induction xs) simp_all

text \<open>
  C28: the header counts what the picture shows. The cycles counted for a cause are the cells that
  the ended fetch and stall rows of that name fill, all together, for rows that do not end before
  they start and are filled with a mark.
\<close>
theorem causes_count_cells:
  assumes "(l, n) \<in> set (sort_causes (causes_of rs []))"
    and "\<forall>r \<in> set rs. stall r \<longrightarrow> fill r \<noteq> CHR '' '' \<and> (\<forall>e. end_cyc r = Some e \<longrightarrow> start r \<le> e)"
  shows "n = word_of_nat (\<Sum>r \<leftarrow> filter (\<lambda>r. stall r \<and> end_cyc r \<noteq> None \<and> label r = l) rs.
    card {c. glyph_at r c \<noteq> CHR '' ''})"
proof -
  let ?rs = "filter (\<lambda>r. stall r \<and> end_cyc r \<noteq> None \<and> label r = l) rs"
  have "n = cause_total l rs" using assms(1) by (auto simp: set_sort_causes set_causes)
  also have "\<dots> = sum_list (map stall_cycles ?rs)"
    by (simp add: cause_total_def ended_stalls_def conj_ac)
  also have "\<dots> = word_of_nat (sum_list (map (\<lambda>r. unat (stall_cycles r)) ?rs))" by (rule sum_word)
  also have "map (\<lambda>r. unat (stall_cycles r)) ?rs = map (\<lambda>r. card (filled r)) ?rs"
    using assms(2) by (intro map_cong refl) (auto simp: card_filled)
  finally show ?thesis by (simp only: filled_def)
qed

theorem causes_count_cells_witness:
  "(5 :: u64) = word_of_nat (card {c. glyph_at demo_stall c \<noteq> CHR '' ''})"
proof -
  have "(''be:dep-load'', 5) \<in> set (sort_causes (causes_of [demo_stall] []))"
    by (simp add: set_sort_causes) (simp add: demo_stall_def start_def)
  from causes_count_cells [OF this] show ?thesis by (simp add: demo_stall_def start_def)
qed

section \<open>The doubles are accurate\<close>

lemma round_div_nearest: "0 < b \<Longrightarrow> 2 * \<bar>int b * int (round_div a b) - int a\<bar> \<le> int b"
proof -
  assume b: "0 < b"
  have a: "int a = int b * int (a div b) + int (a mod b)" by (metis mult_div_mod_eq of_nat_add of_nat_mult)
  have r: "int (a mod b) < int b" using b by simp
  show ?thesis
  proof (cases "2 * (a mod b) < b")
    case True
    then show ?thesis using a by (simp add: round_div_def)
  next
    case False
    have "int b * int (Suc (a div b)) - int a = int b - int (a mod b)" using a by (simp add: algebra_simps)
    moreover have "round_div a b = Suc (a div b) \<or> round_div a b = a div b \<and> 2 * (a mod b) = b"
      using False by (auto simp: round_div_def Let_def)
    ultimately show ?thesis using a r False by auto
  qed
qed

lemma bitlen_bounds: "0 < n \<Longrightarrow> n < 2 ^ bitlen n \<and> 2 ^ bitlen n \<le> 2 * n"
proof (induction n rule: bitlen.induct)
  case (1 n)
  show ?case
  proof (cases "n = 1")
    case True
    then show ?thesis by (simp add: bitlen.simps)
  next
    case False
    with 1 have "n div 2 < 2 ^ bitlen (n div 2)" "2 ^ bitlen (n div 2) \<le> 2 * (n div 2)" by auto
    with 1(2) show ?thesis by (subst (1 2) bitlen.simps) auto
  qed
qed

lemma scale_start:
  assumes "0 < a" "0 < b" "t = 53 - (int (bitlen a) - int (bitlen b))" "scale_div a b t = (n, d)"
  shows "2 ^ 52 * d \<le> n"
proof -
  let ?A = "bitlen a" and ?B = "bitlen b"
  have ab: "2 ^ ?A \<le> 2 * a" "b \<le> 2 ^ ?B" using bitlen_bounds assms(1,2) by (simp_all add: less_imp_le)
  have e: "?A + nat t = 53 + ?B + nat (- t)" using assms(3) by auto
  have "2 * (2 ^ 52 * (b * 2 ^ nat (- t))) \<le> 2 ^ 53 * (2 ^ ?B * 2 ^ nat (- t))"
    using ab(2) by simp
  also have "\<dots> = 2 ^ ?A * 2 ^ nat t"
    using e by (metis power_add add.assoc)
  also have "\<dots> \<le> 2 * (a * 2 ^ nat t)" using ab(1) by simp
  finally show ?thesis using assms(4) by (auto simp: scale_div_def)
qed

lemma scale_step:
  assumes "scale_div a b t = (n0, d0)" "2 ^ 53 * d0 \<le> n0" "scale_div a b (t - 1) = (n, d)"
  shows "2 ^ 52 * d \<le> n"
proof (cases "0 < t")
  case True
  then have "nat t = Suc (nat (t - 1))" "nat (- t) = 0" "nat (1 - t) = 0" by auto
  with assms show ?thesis by (auto simp: scale_div_def)
next
  case False
  then have "nat t = 0" "nat (t - 1) = 0" "nat (1 - t) = Suc (nat (- t))" by auto
  with assms show ?thesis by (auto simp: scale_div_def)
qed

text \<open>The relative error of the double that stands for a quotient is at most \<open>2^-53\<close>.\<close>

lemma f64_round_accurate:
  assumes "0 < a" "0 < b" "f64_round (a, b) = (p, s)"
  shows "0 < s \<and> 2 ^ 53 * \<bar>int (p * b) - int (a * s)\<bar> \<le> int (a * s)"
proof -
  let ?t0 = "53 - (int (bitlen a) - int (bitlen b))"
  obtain n0 d0 where nd0: "scale_div a b ?t0 = (n0, d0)" by fastforce
  define t where "t = (if n0 div d0 \<ge> 2 ^ 53 then ?t0 - 1 else ?t0)"
  obtain n d where nd: "scale_div a b t = (n, d)" by fastforce
  have d0: "0 < d0" "0 < d" using nd0 nd assms(2) by (auto simp: scale_div_def)
  have "2 ^ 52 * d \<le> n"
  proof (cases "n0 div d0 \<ge> 2 ^ 53")
    case True
    then have "2 ^ 53 * d0 \<le> n0" using d0 by (simp add: less_eq_div_iff_mult_less_eq mult.commute)
    from scale_step [OF nd0 this] nd True show ?thesis by (simp add: t_def)
  next
    case False
    with scale_start [OF assms(1,2) refl] nd show ?thesis by (simp add: t_def)
  qed
  then have "2 ^ 52 * int d \<le> int n" by (metis of_nat_le_iff of_nat_mult of_nat_numeral of_nat_power)
  moreover have "2 * \<bar>int d * int (round_div n d) - int n\<bar> \<le> int d" using d0 by (intro round_div_nearest)
  ultimately have "2 ^ 53 * \<bar>int d * int (round_div n d) - int n\<bar> \<le> int n" by simp
  moreover have "p = round_div n d * 2 ^ nat (- t)" "s = 2 ^ nat t"
    using assms(1,3) nd0 nd t_def by (auto simp: f64_round_def Let_def)
  moreover have "n = a * 2 ^ nat t" "d = b * 2 ^ nat (- t)" using nd by (auto simp: scale_div_def)
  ultimately show ?thesis by (simp add: mult.assoc mult.left_commute mult.commute)
qed

lemma f64_of_nat_exact:
  assumes "n < 2 ^ 53" "f64_of_nat n = (p, s)"
  shows "p = n * s \<and> 0 < s"
proof (cases "n = 0")
  case True
  with assms show ?thesis by (auto simp: f64_of_nat_def f64_round_def)
next
  case False
  then have "2 ^ bitlen n \<le> 2 * n" using bitlen_bounds by simp
  with assms(1) have "(2::nat) ^ bitlen n < 2 ^ 54" by simp
  then have "bitlen n < 54" by (rule power_less_imp_less_exp [rotated]) simp
  moreover have "bitlen 1 = 1" by (simp add: bitlen.simps)
  moreover have "round_div m 1 = m" for m by (simp add: round_div_def)
  ultimately show ?thesis
    using False assms(2) by (auto simp: f64_of_nat_def f64_round_def scale_div_def Let_def split: if_splits)
qed

lemma f64_div_exact_args:
  assumes "0 < r" "r < 2 ^ 53" "0 < n" "n < 2 ^ 53" "f64_div (f64_of_nat r) (f64_of_nat n) = (p, s)"
  shows "0 < s \<and> 2 ^ 53 * \<bar>int p * int n - int r * int s\<bar> \<le> int r * int s"
proof -
  obtain a sa b sb where ab: "f64_of_nat r = (a, sa)" "f64_of_nat n = (b, sb)" by fastforce
  then have e: "a = r * sa" "0 < sa" "b = n * sb" "0 < sb" using f64_of_nat_exact assms(2,4) by blast+
  have "f64_round (r * sa * sb, sa * (n * sb)) = (p, s)" using assms(5) ab e by (simp add: f64_div_def)
  then have s: "0 < s" and le: "2 ^ 53 * \<bar>int (p * (sa * (n * sb))) - int (r * sa * sb * s)\<bar> \<le> int (r * sa * sb * s)"
    using f64_round_accurate [of "r * sa * sb" "sa * (n * sb)" p s] assms(1,3) e by simp_all
  have "int (p * (sa * (n * sb))) - int (r * sa * sb * s) = int (sa * sb) * (int p * int n - int r * int s)"
    by (simp add: algebra_simps)
  then have "\<bar>int (p * (sa * (n * sb))) - int (r * sa * sb * s)\<bar> = int (sa * sb) * \<bar>int p * int n - int r * int s\<bar>"
    by (simp only: abs_mult abs_of_nat)
  with le have "int (sa * sb) * (2 ^ 53 * \<bar>int p * int n - int r * int s\<bar>) \<le> int (sa * sb) * (int r * int s)"
    by (simp add: ac_simps)
  with e s show ?thesis by (simp add: mult_le_cancel_left)
qed

lemma abs_combine:
  fixes s n :: int
  assumes "s * e = n * u + 100 * v" "0 \<le> s" "0 \<le> n"
  shows "2 * (s * \<bar>e\<bar>) \<le> n * (2 * \<bar>u\<bar>) + 200 * \<bar>v\<bar>"
proof -
  have "s * \<bar>e\<bar> = \<bar>n * u + 100 * v\<bar>" using assms by (metis abs_mult abs_of_nonneg)
  also have "\<dots> \<le> n * \<bar>u\<bar> + 100 * \<bar>v\<bar>"
    using abs_triangle_ineq [of "n * u" "100 * v"] assms(3) by (simp add: abs_mult)
  finally show ?thesis by simp
qed

lemma fmt_2_quotient:
  assumes "r < 2 ^ 45" "0 < n" "n < 2 ^ 53"
  shows "\<exists>h. fmt_2 (f64_div (f64_of_nat r) (f64_of_nat n)) = dec (h div 100) @ ''.'' @ dec (h div 10 mod 10) @ dec (h mod 10)
    \<and> 2 * \<bar>int h * int n - 100 * int r\<bar> \<le> int n"
proof -
  obtain p s where ps: "f64_div (f64_of_nat r) (f64_of_nat n) = (p, s)" by fastforce
  let ?h = "round_div (100 * p) s"
  have "2 * \<bar>int ?h * int n - 100 * int r\<bar> \<le> int n"
  proof (cases "r = 0")
    case True
    then have "p = 0" "s = 1" using ps by (simp_all add: f64_div_def f64_of_nat_def f64_round_def)
    with True show ?thesis by (simp add: round_div_def)
  next
    case False
    then have s: "0 < s" and le: "2 ^ 53 * \<bar>int p * int n - int r * int s\<bar> \<le> int r * int s"
      using f64_div_exact_args [of r n p s] assms ps by simp_all
    have h: "2 * \<bar>int s * int ?h - int (100 * p)\<bar> \<le> int s" using round_div_nearest [OF s] .
    have "int s * (int ?h * int n - 100 * int r) =
      int n * (int s * int ?h - int (100 * p)) + 100 * (int p * int n - int r * int s)"
      by (simp add: algebra_simps)
    then have "2 * (int s * \<bar>int ?h * int n - 100 * int r\<bar>)
      \<le> int n * (2 * \<bar>int s * int ?h - int (100 * p)\<bar>) + 200 * \<bar>int p * int n - int r * int s\<bar>"
      by (rule abs_combine) simp_all
    also have "\<dots> \<le> int n * int s + 200 * \<bar>int p * int n - int r * int s\<bar>"
      using h by (simp add: mult_left_mono)
    also have "200 * \<bar>int p * int n - int r * int s\<bar> < int s"
    proof -
      have "2 ^ 53 * (200 * \<bar>int p * int n - int r * int s\<bar>) \<le> (200 * int r) * int s" using le by simp
      also have "\<dots> < 2 ^ 53 * int s" using assms(1) s by (intro mult_strict_right_mono) simp_all
      finally show ?thesis by simp
    qed
    finally have "int s * (2 * \<bar>int ?h * int n - 100 * int r\<bar>) < int s * (int n + 1)" by (simp add: algebra_simps)
    with s show ?thesis by simp
  qed
  then show ?thesis by (intro exI [of _ ?h]) (simp add: ps fmt_2_def Let_def)
qed

text \<open>
  C17: the header of a non-empty view gives the cycles it spans, from the earliest start to the latest
  cycle, the instructions that ended without a flush and those that were flushed, and as
  instructions per cycle a number of hundredths nearest to the true quotient, for fewer than \<open>2^45\<close>
  rows and a span below \<open>2^53\<close> cycles: two roundings to doubles do not show.
\<close>
theorem header_ipc:
  assumes "rs \<noteq> []" "length rs < 2 ^ 45" "lo = Min (start ` set rs)" "hi = Max (last_cyc ` set rs)"
    and "n = max (hi - lo) 1" "unat n < 2 ^ 53"
    and "ret = length (filter (\<lambda>r. \<not> stall r \<and> end_cyc r \<noteq> None \<and> \<not> flushed r) rs)"
    and "fl = length (filter (\<lambda>r. \<not> stall r \<and> flushed r) rs)"
  shows "\<exists>h. fst (stats rs) =
      ''cycles '' @ dec (unat lo) @ ''..'' @ dec (unat hi) @ '' ('' @ dec (unat n)
        @ '')  retired '' @ dec ret
        @ ''  IPC '' @ (dec (h div 100) @ ''.'' @ dec (h div 10 mod 10) @ dec (h mod 10))
        @ ''  flushed '' @ dec fl
    \<and> 2 * \<bar>int h * int (unat n) - 100 * int ret\<bar> \<le> int (unat n)"
proof -
  have eq: "lo_cyc rs = lo" "hi_cyc rs = hi" "retired rs = ret" "flushes rs = fl"
    using assms by (simp_all add: lo_cyc_def hi_cyc_def retired_def flushes_def conj_ac)
  have "ret \<le> length rs" using assms(7) by simp
  then have "ret < 2 ^ 45" using assms(2) by simp
  moreover have "0 < unat n" using assms(5) by (metis max.cobounded2 unat_gt_0 word_le_0_iff zero_neq_one)
  ultimately obtain h where h: "fmt_2 (f64_div (f64_of_nat ret) (f64_of_nat (unat n)))
      = dec (h div 100) @ ''.'' @ dec (h div 10 mod 10) @ dec (h mod 10)"
    "2 * \<bar>int h * int (unat n) - 100 * int ret\<bar> \<le> int (unat n)"
    using fmt_2_quotient assms(6) by blast
  have "fst (stats rs) =
      ''cycles '' @ dec (unat lo) @ ''..'' @ dec (unat hi) @ '' ('' @ dec (unat n)
        @ '')  retired '' @ dec ret
        @ ''  IPC '' @ fmt_2 (f64_div (f64_of_nat ret) (f64_of_nat (unat n)))
        @ ''  flushed '' @ dec fl"
    using assms(1,5) by (simp add: stats_def Let_def eq)
  with h show ?thesis by (intro exI [of _ h]) simp
qed

theorem header_ipc_witness:
  "fst (stats [demo_insn, demo_insn\<lparr>flushed := True\<rparr>]) = ''cycles 100..105 (5)  retired 1  IPC 0.20  flushed 1''"
proof -
  let ?rs = "[demo_insn, demo_insn\<lparr>flushed := True\<rparr>]"
  have rs: "100 = Min (start ` set ?rs)" "105 = Max (last_cyc ` set ?rs)" "(5 :: u64) = max (105 - 100) 1"
    "unat (5 :: u64) < 2 ^ 53" "length ?rs < 2 ^ 45" "?rs \<noteq> []"
    "1 = length (filter (\<lambda>r. \<not> stall r \<and> end_cyc r \<noteq> None \<and> \<not> flushed r) ?rs)"
    "1 = length (filter (\<lambda>r. \<not> stall r \<and> flushed r) ?rs)"
    by (simp_all add: demo_insn_def demo_stall_def start_def last_cyc_def)
  have "unat (100 :: u64) = 100" "unat (105 :: u64) = 105" "unat (5 :: u64) = 5" by simp_all
  with header_ipc [OF rs(6,5,1,2,3,4,7,8)] obtain h where h: "fst (stats ?rs) = ''cycles '' @ dec 100 @ ''..'' @ dec 105 @ '' ('' @ dec 5
        @ '')  retired '' @ dec 1 @ ''  IPC '' @ (dec (h div 100) @ ''.'' @ dec (h div 10 mod 10) @ dec (h mod 10))
        @ ''  flushed '' @ dec 1" "2 * \<bar>int h * int 5 - 100 * int 1\<bar> \<le> int 5"
    by (simp only:) blast
  from h(2) have "h = 20" by presburger
  moreover have "dec 100 = ''100''" "dec 105 = ''105''" "dec 5 = ''5''" "dec 1 = ''1''" "dec 0 = ''0''" "dec 2 = ''2''"
    by code_simp+
  ultimately show ?thesis using h(1) by simp
qed

end
