(* ===== verification/Pipeview_Tui.thy ===== *)
theory Pipeview_Tui
  imports Pipeview_Stats Pipeview_Text
begin

text \<open>
  The interactive part of tools/pipeview: the keyboard reader, the line editor of the search, the
  frame and the main loop of \<open>tui\<close>. The world is explicit: the bytes the terminal will deliver
  (then end of input), what \<open>stty size\<close> answers at each frame and \<open>stty -g\<close> once, and the list of
  what the program does to the terminal: checked writes and flushes (\<open>write!(..)?\<close>), the echo of the
  line editor, whose errors it ignores, and \<open>stty\<close> calls. \<open>perform\<close> runs such a list against a sink
  that may fail. \<open>usize\<close> sums wrap at 64 bits, \<open>None\<close> is a panic.
\<close>

datatype event = Out string | Flush | Echo string | Echo_flush | Stty "string list"

definition checked :: "event \<Rightarrow> bool" where
  "checked e = (case e of Out s \<Rightarrow> True | Flush \<Rightarrow> True | _ \<Rightarrow> False)"

text \<open>
  What is done of a list of events when \<open>sink k\<close> is the error of the k-th one: the first checked event
  that fails ends it, since \<open>?\<close> returns at once.
\<close>

fun perform :: "(nat \<Rightarrow> string option) \<Rightarrow> nat \<Rightarrow> event list \<Rightarrow> event list \<times> string option" where
  "perform sink k [] = ([], None)"
| "perform sink k (e # es) =
     (case (if checked e then sink k else None) of
        Some err \<Rightarrow> ([], Some err)
      | None \<Rightarrow> (case perform sink (Suc k) es of (done, r) \<Rightarrow> (e # done, r)))"

definition usize_add :: "nat \<Rightarrow> nat \<Rightarrow> nat" where
  "usize_add a b = (a + b) mod 2 ^ 64"

abbreviation (input) ESC :: char where "ESC \<equiv> CHR 0x1B"

definition crlf :: string where
  "crlf = [CHR 0x0D, CHR 0x0A]"

section \<open>The terminal\<close>

definition stty :: "string option \<Rightarrow> string option" where
  "stty out = map_option trim out"

definition term_size :: "string option \<Rightarrow> nat \<times> nat" where
  "term_size out =
     (case stty out of
        None \<Rightarrow> (24, 80)
      | Some s \<Rightarrow>
          (case List.map_filter (from_str_radix 10 64) (split_whitespace s) of
             h # w # ns \<Rightarrow> (h, w)
           | _ \<Rightarrow> (24, 80)))"

datatype key =
  Up | Down | PgUp | PgDn | Home | End | Left | Right | Search | Next | Legend | Quit | Other

definition read_escape :: "string \<Rightarrow> key \<times> string" where
  "read_escape inp =
     (case inp of
        [] \<Rightarrow> (Quit, [])
      | s # cs \<Rightarrow>
          (if s \<noteq> CHR ''['' then (Quit, cs)
           else case cs of
               [] \<Rightarrow> (Other, [])
             | c # ts \<Rightarrow>
                 (if c = CHR ''A'' then (Up, ts)
                  else if c = CHR ''B'' then (Down, ts)
                  else if c = CHR ''C'' then (Right, ts)
                  else if c = CHR ''D'' then (Left, ts)
                  else if c = CHR ''H'' then (Home, ts)
                  else if c = CHR ''F'' then (End, ts)
                  else if c \<in> set ''1456'' then
                    (if c = CHR ''1'' then Home
                     else if c = CHR ''4'' then End
                     else if c = CHR ''5'' then PgUp
                     else PgDn, drop 1 ts)
                  else (Other, ts))))"

definition read_key :: "string \<Rightarrow> key \<times> string" where
  "read_key inp =
     (case inp of
        [] \<Rightarrow> (Quit, [])
      | b # bs \<Rightarrow>
          (if b = CHR ''q'' then (Quit, bs)
           else if b = CHR ''j'' then (Down, bs)
           else if b = CHR ''k'' then (Up, bs)
           else if b = CHR '' '' then (PgDn, bs)
           else if b = CHR ''b'' then (PgUp, bs)
           else if b = CHR ''g'' then (Home, bs)
           else if b = CHR ''G'' then (End, bs)
           else if b = CHR ''h'' then (Left, bs)
           else if b = CHR ''l'' then (Right, bs)
           else if b = CHR ''/'' then (Search, bs)
           else if b = CHR ''n'' then (Next, bs)
           else if b = CHR ''?'' then (Legend, bs)
           else if b = ESC then read_escape bs
           else (Other, bs)))"

text \<open>The loop of \<open>read_line\<close>: the text typed, what it echoes, and the rest of the input.\<close>

fun read_line :: "string \<Rightarrow> string \<Rightarrow> string \<times> event list \<times> string" where
  "read_line s [] = (s, [], [])"
| "read_line s (b # bs) =
     (if b = CHR 0x0D \<or> b = CHR 0x0A then (s, [], bs)
      else if b = CHR 0x7F \<or> b = CHR 0x08 then
        (if s \<noteq> [] then
           (let (t, ev, rest) = read_line (butlast s) bs
            in (t, [Echo [CHR 0x08, CHR '' '', CHR 0x08], Echo_flush] @ ev, rest))
         else (let (t, ev, rest) = read_line s bs in (t, [Echo_flush] @ ev, rest)))
      else if b = ESC then ([], [], bs)
      else if of_char b \<ge> (0x20 :: nat) then
        (let (t, ev, rest) = read_line (s @ [b]) bs in (t, [Echo [b], Echo_flush] @ ev, rest))
      else (let (t, ev, rest) = read_line s bs in (t, [Echo_flush] @ ev, rest)))"

section \<open>A frame\<close>

record tui_st =
  top :: nat
  shift :: i64
  query :: string

definition body_h :: "nat \<Rightarrow> nat" where "body_h h = max (h - 4) 1"
definition lab_width :: "nat \<Rightarrow> nat" where "lab_width w = max 20 (min 48 (w div 3))"
definition n_cols :: "nat \<Rightarrow> nat" where "n_cols w = max (w - (lab_width w + 10)) 10"

definition clip :: "nat \<Rightarrow> string \<Rightarrow> string" where
  "clip w s = take (w - 1) s"

definition view_of :: "row list \<Rightarrow> nat \<Rightarrow> nat \<Rightarrow> row list option" where
  "view_of rs h t =
     (let e = min (usize_add t (body_h h)) (length rs)
      in if t \<le> e then Some (take (e - t) (drop t rs)) else None)"

definition first_col :: "row list \<Rightarrow> i64 \<Rightarrow> u64" where
  "first_col view sh =
     (let s = (case view of [] \<Rightarrow> 0 | r # rs \<Rightarrow> start r); v = s + sh
      in if sint v < 0 then 0 else v)"

definition row_out :: "nat \<Rightarrow> u64 \<Rightarrow> row \<Rightarrow> string" where
  "row_out w c0 r =
     (let lw = lab_width w; nc = n_cols w;
          l = (if stall r \<or> flushed r then clip w (line r lw c0 nc False) else line r lw c0 nc True)
      in if stall r then ESC # ''[33m'' @ l @ ESC # ''[0m'' @ crlf
         else if flushed r then ESC # ''[2m'' @ l @ ESC # ''[0m'' @ crlf
         else l @ crlf)"

definition status_text :: "row list \<Rightarrow> tui_st \<Rightarrow> string" where
  "status_text rs st =
     ''row '' @ dec (top st) @ ''/'' @ dec (length rs)
       @ ''  ? legend  arrows pg home end, left/right cycles, / search, n next, q quit''
       @ (if query st = [] then [] else ''  ['' @ query st @ '']'')"

definition bottom :: "nat \<Rightarrow> nat \<Rightarrow> string \<Rightarrow> event list" where
  "bottom h w s =
     [Out (ESC # ''['' @ dec h @ '';1H'' @ ESC # ''[7m'' @ clip w s @ ESC # ''[0m''), Flush]"

definition frame :: "row list \<Rightarrow> nat \<Rightarrow> nat \<Rightarrow> tui_st \<Rightarrow> event list option" where
  "frame rs h w st =
     (case view_of rs h (top st) of
        None \<Rightarrow> None
      | Some view \<Rightarrow>
          (let c0 = first_col view (shift st); (head, causes) = stats view
           in Some
             ([Out (ESC # ''[H'' @ ESC # ''[2J'' @ ESC # ''[1m'' @ clip w head @ ESC # ''[0m'' @ crlf),
               Out (clip w (if causes = [] then ''(no stall cycles in view)'' else causes) @ crlf),
               Out (ESC # ''[2m''
                 @ clip w (pad_left 8 ''cycle'' @ '' '' @ pad_right (lab_width w) ''instruction''
                     @ '' cycles from '' @ dec (unat c0)) @ ESC # ''[0m'' @ crlf)]
              @ map (\<lambda>r. Out (row_out w c0 r)) view
              @ bottom h w (status_text rs st))))"

section \<open>The loop\<close>

definition search_from :: "row list \<Rightarrow> tui_st \<Rightarrow> tui_st" where
  "search_from rs st =
     (if query st \<noteq> [] then
        (case List.find (\<lambda>i. contains (query st) (label (rs ! i)))
                [usize_add (top st) 1..<length rs] of
           Some i \<Rightarrow> st\<lparr>top := i, shift := 0\<rparr>
         | None \<Rightarrow> st)
      else st)"

definition legend_screen :: "nat \<Rightarrow> nat \<Rightarrow> event list" where
  "legend_screen h w =
     [Out (ESC # ''[H'' @ ESC # ''[2J'')]
       @ map (\<lambda>l. Out (clip w l @ crlf)) (take (h - 2) (lines LEGEND))
       @ bottom h w ''any key returns''"

text \<open>What a key other than \<open>Quit\<close> does: the new state, its output, and the rest of the input.\<close>

definition tui_key ::
  "row list \<Rightarrow> nat \<Rightarrow> nat \<Rightarrow> key \<Rightarrow> tui_st \<Rightarrow> string \<Rightarrow> tui_st \<times> event list \<times> string" where
  "tui_key rs h w k st inp =
     (let last = length rs - 1; body = body_h h
      in case k of
          Quit \<Rightarrow> (st, [], inp)
        | Down \<Rightarrow> (st\<lparr>top := min (usize_add (top st) 1) last, shift := 0\<rparr>, [], inp)
        | Up \<Rightarrow> (st\<lparr>top := top st - 1, shift := 0\<rparr>, [], inp)
        | PgDn \<Rightarrow> (st\<lparr>top := min (usize_add (top st) body) last, shift := 0\<rparr>, [], inp)
        | PgUp \<Rightarrow> (st\<lparr>top := top st - body, shift := 0\<rparr>, [], inp)
        | Home \<Rightarrow> (st\<lparr>top := 0, shift := 0\<rparr>, [], inp)
        | End \<Rightarrow> (st\<lparr>top := length rs - body, shift := 0\<rparr>, [], inp)
        | Right \<Rightarrow> (st\<lparr>shift := shift st + 8\<rparr>, [], inp)
        | Left \<Rightarrow> (st\<lparr>shift := shift st - 8\<rparr>, [], inp)
        | Search \<Rightarrow>
            (let (q, ev, rest) = read_line [] inp
             in (search_from rs (st\<lparr>query := q\<rparr>),
                 [Out (ESC # ''['' @ dec h @ '';1H'' @ ESC # ''[2K/'' @ ESC # ''[?25h''), Flush] @ ev
                   @ [Out (ESC # ''[?25l'')],
                 rest))
        | Next \<Rightarrow> (search_from rs st, [], inp)
        | Legend \<Rightarrow> (st, legend_screen h w, snd (read_key inp))
        | Other \<Rightarrow> (st, [], inp))"

lemma read_escape_length: "length (snd (read_escape inp)) \<le> length inp"
proof -
  have "n - Suc 0 \<le> Suc (Suc n)" for n by simp
  then show ?thesis unfolding read_escape_def by (simp split: list.split)
qed

lemma read_key_Cons: "length (snd (read_key (b # bs))) \<le> length bs"
  unfolding read_key_def by (simp add: read_escape_length)

lemma read_key_length: "fst (read_key inp) \<noteq> Quit \<Longrightarrow> length (snd (read_key inp)) < length inp"
  by (cases inp) (simp add: read_key_def, simp add: read_key_Cons less_Suc_eq_le)

lemma read_key_length_le: "length (snd (read_key inp)) \<le> length inp"
  by (cases inp) (simp add: read_key_def, simp add: read_key_Cons le_SucI)

lemma read_line_length: "length (snd (snd (read_line s inp))) \<le> length inp"
  by (induction s inp rule: read_line.induct) (auto simp: Let_def split_beta)

lemma tui_key_length: "length (snd (snd (tui_key rs h w k st inp))) \<le> length inp"
  by (cases k) (auto simp: tui_key_def Let_def split_beta read_key_length_le read_line_length)

function tui_loop ::
  "row list \<Rightarrow> (nat \<Rightarrow> string option) \<Rightarrow> nat \<Rightarrow> tui_st \<Rightarrow> string \<Rightarrow> event list option" where
  "tui_loop rs sz n st inp =
     (let (h, w) = term_size (sz n)
      in case frame rs h w st of
          None \<Rightarrow> None
        | Some ev \<Rightarrow>
            (if fst (read_key inp) = Quit then Some (Stty [''size''] # ev)
             else
               (let x = tui_key rs h w (fst (read_key inp)) st (snd (read_key inp))
                in case tui_loop rs sz (Suc n) (fst x) (snd (snd x)) of
                    None \<Rightarrow> None
                  | Some evs \<Rightarrow> Some (Stty [''size''] # ev @ fst (snd x) @ evs))))"
  by pat_completeness auto
termination
proof (relation "measure (\<lambda>(rs, sz, n, st, inp). length inp)")
  fix rs n st inp h w ev x and sz :: "nat \<Rightarrow> string option"
  assume "fst (read_key inp) \<noteq> Quit"
    and "x = tui_key rs h w (fst (read_key inp)) st (snd (read_key inp))"
  then show "((rs, sz, Suc n, fst x, snd (snd x)), rs, sz, n, st, inp)
      \<in> measure (\<lambda>(rs, sz, n, st, inp). length inp)"
    using tui_key_length [of rs h w "fst (read_key inp)" st "snd (read_key inp)"] read_key_length [of inp]
    by simp
qed simp

declare tui_loop.simps [simp del]

definition tui ::
  "row list \<Rightarrow> string option \<Rightarrow> (nat \<Rightarrow> string option) \<Rightarrow> string \<Rightarrow> event list option" where
  "tui rs saved_out sz inp =
     (let saved = (case stty saved_out of Some s \<Rightarrow> s | None \<Rightarrow> [])
      in case tui_loop rs sz 0 \<lparr>top = 0, shift = 0, query = []\<rparr> inp of
          None \<Rightarrow> None
        | Some evs \<Rightarrow>
            Some ([Stty [''-g''], Stty [''-echo'', ''-icanon'', ''-isig'', ''min'', ''1'', ''time'', ''0''],
                   Out (ESC # ''[?1049h'' @ ESC # ''[?25l'')]
                  @ evs
                  @ [Out (ESC # ''[?25h'' @ ESC # ''[?1049l''), Flush]
                  @ (if saved \<noteq> [] then [Stty [saved]] else [])))"

section \<open>The view never leaves the rows\<close>

definition geometry_ok :: "row list \<Rightarrow> (nat \<Rightarrow> string option) \<Rightarrow> bool" where
  "geometry_ok rs sz = (rs \<noteq> [] \<and> length rs < 2 ^ 63 \<and> (\<forall>n. fst (term_size (sz n)) < 2 ^ 63))"

definition top_ok :: "row list \<Rightarrow> tui_st \<Rightarrow> bool" where
  "top_ok rs st = (top st < length rs)"

lemma usize_add_eq: "a + b < 2 ^ 64 \<Longrightarrow> usize_add a b = a + b"
  by (simp add: usize_add_def)

lemma body_h_bounds: "h < 2 ^ 63 \<Longrightarrow> 1 \<le> body_h h \<and> body_h h < 2 ^ 63"
  by (simp add: body_h_def)

lemma find_upt:
  "List.find P [a..<n] = Some i" if "a \<le> i" "i < n" "P i" "\<And>j. a \<le> j \<Longrightarrow> j < i \<Longrightarrow> \<not> P j"
  using that by (auto simp: find_Some_iff intro!: exI [of _ "i - a"])

definition next_match :: "row list \<Rightarrow> tui_st \<Rightarrow> nat \<Rightarrow> bool" where
  "next_match rs st i =
     (top st < i \<and> i < length rs \<and> sublist (query st) (label (rs ! i))
       \<and> (\<forall>j. top st < j \<and> j < i \<longrightarrow> \<not> sublist (query st) (label (rs ! j))))"

lemma search_from_match:
  assumes "query st \<noteq> []" "next_match rs st i" "length rs < 2 ^ 63"
  shows "search_from rs st = st\<lparr>top := i, shift := 0\<rparr>"
proof -
  have "usize_add (top st) 1 = top st + 1"
    using assms by (intro usize_add_eq) (auto simp: next_match_def)
  then show ?thesis
    using assms find_upt [of "top st + 1" i "length rs" "\<lambda>i. contains (query st) (label (rs ! i))"]
    by (auto simp: search_from_def next_match_def contains_iff)
qed

lemma search_from_none:
  assumes "top_ok rs st" "length rs < 2 ^ 63" "\<not> (\<exists>i. next_match rs st i)"
  shows "search_from rs st = st"
proof -
  have "usize_add (top st) 1 = top st + 1"
    using assms by (intro usize_add_eq) (auto simp: top_ok_def)
  moreover have "List.find (\<lambda>i. contains (query st) (label (rs ! i))) [top st + 1..<length rs] = None"
    unfolding find_None_iff
  proof
    assume "\<exists>i. i \<in> set [top st + 1..<length rs] \<and> contains (query st) (label (rs ! i))"
    then have "\<exists>i. top st < i \<and> i < length rs \<and> contains (query st) (label (rs ! i))"
      by (auto simp: Suc_le_eq)
    then obtain i where "top st < i \<and> i < length rs \<and> contains (query st) (label (rs ! i))"
      and "\<forall>j < i. \<not> (top st < j \<and> j < length rs \<and> contains (query st) (label (rs ! j)))"
      by (subst (asm) exists_least_iff) blast
    then have "next_match rs st i" by (auto simp: next_match_def contains_iff)
    with assms(3) show False by blast
  qed
  ultimately show ?thesis by (simp add: search_from_def)
qed

text \<open>The line editor returns printable text that is typed and ended by a carriage return.\<close>

definition typeable :: "char \<Rightarrow> bool" where
  "typeable c = (32 \<le> (of_char c :: nat) \<and> c \<noteq> CHR 0x7F)"

lemma read_line_typed:
  "list_all typeable q \<Longrightarrow> \<exists>ev. read_line s (q @ CHR 0x0D # rest) = (s @ q, ev, rest)"
proof (induction q arbitrary: s)
  case (Cons c q)
  then obtain ev where "read_line (s @ [c]) (q @ CHR 0x0D # rest) = ((s @ [c]) @ q, ev, rest)"
    using Cons.IH [of "s @ [c]"] Cons.prems by auto
  moreover have "c \<noteq> CHR 0x0D" "c \<noteq> CHR 0x0A" "c \<noteq> CHR 0x7F" "c \<noteq> CHR 0x08" "c \<noteq> CHR 0x1B"
    using Cons.prems by (auto simp: typeable_def)
  ultimately show ?case using Cons.prems by (simp add: typeable_def)
qed simp

lemma search_key:
  assumes "list_all typeable q"
  shows "fst (tui_key rs h w Search st (q @ CHR 0x0D # rest)) = search_from rs (st\<lparr>query := q\<rparr>)"
    "snd (snd (tui_key rs h w Search st (q @ CHR 0x0D # rest))) = rest"
  using read_line_typed [OF assms, of "[]" rest] by (auto simp: tui_key_def Let_def)

lemma search_from_top: "top_ok rs st \<Longrightarrow> top_ok rs (search_from rs st)"
  by (auto simp: search_from_def top_ok_def find_Some_iff split: option.split)

lemma tui_key_top:
  assumes "top_ok rs st"
  shows "top_ok rs (fst (tui_key rs h w k st inp))"
  using assms search_from_top [of rs st] search_from_top [of rs "st\<lparr>query := q\<rparr>" for q]
  by (cases k) (auto simp: tui_key_def Let_def split_beta top_ok_def body_h_def)

lemma frame_total:
  assumes "length rs < 2 ^ 63" "h < 2 ^ 63" "top_ok rs st"
  shows "frame rs h w st \<noteq> None"
proof -
  have "usize_add (top st) (body_h h) = top st + body_h h"
    using assms body_h_bounds [of h] by (intro usize_add_eq) (simp add: top_ok_def)
  then show ?thesis using assms
    by (auto simp: frame_def view_of_def top_ok_def Let_def split: prod.split)
qed

lemma tui_loop_total:
  "geometry_ok rs sz \<Longrightarrow> top_ok rs st \<Longrightarrow> tui_loop rs sz n st inp \<noteq> None"
proof (induction rs sz n st inp rule: tui_loop.induct)
  case (1 rs sz n st inp)
  obtain h w where hw: "term_size (sz n) = (h, w)" by fastforce
  then have "h < 2 ^ 63" using 1(2) by (auto simp: geometry_ok_def dest!: spec [of _ n])
  then obtain ev where ev: "frame rs h w st = Some ev"
    using 1(2,3) frame_total [of rs h st w] by (auto simp: geometry_ok_def)
  show ?case
  proof (cases "fst (read_key inp) = Quit")
    case True
    with hw ev show ?thesis by (subst tui_loop.simps) simp
  next
    case False
    let ?x = "tui_key rs h w (fst (read_key inp)) st (snd (read_key inp))"
    have "tui_loop rs sz (Suc n) (fst ?x) (snd (snd ?x)) \<noteq> None"
      using 1(1) [OF hw [symmetric] refl ev False refl] 1(2,3) by (simp add: tui_key_top)
    with hw ev False show ?thesis by (subst tui_loop.simps) (auto simp: Let_def)
  qed
qed

inductive tui_step ::
  "row list \<Rightarrow> (nat \<Rightarrow> string option) \<Rightarrow> nat \<times> tui_st \<times> string \<Rightarrow> nat \<times> tui_st \<times> string \<Rightarrow> bool"
  for rs sz where
  key: "fst (read_key inp) \<noteq> Quit \<Longrightarrow> term_size (sz n) = (h, w) \<Longrightarrow>
    tui_key rs h w (fst (read_key inp)) st (snd (read_key inp)) = (st', ev, inp') \<Longrightarrow>
    tui_step rs sz (n, st, inp) (Suc n, st', inp')"

inductive_cases tui_stepE: "tui_step rs sz (n, st, inp) c"

lemma tui_step_top: "tui_step rs sz c c' \<Longrightarrow> top_ok rs (fst (snd c)) \<Longrightarrow> top_ok rs (fst (snd c'))"
  by (induction rule: tui_step.induct) (metis fst_conv snd_conv tui_key_top)

lemma tui_step_input: "tui_step rs sz c c' \<Longrightarrow> length (snd (snd c')) < length (snd (snd c))"
proof (induction rule: tui_step.induct)
  case (key inp n h w st st' ev inp')
  then show ?case
    using read_key_length [of inp] tui_key_length [of rs h w "fst (read_key inp)" st "snd (read_key inp)"]
    by simp
qed

lemma tui_reach_top:
  "(tui_step rs sz)\<^sup>*\<^sup>* c c' \<Longrightarrow> top_ok rs (fst (snd c)) \<Longrightarrow> top_ok rs (fst (snd c'))"
  by (induction rule: rtranclp_induct) (auto intro: tui_step_top)

lemma tui_step_count: "tui_step rs sz c c' \<Longrightarrow> fst c' = Suc (fst c)"
  by (cases c) (auto elim: tui_stepE)

lemma tui_reach_input:
  "(tui_step rs sz)\<^sup>*\<^sup>* c c' \<Longrightarrow> length (snd (snd c')) + fst c' \<le> length (snd (snd c)) + fst c"
proof (induction rule: rtranclp_induct)
  case (step c' c'')
  then show ?case using tui_step_input [OF step(2)] tui_step_count [OF step(2)] by simp
qed simp

text \<open>The loop passes through the states that the steps reach.\<close>

abbreviation (input) loop_at :: "row list \<Rightarrow> (nat \<Rightarrow> string option) \<Rightarrow> nat \<times> tui_st \<times> string \<Rightarrow> event list option" where
  "loop_at rs sz c \<equiv> tui_loop rs sz (fst c) (fst (snd c)) (snd (snd c))"

lemma tui_step_loop:
  "tui_step rs sz c c' \<Longrightarrow> loop_at rs sz c = Some evs \<Longrightarrow> \<exists>pre evs'. loop_at rs sz c' = Some evs' \<and> evs = pre @ evs'"
proof (induction rule: tui_step.induct)
  case (key inp n h w st st' ev inp')
  then show ?case
    by (subst (asm) tui_loop.simps) (auto simp: Let_def split: option.splits)
qed

lemma tui_reach_loop:
  "(tui_step rs sz)\<^sup>*\<^sup>* c c' \<Longrightarrow> loop_at rs sz c = Some evs \<Longrightarrow> \<exists>pre evs'. loop_at rs sz c' = Some evs' \<and> evs = pre @ evs'"
proof (induction rule: rtranclp_induct)
  case (step c' c'')
  then obtain pre evs' where e: "loop_at rs sz c' = Some evs'" "evs = pre @ evs'" by blast
  then show ?case using tui_step_loop [OF step(2) e(1)] by (metis append.assoc)
qed simp

lemma tui_width: "40 \<le> w \<Longrightarrow> lab_width w + n_cols w + 10 = w"
  by (auto simp: lab_width_def n_cols_def max_def min_def)

section \<open>Failing writes\<close>

lemma perform_ok: "perform (\<lambda>k. None) k evs = (evs, None)"
  by (induction evs arbitrary: k) simp_all

text \<open>What is done is a prefix, cut at the checked event that failed.\<close>

lemma perform_prefix:
  "perform sink k evs = (es, Some e) \<Longrightarrow> \<exists>x rest. evs = es @ x # rest \<and> checked x"
proof (induction evs arbitrary: k es)
  case (Cons x evs)
  show ?case
  proof (cases "if checked x then sink k else None")
    case None
    with Cons.prems obtain es' where "perform sink (Suc k) evs = (es', Some e)" "es = x # es'"
      by (auto split: prod.splits)
    with Cons.IH [of "Suc k" es'] show ?thesis by auto
  next
    case (Some err)
    with Cons.prems show ?thesis by (auto split: if_splits)
  qed
qed simp

section \<open>What a frame shows\<close>

text \<open>
  What a terminal shows of an output: the text without its control sequences, which begin with
  escape and a bracket and end with a character from \<open>@\<close> to \<open>~\<close>.
\<close>

datatype csi = Ground | Escape | Params

fun strip_csi :: "csi \<Rightarrow> string \<Rightarrow> string" where
  "strip_csi m [] = []"
| "strip_csi Ground (c # cs) = (if c = ESC then strip_csi Escape cs else c # strip_csi Ground cs)"
| "strip_csi Escape (c # cs) = strip_csi (if c = CHR ''['' then Params else Ground) cs"
| "strip_csi Params (c # cs) =
     strip_csi (if 0x40 \<le> (of_char c :: nat) \<and> (of_char c :: nat) \<le> 0x7e then Ground else Params) cs"

definition visible :: "event list \<Rightarrow> string list" where
  "visible evs = List.map_filter (\<lambda>e. case e of Out s \<Rightarrow> Some (strip_csi Ground s) | _ \<Rightarrow> None) evs"

lemma visible_simps [simp]:
  "visible [] = []" "visible (Out s # es) = strip_csi Ground s # visible es" "visible (Flush # es) = visible es"
  "visible (es @ es') = visible es @ visible es'" "visible (map (\<lambda>x. Out (f x)) xs) = map (\<lambda>x. strip_csi Ground (f x)) xs"
  by (simp_all add: visible_def map_filter_def comp_def)

lemma csi_text: "ESC \<notin> set s \<Longrightarrow> strip_csi Ground (s @ t) = s @ strip_csi Ground t"
  by (induction s) auto

lemma csi_params: "strip_csi Params (dec n @ t) = strip_csi Params t"
proof -
  have "list_all (\<lambda>c. (of_char c :: nat) < 0x40) s \<Longrightarrow> strip_csi Params (s @ t) = strip_csi Params t" for s
    by (induction s) auto
  moreover have "list_all (\<lambda>c. (of_char c :: nat) < 0x40) (dec n)"
  proof (induction "10 :: nat" n rule: radix.induct)
    case (1 n)
    have "list_all (\<lambda>k. (of_char (digit k) :: nat) < 0x40) [0..<10]" by code_simp
    then have "k < 10 \<Longrightarrow> (of_char (digit k) :: nat) < 0x40" for k by (simp add: list_all_iff)
    with 1 show ?case by (subst radix.simps) simp
  qed
  ultimately show ?thesis by blast
qed

lemma csi_cell:
  assumes "glyph_at r c \<noteq> ESC"
  shows "strip_csi Ground (cell r colour c @ t) = glyph_at r c # strip_csi Ground t"
  using assms sgr_codes [of "glyph_at r c"] by (auto simp: cell_def Let_def)

lemma csi_cells:
  assumes "\<And>c. glyph_at r c \<noteq> ESC"
  shows "strip_csi Ground (concat (map (\<lambda>k. cell r colour (f k)) ks) @ t) = map (\<lambda>k. glyph_at r (f k)) ks @ strip_csi Ground t"
  by (induction ks) (simp_all add: csi_cell assms)

lemma esc_free_line:
  assumes "esc_free r"
  shows "ESC \<notin> set (line r lw c0 nc False)"
proof -
  have "ESC \<notin> set (map (\<lambda>k. glyph_at r (f k)) ks)" for f and ks :: "nat list"
    using glyph_not_esc [OF assms, THEN not_sym] by auto
  then show ?thesis
    using assms ESC_take [of "label r" lw] ESC_take [of "'' '' @ label r"]
    by (simp add: line_def Let_def cells_plain pad_left_def pad_right_def ESC_not_digit esc_free_def ESC_take del: set_map)
qed

lemma csi_line:
  assumes "esc_free r"
  shows "strip_csi Ground (line r lw c0 nc colour @ t) = line r lw c0 nc False @ strip_csi Ground t"
proof -
  have "ESC \<notin> set (pad_left 8 (dec (unat (start r))))"
    by (simp add: pad_left_def ESC_not_digit)
  moreover have "ESC \<notin> set (pad_right lw (take lw s))" if "ESC \<notin> set s" for s
    using ESC_take [OF that] by (simp add: pad_right_def)
  ultimately show ?thesis
    using assms glyph_not_esc [OF assms]
    by (auto simp: line_def Let_def csi_text csi_cells cells_plain esc_free_def)
qed

lemma csi_row:
  assumes "esc_free r"
  shows "strip_csi Ground (row_out w c0 r) =
    (if stall r \<or> flushed r then clip w (line r (lab_width w) c0 (n_cols w) False)
     else line r (lab_width w) c0 (n_cols w) False) @ crlf"
  using assms esc_free_line [OF assms] csi_line [OF assms]
  by (auto simp: row_out_def Let_def clip_def crlf_def csi_text ESC_take)

lemma stats_esc_free:
  assumes "list_all esc_free v"
  shows "ESC \<notin> set (fst (stats v))" "ESC \<notin> set (snd (stats v))"
proof -
  show "ESC \<notin> set (fst (stats v))"
    by (simp add: stats_def fmt_2_def Let_def ESC_not_digit)
  have "ESC \<notin> set k" if "(k, n) \<in> set (sort_causes (causes_of v []))" for k n
    using that assms by (auto simp: set_sort_causes set_causes esc_free_def list_all_iff)
  then have "ESC \<notin> set (join ''  '' (map (\<lambda>(k, v). k @ '' '' @ dec (unat v)) (take 8 (sort_causes (causes_of v [])))))"
    using set_join [of "''  ''"] ESC_not_digit by (fastforce dest: in_set_takeD)
  then show "ESC \<notin> set (snd (stats v))"
    by (simp add: stats_def Let_def)
qed

lemma csi_bottom: "ESC \<notin> set s \<Longrightarrow> visible (bottom h w s) = [clip w s]"
  by (simp add: bottom_def csi_params csi_text ESC_take clip_def)

lemma csi_clip: "ESC \<notin> set s \<Longrightarrow> strip_csi Ground (clip w s @ t) = clip w s @ strip_csi Ground t"
  by (simp add: clip_def csi_text ESC_take)

lemma csi_head:
  assumes "ESC \<notin> set s"
  shows "strip_csi Ground (ESC # ''[H'' @ ESC # ''[2J'' @ ESC # ''[1m'' @ clip w s @ ESC # ''[0m'' @ crlf) = clip w s @ crlf"
    "strip_csi Ground (clip w s @ crlf) = clip w s @ crlf"
    "strip_csi Ground (ESC # ''[2m'' @ clip w s @ ESC # ''[0m'' @ crlf) = clip w s @ crlf"
  by (simp_all add: csi_clip [OF assms] crlf_def)

lemma view_at:
  assumes "top st < length rs" "length rs < 2 ^ 63" "h < 2 ^ 63"
  shows "view_of rs h (top st) = Some (take (body_h h) (drop (top st) rs))"
    and "first_col (take (body_h h) (drop (top st) rs)) d =
      (let c0 = start (rs ! top st) + d in if sint c0 < 0 then 0 else c0)"
proof -
  let ?v = "take (body_h h) (drop (top st) rs)"
  have "usize_add (top st) (body_h h) = top st + body_h h"
    using assms body_h_bounds [of h] by (intro usize_add_eq) simp
  then show "view_of rs h (top st) = Some ?v" using assms(1) by (auto simp: view_of_def Let_def min_def)
  have "?v = rs ! top st # take (body_h h - 1) (drop (Suc (top st)) rs)"
    using assms(1) body_h_bounds [OF assms(3)] by (cases "body_h h") (simp_all add: Cons_nth_drop_Suc [symmetric])
  then show "first_col ?v d = (let c0 = start (rs ! top st) + d in if sint c0 < 0 then 0 else c0)"
    by (simp add: first_col_def Let_def)
qed

lemma length_view: "5 \<le> h \<Longrightarrow> 3 + length (take (body_h h) xs) + 1 \<le> h"
  by (simp add: body_h_def)

section \<open>Properties of the interface\<close>

text \<open>
  C13: the interface always ends and never panics, for at least one row and screen sizes below \<open>2^63\<close>:
  it saves the settings, enters raw mode and the alternate screen, draws, and on the quit key or
  the end of the input leaves the screen, flushes and restores the saved settings.
\<close>
theorem tui_ends_and_restores:
  assumes "geometry_ok rs sz" "trim saved \<noteq> []"
  shows "\<exists>evs. tui rs (Some saved) sz inp =
    Some ([Stty [''-g''], Stty [''-echo'', ''-icanon'', ''-isig'', ''min'', ''1'', ''time'', ''0''],
           Out (CHR 0x1B # ''[?1049h'' @ CHR 0x1B # ''[?25l'')]
      @ evs
      @ [Out (CHR 0x1B # ''[?25h'' @ CHR 0x1B # ''[?1049l''), Flush, Stty [trim saved]])"
proof -
  have "tui_loop rs sz 0 \<lparr>top = 0, shift = 0, query = []\<rparr> inp \<noteq> None"
    using assms(1) by (intro tui_loop_total) (simp_all add: geometry_ok_def top_ok_def)
  then obtain evs where "tui_loop rs sz 0 \<lparr>top = 0, shift = 0, query = []\<rparr> inp = Some evs" by auto
  with assms(2) show ?thesis by (simp add: tui_def stty_def)
qed

lemma demo_geometry: "geometry_ok [demo_stall] (\<lambda>n. None)"
  by (simp add: geometry_ok_def term_size_def stty_def)

theorem tui_ends_and_restores_witness:
  "tui [demo_stall] (Some ''4500:5'') (\<lambda>n. None) ''jjGq'' \<noteq> None"
proof -
  have "trim ''4500:5'' \<noteq> []" by code_simp
  from tui_ends_and_restores [OF demo_geometry this, of "''jjGq''"] show ?thesis by auto
qed

text \<open>
  C14: wherever the keys lead, the first row in view is a row: every state that the steps of the
  interface reach from the first row keeps \<open>top\<close> below the number of rows, and every step takes input
  away. The loop runs through these states: what it does from such a state is the end of what it
  does from the start.
\<close>
theorem tui_reachable_top:
  assumes "(tui_step rs sz)\<^sup>*\<^sup>* (0, \<lparr>top = 0, shift = 0, query = []\<rparr>, inp) (n, st, rest)" "rs \<noteq> []"
    and "tui_loop rs sz 0 \<lparr>top = 0, shift = 0, query = []\<rparr> inp = Some evs"
  shows "top st < length rs \<and> length rest + n \<le> length inp
    \<and> (\<exists>pre evs'. tui_loop rs sz n st rest = Some evs' \<and> evs = pre @ evs')"
  using tui_reach_top [OF assms(1)] tui_reach_input [OF assms(1)] tui_reach_loop [OF assms(1)] assms(2,3)
  by (simp add: top_ok_def)

theorem tui_reachable_top_witness:
  "\<exists>pre evs'. tui_loop [demo_stall] (\<lambda>n. None) 1 \<lparr>top = 0, shift = 0, query = []\<rparr> ''q'' = Some evs'
     \<and> tui_loop [demo_stall] (\<lambda>n. None) 0 \<lparr>top = 0, shift = 0, query = []\<rparr> ''jq'' = Some (pre @ evs')"
proof -
  have "(tui_step [demo_stall] (\<lambda>n. None))\<^sup>*\<^sup>* (0, \<lparr>top = 0, shift = 0, query = []\<rparr>, ''jq'')
     (1, \<lparr>top = 0, shift = 0, query = []\<rparr>, ''q'')"
    using tui_step.key [of "''jq''" "\<lambda>n. None" 0 24 80 "[demo_stall]"
        "\<lparr>top = 0, shift = 0, query = []\<rparr>" "\<lparr>top = 0, shift = 0, query = []\<rparr>" "[]" "''q''"]
    by (simp add: read_key_def term_size_def stty_def tui_key_def r_into_rtranclp)
  moreover have "tui_loop [demo_stall] (\<lambda>n. None) 0 \<lparr>top = 0, shift = 0, query = []\<rparr> ''jq'' \<noteq> None"
    by (rule tui_loop_total [OF demo_geometry]) (simp add: top_ok_def)
  ultimately show ?thesis using tui_reachable_top by fastforce
qed

text \<open>
  C16: a frame shows the rows from the first one in view on, as many as the body of the screen has
  lines. Apart from its control sequences it is the header, the causes and the column titles,
  each cut to the screen, then one line per row, all from the same first cycle, and the status, for
  rows and a searched text without escape characters. On a screen of at least five lines they fit.
\<close>
theorem frame_shows_rows:
  assumes "top st < length rs" "length rs < 2 ^ 63" "h < 2 ^ 63" "list_all esc_free rs" "ESC \<notin> set (query st)"
    and "view = take (body_h h) (drop (top st) rs)" "c0 = start (rs ! top st) + shift st"
    and "first = (if sint c0 < 0 then 0 else c0)"
  shows "\<exists>evs. frame rs h w st = Some evs \<and> visible evs =
      [take (w - 1) (fst (stats view)) @ crlf,
       take (w - 1) (if snd (stats view) = [] then ''(no stall cycles in view)'' else snd (stats view)) @ crlf,
       take (w - 1) (pad_left 8 ''cycle'' @ '' '' @ pad_right (lab_width w) ''instruction'' @ '' cycles from ''
         @ dec (unat first)) @ crlf]
      @ map (\<lambda>r. let l = line r (lab_width w) first (n_cols w) False
                 in (if stall r \<or> flushed r then take (w - 1) l else l) @ crlf) view
      @ [take (w - 1) (''row '' @ dec (top st) @ ''/'' @ dec (length rs)
           @ ''  ? legend  arrows pg home end, left/right cycles, / search, n next, q quit''
           @ (if query st = [] then [] else ''  ['' @ query st @ '']''))]
    \<and> (5 \<le> h \<longrightarrow> 3 + length view + 1 \<le> h)"
proof -
  have v: "view_of rs h (top st) = Some view" and c0: "first_col view (shift st) = first"
    using view_at [OF assms(1-3)] assms(6-8) by (simp_all only: Let_def)
  have esc: "list_all esc_free view"
    using assms(4,6) by (auto simp: list_all_iff dest: in_set_takeD in_set_dropD)
  define cols where "cols = pad_left 8 ''cycle'' @ '' '' @ pad_right (lab_width w) ''instruction'' @ '' cycles from ''
    @ dec (unat first)"
  define cs where "cs = (if snd (stats view) = [] then ''(no stall cycles in view)'' else snd (stats view))"
  have no_esc: "ESC \<notin> set cols" "ESC \<notin> set (status_text rs st)" "ESC \<notin> set cs"
    using assms(5) stats_esc_free [OF esc]
    by (simp_all add: cols_def cs_def pad_left_def pad_right_def status_text_def ESC_not_digit)
  have rows: "map (\<lambda>r. strip_csi Ground (row_out w first r)) view =
      map (\<lambda>r. let l = line r (lab_width w) first (n_cols w) False
                 in (if stall r \<or> flushed r then clip w l else l) @ crlf) view"
    using esc by (intro map_cong) (auto simp: csi_row list_all_iff Let_def)
  let ?evs = "[Out (ESC # ''[H'' @ ESC # ''[2J'' @ ESC # ''[1m'' @ clip w (fst (stats view)) @ ESC # ''[0m'' @ crlf),
       Out (clip w cs @ crlf), Out (ESC # ''[2m'' @ clip w cols @ ESC # ''[0m'' @ crlf)]
     @ map (\<lambda>r. Out (row_out w first r)) view @ bottom h w (status_text rs st)"
  have "frame rs h w st = Some ?evs"
    unfolding frame_def v option.case c0 Let_def split_beta cols_def cs_def ..
  moreover have "visible ?evs = [clip w (fst (stats view)) @ crlf, clip w cs @ crlf, clip w cols @ crlf]
      @ map (\<lambda>r. let l = line r (lab_width w) first (n_cols w) False
                 in (if stall r \<or> flushed r then clip w l else l) @ crlf) view @ [clip w (status_text rs st)]"
    by (simp only: visible_simps append.simps csi_head [OF stats_esc_free(1) [OF esc], unfolded append.simps]
        csi_head [OF no_esc(3), unfolded append.simps] csi_head [OF no_esc(1), unfolded append.simps] csi_bottom [OF no_esc(2)] rows)
  moreover have "5 \<le> h \<longrightarrow> 3 + length view + 1 \<le> h" unfolding assms(6) using length_view by blast
  ultimately show ?thesis unfolding clip_def cols_def cs_def status_text_def by blast
qed

theorem frame_shows_rows_witness:
  "\<exists>evs. frame [demo_stall] 24 80 \<lparr>top = 0, shift = 0, query = []\<rparr> = Some evs
    \<and> visible evs ! 3 = take 79 (line demo_stall 26 100 44 False) @ crlf"
proof -
  have "list_all esc_free [demo_stall]" by (simp add: demo_stall_def esc_free_def)
  moreover have "lab_width 80 = 26" "n_cols 80 = 44" by (simp_all add: lab_width_def n_cols_def)
  moreover have "body_h 24 = 20" by (simp add: body_h_def)
  moreover have "start demo_stall = 100" "stall demo_stall" by (simp_all add: demo_stall_def start_def)
  ultimately show ?thesis
    using frame_shows_rows [of "\<lparr>top = 0, shift = 0, query = []\<rparr>" "[demo_stall]" 24 "[demo_stall]" 100 100 80]
    by (auto simp: Let_def)
qed

text \<open>
  C15: searching. Typing \<open>/\<close>, a text and a carriage return makes the first later row whose label
  contains the text the first row in view, with no shift of the columns, and takes exactly what
  was typed from the input; without such a row only the text searched for changes.
\<close>
theorem search_finds_next:
  assumes "list_all typeable q" "q \<noteq> []" "top st < length rs" "length rs < 2 ^ 63"
    and "tui_key rs h w Search st (q @ CHR 0x0D # rest) = (st', ev, rest')"
  shows "rest' = rest
    \<and> (\<forall>i. next_match rs (st\<lparr>query := q\<rparr>) i \<longrightarrow> st' = st\<lparr>query := q, top := i, shift := 0\<rparr>)
    \<and> ((\<forall>i. \<not> next_match rs (st\<lparr>query := q\<rparr>) i) \<longrightarrow> st' = st\<lparr>query := q\<rparr>)"
proof -
  have key: "st' = search_from rs (st\<lparr>query := q\<rparr>)" "rest' = rest"
    using search_key [OF assms(1), of rs h w st rest] assms(5) by simp_all
  moreover have "search_from rs (st\<lparr>query := q\<rparr>) = st\<lparr>query := q, top := i, shift := 0\<rparr>"
    if "next_match rs (st\<lparr>query := q\<rparr>) i" for i
    using search_from_match [OF _ that] assms(2,4) by simp
  moreover have "search_from rs (st\<lparr>query := q\<rparr>) = st\<lparr>query := q\<rparr>"
    if "\<forall>i. \<not> next_match rs (st\<lparr>query := q\<rparr>) i"
    using search_from_none that assms(3,4) by (simp add: top_ok_def)
  ultimately show ?thesis by blast
qed

theorem search_finds_next_witness:
  "fst (tui_key [demo_stall, demo_stall] 24 80 Search \<lparr>top = 0, shift = 8, query = []\<rparr> (''dep'' @ [CHR 0x0D]))
    = \<lparr>top = 1, shift = 0, query = ''dep''\<rparr>"
proof -
  have m: "next_match [demo_stall, demo_stall] (\<lparr>top = 0, shift = 8, query = []\<rparr>\<lparr>query := ''dep''\<rparr>) 1"
    by (auto simp: next_match_def demo_stall_def sublist_code prefix_def)
  obtain st' ev rest' where
    eq: "tui_key [demo_stall, demo_stall] 24 80 Search \<lparr>top = 0, shift = 8, query = []\<rparr> (''dep'' @ CHR 0x0D # [])
      = (st', ev, rest')" by (metis prod_cases3)
  have "list_all typeable ''dep''" by (simp add: typeable_def)
  from search_finds_next [OF this _ _ _ eq] m eq show ?thesis by simp
qed

text \<open>
  C30: a coloured line fits the screen: on a screen of at least 40 columns, the text of the line of a
  row that starts before cycle \<open>10^8\<close> is exactly as wide as the screen.
\<close>
theorem coloured_line_fits:
  assumes "esc_free r" "unat (start r) < 10 ^ 8" "40 \<le> w"
  shows "length (strip_sgr False (line r (lab_width w) c0 (n_cols w) True)) = w"
  using assms by (simp add: strip_sgr_line length_line_8 tui_width)

theorem coloured_line_fits_witness:
  "length (strip_sgr False (line demo_insn (lab_width 80) 100 (n_cols 80) True)) = 80"
  by (rule coloured_line_fits) (simp_all add: demo_insn_def demo_stall_def esc_free_def start_def)

text \<open>
  C31: a coloured line does not always fit by construction: from cycle \<open>10^8\<close> on, the start of the row
  takes more than the eight columns reserved for it and the line is wider than the screen.
\<close>
theorem late_line_overflows:
  assumes "esc_free r" "10 ^ 8 \<le> unat (start r)" "40 \<le> w"
  shows "w < length (strip_sgr False (line r (lab_width w) c0 (n_cols w) True))"
proof -
  have "9 \<le> length (dec (unat (start r)))" using length_radix_ge [of 10 8] assms(2) by simp
  then show ?thesis using assms tui_width [of w] by (simp add: strip_sgr_line length_line)
qed

theorem late_line_overflows_witness:
  "80 < length (strip_sgr False (line (demo_insn\<lparr>stages := [(200000000, CHR ''f'')]\<rparr>)
     (lab_width 80) 200000000 (n_cols 80) True))"
  by (rule late_line_overflows) (simp_all add: demo_insn_def demo_stall_def esc_free_def start_def)

definition stty_calls :: "event list \<Rightarrow> string list list" where
  "stty_calls evs = List.map_filter (\<lambda>e. case e of Stty a \<Rightarrow> Some a | _ \<Rightarrow> None) evs"

lemma stty_calls_simps [simp]:
  "stty_calls [] = []" "stty_calls (Out s # es) = stty_calls es" "stty_calls (Flush # es) = stty_calls es"
  "stty_calls (Echo s # es) = stty_calls es" "stty_calls (Echo_flush # es) = stty_calls es"
  "stty_calls (Stty a # es) = a # stty_calls es" "stty_calls (es @ es') = stty_calls es @ stty_calls es'"
  by (simp_all add: stty_calls_def map_filter_def)

lemma stty_calls_map_Out [simp]: "stty_calls (map (\<lambda>x. Out (f x)) xs) = []"
  by (induction xs) simp_all

lemma stty_calls_frame: "frame rs h w st = Some ev \<Longrightarrow> stty_calls ev = []"
  by (auto simp: frame_def bottom_def Let_def split: option.splits prod.splits)

lemma stty_calls_read_line: "stty_calls (fst (snd (read_line s inp))) = []"
  by (induction s inp rule: read_line.induct) (auto simp: Let_def split_beta)

lemma stty_calls_tui_key: "stty_calls (fst (snd (tui_key rs h w k st inp))) = []"
  by (cases k) (auto simp: tui_key_def legend_screen_def bottom_def Let_def split_beta stty_calls_read_line)

lemma stty_calls_tui_loop:
  "tui_loop rs sz n st inp = Some evs \<Longrightarrow> set (stty_calls evs) \<subseteq> {[''size'']}"
proof (induction rs sz n st inp arbitrary: evs rule: tui_loop.induct)
  case (1 rs sz n st inp)
  obtain h w where hw: "term_size (sz n) = (h, w)" by fastforce
  with 1(2) obtain ev where ev: "frame rs h w st = Some ev"
    by (subst (asm) tui_loop.simps) (auto split: option.splits)
  let ?x = "tui_key rs h w (fst (read_key inp)) st (snd (read_key inp))"
  show ?case
  proof (cases "fst (read_key inp) = Quit")
    case True
    with 1(2) hw ev have "evs = Stty [''size''] # ev" by (subst (asm) tui_loop.simps) simp
    with stty_calls_frame [OF ev] show ?thesis by simp
  next
    case False
    with 1(2) hw ev obtain es where es: "tui_loop rs sz (Suc n) (fst ?x) (snd (snd ?x)) = Some es"
      "evs = Stty [''size''] # ev @ fst (snd ?x) @ es"
      by (subst (asm) tui_loop.simps) (auto simp: Let_def split: option.splits)
    from 1(1) [OF hw [symmetric] refl ev False refl es(1)] es(2) stty_calls_frame [OF ev] show ?thesis
      by (simp add: stty_calls_tui_key)
  qed
qed

lemma stty_calls_mem: "Stty a \<in> set es \<Longrightarrow> a \<in> set (stty_calls es)"
  by (induction es) (auto simp: stty_calls_def map_filter_def)

text \<open>
  C32: a checked write that fails ends the interface at once: what was done by then is a proper prefix
  of the whole run that stops before the settings are restored, so the terminal stays in raw mode.
\<close>
theorem write_error_skips_restore:
  assumes "tui rs (Some saved) sz inp = Some evs" "perform snk 0 evs = (es, Some e)"
    and "trim saved \<notin> {[], ''-g'', ''size''}"
  shows "\<exists>rest. evs = es @ rest \<and> Stty [trim saved] \<in> set rest \<and> Stty [trim saved] \<notin> set es"
proof -
  obtain evs' where evs': "tui_loop rs sz 0 \<lparr>top = 0, shift = 0, query = []\<rparr> inp = Some evs'"
    using assms(1) by (auto simp: tui_def Let_def split: option.splits)
  with stty_calls_tui_loop have calls: "set (stty_calls evs') \<subseteq>
      {[''size''], [''-g''], [''-echo'', ''-icanon'', ''-isig'', ''min'', ''1'', ''time'', ''0'']}" by blast
  obtain mid where mid: "evs = mid @ [Stty [trim saved]]" "set (stty_calls mid) \<subseteq>
      {[''size''], [''-g''], [''-echo'', ''-icanon'', ''-isig'', ''min'', ''1'', ''time'', ''0'']}"
    using assms(1,3) evs' calls by (auto simp: tui_def stty_def Let_def)
  obtain x rest where x: "evs = es @ x # rest" "checked x" using perform_prefix [OF assms(2)] by blast
  have "rest \<noteq> []" using mid(1) x by (auto simp: checked_def)
  then obtain rest' where "rest = rest' @ [Stty [trim saved]]" "mid = es @ x # rest'"
    using mid(1) x(1) by (metis append.assoc append_Cons append_butlast_last_id butlast_append
        butlast_snoc last_appendR last_snoc list.distinct(1) last_ConsR)
  with mid(2) assms(3) x(1) show ?thesis using stty_calls_mem [of "[trim saved]" es] by auto
qed

theorem write_error_skips_restore_witness:
  "\<exists>evs es rest. tui [demo_stall] (Some ''4500:5'') (\<lambda>n. None) ''q'' = Some evs
     \<and> perform (\<lambda>k. if k = 2 then Some ''Broken pipe'' else None) 0 evs = (es, Some ''Broken pipe'')
     \<and> evs = es @ rest \<and> Stty [''4500:5''] \<notin> set es"
proof -
  have t: "trim ''4500:5'' = ''4500:5''" by code_simp
  have "tui_loop [demo_stall] (\<lambda>n. None) 0 \<lparr>top = 0, shift = 0, query = []\<rparr> ''q'' \<noteq> None"
    by (rule tui_loop_total [OF demo_geometry]) (simp add: top_ok_def)
  then obtain evs where evs: "tui [demo_stall] (Some ''4500:5'') (\<lambda>n. None) ''q'' = Some evs"
    "take 3 evs = [Stty [''-g''], Stty [''-echo'', ''-icanon'', ''-isig'', ''min'', ''1'', ''time'', ''0''],
       Out (CHR 0x1B # ''[?1049h'' @ CHR 0x1B # ''[?25l'')]"
    by (auto simp: tui_def stty_def t)
  then obtain tl where tl: "evs = [Stty [''-g''], Stty [''-echo'', ''-icanon'', ''-isig'', ''min'', ''1'', ''time'', ''0''],
       Out (CHR 0x1B # ''[?1049h'' @ CHR 0x1B # ''[?25l'')] @ tl"
    by (metis append_take_drop_id)
  have "perform (\<lambda>k. if k = 2 then Some ''Broken pipe'' else None) 0 evs =
     ([Stty [''-g''], Stty [''-echo'', ''-icanon'', ''-isig'', ''min'', ''1'', ''time'', ''0'']], Some ''Broken pipe'')"
    by (simp add: tl checked_def)
  with write_error_skips_restore [OF evs(1) this] evs(1) show ?thesis by (auto simp: t)
qed

end
