(* ===== verification/Pipeview_Main.thy ===== *)
theory Pipeview_Main
  imports Pipeview_Load Pipeview_Tui
begin

text \<open>
  The entry point of tools/pipeview. The world it runs in is a record: what objdump and the files
  answer, the terminal's input, what \<open>stty\<close> answers and which writes fail. The result is what it did to the terminal,
  its error text and its exit code; \<open>None\<close> is a panic.
\<close>

record world =
  objdump :: "string \<Rightarrow> string + string"
  file_of :: "string \<Rightarrow> string + string"
  saved_out :: "string option"
  sizes :: "nat \<Rightarrow> string option"
  keys :: string
  sink :: "nat \<Rightarrow> string option"

record outcome =
  events :: "event list"
  err_text :: string
  exit_code :: nat

definition parse_usize :: "string \<Rightarrow> nat option" where
  "parse_usize s = from_str_radix 10 64 s"

text \<open>The arguments: whether \<open>--text\<close> is given, the number of rows and the positional arguments.\<close>

definition find_text :: "string list \<Rightarrow> nat option" where
  "find_text args = List.find (\<lambda>i. args ! i = ''--text'') [0..<length args]"

definition parse_args :: "string list \<Rightarrow> nat option \<times> nat \<times> string list" where
  "parse_args args =
     (let text = find_text args;
          pos = filter (\<lambda>a. \<not> starts_with ''--'' a) args
      in case text of
          None \<Rightarrow> (None, 60, pos)
        | Some t \<Rightarrow>
            (case (if t + 1 < length args then parse_usize (args ! (t + 1)) else None) of
               None \<Rightarrow> (text, 60, pos)
             | Some v \<Rightarrow> (text, v, filter (\<lambda>a. parse_usize a = None) pos)))"

definition text_lines :: "row list \<Rightarrow> string list" where
  "text_lines v = map (\<lambda>r. trim_end (line r 44 (start (v ! 0)) 110 False)) v"

definition text_out :: "row list \<Rightarrow> nat \<Rightarrow> event list" where
  "text_out rs n =
     (let v = take (min n (length rs)) rs; (head, causes) = stats v
      in Out (head @ [CHR 0x0A] @ causes @ [CHR 0x0A]) # map (\<lambda>l. Out (l @ [CHR 0x0A])) (text_lines v))"

text \<open>\<open>print!\<close> and \<open>println!\<close> panic when the write fails.\<close>

definition printed :: "world \<Rightarrow> string \<Rightarrow> event list \<Rightarrow> outcome option" where
  "printed wd err evs =
     (case perform (sink wd) 0 evs of
        (done, None) \<Rightarrow> Some \<lparr>events = done, err_text = err, exit_code = 0\<rparr>
      | (done, Some e) \<Rightarrow> None)"

text \<open>An error of \<open>tui\<close> is reported; the exit code stays 0.\<close>

definition run_tui :: "world \<Rightarrow> string \<Rightarrow> row list \<Rightarrow> outcome option" where
  "run_tui wd err rs =
     (case tui rs (saved_out wd) (sizes wd) (keys wd) of
        None \<Rightarrow> None
      | Some evs \<Rightarrow>
          (case perform (sink wd) 0 evs of
             (done, None) \<Rightarrow> Some \<lparr>events = done, err_text = err, exit_code = 0\<rparr>
           | (done, Some e) \<Rightarrow>
               Some \<lparr>events = done, err_text = err @ ''pipeview: '' @ e @ [CHR 0x0A], exit_code = 0\<rparr>))"

definition fail :: "string \<Rightarrow> outcome option" where
  "fail err = Some \<lparr>events = [], err_text = err @ [CHR 0x0A], exit_code = 1\<rparr>"

definition main :: "world \<Rightarrow> string list \<Rightarrow> outcome option" where
  "main wd args =
     (if args = [] \<or> list_ex (\<lambda>a. a = ''-h'' \<or> a = ''--help'') args then
        printed wd [] [Out (HELP @ [CHR 0x0A] @ LEGEND)]
      else
        (case parse_args args of (text, n, pos) \<Rightarrow>
          case pos of
            [] \<Rightarrow> None
          | path # rest \<Rightarrow>
              (case load (objdump wd) (file_of wd) path
                      (case rest of [] \<Rightarrow> None | elf # _ \<Rightarrow> Some elf) of
                 None \<Rightarrow> None
               | Some (err, Inl e) \<Rightarrow> fail (err @ path @ '': '' @ e)
               | Some (err, Inr rs) \<Rightarrow>
                   (if rs = [] then
                      fail (err @ path @ '': no rows (was the run inside +trace_from/+trace_to?)'')
                    else if text \<noteq> None then printed wd err (text_out rs n)
                    else run_tui wd err rs))))"

section \<open>When the program panics\<close>

definition wants_help :: "string list \<Rightarrow> bool" where
  "wants_help args = (args = [] \<or> list_ex (\<lambda>a. a = ''-h'' \<or> a = ''--help'') args)"

definition positional :: "string list \<Rightarrow> string list" where
  "positional args = snd (snd (parse_args args))"

definition world_ok :: "world \<Rightarrow> bool" where
  "world_ok wd =
     ((\<forall>n. fst (term_size (sizes wd n)) < 2 ^ 63)
      \<and> sink wd = (\<lambda>k. None)
      \<and> (\<forall>p s. file_of wd p = Inr s \<longrightarrow> length (lines s) < 2 ^ 63))"

lemma load_rows:
  assumes "file_of wd path = Inr s"
  shows "\<exists>err rs. load (objdump wd) (file_of wd) path elf = Some (err, Inr rs) \<and> length rs \<le> length (lines s)"
proof -
  obtain err t where t: "(case elf of None \<Rightarrow> ([], Map.empty) | Some e \<Rightarrow> objdump_table (objdump wd) e) = (err, t)"
    by fastforce
  obtain st where st: "load_lines t init_st (lines s) = Some st" using load_lines_total by blast
  then have "length (rows st) = length (filter is_insn (map kline_of (lines s)))"
    by (auto simp: load_lines_exec init_st_def dest: length_fold_exec)
  also have "\<dots> \<le> length (lines s)" by (metis length_filter_le length_map)
  finally show ?thesis using assms t st by (simp add: load_def)
qed

lemma printed_ok: "sink wd = (\<lambda>k. None) \<Longrightarrow> printed wd err evs = Some \<lparr>events = evs, err_text = err, exit_code = 0\<rparr>"
  by (simp add: printed_def perform_ok)

lemma run_tui_total: "tui rs (saved_out wd) (sizes wd) (keys wd) \<noteq> None \<Longrightarrow> run_tui wd err rs \<noteq> None"
  by (auto simp: run_tui_def split: prod.split option.split)

lemma geometry_world:
  assumes "world_ok wd" "rs \<noteq> []" "file_of wd path = Inr s" "length rs \<le> length (lines s)"
  shows "geometry_ok rs (sizes wd)"
  using assms by (fastforce simp: geometry_ok_def world_ok_def)

lemma tui_total:
  assumes "geometry_ok rs sz"
  shows "tui rs saved sz inp \<noteq> None"
proof -
  have "tui_loop rs sz 0 \<lparr>top = 0, shift = 0, query = []\<rparr> inp \<noteq> None"
    using assms by (intro tui_loop_total) (simp_all add: geometry_ok_def top_ok_def)
  then show ?thesis by (auto simp: tui_def Let_def)
qed

lemma main_panics_iff:
  assumes "world_ok wd"
  shows "main wd args = None \<longleftrightarrow> \<not> wants_help args \<and> positional args = []"
proof (cases "wants_help args")
  case True
  with assms show ?thesis by (auto simp: main_def wants_help_def world_ok_def printed_ok)
next
  case False
  obtain tx n pos where pa: "parse_args args = (tx, n, pos)" by (metis prod_cases3)
  show ?thesis
  proof (cases pos)
    case Nil
    with False pa show ?thesis by (auto simp: main_def wants_help_def positional_def)
  next
    case (Cons path rest)
    let ?elf = "case rest of [] \<Rightarrow> None | elf # _ \<Rightarrow> Some elf"
    have "main wd args \<noteq> None"
    proof (cases "file_of wd path")
      case (Inl e)
      with False pa Cons show ?thesis
        by (auto simp: main_def wants_help_def load_def fail_def split: prod.split)
    next
      case (Inr s)
      then obtain err rs where rs: "load (objdump wd) (file_of wd) path ?elf = Some (err, Inr rs)"
        "length rs \<le> length (lines s)" using load_rows [OF Inr] by blast
      have "run_tui wd err rs \<noteq> None" if "rs \<noteq> []"
        using run_tui_total tui_total geometry_world [OF assms that Inr rs(2)] by blast
      with rs False pa Cons assms show ?thesis
        by (cases "rs = []") (auto simp: main_def wants_help_def fail_def world_ok_def printed_ok)
    qed
    with False pa Cons show ?thesis by (simp add: positional_def)
  qed
qed

section \<open>Properties of the program\<close>

text \<open>
  C12: the program panics exactly when it is given arguments, none of them asks for help, and none is
  left as the path of the stream; for screen sizes and line counts below \<open>2^63\<close> and writes that
  succeed. Every other run ends with an exit code.
\<close>
theorem main_panics_without_path:
  assumes "world_ok wd"
  shows "main wd args = None \<longleftrightarrow> \<not> wants_help args \<and> positional args = []"
  using assms by (rule main_panics_iff)

definition demo_world :: world where
  "demo_world = \<lparr>objdump = (\<lambda>e. Inl []), file_of = (\<lambda>p. Inl ''not found''), saved_out = None,
     sizes = (\<lambda>n. None), keys = ''q'', sink = (\<lambda>k. None)\<rparr>"

theorem main_panics_without_path_witness: "main demo_world [''--text''] = None"
proof -
  have "world_ok demo_world" by (simp add: world_ok_def demo_world_def term_size_def stty_def)
  moreover have "positional [''--text''] = []"
    by (simp add: positional_def parse_args_def find_text_def starts_with_def)
  ultimately show ?thesis
    using main_panics_without_path [of demo_world "[''--text'']"] by (simp add: wants_help_def)
qed

lemma parse_usize_dec: "n < 2 ^ 64 \<Longrightarrow> parse_usize (dec n) = Some n"
  by (simp add: parse_usize_def from_str_radix_radix)

lemma dec_plain_arg: "\<not> starts_with ''--'' (dec n)" "dec n \<noteq> ''--text''" "dec n \<noteq> ''-h''" "dec n \<noteq> ''--help''"
proof -
  have "hd (dec n) \<noteq> CHR ''-''" using hd_radix [of 10 n] by (auto simp: hex_digits_def)
  then show "\<not> starts_with ''--'' (dec n)" "dec n \<noteq> ''--text''" "dec n \<noteq> ''-h''" "dec n \<noteq> ''--help''"
    by (cases "dec n"; auto simp: starts_with_def)+
qed

lemma text_args:
  assumes "n < 2 ^ 64" "\<not> starts_with ''--'' p"
  shows "parse_args [p, ''--text'', dec n] = (Some 1, n, if parse_usize p = None then [p] else [])"
proof -
  have "p \<noteq> ''--text''" using assms(2) by (auto simp: starts_with_def)
  then have "find_text [p, ''--text'', dec n] = Some 1" by (simp add: find_text_def upt_rec)
  then show ?thesis using assms
    by (simp add: parse_args_def parse_usize_dec dec_plain_arg) (simp add: starts_with_def)
qed

text \<open>The bytes that the output of a run adds up to.\<close>

definition written :: "event list \<Rightarrow> string" where
  "written evs = concat (map (\<lambda>e. case e of Out s \<Rightarrow> s | Echo s \<Rightarrow> s | _ \<Rightarrow> []) evs)"

lemma written_lines: "written (map (\<lambda>l. Out (l @ [CHR 0x0A])) ls) = unlines ls"
  by (induction ls) (simp_all add: written_def unlines_def)

text \<open>
  C19: text mode. \<open>pipeview PATH --text N\<close> on a stream with rows writes the two lines of the header of
  the first N rows and one line for each of them, without its trailing blanks, all from the cycle
  in which the first one starts, and exits with 0; for a path that is not an option and not a
  number.
\<close>
theorem text_mode:
  assumes "load (objdump wd) (file_of wd) p None = Some (err, Inr rs)" "rs \<noteq> []"
    and "n < 2 ^ 64" "\<not> starts_with ''--'' p" "p \<noteq> ''-h''" "parse_usize p = None"
    and "sink wd = (\<lambda>k. None)"
  shows "\<exists>evs. main wd [p, ''--text'', dec n] = Some \<lparr>events = evs, err_text = err, exit_code = 0\<rparr>
    \<and> written evs = unlines (fst (stats (take n rs)) # snd (stats (take n rs))
        # map (\<lambda>r. trim_end (line r 44 (start (hd rs)) 110 False)) (take n rs))"
proof (intro exI conjI)
  have "p \<noteq> ''--help''" using assms(4) by (auto simp: starts_with_def)
  then show "main wd [p, ''--text'', dec n] = Some \<lparr>events = text_out rs n, err_text = err, exit_code = 0\<rparr>"
    using assms text_args [OF assms(3,4)] by (simp add: main_def printed_ok dec_plain_arg)
  have "text_lines (take n rs) = map (\<lambda>r. trim_end (line r 44 (start (hd rs)) 110 False)) (take n rs)"
    using assms(2) by (cases n) (simp_all add: text_lines_def hd_conv_nth)
  moreover have "take (min n (length rs)) rs = take n rs" by (cases "n \<le> length rs") (simp_all add: min_def)
  moreover have "written (Out s # evs) = s @ written evs" for s evs by (simp add: written_def)
  ultimately show "written (text_out rs n) = unlines (fst (stats (take n rs)) # snd (stats (take n rs))
      # map (\<lambda>r. trim_end (line r 44 (start (hd rs)) 110 False)) (take n rs))"
    by (simp add: text_out_def Let_def split_beta written_lines del: map_map) (simp add: unlines_def)
qed

definition text_world :: world where
  "text_world = demo_world\<lparr>file_of := (\<lambda>p. Inr (unlines (map render demo_stream)))\<rparr>"

theorem text_mode_witness:
  "\<exists>evs. main text_world [''run.kanata'', ''--text'', dec 5] =
      Some \<lparr>events = evs, err_text = [], exit_code = 0\<rparr>
    \<and> written evs = unlines [fst (stats [demo_row]), snd (stats [demo_row]),
        trim_end (line demo_row 44 100 110 False)]"
proof -
  have "lines (unlines (map render demo_stream)) = map render demo_stream"
    by code_simp
  then have l: "load (objdump text_world) (file_of text_world) ''run.kanata'' None = Some ([], Inr [demo_row])"
    by (simp add: load_def text_world_def demo_loaded)
  have "parse_usize ''run.kanata'' = None" "\<not> starts_with ''--'' ''run.kanata''" by code_simp+
  moreover have "start demo_row = 100" by (simp add: demo_row_def start_def)
  ultimately show ?thesis using text_mode [OF l, of 5] by (simp add: text_world_def demo_world_def)
qed

lemma text_args_elf:
  assumes "n < 2 ^ 64" "k < 2 ^ 64" "\<not> starts_with ''--'' elf" "parse_usize elf = None"
  shows "positional [dec k, elf, ''--text'', dec n] = [elf]"
proof -
  have "elf \<noteq> ''--text''" using assms(3) by (auto simp: starts_with_def)
  then have "find_text [dec k, elf, ''--text'', dec n] = Some 2"
    using dec_plain_arg(2) [of k] by (simp add: find_text_def upt_rec numeral_2_eq_2)
  then show ?thesis using assms
    by (simp add: positional_def parse_args_def parse_usize_dec dec_plain_arg numeral_2_eq_2) (simp add: starts_with_def)
qed

text \<open>
  C33: a stream in a file whose name is a number is not read when a row count is given:
  \<open>pipeview K --text N\<close> panics whatever the file holds, and \<open>pipeview K ELF --text N\<close> takes the ELF
  file for the stream. Without a count, \<open>pipeview K --text\<close> keeps the path.
\<close>
theorem numeric_path_dropped:
  assumes "k < 2 ^ 64" "n < 2 ^ 64" "\<not> starts_with ''--'' elf" "parse_usize elf = None"
  shows "main wd [dec k, ''--text'', dec n] = None
    \<and> positional [dec k, elf, ''--text'', dec n] = [elf]
    \<and> positional [dec k, ''--text''] = [dec k]"
proof (intro conjI)
  show "main wd [dec k, ''--text'', dec n] = None"
    using text_args [OF assms(2) dec_plain_arg(1), of k] assms(1)
    by (simp add: main_def parse_usize_dec dec_plain_arg)
  show "positional [dec k, elf, ''--text'', dec n] = [elf]" using text_args_elf assms by blast
  have "find_text [dec k, ''--text''] = Some 1" using dec_plain_arg(2) [of k] by (simp add: find_text_def upt_rec)
  then show "positional [dec k, ''--text''] = [dec k]"
    by (simp add: positional_def parse_args_def dec_plain_arg) (simp add: starts_with_def)
qed

theorem numeric_path_dropped_witness:
  "main text_world [''2024'', ''--text'', ''5''] = None
    \<and> positional [''2024'', ''prog.elf'', ''--text'', ''5''] = [''prog.elf'']"
proof -
  have "dec 2024 = ''2024''" "dec 5 = ''5''" "\<not> starts_with ''--'' ''prog.elf''" "parse_usize ''prog.elf'' = None"
    by code_simp+
  with numeric_path_dropped [of 2024 5 "''prog.elf''" text_world] show ?thesis by simp
qed

end
