(* ===== verification/Kbd_Vectors.thy ===== *)
theory Kbd_Vectors
  imports Rust_Str
begin

text \<open>
  The vector generator tools/kbd-vectors: the key codes the simulator's terminal front end gives
  for every byte and for a list of escape sequences, and the bitmap of its key codes. The two
  functions it exercises are not part of this repository, so they are arguments: \<open>translate\<close> (from
  simmerv's term_keys.rs) and \<open>hid_to_linux\<close> (from simmerv's virtio_input device). A panic is
  \<open>None\<close>.
\<close>

type_synonym key_code = "nat \<times> nat"

definition hex2 :: "u8 \<Rightarrow> string" where
  "hex2 b = hex_pad0 2 (unat b)"

section \<open>The bitmap\<close>

definition set_key_bit :: "u8 list \<Rightarrow> nat \<Rightarrow> u8 list option" where
  "set_key_bit bits code =
     (if code div 8 < length bits
      then Some (bits[code div 8 := bits ! (code div 8) OR push_bit (code mod 8) 1])
      else None)"

fun set_bits :: "u8 list \<Rightarrow> nat list \<Rightarrow> u8 list option" where
  "set_bits bits [] = Some bits"
| "set_bits bits (code # codes) =
     (case set_key_bit bits code of None \<Rightarrow> None | Some bits' \<Rightarrow> set_bits bits' codes)"

definition bitmap :: "(nat \<Rightarrow> nat option) \<Rightarrow> string option" where
  "bitmap hid_to_linux =
     (case set_bits (replicate 16 0) (List.map_filter hid_to_linux [0..<0x100]) of
        None \<Rightarrow> None
      | Some bits \<Rightarrow> Some (''EVKEY '' @ concat (map hex2 bits)))"

section \<open>The vectors\<close>

definition byte_line :: "(u8 list \<Rightarrow> key_code list) \<Rightarrow> u8 \<Rightarrow> string option" where
  "byte_line translate b =
     (case translate [b] of
        [] \<Rightarrow> Some (''B '' @ hex2 b @ '' none'')
      | [(code, mods)] \<Rightarrow> Some (''B '' @ hex2 b @ '' '' @ dec code @ '' '' @ dec mods)
      | _ \<Rightarrow> None)"

fun byte_lines :: "(u8 list \<Rightarrow> key_code list) \<Rightarrow> u8 list \<Rightarrow> string list option" where
  "byte_lines translate [] = Some []"
| "byte_lines translate (b # bs) =
     (if b = 0x1b then byte_lines translate bs
      else case byte_line translate b of
          None \<Rightarrow> None
        | Some l \<Rightarrow> map_option ((#) l) (byte_lines translate bs))"

definition seq_line :: "(u8 list \<Rightarrow> key_code list) \<Rightarrow> u8 list \<Rightarrow> string" where
  "seq_line translate s =
     (let keys = map (\<lambda>(c, m). dec c @ '':'' @ dec m) (translate s)
      in ''S '' @ concat (map hex2 s) @ '' '' @ (if keys = [] then ''-'' else join '','' keys))"

definition bytes :: "string \<Rightarrow> u8 list" where
  "bytes s = map (\<lambda>c. of_char c) s"

text \<open>The sequences; \<open>esc s\<close> is an escape followed by the bytes of \<open>s\<close>.\<close>

abbreviation (input) esc :: "string \<Rightarrow> string" where
  "esc s \<equiv> CHR 0x1B # s"

definition seqs :: "string list" where
  "seqs =
    [esc [], esc ''[A'', esc ''[B'', esc ''[C'', esc ''[D'', esc ''[H'', esc ''[F'', esc ''OA'', esc ''OD'',
     esc ''OP'', esc ''OQ'', esc ''OR'', esc ''OS'', esc ''[Z'', esc ''[1~'', esc ''[2~'', esc ''[3~'',
     esc ''[4~'', esc ''[5~'', esc ''[6~'', esc ''[7~'', esc ''[8~'', esc ''[9~'', esc ''[11~'', esc ''[15~'',
     esc ''[17~'', esc ''[21~'', esc ''[22~'', esc ''[23~'', esc ''[24~'', esc ''[25~'', esc ''[1;5A'',
     esc ''[1;2D'', esc ''[1;3C'', esc ''[1;8B'', esc ''[3;5~'', esc ''[15;2~'', esc ''x'', esc ''X'',
     esc (esc []), esc [CHR 0x0D], esc [CHR 0x01], esc ''['', esc ''[1;'', esc ''[1;5'', esc ''[1x'',
     esc ''[1;5Ax'', esc ''[A'' @ esc ''[B'', ''ab'' @ esc ''[Ac'', esc ''[999~'', esc ''[65535A'',
     esc ''[1;65535A'', esc ''[1;2;3A'', esc ''[;5A'', esc ''O5P'', esc ''[1;1A'', esc ''[1;0A'', esc ''[1;9A'',
     esc ''[1;17A'', ''hello, World!'' @ [CHR 0x0D]]"

definition kbd_main ::
  "(u8 list \<Rightarrow> key_code list) \<Rightarrow> (nat \<Rightarrow> nat option) \<Rightarrow> string list option" where
  "kbd_main translate hid_to_linux =
     (case bitmap hid_to_linux of
        None \<Rightarrow> None
      | Some l \<Rightarrow>
          (case byte_lines translate (map word_of_nat [0..<256]) of
             None \<Rightarrow> None
           | Some ls \<Rightarrow> Some (l # ls @ map (\<lambda>s. seq_line translate (bytes s)) seqs)))"

section \<open>The bitmap\<close>

lemma set_bits_fold: "set_bits bits codes = fold_opt set_key_bit bits codes"
  by (induction codes arbitrary: bits) (simp_all split: option.split)

interpretation bitmap: total_step set_key_bit "\<lambda>bits. length bits = 16" "\<lambda>code. code < 128"
  by unfold_locales (auto simp: set_key_bit_def)

definition has_bit :: "u8 list \<Rightarrow> nat \<Rightarrow> bool" where
  "has_bit bits code = bit (bits ! (code div 8)) (code mod 8)"

lemma has_bit_set_key_bit:
  assumes "set_key_bit bits k = Some bits'" "code div 8 < length bits"
  shows "has_bit bits' code \<longleftrightarrow> has_bit bits code \<or> code = k"
proof -
  have eq: "code = k \<longleftrightarrow> code div 8 = k div 8 \<and> code mod 8 = k mod 8"
    by (metis div_mult_mod_eq)
  have "bit (push_bit (k mod 8) 1 :: u8) (code mod 8) \<longleftrightarrow> code mod 8 = k mod 8"
    by (auto simp: bit_simps)
  then show ?thesis using assms
    by (auto simp: set_key_bit_def has_bit_def eq bit_or_iff nth_list_update split: if_splits)
qed

lemma length_set_key_bit: "set_key_bit bits k = Some bits' \<Longrightarrow> length bits' = length bits"
  by (auto simp: set_key_bit_def split: if_splits)

lemma has_bit_set_bits:
  "set_bits bits codes = Some bits' \<Longrightarrow> code div 8 < length bits \<Longrightarrow>
    has_bit bits' code \<longleftrightarrow> has_bit bits code \<or> code \<in> set codes"
proof (induction codes arbitrary: bits)
  case (Cons k codes)
  then obtain b where "set_key_bit bits k = Some b" "set_bits b codes = Some bits'"
    by (auto split: option.splits)
  with Cons show ?case using has_bit_set_key_bit [of bits k b code] length_set_key_bit [of bits k b] by auto
qed simp

lemma set_bits_None: "length bits = 16 \<Longrightarrow> set_bits bits codes = None \<longleftrightarrow> (\<exists>c \<in> set codes. 128 \<le> c)"
proof (induction codes arbitrary: bits)
  case (Cons k codes)
  show ?case
  proof (cases "k < 128")
    case True
    with Cons.prems obtain b where "set_key_bit bits k = Some b" "length b = 16"
      using bitmap.step_total by blast
    with Cons.IH [of b] True show ?thesis by simp
  next
    case False
    with Cons.prems have "set_key_bit bits k = None" by (simp add: set_key_bit_def)
    with False show ?thesis by auto
  qed
qed simp

section \<open>Properties of the vectors\<close>

lemma set_codes: "set (List.map_filter f [0..<n]) = {c. \<exists>u < n. f u = Some c}"
  by (force simp: map_filter_def image_iff)

text \<open>
  C35: the bitmap of key codes. When no code reaches 128 the bitmap is printed, as the sixteen bytes
  in which bit \<open>code mod 8\<close> of byte \<open>code div 8\<close> is set exactly for the codes that some usage below
  256 translates to.
\<close>
theorem bitmap_correct:
  assumes "\<forall>u < 256. \<forall>c. hid_to_linux u = Some c \<longrightarrow> c < 128"
  shows "\<exists>bits. bitmap hid_to_linux = Some (''EVKEY '' @ concat (map hex2 bits)) \<and> length bits = 16
    \<and> (\<forall>c < 128. has_bit bits c \<longleftrightarrow> (\<exists>u < 256. hid_to_linux u = Some c))"
proof -
  let ?codes = "List.map_filter hid_to_linux [0..<0x100]"
  have "list_all (\<lambda>c. c < 128) ?codes" using assms by (auto simp: list_all_iff set_codes)
  then obtain bits where bits: "set_bits (replicate 16 0) ?codes = Some bits" "length bits = 16"
    using bitmap.fold_total [of "replicate 16 0" ?codes] by (auto simp: set_bits_fold)
  have "has_bit bits c \<longleftrightarrow> (\<exists>u < 256. hid_to_linux u = Some c)" if "c < 128" for c
  proof -
    have c: "c div 8 < length (replicate 16 (0 :: u8))" using that by simp
    then have "\<not> has_bit (replicate 16 0) c" by (simp add: has_bit_def)
    then show ?thesis using has_bit_set_bits [OF bits(1) c] set_codes [of hid_to_linux 256] by simp
  qed
  with bits show ?thesis by (intro exI [of _ bits]) (simp add: bitmap_def)
qed

theorem bitmap_correct_witness:
  "\<exists>bits. bitmap ([4 \<mapsto> 30]) = Some (''EVKEY '' @ concat (map hex2 bits))
     \<and> has_bit bits 30 \<and> \<not> has_bit bits 31"
proof -
  have "\<forall>u < 256. \<forall>c. ([4 \<mapsto> 30] :: nat \<Rightarrow> nat option) u = Some c \<longrightarrow> c < 128" by (auto split: if_splits)
  from bitmap_correct [OF this] obtain bits where
    "bitmap [4 \<mapsto> 30] = Some (''EVKEY '' @ concat (map hex2 bits))"
    and b: "\<And>c. c < 128 \<Longrightarrow> has_bit bits c \<longleftrightarrow> (\<exists>u < (256 :: nat). [4 \<mapsto> 30] u = Some c)" by blast
  moreover have "has_bit bits 30" using b [of 30] by (auto intro: exI [of _ 4])
  moreover have "\<not> has_bit bits 31" using b [of 31] by (auto split: if_splits)
  ultimately show ?thesis by blast
qed

text \<open>
  C36: the bitmap panics exactly when a usage below 256 translates to a code of 128 or more, an index
  past its sixteen bytes.
\<close>
theorem bitmap_panics:
  "bitmap hid_to_linux = None \<longleftrightarrow> (\<exists>u c. u < 256 \<and> hid_to_linux u = Some c \<and> 128 \<le> c)"
  using set_bits_None [of "replicate 16 0" "List.map_filter hid_to_linux [0..<0x100]"]
    set_codes [of hid_to_linux 256]
  by (auto simp: bitmap_def split: option.splits)

lemma byte_lines_total:
  "(\<And>b. b \<in> set bs \<Longrightarrow> b \<noteq> 0x1b \<Longrightarrow> length (translate [b]) \<le> 1) \<Longrightarrow> byte_lines translate bs \<noteq> None"
proof (induction bs)
  case (Cons b bs)
  have "byte_line translate b \<noteq> None" if "b \<noteq> 0x1b"
    using Cons.prems [of b] that by (auto simp: byte_line_def split: list.splits)
  with Cons show ?case by auto
qed simp

section \<open>The vectors are read back\<close>

text \<open>
  A reader of the vectors: the input bytes and the keys of a line, by its form. The first field is
  the kind, the second the bytes in hex; a byte's line has its key and modifiers in two fields or
  the word \<open>none\<close>, a sequence's line a list of keys or a dash.
\<close>

fun read_bytes :: "string \<Rightarrow> u8 list option" where
  "read_bytes [] = Some []"
| "read_bytes [c] = None"
| "read_bytes (c # d # cs) =
     (case (from_str_radix 16 8 [c, d], read_bytes cs) of
        (Some b, Some bs) \<Rightarrow> Some (word_of_nat b # bs)
      | _ \<Rightarrow> None)"

definition read_key_code :: "string \<Rightarrow> key_code option" where
  "read_key_code s =
     (case split_char CHR '':'' s of
        [c, m] \<Rightarrow>
          (case (from_str_radix 10 64 c, from_str_radix 10 64 m) of
             (Some c', Some m') \<Rightarrow> Some (c', m')
           | _ \<Rightarrow> None)
      | _ \<Rightarrow> None)"

fun all_some :: "'a option list \<Rightarrow> 'a list option" where
  "all_some [] = Some []"
| "all_some (x # xs) = (case (x, all_some xs) of (Some y, Some ys) \<Rightarrow> Some (y # ys) | _ \<Rightarrow> None)"

definition read_vector :: "string \<Rightarrow> (u8 list \<times> key_code list) option" where
  "read_vector ln =
     (case split_char CHR '' '' ln of
        [kind, h, x] \<Rightarrow>
          (case read_bytes h of
             None \<Rightarrow> None
           | Some bs \<Rightarrow>
               (if kind = ''B'' then (if x = ''none'' then Some (bs, []) else None)
                else if kind = ''S'' then
                  (if x = ''-'' then Some (bs, [])
                   else map_option (\<lambda>ks. (bs, ks)) (all_some (map read_key_code (split_char CHR '','' x))))
                else None))
      | [kind, h, c, m] \<Rightarrow>
          (case (read_bytes h, from_str_radix 10 64 c, from_str_radix 10 64 m) of
             (Some bs, Some c', Some m') \<Rightarrow> (if kind = ''B'' then Some (bs, [(c', m')]) else None)
           | _ \<Rightarrow> None)
      | _ \<Rightarrow> None)"

definition small_keys :: "key_code list \<Rightarrow> bool" where
  "small_keys ks = list_all (\<lambda>(c, m). c < 2 ^ 64 \<and> m < 2 ^ 64) ks"

lemma length_hex2: "length (hex2 b) = 2"
  using length_radix_le [of 16 "unat b" 1] unat_lt [of b] by (simp add: hex2_def hex_pad0_def Let_def)

lemma read_hex2: "from_str_radix 16 8 (hex2 b) = Some (unat b)"
  using unat_lt [of b] by (simp add: hex2_def from_str_radix_hex_pad0)

lemma read_bytes_hex: "read_bytes (concat (map hex2 bs)) = Some bs"
proof (induction bs)
  case (Cons b bs)
  obtain c d where "hex2 b = [c, d]" using length_hex2 [of b] by (auto simp: length_Suc_conv numeral_2_eq_2)
  with Cons read_hex2 [of b] show ?case by simp
qed simp

lemma dec_not: "c \<notin> set hex_digits \<Longrightarrow> c \<notin> set (dec n)"
  using set_radix [of 10 n] by auto

lemma read_key_code_text:
  "c < 2 ^ 64 \<Longrightarrow> m < 2 ^ 64 \<Longrightarrow> read_key_code (dec c @ '':'' @ dec m) = Some (c, m)"
  using split_char_append [of "CHR '':''" "dec c" "dec m"] split_char_one [of "CHR '':''" "dec m"]
    dec_not [of "CHR '':''"]
  by (simp add: read_key_code_def from_str_radix_radix hex_digits_def)

lemma hex_chars:
  "c \<notin> set hex_digits \<Longrightarrow> c \<notin> set (hex2 b)"
  "c \<notin> set hex_digits \<Longrightarrow> c \<notin> set (concat (map hex2 bs))"
  using set_hex_pad0 by (auto simp: hex2_def)

lemma all_some_map: "all_some (map Some xs) = Some xs"
  by (induction xs) simp_all

lemma read_fields:
  "(\<And>f. f \<in> set fs \<Longrightarrow> CHR '' '' \<notin> set f) \<Longrightarrow> fs \<noteq> [] \<Longrightarrow> split_char CHR '' '' (join '' '' fs) = fs"
  by (rule split_char_join)

lemma blank_not: "CHR '' '' \<notin> set (hex2 b)" "CHR '' '' \<notin> set (concat (map hex2 bs))" "CHR '' '' \<notin> set (dec n)"
  using hex_chars [of "CHR '' ''"] dec_not [of "CHR '' ''" n] by (simp_all add: hex_digits_def)

lemma read_byte_line:
  assumes "byte_line translate b = Some l" "small_keys (translate [b])"
  shows "read_vector l = Some ([b], translate [b])"
proof (cases "translate [b]")
  case Nil
  then have "l = join '' '' [''B'', hex2 b, ''none'']" using assms(1) by (simp add: byte_line_def)
  then have "split_char CHR '' '' l = [''B'', hex2 b, ''none'']" using blank_not(1) [of b]
    by (simp only:) (rule read_fields, auto)
  then show ?thesis using Nil read_bytes_hex [of "[b]"] by (simp add: read_vector_def)
next
  case (Cons km ks)
  then obtain k m where km: "translate [b] = [(k, m)]" using assms(1)
    by (cases km; cases ks) (auto simp: byte_line_def)
  then have "l = join '' '' [''B'', hex2 b, dec k, dec m]" using assms(1) by (simp add: byte_line_def)
  then have "split_char CHR '' '' l = [''B'', hex2 b, dec k, dec m]" using blank_not
    by (simp only:) (rule read_fields, auto)
  then show ?thesis using km assms(2) read_bytes_hex [of "[b]"]
    by (simp add: read_vector_def small_keys_def from_str_radix_radix)
qed

lemma read_keys:
  assumes "small_keys ks" "ks \<noteq> []"
  shows "all_some (map read_key_code (split_char CHR '','' (join '','' (map (\<lambda>(c, m). dec c @ '':'' @ dec m) ks)))) = Some ks"
proof -
  have "CHR '','' \<notin> set (dec n)" for n using dec_not [of "CHR '',''"] by (simp add: hex_digits_def)
  then have "split_char CHR '','' (join '','' (map (\<lambda>(c, m). dec c @ '':'' @ dec m) ks)) = map (\<lambda>(c, m). dec c @ '':'' @ dec m) ks"
    using assms(2) by (intro split_char_join) auto
  moreover have "map read_key_code (map (\<lambda>(c, m). dec c @ '':'' @ dec m) ks) = map Some ks"
    using assms(1) read_key_code_text by (auto simp: small_keys_def list_all_iff)
  ultimately show ?thesis by (simp only: all_some_map)
qed

lemma read_seq_line:
  assumes "small_keys (translate s)"
  shows "read_vector (seq_line translate s) = Some (s, translate s)"
proof (cases "translate s")
  case Nil
  then have "seq_line translate s = join '' '' [''S'', concat (map hex2 s), ''-'']" by (simp add: seq_line_def)
  then have "split_char CHR '' '' (seq_line translate s) = [''S'', concat (map hex2 s), ''-'']"
    using blank_not(2) [of s] by (simp only:) (rule read_fields, auto simp del: set_concat)
  then show ?thesis using Nil read_bytes_hex [of s] by (simp add: read_vector_def)
next
  case (Cons k ks)
  let ?x = "join '','' (map (\<lambda>(c, m). dec c @ '':'' @ dec m) (translate s))"
  have "set ?x \<subseteq> set '','' \<union> \<Union> (set ` set (map (\<lambda>(c, m). dec c @ '':'' @ dec m) (translate s)))" by (rule set_join)
  then have blank: "CHR '' '' \<notin> set ?x" using blank_not(3) by fastforce
  have x: "read_key_code ''-'' = None" by code_simp
  have "?x \<noteq> ''-''"
  proof
    assume "?x = ''-''"
    with read_keys [OF assms] Cons x show False by simp
  qed
  moreover have "split_char CHR '' '' (seq_line translate s) = [''S'', concat (map hex2 s), ?x]"
  proof -
    have "seq_line translate s = join '' '' [''S'', concat (map hex2 s), ?x]" using Cons by (simp add: seq_line_def)
    then show ?thesis using blank_not(2) [of s] blank by (simp only:) (rule read_fields, auto simp del: set_concat)
  qed
  ultimately show ?thesis using Cons read_bytes_hex [of s] read_keys [OF assms] by (simp add: read_vector_def)
qed

lemma read_byte_lines:
  assumes "byte_lines translate bs = Some ls" "\<And>s. small_keys (translate s)"
  shows "map read_vector ls = map (\<lambda>b. Some ([b], translate [b])) (filter (\<lambda>b. b \<noteq> 0x1b) bs)"
  using assms(1)
  by (induction bs arbitrary: ls) (auto simp: read_byte_line assms(2) split: if_splits option.splits)

text \<open>
  C37: the vectors say what the translation does. When the bitmap does not panic, no single byte gives
  more than one key and the keys are machine integers, the program prints the bitmap and then lines
  from which a reader gets back every input, each byte but escape and then each sequence, with
  exactly the keys that the translation gives for it.
\<close>
theorem vectors_read_back:
  assumes "bitmap hid_to_linux = Some l" "\<And>b. b \<noteq> 0x1b \<Longrightarrow> length (translate [b]) \<le> 1"
    and "\<And>s. small_keys (translate s)"
  shows "\<exists>ls. kbd_main translate hid_to_linux = Some (l # ls) \<and> map read_vector ls =
    map (\<lambda>s. Some (s, translate s))
      (map (\<lambda>b. [b]) (filter (\<lambda>b. b \<noteq> 0x1b) (map word_of_nat [0..<256])) @ map bytes seqs)"
proof -
  obtain bs where bs: "byte_lines translate (map word_of_nat [0..<256]) = Some bs"
    using byte_lines_total [of "map word_of_nat [0..<256]" translate] assms(2) by auto
  have "map read_vector (map (\<lambda>s. seq_line translate (bytes s)) seqs) = map (\<lambda>s. Some (s, translate s)) (map bytes seqs)"
    by (simp add: read_seq_line assms(3))
  with read_byte_lines [OF bs assms(3)] show ?thesis
    unfolding kbd_main_def assms(1) option.case bs
    by (intro exI [of _ "bs @ map (\<lambda>s. seq_line translate (bytes s)) seqs"]) (simp only: map_append map_map comp_def simp_thms)
qed

theorem vectors_read_back_witness:
  "\<exists>l ls. kbd_main (\<lambda>s. if s = [0x61] then [(30, 0)] else []) (\<lambda>u. None) = Some (l # ls)
    \<and> ([0x61], [(30, 0)]) \<in> the ` set (map read_vector ls)"
proof -
  let ?t = "\<lambda>s :: u8 list. if s = [0x61] then [(30, 0)] else [] :: key_code list"
  have "bitmap (\<lambda>u. None) \<noteq> None" by (simp add: bitmap_def map_filter_def)
  then obtain l where l: "bitmap (\<lambda>u. None) = Some l" by auto
  have "length (?t [b]) \<le> 1" for b by simp
  moreover have "small_keys (?t s)" for s by (simp add: small_keys_def)
  ultimately obtain ls where ls: "kbd_main ?t (\<lambda>u. None) = Some (l # ls)"
    "map read_vector ls = map (\<lambda>s. Some (s, ?t s))
      (map (\<lambda>b. [b]) (filter (\<lambda>b. b \<noteq> 0x1b) (map word_of_nat [0..<256])) @ map bytes seqs)"
    using vectors_read_back [OF l, of ?t] by blast
  have "(0x61 :: u8) \<in> word_of_nat ` {0..<256}" by (rule image_eqI [of _ _ 97]) simp_all
  then have "(0x61 :: u8) \<in> set (filter (\<lambda>b. b \<noteq> 0x1b) (map word_of_nat [0..<256]))" by simp
  then have "([0x61], [(30, 0)]) \<in> the ` set (map read_vector ls)" unfolding ls(2) by force
  with ls(1) show ?thesis by blast
qed

end
