(* ===== verification/Spec2Isabelle.thy ===== *)
theory Spec2Isabelle
  imports RVC_Contract Pipetrace Pipeview_Main Kbd_Vectors
begin

text \<open>
  A verification development for the Rust tools of the SmolRV64 repository.

  \<^bold>\<open>The program.\<close> SmolRV64 is a RISC-V core in Verilog with tools in Rust around it. Three of the
  tools meet in one data flow. The core fetches 16-bit parcels and expands the compressed ones to
  32-bit words (src/src/rvc_expand.v); tools/rvc.rs holds the table of all 65536 expansions, the
  function \<open>uncompress\<close> it was made with, and the exhaustive test that compares the two. The
  testbench's probe (core/tb_pipetrace.vh) writes a Kanata stream with the address and the raw
  fetched word of every instruction, and tools/pipeview reads it, labels the rows with objdump's
  listing, or else 32-bit words with the disassembler of tools/rvdisasm and compressed ones as
  \<open>(rvc ...)\<close>, and shows them as text or in a terminal interface. tools/kbd-vectors is separate: it
  prints test vectors for the keyboard translation of the simulator.

  \<^bold>\<open>Theories, in the order of the data flow.\<close>
  \<^item> \<open>Prelude\<close>: words, shifts, bounds, and the locale \<open>total_step\<close> of loops that do not panic.
    \<open>Or_Linear\<close>: functions that move bits commute with OR, so two of them agree when they agree on
    zero and on the sixteen single bits (locales \<open>or_linear\<close> and \<open>or_linear_pair\<close>).
  \<^item> \<open>RVC\<close>: \<open>uncompress\<close> of tools/rvc.rs, one definition per arm of its matches; \<open>RVC_Expand\<close>: the
    core's expander, at the widths of its Verilog vectors; \<open>RVC_Agree\<close>: that they agree arm by arm.
  \<^item> \<open>RVC_Table_0\<close> to \<open>RVC_Table_7\<close>: the table, 1024 entries per definition in the order of the
    source, each block proved to be the expansions of its parcels with the rules of \<open>RVC_Block\<close>;
    \<open>RVC_Table\<close>: the whole table and \<open>test_uncompress\<close>, with what it finds and prints.
  \<^item> \<open>Rust_Str\<close>: what the tools use of Rust's formatting, parsing and splitting of strings, with
    round trips of numbers, lines and fields.
  \<^item> \<open>Rvdisasm\<close>: the disassembler of tools/rvdisasm/src/lib.rs, one definition per extractor and per
    arm of \<open>disasm\<close>; \<open>RV_Formats\<close>: its extractors on the words the expander's formats build.
  \<^item> \<open>RV_Asm\<close>: the specification of the disassembler: instructions as a datatype, their encoding and
    their text. \<open>RVC_Insn\<close>: the specification of the expanders: the instruction a parcel stands for,
    as the instruction set defines the compressed extension, from bits of the parcel.
    \<open>RVC_Contract\<close>: the locale \<open>rvc_expander\<close> states what an expander promises with respect to it,
    and is interpreted for the core's expander, for the table and for \<open>uncompress\<close>.
  \<^item> \<open>Pipeview_Row\<close>: \<open>struct Row\<close>, its cells and its line; \<open>Pipeview_Load\<close>: \<open>objdump_table\<close> and \<open>load\<close>,
    and the stream as a list of commands with an abstract execution; \<open>Pipetrace\<close>: the tasks of
    core/tb_pipetrace.vh that write the stream, and the rows it loads as; \<open>Pipeview_Stats\<close>: the header,
    with the doubles of the IPC; \<open>Pipeview_Text\<close>: the legend and the usage text; \<open>Pipeview_Tui\<close>: keys,
    frames, the loop of the interface, also as a step relation, and writes that may fail;
    \<open>Pipeview_Main\<close>: arguments, exit codes and the two modes.
  \<^item> \<open>Kbd_Vectors\<close>: the whole of tools/kbd-vectors/src/main.rs.
  \<^item> This theory: the properties that span components.

  \<^bold>\<open>State and errors.\<close> A record or a datatype stands for each struct and enum; loops are recursive
  functions and stateful code passes its state. A panic (an index out of range, \<open>unreachable!()\<close>) is
  \<open>None\<close>; an \<open>io::Error\<close> is the \<open>Inl\<close> of a sum. Machine integers are words; where a \<open>usize\<close> is kept as
  a natural, additions that could wrap are taken modulo \<open>2^64\<close> (\<open>usize_add\<close>). Arithmetic is that of the
  documented release build, which wraps. Strings are lists of characters: the texts involved are
  ASCII, and a stream that is not valid text is an error of the file.

  \<^bold>\<open>Arguments of the model.\<close> What the tools get from outside is an argument of the definitions: the
  answer of objdump, the contents of a file, the answers of \<open>stty\<close>, the bytes typed, which writes to
  the terminal fail (record \<open>world\<close> of \<open>Pipeview_Main\<close>), and for kbd-vectors the two functions
  \<open>translate\<close> and \<open>hid_to_linux\<close>, which are code of another repository.

  \<^bold>\<open>What is shown.\<close>
  \<^item> Expansion: the three expanders agree on all parcels, they compute the compressed extension, and
    the exhaustive test passes, and finds and prints the differences of any other pair.
  \<^item> Disassembly: every instruction of the specification and every expansion prints as specified;
    immediates stay in their ranges and are read back from the formats; the text is printable; raw
    words and CSR names are unambiguous; what shares the opcode of \<open>flw\<close> prints as an \<open>flw\<close> that it
    is not.
  \<^item> The viewer: a stream loads as its commands execute, without a panic and in the order of its
    cycles, and its cells show the stages; what the probe writes loads as the rows it opened, with
    the labels of their words; the header's counts, causes and IPC; what a frame shows; the interface
    ends, restores the terminal, stays in the rows, searches and fits the screen, with the two cases
    in which it does not (a failed write, a late cycle); text mode and the arguments that make the
    program panic or read another file.
  \<^item> The key vectors: the bitmap, when it panics, and that a reader gets the translation of every
    input back from the lines.

  \<^bold>\<open>Bounds.\<close> No fuel is needed: the loops are structural, or end because each step takes input away
  (\<open>tui_loop\<close>). The interface is shown not to panic for fewer than \<open>2^63\<close> rows and lines of the screen,
  so that no \<open>usize\<close> wraps; cells and orders of a stream for a cycle counter below \<open>2^64\<close>; the IPC for
  fewer than \<open>2^45\<close> rows and \<open>2^53\<close> cycles, where a \<open>usize\<close> converts to a double exactly.

  \<^bold>\<open>Not modelled.\<close> The Verilog of the core beyond its expander and the probe's writing tasks (the
  clocked logic that calls the tasks is any sequence of calls, \<open>probe\<close>), the boards, workloads, tests, scripts
  and the vendored FPU, which are not Rust. Of the Rust sources, only comments, imports and module
  lines are left out. The interleaving of the terminal's output with its input is fixed by the
  code's order of calls; signals and concurrent writers to the terminal are outside the model.
\<close>

section \<open>The expansion of compressed instructions\<close>

text \<open>
  C2: the table \<open>RVC64_EXPANDED\<close> and the function \<open>uncompress\<close> of tools/rvc.rs agree on every
  16-bit parcel: the entry is what \<open>uncompress\<close> returns, and \<open>uncompress\<close> panics exactly on the
  parcels whose two low bits are set, which start a 32-bit instruction.
\<close>
theorem uncompress_is_table:
  fixes c :: u16
  shows "uncompress (ucast c) =
    (if unat c mod 4 = 3 then None else Some (RVC64_EXPANDED ! unat c))"
proof -
  have "unat c < 0x10000" using unsigned_less [of c] by simp
  moreover have "word_of_nat (unat c) = (ucast c :: u32)" by (simp add: unsigned_ucast_eq)
  ultimately show ?thesis using uncompress_table [of "unat c"] by simp
qed

text \<open>
  C3: the core's expander of src/src/rvc_expand.v computes, for every parcel, the entry of the
  table it is checked against: 0 for the parcels that are not compressed and for reserved ones.
\<close>
theorem core_expander_is_table: "rvc_expand c = RVC64_EXPANDED ! unat c"
  by (rule table_expand [symmetric])

text \<open>
  C1: the table is the compressed extension of the instruction set: the entry of a parcel is the
  encoding of the instruction the parcel stands for, and 0 exactly for the parcels that are
  reserved or not compressed.
\<close>
theorem table_is_compressed_extension:
  "RVC64_EXPANDED ! unat c = (case rvc_insn c of None \<Rightarrow> 0 | Some i \<Rightarrow> encode i)
    \<and> (RVC64_EXPANDED ! unat c = 0 \<longleftrightarrow> rvc_insn c = None)"
  using tab.legal [of c] tab.illegal [of c] tab.zero_iff [of c] by (auto split: option.split)

text \<open>
  C4: the disassembler prints every entry of the table as the instruction the parcel stands for:
  its mnemonic, its registers, its immediate and, for jumps and branches, its target from the
  instruction's address. The entry of a reserved parcel prints as a raw zero word.
\<close>
theorem table_disassembles:
  "disasm (RVC64_EXPANDED ! unat c) pc =
    (case rvc_insn c of None \<Rightarrow> ''.insn   0x00000000'' | Some i \<Rightarrow> asm i pc)"
  by (rule tab.text_of)

text \<open>
  C21: on any 32-bit word, \<open>uncompress\<close> looks at the low sixteen bits only, panics exactly when the two
  low bits are set, and its result is 0 or an instruction word it would not take again.
\<close>
theorem uncompress_total:
  fixes x :: u32
  shows "uncompress x = uncompress (x AND 0xffff)
    \<and> (uncompress x = None \<longleftrightarrow> x AND 3 = 3)
    \<and> (case uncompress x of None \<Rightarrow> True | Some w \<Rightarrow> w = 0 \<or> uncompress w = None)"
proof -
  have "w = 0 \<or> uncompress w = None" if "uncompress x = Some w" for w
    using that core.never_compressed [of "ucast x"] by (auto simp: uncompress_u32 split: if_splits)
  moreover have "uncompress x = None \<longleftrightarrow> x AND 3 = 3" by (simp add: uncompress_u32)
  ultimately show ?thesis by (simp add: uncompress_low16 split: option.split)
qed

section \<open>From the probe to the viewer\<close>

text \<open>
  C6: from the probe to the viewer. Whatever rows the testbench's probe opens, changes, annotates and
  closes, in any interleaving and at any cycles, the stream it writes loads as one row per opened one, in
  that order: with the label of its kind, every code it took at its cycle, and the cycle and kind
  of its end. An instruction row is labelled with its address and the disassembly of the word
  fetched, or that word itself when it is not a 32-bit instruction; detail lines change nothing.
\<close>
theorem probe_stream_loads:
  assumes "probe calls" "file path = Inr (kan_file calls)"
  shows "load obj file path None = Some ([], Inr (map (row_for calls) (opened calls)))"
  using assms by (rule load_probe)

definition demo_calls :: "(u64 \<times> call) list" where
  "demo_calls = [(100, Open_row 0 (Insn_row 0x80000000 0x00a00513) CHR ''f''), (101, Code_row 0 CHR ''f'' CHR ''q''),
     (101, Open_row 1 (Stall_row ''be:dep-load'') CHR ''#''), (103, Detail_row 0 17 5),
     (105, Close_row 1 CHR ''#'' True), (106, Close_row 0 CHR ''q'' False)]"

lemma demo_probe: "probe demo_calls"
proof -
  let ?l = "Insn_row 0x80000000 0x00a00513"
  note l = insn_label_fits [of "0x80000000" "0x00a00513"]
  have "probe ([] @ [(100, Open_row 0 ?l CHR ''f'')])"
    by (rule probe.opens [OF probe.start]) (use l in \<open>simp_all add: plain_def del: kind_label.simps\<close>)
  from probe.codes [OF this, of 0 "CHR ''q''" "CHR ''f''" 101]
  have "probe ([(100, Open_row 0 ?l CHR ''f'')] @ [(101, Code_row 0 CHR ''f'' CHR ''q'')])"
    by (simp add: plain_def opened_def)
  from probe.opens [OF this, of 1 "Stall_row ''be:dep-load''" "CHR ''#''" 101]
  have "probe ([(100, Open_row 0 ?l CHR ''f''), (101, Code_row 0 CHR ''f'' CHR ''q'')]
      @ [(101, Open_row 1 (Stall_row ''be:dep-load'') CHR ''#'')])"
    by (simp add: plain_def opened_def)
  from probe.details [OF this, of 0 103 17 5]
  have "probe ([(100, Open_row 0 ?l CHR ''f''), (101, Code_row 0 CHR ''f'' CHR ''q''),
      (101, Open_row 1 (Stall_row ''be:dep-load'') CHR ''#'')] @ [(103, Detail_row 0 17 5)])"
    by (simp add: plain_def opened_def)
  from probe.closes [OF this, of 1 "CHR ''#''" 105 True]
  have "probe ([(100, Open_row 0 ?l CHR ''f''), (101, Code_row 0 CHR ''f'' CHR ''q''),
      (101, Open_row 1 (Stall_row ''be:dep-load'') CHR ''#''), (103, Detail_row 0 17 5)]
      @ [(105, Close_row 1 CHR ''#'' True)])"
    by (simp add: plain_def opened_def)
  from probe.closes [OF this, of 0 "CHR ''q''" 106 False]
  show ?thesis by (simp add: demo_calls_def plain_def opened_def)
qed

theorem probe_stream_loads_witness:
  "load (\<lambda>e. Inl []) (\<lambda>p. Inr (kan_file demo_calls)) ''run.kanata'' None =
    Some ([], Inr
      [\<lparr>label = hex 0x80000000 @ '' li a0,10'', stages = [(100, CHR ''f''), (101, CHR ''q'')], end_cyc = Some 106,
        flushed = False, stall = False, fill = CHR '' ''\<rparr>,
       \<lparr>label = ''be:dep-load'', stages = [(101, CHR ''#'')], end_cyc = Some 105,
        flushed = True, stall = True, fill = CHR ''#''\<rparr>])"
proof -
  have "split_whitespace (disasm 0x00a00513 0x80000000) = [''li'', ''a0,10'']" by code_simp
  then have "map (row_for demo_calls) (opened demo_calls) =
      [\<lparr>label = hex 0x80000000 @ '' li a0,10'', stages = [(100, CHR ''f''), (101, CHR ''q'')], end_cyc = Some 106,
        flushed = False, stall = False, fill = CHR '' ''\<rparr>,
       \<lparr>label = ''be:dep-load'', stages = [(101, CHR ''#'')], end_cyc = Some 105,
        flushed = True, stall = True, fill = CHR ''#''\<rparr>]"
    by (simp add: demo_calls_def opened_def row_for_def codes_of_def ends_of_def)
  then show ?thesis using probe_stream_loads [OF demo_probe, of "\<lambda>p. Inr (kan_file demo_calls)"] by simp
qed




end
